(* ===== verification/Prelude.thy ===== *)
theory Prelude
  imports Main "HOL-Library.Word" "HOL-Library.AList" "HOL-Library.Sublist" "HOL-Library.Multiset"
    "HOL-Library.Char_ord" "HOL-Library.List_Lexorder"
begin

text \<open>
  Shared vocabulary of the development: the machine integers of the operator, Go errors as
  values, the effect type of its functions (state in, outcome and state out, where an outcome
  may also be \<open>os.Exit\<close> or a panic), the combinators its control flow is written with, and
  the generic lemmas about them.
\<close>

section \<open>Machine integers and Go errors\<close>

type_synonym int64 = "64 word"

text \<open>
  The error values the operator builds or inspects. \<open>StatusError\<close> is what the API machinery
  returns (reason and message), \<open>Fundamental\<close> is \<open>errs.New\<close> and \<open>fmt.Errorf\<close>,
  \<open>WithMessage\<close> is what \<open>errs.Wrap\<close> adds around a cause, \<open>AccessorError\<close> and
  \<open>NotAMap\<close> come from the unstructured helpers (with the offending path), \<open>ErrWaitTimeout\<close>
  from \<open>wait.Poll\<close> and \<open>IoEOF\<close> is \<open>io.EOF\<close>.
\<close>

datatype goerr =
    StatusError string string
  | Fundamental string
  | WithMessage string goerr
  | AccessorError "string list"
  | NotAMap "string list"
  | ErrWaitTimeout
  | IoEOF

primrec Error :: "goerr \<Rightarrow> string" where
  "Error (StatusError r m) = m"
| "Error (Fundamental m) = m"
| "Error (WithMessage m e) = m @ '': '' @ Error e"
| "Error (AccessorError p) = ''accessor error''"
| "Error (NotAMap p) = ''value cannot be set''"
| "Error ErrWaitTimeout = ''timed out waiting for the condition''"
| "Error IoEOF = ''EOF''"

text \<open>\<open>errs.Wrap\<close> maps \<open>nil\<close> to \<open>nil\<close> and otherwise adds a message to the cause.\<close>

definition Wrap :: "goerr option \<Rightarrow> string \<Rightarrow> goerr option" where
  "Wrap err msg = (case err of None \<Rightarrow> None | Some e \<Rightarrow> Some (WithMessage msg e))"

text \<open>\<open>apierrors.ReasonForError\<close> unwraps with \<open>errors.As\<close> down to a status error.\<close>

primrec ReasonForError :: "goerr \<Rightarrow> string" where
  "ReasonForError (StatusError r m) = r"
| "ReasonForError (Fundamental m) = []"
| "ReasonForError (WithMessage m e) = ReasonForError e"
| "ReasonForError (AccessorError p) = []"
| "ReasonForError (NotAMap p) = []"
| "ReasonForError ErrWaitTimeout = []"
| "ReasonForError IoEOF = []"

definition has_reason :: "string \<Rightarrow> goerr option \<Rightarrow> bool" where
  "has_reason r err = (case err of None \<Rightarrow> False | Some e \<Rightarrow> ReasonForError e = r)"

definition IsNotFound :: "goerr option \<Rightarrow> bool" where
  "IsNotFound err = has_reason ''NotFound'' err"

definition IsForbidden :: "goerr option \<Rightarrow> bool" where
  "IsForbidden err = has_reason ''Forbidden'' err"

definition IsConflict :: "goerr option \<Rightarrow> bool" where
  "IsConflict err = has_reason ''Conflict'' err"

lemma Wrap_simps [simp]:
  "Wrap None m = None" "Wrap (Some e) m = Some (WithMessage m e)"
  by (simp_all add: Wrap_def)

lemma Wrap_eq_None_iff [simp]: "Wrap err m = None \<longleftrightarrow> err = None"
  by (cases err) simp_all

lemma has_reason_simps [simp]:
  "\<not> has_reason r None" "has_reason r (Some e) \<longleftrightarrow> ReasonForError e = r"
  by (simp_all add: has_reason_def)

lemma reason_tests_None [simp]:
  "\<not> IsNotFound None" "\<not> IsForbidden None" "\<not> IsConflict None"
  by (simp_all add: IsNotFound_def IsForbidden_def IsConflict_def)

text \<open>Wrapping never hides the reason of an API error.\<close>

lemma has_reason_Wrap [simp]: "has_reason r (Wrap err m) = has_reason r err"
  by (cases err) simp_all

lemma IsNotFound_Wrap [simp]: "IsNotFound (Wrap err m) = IsNotFound err"
  by (simp add: IsNotFound_def)

section \<open>Effects: state, early exit and panics\<close>

text \<open>
  A Go function that reads or writes state is a function of the state that returns an outcome
  and the new state. \<open>Exited\<close> is \<open>os.Exit\<close> with a non-zero code; \<open>Panicked\<close> a Go panic that nobody
  recovers. Both end the process, and the state returned with them is the one in which it ended.
\<close>

datatype 'a outcome = Val 'a | Exited | Panicked string

type_synonym ('s, 'a) io = "'s \<Rightarrow> 'a outcome \<times> 's"

definition ret :: "'a \<Rightarrow> ('s, 'a) io" where
  "ret x = (\<lambda>s. (Val x, s))"

definition bnd :: "('s, 'a) io \<Rightarrow> ('a \<Rightarrow> ('s, 'b) io) \<Rightarrow> ('s, 'b) io" where
  "bnd m f = (\<lambda>s. case m s of
       (Val x, t) \<Rightarrow> f x t
     | (Exited, t) \<Rightarrow> (Exited, t)
     | (Panicked p, t) \<Rightarrow> (Panicked p, t))"

definition os_Exit :: "('s, 'a) io" where
  "os_Exit = (\<lambda>s. (Exited, s))"

definition panic :: "string \<Rightarrow> ('s, 'a) io" where
  "panic p = (\<lambda>s. (Panicked p, s))"

definition gets :: "('s \<Rightarrow> 'a) \<Rightarrow> ('s, 'a) io" where
  "gets f = (\<lambda>s. (Val (f s), s))"

definition modify :: "('s \<Rightarrow> 's) \<Rightarrow> ('s, unit) io" where
  "modify f = (\<lambda>s. (Val (), f s))"

text \<open>
  \<open>on_err m f g\<close> is \<open>if err := m(); err != nil { return f(err) }\<close> followed by \<open>g\<close>, for
  an \<open>m\<close> that returns an error only.
\<close>

definition on_err :: "('s, goerr option) io \<Rightarrow> (goerr \<Rightarrow> ('s, 'b) io) \<Rightarrow> ('s, 'b) io \<Rightarrow> ('s, 'b) io" where
  "on_err m f g = bnd m (\<lambda>err. case err of Some e \<Rightarrow> f e | None \<Rightarrow> g)"

text \<open>
  A \<open>range\<close> loop whose body may return from the enclosing function: the body yields
  \<open>Some r\<close> to return \<open>r\<close> and \<open>None\<close> to go on with the next element.
\<close>

primrec for_range :: "('x \<Rightarrow> ('s, 'r option) io) \<Rightarrow> 'x list \<Rightarrow> ('s, 'r option) io" where
  "for_range body [] = ret None"
| "for_range body (x # xs) =
     bnd (body x) (\<lambda>r. case r of Some v \<Rightarrow> ret (Some v) | None \<Rightarrow> for_range body xs)"

named_theorems io_simps \<open>one-step evaluation of the effect combinators\<close>

lemma ret_apply [io_simps]: "ret x s = (Val x, s)"
  by (simp add: ret_def)

lemma os_Exit_apply [io_simps]: "os_Exit s = (Exited, s)"
  by (simp add: os_Exit_def)

lemma panic_apply [io_simps]: "panic p s = (Panicked p, s)"
  by (simp add: panic_def)

lemma gets_apply [io_simps]: "gets f s = (Val (f s), s)"
  by (simp add: gets_def)

lemma modify_apply [io_simps]: "modify f s = (Val (), f s)"
  by (simp add: modify_def)

lemma bnd_apply [io_simps]:
  "bnd m f s = (case m s of
       (Val x, t) \<Rightarrow> f x t
     | (Exited, t) \<Rightarrow> (Exited, t)
     | (Panicked p, t) \<Rightarrow> (Panicked p, t))"
  by (simp add: bnd_def)

lemma on_err_apply [io_simps]:
  "on_err m f g s = bnd m (\<lambda>err. case err of Some e \<Rightarrow> f e | None \<Rightarrow> g) s"
  by (simp add: on_err_def)

lemma bnd_ret_left [simp]: "bnd (ret x) f = f x"
  by (simp add: bnd_def ret_def)

lemma bnd_ret_right [simp]: "bnd m ret = m"
  by (rule ext) (auto simp: bnd_def ret_def split: prod.split outcome.split)

lemma bnd_assoc: "bnd (bnd m f) g = bnd m (\<lambda>x. bnd (f x) g)"
  by (rule ext) (auto simp: bnd_def split: prod.split outcome.split)

lemma bnd_os_Exit [simp]: "bnd os_Exit f = os_Exit"
  by (rule ext) (simp add: bnd_def os_Exit_def)

lemma bnd_panic [simp]: "bnd (panic p) f = panic p"
  by (rule ext) (simp add: bnd_def panic_def)

text \<open>A computation returns \<open>y\<close> in \<open>u\<close> exactly when its first part returns and the second does.\<close>

lemma bnd_Val_iff:
  "bnd m f s = (Val y, u) \<longleftrightarrow> (\<exists>x t. m s = (Val x, t) \<and> f x t = (Val y, u))"
  by (auto simp: bnd_def split: prod.splits outcome.splits)

lemma bnd_ValE:
  assumes "bnd m f s = (Val y, u)"
  obtains x t where "m s = (Val x, t)" and "f x t = (Val y, u)"
  using assms by (auto simp: bnd_Val_iff)

lemma on_err_ValE:
  assumes "on_err m f g s = (Val y, u)"
  obtains (err) e t where "m s = (Val (Some e), t)" and "f e t = (Val y, u)"
  | (ok) t where "m s = (Val None, t)" and "g t = (Val y, u)"
  using assms by (auto simp: on_err_def elim!: bnd_ValE split: option.splits)

lemma ret_Val_iff [simp]: "ret x s = (r, t) \<longleftrightarrow> r = Val x \<and> t = s"
  by (auto simp: ret_def)

lemma os_Exit_not_Val [simp]: "os_Exit s \<noteq> (Val x, t)"
  by (simp add: os_Exit_def)

lemma panic_not_Val [simp]: "panic p s \<noteq> (Val x, t)"
  by (simp add: panic_def)

lemma bnd_cases:
  assumes "bnd m f s = (r, u)"
  obtains (val) x t where "m s = (Val x, t)" and "f x t = (r, u)"
  | (exit) "m s = (Exited, u)" and "r = Exited"
  | (panic) p where "m s = (Panicked p, u)" and "r = Panicked p"
  using assms by (auto simp: bnd_def split: prod.splits outcome.splits)

lemma for_range_append:
  "for_range body (xs @ ys) =
     bnd (for_range body xs) (\<lambda>r. case r of Some v \<Rightarrow> ret (Some v) | None \<Rightarrow> for_range body ys)"
proof (induction xs)
  case Nil
  then show ?case by simp
next
  case (Cons x xs)
  have "bnd (case r of Some v \<Rightarrow> ret (Some v) | None \<Rightarrow> for_range body xs)
          (\<lambda>r. case r of Some v \<Rightarrow> ret (Some v) | None \<Rightarrow> for_range body ys) =
        (case r of Some v \<Rightarrow> ret (Some v) | None \<Rightarrow> for_range body (xs @ ys))" for r
    by (cases r) (simp_all add: Cons)
  then show ?case by (simp add: bnd_assoc)
qed

section \<open>What every step of a computation keeps\<close>

text \<open>
  \<open>keeps R m\<close>: running \<open>m\<close> from any state ends, normally or not, in a state related to
  the first by \<open>R\<close>. The locale \<open>step_rel\<close> states what makes such a relation compose along
  the control flow; its rules are collected in \<open>resp\<close>, and \<open>intro: resp\<close> walks through a
  definition down to its primitive steps.
\<close>

definition keeps :: "('s \<Rightarrow> 's \<Rightarrow> bool) \<Rightarrow> ('s, 'a) io \<Rightarrow> bool" where
  "keeps R m \<longleftrightarrow> (\<forall>s. R s (snd (m s)))"

lemma keepsI: "(\<And>s. R s (snd (m s))) \<Longrightarrow> keeps R m"
  by (simp add: keeps_def)

lemma keepsD: "keeps R m \<Longrightarrow> m s = (r, t) \<Longrightarrow> R s t"
  unfolding keeps_def by (metis snd_conv)

named_theorems resp \<open>introduction rules for keeps\<close>

locale step_rel =
  fixes R :: "'s \<Rightarrow> 's \<Rightarrow> bool"
  assumes step_refl: "R s s"
    and step_trans: "R s t \<Longrightarrow> R t u \<Longrightarrow> R s u"
begin

lemma keeps_snd: "keeps R m \<Longrightarrow> R s (snd (m s))"
  by (simp add: keeps_def)

lemma resp_ret: "keeps R (ret x)"
  by (simp add: keeps_def ret_def step_refl)

lemma resp_exit: "keeps R os_Exit"
  by (simp add: keeps_def os_Exit_def step_refl)

lemma resp_panic: "keeps R (panic p)"
  by (simp add: keeps_def panic_def step_refl)

lemma resp_gets: "keeps R (gets f)"
  by (simp add: keeps_def gets_def step_refl)

lemma resp_modify: "(\<And>s. R s (f s)) \<Longrightarrow> keeps R (modify f)"
  by (simp add: keeps_def modify_def)

text \<open>The continuation needs to keep \<open>R\<close> only for the values the first part can return.\<close>

lemma resp_bnd_result:
  assumes "keeps R m" and "\<And>x s t. m s = (Val x, t) \<Longrightarrow> keeps R (f x)"
  shows "keeps R (bnd m f)"
proof (rule keepsI)
  fix s
  obtain r t where m: "m s = (r, t)" by (cases "m s")
  with assms(1) have "R s t" by (rule keepsD)
  moreover have "R t (snd (f x t))" if "r = Val x" for x
    using assms(2) m that by (simp add: keeps_def)
  ultimately show "R s (snd (bnd m f s))"
    using m by (auto simp: bnd_def split: outcome.split intro: step_trans)
qed

text \<open>
  The same at one state, for parts that keep \<open>R\<close> only there; in the first rule \<open>R\<close> is required
  between an earlier state and the end only.
\<close>

lemma since_bnd:
  assumes "R s (snd (m t))" and "\<And>x u. m t = (Val x, u) \<Longrightarrow> R s (snd (f x u))"
  shows "R s (snd (bnd m f t))"
  using assms by (cases "m t") (auto simp: bnd_def split: outcome.split)

lemma step_bnd:
  assumes "R s (snd (m s))" and "\<And>x t. m s = (Val x, t) \<Longrightarrow> R t (snd (f x t))"
  shows "R s (snd (bnd m f s))"
  using assms by (auto intro!: since_bnd intro: step_trans)

lemma since_keeps: "R s t \<Longrightarrow> keeps R m \<Longrightarrow> R s (snd (m t))"
  by (auto intro: step_trans keeps_snd)

lemma step_on_err:
  assumes "R s (snd (m s))" and "\<And>e t. m s = (Val (Some e), t) \<Longrightarrow> R t (snd (f e t))"
    and "\<And>t. m s = (Val None, t) \<Longrightarrow> R t (snd (g t))"
  shows "R s (snd (on_err m f g s))"
  unfolding on_err_def using assms by (auto intro!: step_bnd split: option.split)

lemma resp_bnd:
  assumes "keeps R m" and "\<And>x. keeps R (f x)"
  shows "keeps R (bnd m f)"
  using assms by (intro resp_bnd_result)

lemma resp_on_err:
  assumes "keeps R m" and "\<And>e. keeps R (f e)" and "keeps R g"
  shows "keeps R (on_err m f g)"
  unfolding on_err_def using assms by (auto intro!: resp_bnd split: option.split)

lemma resp_on_err_result:
  assumes "keeps R m" and "\<And>e s t. m s = (Val (Some e), t) \<Longrightarrow> keeps R (f e)"
    and "\<And>s t. m s = (Val None, t) \<Longrightarrow> keeps R g"
  shows "keeps R (on_err m f g)"
  unfolding on_err_def using assms by (auto intro!: resp_bnd_result split: option.split)

lemma resp_for_range:
  assumes "\<And>x. x \<in> set xs \<Longrightarrow> keeps R (body x)"
  shows "keeps R (for_range body xs)"
  using assms by (induction xs) (auto intro!: resp_bnd resp_ret split: option.split)

lemmas resp_rules = resp_ret resp_exit resp_panic resp_gets resp_bnd resp_on_err resp_for_range

end

lemma resp_if [resp]: "(b \<Longrightarrow> keeps R m) \<Longrightarrow> (\<not> b \<Longrightarrow> keeps R n) \<Longrightarrow> keeps R (if b then m else n)"
  by simp

lemma resp_case_option [resp]:
  "(x = None \<Longrightarrow> keeps R m) \<Longrightarrow> (\<And>y. x = Some y \<Longrightarrow> keeps R (f y)) \<Longrightarrow>
     keeps R (case x of None \<Rightarrow> m | Some y \<Rightarrow> f y)"
  by (cases x) simp_all

lemma resp_case_sum [resp]:
  "(\<And>y. x = Inl y \<Longrightarrow> keeps R (f y)) \<Longrightarrow> (\<And>y. x = Inr y \<Longrightarrow> keeps R (g y)) \<Longrightarrow>
     keeps R (case x of Inl y \<Rightarrow> f y | Inr y \<Rightarrow> g y)"
  by (cases x) simp_all

lemma resp_case_prod [resp]: "(\<And>a b. x = (a, b) \<Longrightarrow> keeps R (f a b)) \<Longrightarrow> keeps R (case x of (a, b) \<Rightarrow> f a b)"
  by (cases x) simp_all

lemma resp_Let [resp]: "keeps R (f x) \<Longrightarrow> keeps R (let y = x in f y)"
  by simp

lemma resp_case_list [resp]:
  "(x = [] \<Longrightarrow> keeps R m) \<Longrightarrow> (\<And>y ys. x = y # ys \<Longrightarrow> keeps R (f y ys)) \<Longrightarrow>
     keeps R (case x of [] \<Rightarrow> m | y # ys \<Rightarrow> f y ys)"
  by (cases x) simp_all

section \<open>Loops that run to their end or return early\<close>

text \<open>\<open>loop_trace body xs s t\<close>: the body goes on for every element of \<open>xs\<close>, leading from \<open>s\<close> to \<open>t\<close>.\<close>

primrec loop_trace :: "('x \<Rightarrow> ('s, 'r option) io) \<Rightarrow> 'x list \<Rightarrow> 's \<Rightarrow> 's \<Rightarrow> bool" where
  "loop_trace body [] s t \<longleftrightarrow> t = s"
| "loop_trace body (x # xs) s t \<longleftrightarrow> (\<exists>u. body x s = (Val None, u) \<and> loop_trace body xs u t)"

lemma for_range_None_iff: "for_range body xs s = (Val None, t) \<longleftrightarrow> loop_trace body xs s t"
  by (induction xs arbitrary: s) (auto simp: bnd_Val_iff split: option.splits)

lemma for_range_Some_iff:
  "for_range body xs s = (Val (Some r), t) \<longleftrightarrow>
     (\<exists>ys x zs u. xs = ys @ x # zs \<and> loop_trace body ys s u \<and> body x u = (Val (Some r), t))"
proof (induction xs arbitrary: s)
  case (Cons x xs)
  have "for_range body (x # xs) s = (Val (Some r), t) \<longleftrightarrow> body x s = (Val (Some r), t) \<or>
      (\<exists>v. body x s = (Val None, v) \<and> for_range body xs v = (Val (Some r), t))" (is "_ \<longleftrightarrow> ?A \<or> ?B")
    by (auto simp: bnd_Val_iff split: option.splits)
  also have "\<dots> \<longleftrightarrow> (\<exists>ys y zs u. x # xs = ys @ y # zs \<and> loop_trace body ys s u \<and> body y u = (Val (Some r), t))"
    (is "_ \<longleftrightarrow> (\<exists>ys. ?Q ys)")
  proof
    assume "?A \<or> ?B"
    then show "\<exists>ys. ?Q ys"
    proof
      assume ?A
      then have "?Q []" by auto
      then show ?thesis by blast
    next
      assume ?B
      then obtain v ys y zs u where "body x s = (Val None, v)" "xs = ys @ y # zs" "loop_trace body ys v u"
        "body y u = (Val (Some r), t)" using Cons by auto
      then have "?Q (x # ys)" by auto
      then show ?thesis by blast
    qed
  next
    assume "\<exists>ys. ?Q ys"
    then obtain ys y zs u where q: "x # xs = ys @ y # zs" "loop_trace body ys s u" "body y u = (Val (Some r), t)"
      by blast
    show "?A \<or> ?B"
    proof (cases ys)
      case Nil
      with q show ?thesis by simp
    next
      case (Cons w ws)
      with q obtain v where "body x s = (Val None, v)" "xs = ws @ y # zs" "loop_trace body ws v u" by auto
      with q(3) Cons.IH[of v] show ?thesis by blast
    qed
  qed
  finally show ?case .
qed simp

lemma loop_trace_mem:
  "loop_trace body xs s t \<Longrightarrow> x \<in> set xs \<Longrightarrow> \<exists>u v. body x u = (Val None, v)"
  by (induction xs arbitrary: s) auto

end
