(* ===== verification/Go_Std.thy ===== *)
theory Go_Std
  imports Prelude
begin

text \<open>
  The parts of Go's standard library the operator calls on strings and paths:
  \<open>strings.Contains\<close>, \<open>strings.Split\<close>, \<open>strings.Replace\<close>, \<open>strconv.Atoi\<close>,
  \<open>filepath.Base\<close>, \<open>filepath.Ext\<close> and the glob matcher behind \<open>filepath.Match\<close>. A Go string
  is a sequence of bytes, here a list of characters of eight bits.
\<close>

section \<open>strings\<close>

text \<open>\<open>strings.Contains(s, sub)\<close>.\<close>

fun strings_Contains :: "string \<Rightarrow> string \<Rightarrow> bool" where
  "strings_Contains [] sub = (sub = [])"
| "strings_Contains (c # s) sub = (prefix sub (c # s) \<or> strings_Contains s sub)"

lemma strings_Contains_iff: "strings_Contains s sub \<longleftrightarrow> (\<exists>a b. s = a @ sub @ b)"
proof (induction s)
  case Nil
  then show ?case by simp
next
  case (Cons c s)
  have "prefix sub (c # s) \<or> (\<exists>a b. s = a @ sub @ b) \<longleftrightarrow> (\<exists>a b. c # s = a @ sub @ b)"
    by (metis append_Cons append_Nil list.exhaust list.inject prefixE prefixI)
  then show ?case using Cons by simp
qed

text \<open>\<open>strings.Split(s, sep)\<close> for a separator of one byte; never the empty list.\<close>

fun split_char :: "char \<Rightarrow> string \<Rightarrow> string list" where
  "split_char sep [] = [[]]"
| "split_char sep (c # s) =
     (if c = sep then [] # split_char sep s
      else case split_char sep s of [] \<Rightarrow> [[c]] | p # ps \<Rightarrow> (c # p) # ps)"

lemma split_char_not_Nil [simp]: "split_char sep s \<noteq> []"
  by (cases s) (auto split: list.split)

lemma split_char_no_sep: "p \<in> set (split_char sep s) \<Longrightarrow> sep \<notin> set p"
proof (induction s arbitrary: p)
  case Nil
  then show ?case by simp
next
  case (Cons c s)
  show ?case
  proof (cases "c = sep")
    case True
    with Cons show ?thesis by auto
  next
    case False
    obtain q qs where "split_char sep s = q # qs" by (cases "split_char sep s") auto
    with Cons False show ?thesis by auto
  qed
qed

text \<open>Joining the pieces with the separator gives the string back.\<close>

fun join_char :: "char \<Rightarrow> string list \<Rightarrow> string" where
  "join_char sep [] = []"
| "join_char sep [p] = p"
| "join_char sep (p # q # ps) = p @ sep # join_char sep (q # ps)"

lemma join_split_char: "join_char sep (split_char sep s) = s"
proof (induction s)
  case Nil
  then show ?case by simp
next
  case (Cons c s)
  obtain q qs where q: "split_char sep s = q # qs" by (cases "split_char sep s") auto
  with Cons show ?case by (cases qs) simp_all
qed

text \<open>
  \<open>strings.Replace(s, old, new, -1)\<close> for a non-empty \<open>old\<close>: scanning from the left, every
  occurrence found is replaced and scanning goes on behind it. Every call in the operator passes
  a constant, non-empty \<open>old\<close>.
\<close>

function replace_all :: "string \<Rightarrow> string \<Rightarrow> string \<Rightarrow> string" where
  "replace_all old new [] = []"
| "replace_all old new (c # s) =
     (if old \<noteq> [] \<and> prefix old (c # s) then new @ replace_all old new (drop (length old) (c # s))
      else c # replace_all old new s)"
  by pat_completeness auto
termination
  by (relation "measure (\<lambda>(old, new, s). length s)") (auto simp: neq_Nil_conv)

lemma replace_all_absent: "\<not> strings_Contains s old \<Longrightarrow> replace_all old new s = s"
  by (induction s) auto

section \<open>strconv\<close>

text \<open>
  \<open>strconv.Atoi\<close> with its error dropped, as the operator calls it: the value is the parsed
  number, \<open>0\<close> on a syntax error and the nearest 64-bit integer when the number is out of
  range. \<open>ParseUint\<close> stops at the first digit that overflows, before it looks at the rest.
\<close>

definition digit_val :: "char \<Rightarrow> int option" where
  "digit_val c = (if CHR ''0'' \<le> c \<and> c \<le> CHR ''9'' then Some (int (of_char c) - 48) else None)"

datatype parsed = PNum int | PSyntax | PRange

fun parse_uint :: "int \<Rightarrow> string \<Rightarrow> parsed" where
  "parse_uint n [] = PNum n"
| "parse_uint n (c # cs) =
     (case digit_val c of
        None \<Rightarrow> PSyntax
      | Some d \<Rightarrow> if n * 10 + d \<ge> 2 ^ 64 then PRange else parse_uint (n * 10 + d) cs)"

definition parse_digits :: "string \<Rightarrow> parsed" where
  "parse_digits s = (if s = [] then PSyntax else parse_uint 0 s)"

definition strconv_Atoi :: "string \<Rightarrow> int" where
  "strconv_Atoi s =
     (let neg = (case s of c # _ \<Rightarrow> c = CHR ''-'' | [] \<Rightarrow> False);
          body = (case s of c # cs \<Rightarrow> if c = CHR ''-'' \<or> c = CHR ''+'' then cs else s | [] \<Rightarrow> [])
      in case parse_digits body of
           PSyntax \<Rightarrow> 0
         | PRange \<Rightarrow> (if neg then - (2 ^ 63) else 2 ^ 63 - 1)
         | PNum n \<Rightarrow> (if neg then (if n > 2 ^ 63 then - (2 ^ 63) else - n)
                      else (if n \<ge> 2 ^ 63 then 2 ^ 63 - 1 else n)))"

lemma digit_val_bounds: "digit_val c = Some d \<Longrightarrow> 0 \<le> d \<and> d \<le> 9"
  by (auto simp: digit_val_def less_eq_char_def split: if_splits)

lemma parse_uint_bounds: "parse_uint n s = PNum m \<Longrightarrow> 0 \<le> n \<Longrightarrow> n < 2 ^ 64 \<Longrightarrow> 0 \<le> m \<and> m < 2 ^ 64"
  by (induction n s rule: parse_uint.induct)
    (auto split: option.splits if_splits dest: digit_val_bounds)

lemma Atoi_range: "- (2 ^ 63) \<le> strconv_Atoi s \<and> strconv_Atoi s < 2 ^ 63"
proof -
  have *: "parse_digits b = PNum m \<Longrightarrow> 0 \<le> m" for b m
    by (auto simp: parse_digits_def split: if_splits dest: parse_uint_bounds)
  show ?thesis
    by (auto simp: strconv_Atoi_def Let_def split: parsed.split dest: *)
qed

section \<open>path/filepath\<close>

text \<open>\<open>filepath.Base\<close> for a path without trailing slash, and \<open>filepath.Ext\<close>.\<close>

definition filepath_Base :: "string \<Rightarrow> string" where
  "filepath_Base p = rev (takeWhile (\<lambda>c. c \<noteq> CHR ''/'') (rev p))"

definition filepath_Ext :: "string \<Rightarrow> string" where
  "filepath_Ext p =
     (let b = rev (filepath_Base p); suf = takeWhile (\<lambda>c. c \<noteq> CHR ''.'') b
      in if CHR ''.'' \<in> set b then CHR ''.'' # rev suf else [])"

text \<open>
  \<open>filepath.Join\<close> of a directory and the plain name of an entry, where the directory needs no cleaning.
\<close>

definition filepath_Join :: "string \<Rightarrow> string \<Rightarrow> string" where
  "filepath_Join dir name = dir @ ''/'' @ name"

text \<open>
  \<open>filepath.Clean\<close>: empty and \<open>.\<close> elements go, \<open>..\<close> takes away the element before it; and
  \<open>filepath.Join\<close> of any elements, which ignores empty ones and cleans the result.
\<close>

fun clean_parts :: "bool \<Rightarrow> string list \<Rightarrow> string list \<Rightarrow> string list" where
  "clean_parts rooted acc [] = rev acc"
| "clean_parts rooted acc (p # ps) =
     (if p = [] \<or> p = ''.'' then clean_parts rooted acc ps
      else if p = ''..'' then
        (case acc of
           [] \<Rightarrow> clean_parts rooted (if rooted then [] else [p]) ps
         | a # as \<Rightarrow> clean_parts rooted (if a = ''..'' then p # acc else as) ps)
      else clean_parts rooted (p # acc) ps)"

definition filepath_Clean :: "string \<Rightarrow> string" where
  "filepath_Clean s =
     (let rooted = (case s of c # cs \<Rightarrow> c = CHR ''/'' | [] \<Rightarrow> False);
          body = join_char (CHR ''/'') (clean_parts rooted [] (split_char (CHR ''/'') s))
      in if rooted then CHR ''/'' # body else if body = [] then ''.'' else body)"

definition filepath_Join_all :: "string list \<Rightarrow> string" where
  "filepath_Join_all ps = (case filter (\<lambda>p. p \<noteq> []) ps of
       [] \<Rightarrow> []
     | qs \<Rightarrow> filepath_Clean (join_char (CHR ''/'') qs))"

text \<open>An absolute directory that needs no cleaning, and a plain name.\<close>

definition plain_part :: "string \<Rightarrow> bool" where
  "plain_part p \<longleftrightarrow> p \<noteq> [] \<and> p \<noteq> ''.'' \<and> p \<noteq> ''..''"

lemma clean_parts_plain: "list_all plain_part ps \<Longrightarrow> clean_parts r acc ps = rev acc @ ps"
  by (induction ps arbitrary: acc) (simp_all add: plain_part_def)

lemma split_char_append: "split_char sep (a @ sep # b) = split_char sep a @ split_char sep b"
proof (induction a)
  case (Cons c a)
  then show ?case by (cases "split_char sep a") auto
qed simp

lemma filepath_Join_plain:
  assumes "list_all plain_part (split_char (CHR ''/'') d)" and "list_all plain_part (split_char (CHR ''/'') n)"
  shows "filepath_Join_all [CHR ''/'' # d, n] = filepath_Join (CHR ''/'' # d) n"
proof -
  let ?s = "split_char (CHR ''/'')"
  have "n \<noteq> []" using assms(2) by (auto simp: plain_part_def)
  have parts: "?s (CHR ''/'' # d @ CHR ''/'' # n) = [] # ?s (d @ CHR ''/'' # n)" by simp
  have "list_all plain_part (?s (d @ CHR ''/'' # n))" using assms by (simp add: split_char_append)
  then have "clean_parts True [] (?s (CHR ''/'' # d @ CHR ''/'' # n)) = ?s (d @ CHR ''/'' # n)"
    unfolding parts by (simp add: clean_parts_plain)
  with \<open>n \<noteq> []\<close> show ?thesis
    by (simp add: filepath_Join_all_def filepath_Clean_def filepath_Join_def Let_def join_split_char del: split_char.simps)
qed

lemma filepath_Base_no_slash:
  assumes "CHR ''/'' \<notin> set b"
  shows "filepath_Base b = b"
proof -
  have "takeWhile (\<lambda>c. c \<noteq> CHR ''/'') (rev b) = rev b"
    using assms by (subst takeWhile_eq_all_conv) auto
  then show ?thesis by (simp only: filepath_Base_def rev_rev_ident)
qed

lemma filepath_Base_Join [simp]:
  assumes "CHR ''/'' \<notin> set name"
  shows "filepath_Base (filepath_Join dir name) = name"
proof -
  have "takeWhile (\<lambda>c. c \<noteq> CHR ''/'') (rev name @ CHR ''/'' # rev dir) = rev name"
    using assms by (subst takeWhile_append2) auto
  then show ?thesis by (simp add: filepath_Base_def filepath_Join_def)
qed

text \<open>A glob pattern, as \<open>filepath.Match\<close> reads it: ranges, literal bytes and \<open>*\<close>.\<close>

datatype glob = GRange char char | GLit char | GStar

fun glob_match :: "glob list \<Rightarrow> string \<Rightarrow> bool" where
  "glob_match [] s = (s = [])"
| "glob_match (GStar # ps) [] = glob_match ps []"
| "glob_match (GStar # ps) (c # s) =
     (glob_match ps (c # s) \<or> c \<noteq> CHR ''/'' \<and> glob_match (GStar # ps) s)"
| "glob_match (p # ps) [] = False"
| "glob_match (GRange lo hi # ps) (c # s) = (lo \<le> c \<and> c \<le> hi \<and> glob_match ps s)"
| "glob_match (GLit l # ps) (c # s) = (c = l \<and> glob_match ps s)"

lemma glob_match_lits: "glob_match (map GLit l) s \<longleftrightarrow> s = l"
proof (induction l arbitrary: s)
  case Nil
  then show ?case by simp
next
  case (Cons a l)
  then show ?case by (cases s) auto
qed

lemma glob_match_star:
  "glob_match (GStar # ps) s \<longleftrightarrow> (\<exists>a b. s = a @ b \<and> CHR ''/'' \<notin> set a \<and> glob_match ps b)"
proof (induction s)
  case Nil
  then show ?case by simp
next
  case (Cons c s)
  note IH = this
  show ?case
  proof
    assume "glob_match (GStar # ps) (c # s)"
    then consider "glob_match ps (c # s)" | "c \<noteq> CHR ''/''" "glob_match (GStar # ps) s" by auto
    then show "\<exists>a b. c # s = a @ b \<and> CHR ''/'' \<notin> set a \<and> glob_match ps b"
    proof cases
      case 1
      then have "c # s = [] @ (c # s) \<and> CHR ''/'' \<notin> set [] \<and> glob_match ps (c # s)" by simp
      then show ?thesis by blast
    next
      case 2
      with IH obtain a b where "s = a @ b" "CHR ''/'' \<notin> set a" "glob_match ps b" by auto
      with 2 have "c # s = (c # a) @ b \<and> CHR ''/'' \<notin> set (c # a) \<and> glob_match ps b" by simp
      then show ?thesis by blast
    qed
  next
    assume "\<exists>a b. c # s = a @ b \<and> CHR ''/'' \<notin> set a \<and> glob_match ps b"
    then obtain a b where *: "c # s = a @ b" "CHR ''/'' \<notin> set a" "glob_match ps b" by auto
    show "glob_match (GStar # ps) (c # s)"
    proof (cases a)
      case Nil
      with * have "glob_match ps (c # s)" by simp
      then show ?thesis by simp
    next
      case (Cons x a')
      with * have "s = a' @ b" "CHR ''/'' \<notin> set a'" "c \<noteq> CHR ''/''" by auto
      with *(3) IH show ?thesis by auto
    qed
  qed
qed

section \<open>Decimal numbers\<close>

text \<open>The decimal form of a number, and \<open>strconv.Atoi\<close> reading it back.\<close>

fun decimal :: "nat \<Rightarrow> string" where
  "decimal n = (if n < 10 then [char_of (48 + n)] else decimal (n div 10) @ [char_of (48 + n mod 10)])"

declare decimal.simps [simp del]

lemma digit_val_char_of: "d < 10 \<Longrightarrow> digit_val (char_of (48 + d)) = Some (int d)"
  by (simp add: digit_val_def less_eq_char_def)

lemma parse_uint_append: "parse_uint a s = PNum b \<Longrightarrow> parse_uint a (s @ t) = parse_uint b t"
  by (induction a s rule: parse_uint.induct) (auto split: option.splits if_splits)

lemma parse_uint_decimal: "n < 2 ^ 64 \<Longrightarrow> parse_uint 0 (decimal n) = PNum (int n)"
proof (induction n rule: decimal.induct)
  case (1 n)
  show ?case
  proof (cases "n < 10")
    case True
    with 1(2) show ?thesis by (simp add: decimal.simps[of n] digit_val_char_of)
  next
    case False
    have "int (n div 10) * 10 + int (n mod 10) = int n"
      by (metis div_mult_mod_eq of_nat_add of_nat_mult of_nat_numeral)
    moreover from 1 False have "parse_uint 0 (decimal (n div 10)) = PNum (int (n div 10))" by simp
    ultimately show ?thesis
      using 1(2) False by (simp add: decimal.simps[of n] parse_uint_append digit_val_char_of)
  qed
qed

lemma digit_val_sign: "digit_val (CHR ''-'') = None" "digit_val (CHR ''+'') = None"
  by (simp_all add: digit_val_def less_eq_char_def)

lemma decimal_first: "\<exists>c cs. decimal n = c # cs \<and> c \<noteq> CHR ''-'' \<and> c \<noteq> CHR ''+''"
proof (induction n rule: decimal.induct)
  case (1 n)
  have "char_of (48 + n) \<noteq> CHR ''-'' \<and> char_of (48 + n) \<noteq> CHR ''+''" if "n < 10"
    using digit_val_char_of[OF that] by (metis digit_val_sign option.distinct(1))
  with 1 show ?case by (cases "n < 10") (auto simp: decimal.simps[of n])
qed

lemma Atoi_decimal: "n < 2 ^ 63 \<Longrightarrow> strconv_Atoi (decimal n) = int n"
proof -
  assume n: "n < 2 ^ 63"
  obtain c cs where c: "decimal n = c # cs" "c \<noteq> CHR ''-''" "c \<noteq> CHR ''+''" using decimal_first by blast
  from n have "parse_digits (decimal n) = PNum (int n)"
    using c(1) parse_uint_decimal[of n] by (simp add: parse_digits_def del: parse_uint.simps)
  with c n show ?thesis by (simp add: strconv_Atoi_def)
qed

end
