(* ===== verification/Unstructured.thy ===== *)
theory Unstructured
  imports Go_Std
begin

text \<open>
  Unstructured Kubernetes objects and the helpers the operator reads and writes them with:
  \<open>src/vendor/k8s.io/apimachinery/pkg/apis/meta/v1/unstructured/{helpers,unstructured}.go\<close>, and
  \<open>SetControllerReference\<close> of
  \<open>src/vendor/sigs.k8s.io/controller-runtime/pkg/controller/controllerutil/controllerutil.go\<close>.
  A Go \<open>map[string]interface{}\<close> is an association list; \<open>DeepCopyJSON\<close> is the identity on such
  values, so a copy and its original are told apart by which of them the code goes on to use.
\<close>

section \<open>Values and nested fields\<close>

datatype json =
    JNull
  | JBool bool
  | JInt int64
  | JFloat "64 word"
  | JStr string
  | JSlice "json list"
  | JMap "(string \<times> json) list"

text \<open>
  The three results of a \<open>Nested*\<close> accessor: an error (zero value, \<open>found = false\<close>), a
  missing field (zero value, \<open>found = false\<close>, no error), and a value with \<open>found = true\<close>.
\<close>

datatype 'a nested = NErr goerr | NMissing | NFound 'a

lemma resp_case_nested [resp]:
  "(\<And>e. x = NErr e \<Longrightarrow> keeps R (f e)) \<Longrightarrow> (x = NMissing \<Longrightarrow> keeps R m) \<Longrightarrow>
     (\<And>v. x = NFound v \<Longrightarrow> keeps R (g v)) \<Longrightarrow>
     keeps R (case x of NErr e \<Rightarrow> f e | NMissing \<Rightarrow> m | NFound v \<Rightarrow> g v)"
  by (cases x) simp_all

lemma resp_case_json [resp]:
  "(\<And>y. x = JMap y \<Longrightarrow> keeps R (h y)) \<Longrightarrow> keeps R m \<Longrightarrow> (\<And>y. keeps R (f1 y)) \<Longrightarrow>
     (\<And>y. keeps R (f2 y)) \<Longrightarrow> (\<And>y. keeps R (f3 y)) \<Longrightarrow> (\<And>y. x = JStr y \<Longrightarrow> keeps R (f4 y)) \<Longrightarrow>
     (\<And>y. keeps R (f5 y)) \<Longrightarrow>
     keeps R (case x of JNull \<Rightarrow> m | JBool y \<Rightarrow> f1 y | JInt y \<Rightarrow> f2 y | JFloat y \<Rightarrow> f3 y
       | JStr y \<Rightarrow> f4 y | JSlice y \<Rightarrow> f5 y | JMap y \<Rightarrow> h y)"
  by (cases x) simp_all

primrec nested_found :: "'a nested \<Rightarrow> bool" where
  "nested_found (NErr e) = False"
| "nested_found NMissing = False"
| "nested_found (NFound v) = True"

primrec nested_err :: "'a nested \<Rightarrow> goerr option" where
  "nested_err (NErr e) = Some e"
| "nested_err NMissing = None"
| "nested_err (NFound v) = None"

primrec nested_val :: "'a \<Rightarrow> 'a nested \<Rightarrow> 'a" where
  "nested_val z (NErr e) = z"
| "nested_val z NMissing = z"
| "nested_val z (NFound v) = v"

fun NestedFieldNoCopy :: "json \<Rightarrow> string list \<Rightarrow> json nested" where
  "NestedFieldNoCopy v [] = NFound v"
| "NestedFieldNoCopy JNull (f # fs) = NMissing"
| "NestedFieldNoCopy (JMap m) (f # fs) =
     (case map_of m f of None \<Rightarrow> NMissing | Some v \<Rightarrow> NestedFieldNoCopy v fs)"
| "NestedFieldNoCopy v (f # fs) = NErr (AccessorError (f # fs))"

definition NestedString :: "json \<Rightarrow> string list \<Rightarrow> string nested" where
  "NestedString obj fs = (case NestedFieldNoCopy obj fs of
       NErr e \<Rightarrow> NErr e | NMissing \<Rightarrow> NMissing
     | NFound (JStr s) \<Rightarrow> NFound s | NFound _ \<Rightarrow> NErr (AccessorError fs))"

definition NestedBool :: "json \<Rightarrow> string list \<Rightarrow> bool nested" where
  "NestedBool obj fs = (case NestedFieldNoCopy obj fs of
       NErr e \<Rightarrow> NErr e | NMissing \<Rightarrow> NMissing
     | NFound (JBool b) \<Rightarrow> NFound b | NFound _ \<Rightarrow> NErr (AccessorError fs))"

definition NestedInt64 :: "json \<Rightarrow> string list \<Rightarrow> int64 nested" where
  "NestedInt64 obj fs = (case NestedFieldNoCopy obj fs of
       NErr e \<Rightarrow> NErr e | NMissing \<Rightarrow> NMissing
     | NFound (JInt i) \<Rightarrow> NFound i | NFound _ \<Rightarrow> NErr (AccessorError fs))"

definition NestedSlice :: "json \<Rightarrow> string list \<Rightarrow> json list nested" where
  "NestedSlice obj fs = (case NestedFieldNoCopy obj fs of
       NErr e \<Rightarrow> NErr e | NMissing \<Rightarrow> NMissing
     | NFound (JSlice l) \<Rightarrow> NFound l | NFound _ \<Rightarrow> NErr (AccessorError fs))"

definition NestedMap :: "json \<Rightarrow> string list \<Rightarrow> (string \<times> json) list nested" where
  "NestedMap obj fs = (case NestedFieldNoCopy obj fs of
       NErr e \<Rightarrow> NErr e | NMissing \<Rightarrow> NMissing
     | NFound (JMap m) \<Rightarrow> NFound m | NFound _ \<Rightarrow> NErr (AccessorError fs))"

fun string_entries :: "(string \<times> json) list \<Rightarrow> (string \<times> string) list option" where
  "string_entries [] = Some []"
| "string_entries ((k, JStr v) # m) = map_option (\<lambda>r. (k, v) # r) (string_entries m)"
| "string_entries (_ # m) = None"

definition NestedStringMap :: "json \<Rightarrow> string list \<Rightarrow> (string \<times> string) list nested" where
  "NestedStringMap obj fs = (case NestedMap obj fs of
       NErr e \<Rightarrow> NErr e | NMissing \<Rightarrow> NMissing
     | NFound m \<Rightarrow> (case string_entries m of
           None \<Rightarrow> NErr (AccessorError fs) | Some sm \<Rightarrow> NFound sm))"

text \<open>
  \<open>SetNestedField\<close>: walks the path through maps, creating the missing ones, and stores the
  value under the last key. It fails, before it changed anything, when a level is not a map.
  (An empty path, on which the Go code would panic, occurs nowhere.)
\<close>

fun SetNestedField :: "json \<Rightarrow> json \<Rightarrow> string list \<Rightarrow> goerr + json" where
  "SetNestedField (JMap m) v [f] = Inr (JMap (AList.update f v m))"
| "SetNestedField (JMap m) v (f # g # fs) =
     (case map_of m f of
        Some sub \<Rightarrow>
          (case sub of
             JMap m' \<Rightarrow> map_sum id (\<lambda>j. JMap (AList.update f j m)) (SetNestedField (JMap m') v (g # fs))
           | _ \<Rightarrow> Inl (NotAMap (f # g # fs)))
      | None \<Rightarrow> map_sum id (\<lambda>j. JMap (AList.update f j m)) (SetNestedField (JMap []) v (g # fs)))"
| "SetNestedField obj v fs = Inl (NotAMap fs)"

text \<open>The unexported \<open>setNestedField\<close> of \<open>Unstructured\<close> drops the error.\<close>

definition setNestedField :: "json \<Rightarrow> json \<Rightarrow> string list \<Rightarrow> json" where
  "setNestedField obj v fs = (case SetNestedField obj v fs of Inl e \<Rightarrow> obj | Inr j \<Rightarrow> j)"

fun RemoveNestedField :: "json \<Rightarrow> string list \<Rightarrow> json" where
  "RemoveNestedField (JMap m) [f] = JMap (AList.delete f m)"
| "RemoveNestedField (JMap m) (f # g # fs) =
     (case map_of m f of
        Some (JMap m') \<Rightarrow> JMap (AList.update f (RemoveNestedField (JMap m') (g # fs)) m)
      | _ \<Rightarrow> JMap m)"
| "RemoveNestedField obj fs = obj"

section \<open>Laws of the field store\<close>

text \<open>
  What a client of the field accessors relies on. Two paths are apart when neither is a prefix
  of the other; a write is then invisible to a read.
\<close>

locale field_store =
  fixes get :: "'o \<Rightarrow> 'k list \<Rightarrow> 'v nested"
    and set :: "'o \<Rightarrow> 'v \<Rightarrow> 'k list \<Rightarrow> goerr + 'o"
  assumes get_set_same: "set obj v p = Inr obj' \<Longrightarrow> get obj' p = NFound v"
    and get_set_apart: "set obj v p = Inr obj' \<Longrightarrow> \<not> prefix p q \<Longrightarrow> \<not> prefix q p \<Longrightarrow> get obj' q = get obj q"
begin

definition put :: "'o \<Rightarrow> 'v \<Rightarrow> 'k list \<Rightarrow> 'o" where
  "put obj v p = (case set obj v p of Inl e \<Rightarrow> obj | Inr j \<Rightarrow> j)"

lemma get_put_apart: "\<not> prefix p q \<Longrightarrow> \<not> prefix q p \<Longrightarrow> get (put obj v p) q = get obj q"
  unfolding put_def by (cases "set obj v p") (auto dest: get_set_apart)

lemma put_twice_last_wins:
  "set obj v p = Inr obj1 \<Longrightarrow> set obj1 w p = Inr obj2 \<Longrightarrow> get obj2 p = NFound w"
  by (rule get_set_same)

lemma independent_writes:
  assumes "set obj v p = Inr obj1" and "set obj1 w q = Inr obj2"
    and "\<not> prefix p q" and "\<not> prefix q p"
  shows "get obj2 p = NFound v \<and> get obj2 q = NFound w"
  using assms get_set_apart[OF assms(2), of p] get_set_same[OF assms(1)] get_set_same[OF assms(2)]
  by simp

end

lemma SetNestedField_same: "SetNestedField obj v p = Inr obj' \<Longrightarrow> NestedFieldNoCopy obj' p = NFound v"
proof (induction obj v p arbitrary: obj' rule: SetNestedField.induct)
  case (2 m v f g fs)
  then show ?case
    by (auto simp: update_conv map_sum_def split: option.splits json.splits sum.splits)
qed (auto simp: update_conv)

lemma nested_of_empty [simp]: "NestedFieldNoCopy (JMap []) (f # fs) = NMissing"
  by simp

lemma SetNestedField_apart:
  "SetNestedField obj v p = Inr obj' \<Longrightarrow> \<not> prefix p q \<Longrightarrow> \<not> prefix q p \<Longrightarrow>
     NestedFieldNoCopy obj' q = NestedFieldNoCopy obj q"
proof (induction obj v p arbitrary: obj' q rule: SetNestedField.induct)
  case (1 m v f)
  then obtain k ks where "q = k # ks" "k \<noteq> f" by (cases q) auto
  with 1 show ?case by (auto simp: update_conv)
next
  case (2 m v f g fs)
  from 2 obtain k ks where q: "q = k # ks" by (cases q) auto
  show ?case
  proof (cases "k = f")
    case False
    with 2(3) q show ?thesis
      by (auto simp: update_conv map_sum_def split: option.splits json.splits sum.splits)
  next
    case True
    with 2 q have ap: "\<not> prefix (g # fs) ks" "\<not> prefix ks (g # fs)" by auto
    then obtain l ls where ks: "ks = l # ls" by (cases ks) auto
    show ?thesis
    proof (cases "map_of m f")
      case None
      with 2(3) True q ks 2(1)[OF None _ ap] show ?thesis
        by (auto simp: update_conv map_sum_def split: sum.splits)
    next
      case (Some sub)
      with 2(3) obtain m' where sub: "sub = JMap m'"
        by (auto split: json.splits)
      with 2(3) True q ks Some sub 2(2)[OF Some sub _ ap] show ?thesis
        by (auto simp: update_conv map_sum_def split: sum.splits)
    qed
  qed
qed auto

interpretation unstr: field_store NestedFieldNoCopy SetNestedField
  by unfold_locales (rule SetNestedField_same, assumption, rule SetNestedField_apart)

lemma setNestedField_is_put: "setNestedField = unstr.put"
  by (intro ext) (simp add: setNestedField_def unstr.put_def)

lemmas NestedField_setNestedField_apart = unstr.get_put_apart[folded setNestedField_is_put]

text \<open>Every typed accessor reads through the field, so apart writes are invisible to all of them.\<close>

lemma Nested_setNestedField_apart:
  assumes "\<not> prefix p q" and "\<not> prefix q p"
  shows "NestedString (setNestedField obj v p) q = NestedString obj q"
    and "NestedSlice (setNestedField obj v p) q = NestedSlice obj q"
    and "NestedStringMap (setNestedField obj v p) q = NestedStringMap obj q"
  by (simp_all add: NestedString_def NestedSlice_def NestedStringMap_def NestedMap_def
      NestedField_setNestedField_apart[OF assms])

lemma NestedString_SetNestedField:
  "SetNestedField obj (JStr s) p = Inr obj' \<Longrightarrow> NestedString obj' p = NFound s"
  by (simp add: NestedString_def SetNestedField_same)

section \<open>Object metadata\<close>

definition getNestedString :: "json \<Rightarrow> string list \<Rightarrow> string" where
  "getNestedString obj fs = nested_val [] (NestedString obj fs)"

definition GetAPIVersion :: "json \<Rightarrow> string" where
  "GetAPIVersion obj = getNestedString obj [''apiVersion'']"

definition SetAPIVersion :: "json \<Rightarrow> string \<Rightarrow> json" where
  "SetAPIVersion obj v = setNestedField obj (JStr v) [''apiVersion'']"

definition GetKind :: "json \<Rightarrow> string" where
  "GetKind obj = getNestedString obj [''kind'']"

definition SetKind :: "json \<Rightarrow> string \<Rightarrow> json" where
  "SetKind obj v = setNestedField obj (JStr v) [''kind'']"

definition GetNamespace :: "json \<Rightarrow> string" where
  "GetNamespace obj = getNestedString obj [''metadata'', ''namespace'']"

definition SetNamespace :: "json \<Rightarrow> string \<Rightarrow> json" where
  "SetNamespace obj ns =
     (if ns = [] then RemoveNestedField obj [''metadata'', ''namespace'']
      else setNestedField obj (JStr ns) [''metadata'', ''namespace''])"

definition GetName :: "json \<Rightarrow> string" where
  "GetName obj = getNestedString obj [''metadata'', ''name'']"

definition SetName :: "json \<Rightarrow> string \<Rightarrow> json" where
  "SetName obj n =
     (if n = [] then RemoveNestedField obj [''metadata'', ''name'']
      else setNestedField obj (JStr n) [''metadata'', ''name''])"

text \<open>
  \<open>GetLabels\<close> and \<open>GetAnnotations\<close> return a fresh \<open>map[string]string\<close>, or the nil map
  (\<open>None\<close>) when the field is missing or holds anything but strings. Reading the nil map is
  legal and finds nothing.
\<close>

type_synonym strmap = "(string \<times> string) list option"

definition strmap_of :: "(string \<times> string) list nested \<Rightarrow> strmap" where
  "strmap_of n = (case n of NFound m \<Rightarrow> Some m | _ \<Rightarrow> None)"

definition GetLabels :: "json \<Rightarrow> strmap" where
  "GetLabels obj = strmap_of (NestedStringMap obj [''metadata'', ''labels''])"

definition GetAnnotations :: "json \<Rightarrow> strmap" where
  "GetAnnotations obj = strmap_of (NestedStringMap obj [''metadata'', ''annotations''])"

definition lookup :: "strmap \<Rightarrow> string \<Rightarrow> string option" where
  "lookup m k = (case m of None \<Rightarrow> None | Some sm \<Rightarrow> map_of sm k)"

definition lookup0 :: "strmap \<Rightarrow> string \<Rightarrow> string" where
  "lookup0 m k = (case lookup m k of None \<Rightarrow> [] | Some v \<Rightarrow> v)"

definition SetLabels :: "json \<Rightarrow> (string \<times> string) list \<Rightarrow> json" where
  "SetLabels obj m =
     setNestedField obj (JMap (map (\<lambda>(k, v). (k, JStr v)) m)) [''metadata'', ''labels'']"

text \<open>Group, version and kind of an object.\<close>

record gvk =
  gvk_Group :: string
  gvk_Version :: string
  gvk_Kind :: string

definition ParseGroupVersion :: "string \<Rightarrow> (string \<times> string) option" where
  "ParseGroupVersion gv =
     (if gv = [] \<or> gv = ''/'' then Some ([], [])
      else case split_char (CHR ''/'') gv of
             [v] \<Rightarrow> Some ([], v)
           | [g, v] \<Rightarrow> Some (g, v)
           | _ \<Rightarrow> None)"

definition GroupVersion_String :: "string \<Rightarrow> string \<Rightarrow> string" where
  "GroupVersion_String g v = (if g = [] then v else g @ ''/'' @ v)"

definition GroupVersionKind :: "json \<Rightarrow> gvk" where
  "GroupVersionKind obj = (case ParseGroupVersion (GetAPIVersion obj) of
       None \<Rightarrow> \<lparr>gvk_Group = [], gvk_Version = [], gvk_Kind = []\<rparr>
     | Some (g, v) \<Rightarrow> \<lparr>gvk_Group = g, gvk_Version = v, gvk_Kind = GetKind obj\<rparr>)"

definition SetGroupVersionKind :: "json \<Rightarrow> gvk \<Rightarrow> json" where
  "SetGroupVersionKind obj k =
     SetKind (SetAPIVersion obj (GroupVersion_String (gvk_Group k) (gvk_Version k))) (gvk_Kind k)"

section \<open>Owner references\<close>

record OwnerReference =
  or_APIVersion :: string
  or_Kind :: string
  or_Name :: string
  or_UID :: string
  or_Controller :: "bool option"
  or_BlockOwnerDeletion :: "bool option"

definition bool_pointer :: "json \<Rightarrow> string \<Rightarrow> bool option" where
  "bool_pointer v f = (case NestedBool v [f] of NFound b \<Rightarrow> Some b | _ \<Rightarrow> None)"

definition extractOwnerReference :: "json \<Rightarrow> OwnerReference" where
  "extractOwnerReference v =
     \<lparr>or_APIVersion = getNestedString v [''apiVersion''],
      or_Kind = getNestedString v [''kind''],
      or_Name = getNestedString v [''name''],
      or_UID = getNestedString v [''uid''],
      or_Controller = bool_pointer v ''controller'',
      or_BlockOwnerDeletion = bool_pointer v ''blockOwnerDeletion''\<rparr>"

text \<open>\<open>DefaultUnstructuredConverter.ToUnstructured\<close> on an owner reference: nil pointers are omitted.\<close>

definition owner_ToUnstructured :: "OwnerReference \<Rightarrow> json" where
  "owner_ToUnstructured r = JMap
     ([(''apiVersion'', JStr (or_APIVersion r)), (''kind'', JStr (or_Kind r)),
       (''name'', JStr (or_Name r)), (''uid'', JStr (or_UID r))]
      @ (case or_Controller r of None \<Rightarrow> [] | Some b \<Rightarrow> [(''controller'', JBool b)])
      @ (case or_BlockOwnerDeletion r of None \<Rightarrow> [] | Some b \<Rightarrow> [(''blockOwnerDeletion'', JBool b)]))"

fun all_maps :: "json list \<Rightarrow> bool" where
  "all_maps [] = True"
| "all_maps (JMap m # js) = all_maps js"
| "all_maps (_ # js) = False"

definition GetOwnerReferences :: "json \<Rightarrow> OwnerReference list" where
  "GetOwnerReferences obj = (case NestedFieldNoCopy obj [''metadata'', ''ownerReferences''] of
       NFound (JSlice js) \<Rightarrow> (if all_maps js then map extractOwnerReference js else [])
     | _ \<Rightarrow> [])"

definition SetOwnerReferences :: "json \<Rightarrow> OwnerReference list \<Rightarrow> json" where
  "SetOwnerReferences obj refs =
     setNestedField obj (JSlice (map owner_ToUnstructured refs)) [''metadata'', ''ownerReferences'']"

definition GetControllerOf :: "json \<Rightarrow> OwnerReference option" where
  "GetControllerOf obj = find (\<lambda>r. or_Controller r = Some True) (GetOwnerReferences obj)"

definition referSameObject :: "OwnerReference \<Rightarrow> OwnerReference \<Rightarrow> bool" where
  "referSameObject a b =
     (case (ParseGroupVersion (or_APIVersion a), ParseGroupVersion (or_APIVersion b)) of
        (Some (ga, _), Some (gb, _)) \<Rightarrow> ga = gb \<and> or_Kind a = or_Kind b \<and> or_Name a = or_Name b
      | _ \<Rightarrow> False)"

text \<open>\<open>upsertOwnerRef\<close>: replace the first reference to the same object, or append.\<close>

fun upsertOwnerRef :: "OwnerReference \<Rightarrow> OwnerReference list \<Rightarrow> OwnerReference list" where
  "upsertOwnerRef ref [] = [ref]"
| "upsertOwnerRef ref (r # rs) =
     (if referSameObject r ref then ref # rs else r # upsertOwnerRef ref rs)"

definition validateOwner :: "string \<Rightarrow> json \<Rightarrow> goerr option" where
  "validateOwner ownerNs obj =
     (if ownerNs \<noteq> [] then
        (if GetNamespace obj = [] then
           Some (Fundamental (''cluster-scoped resource must not have a namespace-scoped owner, owner's namespace '' @ ownerNs))
         else if ownerNs \<noteq> GetNamespace obj then
           Some (Fundamental (''cross-namespace owner references are disallowed, owner's namespace '' @ ownerNs
              @ '', obj's namespace '' @ GetNamespace obj))
         else None)
      else None)"

text \<open>
  \<open>SetControllerReference\<close> for an owner of the given namespace, name and UID whose group,
  version and kind the scheme gives as \<open>gv\<close> and \<open>kind\<close>; the result is the changed object.
\<close>

definition SetControllerReference ::
    "string \<Rightarrow> string \<Rightarrow> string \<Rightarrow> string \<Rightarrow> string \<Rightarrow> json \<Rightarrow> goerr + json" where
  "SetControllerReference ownerNs ownerName ownerUID gv kind obj =
     (case validateOwner ownerNs obj of
        Some e \<Rightarrow> Inl e
      | None \<Rightarrow>
          (let ref = \<lparr>or_APIVersion = gv, or_Kind = kind, or_Name = ownerName, or_UID = ownerUID,
                      or_Controller = Some True, or_BlockOwnerDeletion = Some True\<rparr>
           in case GetControllerOf obj of
                Some existing \<Rightarrow>
                  (if \<not> referSameObject existing ref then
                     Inl (Fundamental (''Object '' @ GetNamespace obj @ ''/'' @ GetName obj @
                       '' is already owned by another '' @ or_Kind existing @ '' controller '' @ or_Name existing))
                   else Inr (SetOwnerReferences obj (upsertOwnerRef ref (GetOwnerReferences obj))))
              | None \<Rightarrow> Inr (SetOwnerReferences obj (upsertOwnerRef ref (GetOwnerReferences obj)))))"

section \<open>What the metadata setters keep\<close>

lemma RemoveNestedField_apart:
  "\<not> prefix p q \<Longrightarrow> \<not> prefix q p \<Longrightarrow>
     NestedFieldNoCopy (RemoveNestedField obj p) q = NestedFieldNoCopy obj q"
proof (induction obj p arbitrary: q rule: RemoveNestedField.induct)
  case (1 m f)
  then obtain k ks where "q = k # ks" "k \<noteq> f" by (cases q) auto
  then show ?case by (simp add: delete_conv)
next
  case (2 m f g fs)
  then obtain k ks where q: "q = k # ks" by (cases q) auto
  with 2 show ?case
    by (auto simp: update_conv split: option.splits json.splits)
qed auto

lemma SetNestedField_fails:
  "SetNestedField obj v p = Inl e \<Longrightarrow> p \<noteq> [] \<Longrightarrow> NestedFieldNoCopy obj p \<noteq> NFound w"
proof (induction obj v p arbitrary: e rule: SetNestedField.induct)
  case (2 m v f g fs)
  show ?case
  proof (cases "map_of m f")
    case None
    then show ?thesis by simp
  next
    case (Some sub)
    show ?thesis
    proof (cases sub)
      case (JMap m')
      with Some 2(3) have "SetNestedField (JMap m') v (g # fs) = Inl e"
        by (auto simp: map_sum_def split: sum.splits)
      with Some JMap 2(2)[OF Some JMap] show ?thesis by simp
    qed (use Some in simp_all)
  qed
qed (auto simp: neq_Nil_conv)

lemma RemoveNestedField_gone: "NestedFieldNoCopy (RemoveNestedField obj [f, g]) [f, g] \<noteq> NFound w"
  by (cases obj) (auto simp: update_conv delete_conv split: option.splits json.splits)

lemma getNestedString_not_found: "(\<And>w. NestedFieldNoCopy obj p \<noteq> NFound w) \<Longrightarrow> getNestedString obj p = []"
  by (cases "NestedFieldNoCopy obj p") (auto simp: getNestedString_def NestedString_def)

lemma GetNamespace_SetNamespace: "GetNamespace (SetNamespace obj ns) \<in> {ns, []}"
proof (cases "ns = []")
  case True
  then show ?thesis
    by (simp add: SetNamespace_def GetNamespace_def getNestedString_not_found RemoveNestedField_gone)
next
  case False
  let ?p = "[''metadata'', ''namespace'']"
  show ?thesis
  proof (cases "SetNestedField obj (JStr ns) ?p")
    case (Inl e)
    then have "getNestedString obj ?p = []"
      by (intro getNestedString_not_found SetNestedField_fails) auto
    with Inl False show ?thesis
      by (simp add: SetNamespace_def GetNamespace_def setNestedField_def)
  next
    case (Inr j)
    then have "NestedString j ?p = NFound ns" by (rule NestedString_SetNestedField)
    with Inr False show ?thesis
      by (simp add: SetNamespace_def GetNamespace_def setNestedField_def getNestedString_def)
  qed
qed

lemma GetNamespace_SetNamespace_eq:
  assumes "NestedFieldNoCopy obj [''metadata''] = NFound (JMap m)" and "ns \<noteq> []"
  shows "GetNamespace (SetNamespace obj ns) = ns"
proof -
  from assms(1) obtain o1 where obj: "obj = JMap o1" and m: "map_of o1 ''metadata'' = Some (JMap m)"
    by (cases obj) (auto split: option.splits)
  then have "SetNestedField obj (JStr ns) [''metadata'', ''namespace''] =
      Inr (JMap (AList.update ''metadata'' (JMap (AList.update ''namespace'' (JStr ns) m)) o1))"
    by simp
  then have "NestedString (SetNamespace obj ns) [''metadata'', ''namespace''] = NFound ns"
    using assms(2) NestedString_SetNestedField by (simp add: SetNamespace_def setNestedField_def)
  then show ?thesis by (simp add: GetNamespace_def getNestedString_def)
qed

named_theorems meta_simps \<open>metadata reads that look through writes elsewhere\<close>

lemma getNestedString_set_apart [meta_simps]:
  "\<not> prefix p q \<Longrightarrow> \<not> prefix q p \<Longrightarrow> getNestedString (setNestedField obj v p) q = getNestedString obj q"
  by (simp add: getNestedString_def Nested_setNestedField_apart)

lemma getNestedString_remove_apart [meta_simps]:
  "\<not> prefix p q \<Longrightarrow> \<not> prefix q p \<Longrightarrow> getNestedString (RemoveNestedField obj p) q = getNestedString obj q"
  by (simp add: getNestedString_def NestedString_def RemoveNestedField_apart)

lemma strmap_set_apart [meta_simps]:
  "\<not> prefix p q \<Longrightarrow> \<not> prefix q p \<Longrightarrow>
     strmap_of (NestedStringMap (setNestedField obj v p) q) = strmap_of (NestedStringMap obj q)"
  by (simp add: Nested_setNestedField_apart)

lemma strmap_remove_apart [meta_simps]:
  "\<not> prefix p q \<Longrightarrow> \<not> prefix q p \<Longrightarrow>
     strmap_of (NestedStringMap (RemoveNestedField obj p) q) = strmap_of (NestedStringMap obj q)"
  by (simp add: NestedStringMap_def NestedMap_def RemoveNestedField_apart)

lemmas meta_defs = GetKind_def GetName_def GetNamespace_def GetLabels_def GetAnnotations_def
  GetAPIVersion_def

lemma SetNamespace_keeps [simp]:
  "GetKind (SetNamespace obj ns) = GetKind obj"
  "GetName (SetNamespace obj ns) = GetName obj"
  "GetLabels (SetNamespace obj ns) = GetLabels obj"
  "GetAnnotations (SetNamespace obj ns) = GetAnnotations obj"
  by (simp_all add: SetNamespace_def meta_defs meta_simps)

lemma SetOwnerReferences_keeps [simp]:
  "GetKind (SetOwnerReferences obj refs) = GetKind obj"
  "GetName (SetOwnerReferences obj refs) = GetName obj"
  "GetNamespace (SetOwnerReferences obj refs) = GetNamespace obj"
  "GetLabels (SetOwnerReferences obj refs) = GetLabels obj"
  "GetAnnotations (SetOwnerReferences obj refs) = GetAnnotations obj"
  by (simp_all add: SetOwnerReferences_def meta_defs meta_simps)

lemma SetLabels_keeps [simp]:
  "GetKind (SetLabels obj m) = GetKind obj"
  "GetName (SetLabels obj m) = GetName obj"
  "GetNamespace (SetLabels obj m) = GetNamespace obj"
  "GetAnnotations (SetLabels obj m) = GetAnnotations obj"
  by (simp_all add: SetLabels_def meta_defs meta_simps)

lemma SetControllerReference_cases:
  assumes "SetControllerReference ns n uid gv k obj = Inr obj'"
  obtains ref where
    "ref = \<lparr>or_APIVersion = gv, or_Kind = k, or_Name = n, or_UID = uid,
            or_Controller = Some True, or_BlockOwnerDeletion = Some True\<rparr>"
    and "obj' = SetOwnerReferences obj (upsertOwnerRef ref (GetOwnerReferences obj))"
    and "\<And>r. GetControllerOf obj = Some r \<Longrightarrow> referSameObject r ref"
  using assms by (auto simp: SetControllerReference_def Let_def split: option.splits if_splits)

lemma SetControllerReference_keeps:
  assumes "SetControllerReference ns n uid gv k obj = Inr obj'"
  shows "GetKind obj' = GetKind obj" "GetName obj' = GetName obj"
    "GetNamespace obj' = GetNamespace obj" "GetLabels obj' = GetLabels obj"
    "GetAnnotations obj' = GetAnnotations obj"
  using assms by (auto elim!: SetControllerReference_cases)

section \<open>The controller reference is found again\<close>

lemma extract_owner_ToUnstructured [simp]: "extractOwnerReference (owner_ToUnstructured r) = r"
  by (cases r) (auto simp: extractOwnerReference_def owner_ToUnstructured_def getNestedString_def
      NestedString_def NestedBool_def bool_pointer_def split: option.splits)

lemma all_maps_owners [simp]: "all_maps (map owner_ToUnstructured rs)"
  by (induction rs) (simp_all add: owner_ToUnstructured_def)

lemma has_metadata_SetNestedField:
  assumes "NestedFieldNoCopy obj [''metadata''] = NFound (JMap m)"
  shows "\<exists>j. SetNestedField obj v [''metadata'', f] = Inr j"
  using assms by (cases obj) (auto split: option.splits)

lemma GetOwnerReferences_SetOwnerReferences:
  assumes "NestedFieldNoCopy obj [''metadata''] = NFound (JMap m)"
  shows "GetOwnerReferences (SetOwnerReferences obj refs) = refs"
proof -
  let ?v = "JSlice (map owner_ToUnstructured refs)"
  from has_metadata_SetNestedField[OF assms] obtain j
    where j: "SetNestedField obj ?v [''metadata'', ''ownerReferences''] = Inr j" by blast
  then have "NestedFieldNoCopy j [''metadata'', ''ownerReferences''] = NFound ?v"
    by (rule SetNestedField_same)
  with j show ?thesis
    by (simp add: SetOwnerReferences_def setNestedField_def GetOwnerReferences_def o_def)
qed

lemma find_upsertOwnerRef:
  assumes "P ref" and "\<And>r. find P rs = Some r \<Longrightarrow> referSameObject r ref"
  shows "find P (upsertOwnerRef ref rs) = Some ref"
  using assms(2)
proof (induction rs)
  case Nil
  with assms(1) show ?case by simp
next
  case (Cons r rs)
  with assms(1) show ?case by (cases "P r") auto
qed

lemma SetControllerReference_controller:
  assumes "SetControllerReference ns n uid gv k obj = Inr obj'"
    and "NestedFieldNoCopy obj [''metadata''] = NFound (JMap m)"
  shows "GetControllerOf obj' = Some
    \<lparr>or_APIVersion = gv, or_Kind = k, or_Name = n, or_UID = uid,
     or_Controller = Some True, or_BlockOwnerDeletion = Some True\<rparr>"
  using assms(1)
proof (rule SetControllerReference_cases)
  fix ref
  assume ref: "ref = \<lparr>or_APIVersion = gv, or_Kind = k, or_Name = n, or_UID = uid,
            or_Controller = Some True, or_BlockOwnerDeletion = Some True\<rparr>"
    and obj': "obj' = SetOwnerReferences obj (upsertOwnerRef ref (GetOwnerReferences obj))"
    and same: "\<And>r. GetControllerOf obj = Some r \<Longrightarrow> referSameObject r ref"
  have "find (\<lambda>r. or_Controller r = Some True) (upsertOwnerRef ref (GetOwnerReferences obj)) = Some ref"
    using same by (intro find_upsertOwnerRef) (auto simp: ref GetControllerOf_def)
  then show ?thesis
    by (simp add: GetControllerOf_def obj' GetOwnerReferences_SetOwnerReferences[OF assms(2)] ref)
qed

end
