(* ===== verification/Api_Types.thy ===== *)
theory Api_Types
  imports Unstructured
begin

text \<open>
  The custom resource of \<open>src/api/v1beta1/specialresource_types.go\<close> and the runtime information of
  \<open>src/controllers/runtime.go\<close> that manifests are templated with. Of \<open>metav1.ObjectMeta\<close>
  only what the operator's code reads is kept (name, namespace, UID).
\<close>

section \<open>api/v1beta1/specialresource_types.go\<close>

record SpecialResourcePaths =
  path_SourcePath :: string
  path_DestinationDir :: string

record SpecialResourceImages =
  img_Name :: string
  img_Kind :: string
  img_Namespace :: string
  img_PullSecret :: string
  img_Paths :: "SpecialResourcePaths list"

record SpecialResourceClaims =
  claim_Name :: string
  claim_MountPath :: string

record SpecialResourceArtifacts =
  art_HostPaths :: "SpecialResourcePaths list"
  art_Images :: "SpecialResourceImages list"
  art_Claims :: "SpecialResourceClaims list"

record SpecialResourceNode =
  node_Selector :: string

record SpecialResourceRunArgs =
  run_Name :: string
  run_Value :: string

record SpecialResourceBuildArgs =
  build_Name :: string
  build_Value :: string

record SpecialResourceConfiguration =
  cfg_Name :: string
  cfg_Value :: "string list"

record SpecialResourceGit =
  git_Ref :: string
  git_Uri :: string

record SpecialResourceSource =
  src_Git :: SpecialResourceGit

record SpecialResourceDriverContainer =
  dc_Source :: SpecialResourceSource
  dc_BuildArgs :: "SpecialResourceBuildArgs list"
  dc_RunArgs :: "SpecialResourceRunArgs list"
  dc_Artifacts :: SpecialResourceArtifacts

record SpecialResourceDependency =
  dep_Name :: string
  dep_ImageReference :: string

record SpecialResourceSpec =
  spec_Namespace :: string
  spec_Configuration :: "SpecialResourceConfiguration list"
  spec_DriverContainer :: SpecialResourceDriverContainer
  spec_Node :: SpecialResourceNode
  spec_DependsOn :: "SpecialResourceDependency list"

record SpecialResourceStatus =
  status_State :: string

record ObjectMeta =
  meta_Name :: string
  meta_Namespace :: string
  meta_UID :: string

record SpecialResource =
  sr_ObjectMeta :: ObjectMeta
  sr_Spec :: SpecialResourceSpec
  sr_Status :: SpecialResourceStatus

abbreviation sr_Name :: "SpecialResource \<Rightarrow> string" where
  "sr_Name sr \<equiv> meta_Name (sr_ObjectMeta sr)"

abbreviation sr_Namespace :: "SpecialResource \<Rightarrow> string" where
  "sr_Namespace sr \<equiv> spec_Namespace (sr_Spec sr)"

text \<open>The zero values Go gives to declared variables.\<close>

definition zero_DriverContainer :: SpecialResourceDriverContainer where
  "zero_DriverContainer =
     \<lparr>dc_Source = \<lparr>src_Git = \<lparr>git_Ref = [], git_Uri = []\<rparr>\<rparr>, dc_BuildArgs = [], dc_RunArgs = [],
      dc_Artifacts = \<lparr>art_HostPaths = [], art_Images = [], art_Claims = []\<rparr>\<rparr>"

definition zero_SpecialResource :: SpecialResource where
  "zero_SpecialResource =
     \<lparr>sr_ObjectMeta = \<lparr>meta_Name = [], meta_Namespace = [], meta_UID = []\<rparr>,
      sr_Spec = \<lparr>spec_Namespace = [], spec_Configuration = [],
                 spec_DriverContainer = zero_DriverContainer,
                 spec_Node = \<lparr>node_Selector = []\<rparr>, spec_DependsOn = []\<rparr>,
      sr_Status = \<lparr>status_State = []\<rparr>\<rparr>"

definition zero_Dependency :: SpecialResourceDependency where
  "zero_Dependency = \<lparr>dep_Name = [], dep_ImageReference = []\<rparr>"

definition set_spec_namespace :: "string \<Rightarrow> SpecialResource \<Rightarrow> SpecialResource" where
  "set_spec_namespace ns sr = sr\<lparr>sr_Spec := (sr_Spec sr)\<lparr>spec_Namespace := ns\<rparr>\<rparr>"

definition set_status_state :: "string \<Rightarrow> SpecialResource \<Rightarrow> SpecialResource" where
  "set_status_state st sr = sr\<lparr>sr_Status := (sr_Status sr)\<lparr>status_State := st\<rparr>\<rparr>"

section \<open>controllers/runtime.go: what manifests are templated with\<close>

record resourceGroupName =
  gn_DriverBuild :: string
  gn_DriverContainer :: string
  gn_RuntimeEnablement :: string
  gn_DevicePlugin :: string
  gn_DeviceMonitoring :: string
  gn_DeviceGrafana :: string
  gn_DeviceFeatureDiscovery :: string
  gn_CSIDriver :: string

record resourceStateName =
  st_DriverContainer :: string
  st_RuntimeEnablement :: string
  st_DevicePlugin :: string
  st_DeviceMonitoring :: string

record proxyConfiguration =
  HttpProxy :: string
  HttpsProxy :: string
  NoProxy :: string
  TrustedCA :: string

record runtimeInformation =
  OperatingSystemMajor :: string
  OperatingSystemMajorMinor :: string
  OperatingSystemDecimal :: string
  KernelVersion :: string
  ClusterVersion :: string
  ClusterVersionMajorMinor :: string
  UpdateVendor :: string
  PushSecretName :: string
  OSImageURL :: string
  Proxy :: proxyConfiguration
  GroupName :: resourceGroupName
  StateName :: resourceStateName
  ri_SpecialResource :: SpecialResource

definition zero_proxy :: proxyConfiguration where
  "zero_proxy = \<lparr>HttpProxy = [], HttpsProxy = [], NoProxy = [], TrustedCA = []\<rparr>"

text \<open>The initial value of the package variable \<open>runInfo\<close>.\<close>

definition runInfo_init :: runtimeInformation where
  "runInfo_init =
     \<lparr>OperatingSystemMajor = [], OperatingSystemMajorMinor = [], OperatingSystemDecimal = [],
      KernelVersion = [], ClusterVersion = [], ClusterVersionMajorMinor = [], UpdateVendor = [],
      PushSecretName = [], OSImageURL = [], Proxy = zero_proxy,
      GroupName =
        \<lparr>gn_DriverBuild = ''driver-build'', gn_DriverContainer = ''driver-container'',
         gn_RuntimeEnablement = ''runtime-enablement'', gn_DevicePlugin = ''device-plugin'',
         gn_DeviceMonitoring = ''device-monitoring'', gn_DeviceGrafana = ''device-grafana'',
         gn_DeviceFeatureDiscovery = ''device-feature-discovery'', gn_CSIDriver = ''csi-driver''\<rparr>,
      StateName =
        \<lparr>st_DriverContainer = ''specialresource.openshift.io/driver-container'',
         st_RuntimeEnablement = ''specialresource.openshift.io/runtime-enablement'',
         st_DevicePlugin = ''specialresource.openshift.io/device-plugin'',
         st_DeviceMonitoring = ''specialresource.openshift.io/device-monitoring''\<rparr>,
      ri_SpecialResource = zero_SpecialResource\<rparr>"

lemma set_spec_namespace_simps [simp]:
  "sr_Namespace (set_spec_namespace ns sr) = ns"
  "sr_ObjectMeta (set_spec_namespace ns sr) = sr_ObjectMeta sr"
  "sr_Status (set_spec_namespace ns sr) = sr_Status sr"
  by (simp_all add: set_spec_namespace_def)

lemma set_status_state_simps [simp]:
  "status_State (sr_Status (set_status_state st sr)) = st"
  "sr_ObjectMeta (set_status_state st sr) = sr_ObjectMeta sr"
  "sr_Spec (set_status_state st sr) = sr_Spec sr"
  by (simp_all add: set_status_state_def)

end
