(* ===== verification/Well_Formed.thy ===== *)
theory Well_Formed
  imports Unstructured
begin

text \<open>
  Well-formed values: in a Go map every key has one entry. The association lists that stand for maps
  keep this at every depth through all the setters of \<open>Unstructured\<close>.
\<close>

fun wf_json :: "json \<Rightarrow> bool" where
  "wf_json (JSlice js) \<longleftrightarrow> (\<forall>j \<in> set js. wf_json j)"
| "wf_json (JMap m) \<longleftrightarrow> distinct (map fst m) \<and> (\<forall>kv \<in> set m. wf_json (snd kv))"
| "wf_json j \<longleftrightarrow> True"

text \<open>An object is a map.\<close>

definition wf_obj :: "json \<Rightarrow> bool" where
  "wf_obj j \<longleftrightarrow> (case j of JMap m \<Rightarrow> wf_json j | _ \<Rightarrow> False)"

lemma wf_obj_iff: "wf_obj j \<longleftrightarrow> (\<exists>m. j = JMap m) \<and> wf_json j"
  by (cases j) (simp_all add: wf_obj_def)

named_theorems wf \<open>preservation of well-formedness\<close>

lemma wf_obj_JMap [simp]: "wf_obj (JMap m) \<longleftrightarrow> wf_json (JMap m)"
  by (simp add: wf_obj_iff)

lemma wf_obj_json: "wf_obj j \<Longrightarrow> wf_json j"
  by (simp add: wf_obj_iff)

lemma wf_scalar [wf, simp]:
  "wf_json JNull" "wf_json (JBool b)" "wf_json (JInt i)" "wf_json (JFloat f)" "wf_json (JStr s)"
  by simp_all

lemma wf_entry: "wf_json (JMap m) \<Longrightarrow> map_of m k = Some v \<Longrightarrow> wf_json v"
  by (auto dest: map_of_SomeD)

lemma wf_update [wf]:
  assumes "wf_json (JMap m)" and "wf_json v"
  shows "wf_json (JMap (AList.update k v m))"
proof -
  have "distinct (map fst (AList.update k v m))" using assms(1) by (simp add: distinct_update)
  moreover have "set (AList.update k v m) \<subseteq> insert (k, v) (set m)" by (induction m) auto
  ultimately show ?thesis using assms by auto
qed

lemma wf_delete [wf]:
  assumes "wf_json (JMap m)"
  shows "wf_json (JMap (AList.delete k m))"
proof -
  have "distinct (map fst (AList.delete k m))" using assms by (simp add: distinct_delete)
  moreover have "set (AList.delete k m) \<subseteq> set m" by (induction m) auto
  ultimately show ?thesis using assms by auto
qed

lemma wf_SetNestedField [wf]:
  "SetNestedField obj v p = Inr obj' \<Longrightarrow> wf_json obj \<Longrightarrow> wf_json v \<Longrightarrow> wf_json obj'"
proof (induction obj v p arbitrary: obj' rule: SetNestedField.induct)
  case (1 m v f)
  then show ?case using wf_update[of m v f] by (simp del: wf_json.simps)
next
  case (2 m v f g fs)
  obtain m' j where sub: "map_of m f = None \<and> m' = [] \<or> map_of m f = Some (JMap m')"
    and set: "SetNestedField (JMap m') v (g # fs) = Inr j" and obj': "obj' = JMap (AList.update f j m)"
    using 2(3) by (auto simp: map_sum_def split: option.splits json.splits sum.splits)
  from sub 2(4) have "wf_json (JMap m')" by (auto dest: wf_entry simp del: wf_json.simps(2)) simp
  with sub set 2 have "wf_json j" by blast
  with 2(4) show ?case unfolding obj' by (rule wf_update)
qed simp_all

lemma wf_setNestedField [wf]: "wf_json obj \<Longrightarrow> wf_json v \<Longrightarrow> wf_json (setNestedField obj v p)"
  by (auto simp: setNestedField_def split: sum.split intro: wf_SetNestedField)

lemma wf_RemoveNestedField [wf]: "wf_json obj \<Longrightarrow> wf_json (RemoveNestedField obj p)"
proof (induction obj p rule: RemoveNestedField.induct)
  case (1 m f)
  then show ?case using wf_delete[of m f] by (simp del: wf_json.simps)
next
  case (2 m f g fs)
  show ?case
  proof (cases "\<exists>m'. map_of m f = Some (JMap m')")
    case True
    then obtain m' where m': "map_of m f = Some (JMap m')" ..
    with 2(2) have "wf_json (JMap m')" by (rule wf_entry)
    with 2 m' have "wf_json (RemoveNestedField (JMap m') (g # fs))" by blast
    with 2(2) m' wf_update show ?thesis by (simp del: wf_json.simps)
  next
    case False
    with 2(2) show ?thesis by (auto simp del: wf_json.simps split: option.split json.split)
  qed
qed simp_all

lemma wf_read:
  "NestedFieldNoCopy obj p = NFound v \<Longrightarrow> wf_json obj \<Longrightarrow> wf_json v"
  by (induction obj p rule: NestedFieldNoCopy.induct)
    (auto simp del: wf_json.simps(2) split: option.splits dest: wf_entry)

lemma wf_NestedSlice: "wf_json obj \<Longrightarrow> \<forall>j \<in> set (nested_val [] (NestedSlice obj p)). wf_json j"
  by (cases "NestedFieldNoCopy obj p") (auto simp: NestedSlice_def dest!: wf_read split: json.splits)

section \<open>Setters of objects\<close>

lemma is_map_SetNestedField: "SetNestedField obj v p = Inr obj' \<Longrightarrow> \<exists>m. obj' = JMap m"
  by (induction obj v p rule: SetNestedField.induct) (auto simp: map_sum_def split: option.splits json.splits sum.splits)

lemma wf_obj_SetNestedField: "SetNestedField obj v p = Inr obj' \<Longrightarrow> wf_obj obj \<Longrightarrow> wf_json v \<Longrightarrow> wf_obj obj'"
  by (auto simp: wf_obj_iff dest: is_map_SetNestedField wf_SetNestedField)

lemma wf_obj_SetString: "SetNestedField obj (JStr v) p = Inr obj' \<Longrightarrow> wf_obj obj \<Longrightarrow> wf_obj obj'"
  by (erule wf_obj_SetNestedField) simp_all

lemma wf_obj_setNestedField [wf]: "wf_obj obj \<Longrightarrow> wf_json v \<Longrightarrow> wf_obj (setNestedField obj v p)"
  by (auto simp: setNestedField_def split: sum.split intro: wf_obj_SetNestedField)

lemma wf_obj_RemoveNestedField [wf]: "wf_obj obj \<Longrightarrow> wf_obj (RemoveNestedField obj p)"
  using wf_RemoveNestedField[of obj p]
  by (auto simp: wf_obj_iff) (cases "(obj, p)" rule: RemoveNestedField.cases, auto split: option.splits json.splits)

lemma wf_owner [wf]: "wf_json (owner_ToUnstructured r)"
  by (auto simp: owner_ToUnstructured_def split: option.split)

lemma wf_obj_setters [wf]:
  assumes "wf_obj obj"
  shows "wf_obj (SetAPIVersion obj v)" "wf_obj (SetKind obj v)" "wf_obj (SetNamespace obj v)" "wf_obj (SetName obj v)"
    "wf_obj (SetGroupVersionKind obj gvk)" "wf_obj (SetOwnerReferences obj refs)"
  using assms
  by (simp_all add: SetAPIVersion_def SetKind_def SetNamespace_def SetName_def SetGroupVersionKind_def SetOwnerReferences_def wf)

lemma string_entries_keys: "string_entries m = Some sm \<Longrightarrow> map fst sm = map fst m"
  by (induction m arbitrary: sm rule: string_entries.induct) auto

lemma GetLabels_keys: "GetLabels obj = Some m \<Longrightarrow> wf_json obj \<Longrightarrow> distinct (map fst m)"
  by (auto simp: GetLabels_def strmap_of_def NestedStringMap_def NestedMap_def
      dest!: wf_read string_entries_keys split: nested.splits json.splits option.splits)

lemma wf_SetLabels [wf]: "wf_obj obj \<Longrightarrow> distinct (map fst m) \<Longrightarrow> wf_obj (SetLabels obj m)"
  unfolding SetLabels_def by (rule wf) (auto simp: o_def split_beta)

lemma wf_SetControllerReference:
  "SetControllerReference ns n u gv k obj = Inr obj' \<Longrightarrow> wf_obj obj \<Longrightarrow> wf_obj obj'"
  by (erule SetControllerReference_cases) (simp add: wf)

end
