(* ===== verification/Operator_State.thy ===== *)
theory Operator_State
  imports Api_Types Well_Formed
begin

text \<open>
  The operator's mutable state, its environment, and the client calls through which it acts on
  the cluster.

  The state gathers the reconciler \<open>SpecialResourceReconciler\<close>
  (\<open>src/controllers/specialresource_controller.go\<close>) and the package variables \<open>node\<close>
  (\<open>resources.go\<close>) and \<open>runInfo\<close> (\<open>runtime.go\<close>). The environment stands for what lies outside the
  repository's own code: the API server behind the clients, the container's file system, the
  template, YAML, JSON and regular-expression engines, and the timer. It is a parameter of every
  operation; its functions thread an arbitrary hidden world \<open>'w\<close>, so that they may answer
  differently at every call. \<open>calls\<close> is a history of the requests sent, in order; no operation
  reads it.
\<close>

section \<open>Requests and environment\<close>

record list_opts =
  lo_Namespace :: string
  lo_Labels :: "(string \<times> string) list"

datatype call =
    CGet gvk string string
  | CList string string list_opts
  | CCreate json
  | CUpdate json
  | CListSpecialResources
  | CStatusUpdate SpecialResource
  | CGetClusterVersion string
  | CGetSecret string string
  | CGetLogs string string

datatype log_result = LogOpenErr goerr | LogCopyErr goerr | LogData string

datatype template_result = TParseErr string | TExecErr goerr | TOk string

text \<open>A file-system entry as \<open>lstat\<close> sees it, with what reading it gives.\<close>

datatype fsnode =
    FMissing
  | FErr goerr
  | FDir "goerr + string list"
  | FFile "goerr + string"

text \<open>
  Objects that the API server or a decoder hands out are always maps, so their answers are the
  entries of a map.
\<close>

type_synonym entries = "(string \<times> json) list"

record 'w env =
  api_get :: "gvk \<Rightarrow> string \<Rightarrow> string \<Rightarrow> 'w \<Rightarrow> (goerr + entries) \<times> 'w"
  api_list :: "string \<Rightarrow> string \<Rightarrow> list_opts \<Rightarrow> 'w \<Rightarrow> (goerr + entries list) \<times> 'w"
  api_create :: "json \<Rightarrow> 'w \<Rightarrow> (goerr + entries) \<times> 'w"
  api_update :: "json \<Rightarrow> 'w \<Rightarrow> (goerr + entries) \<times> 'w"
  api_list_sr :: "'w \<Rightarrow> (goerr + SpecialResource list) \<times> 'w"
  api_status_update :: "SpecialResource \<Rightarrow> 'w \<Rightarrow> (goerr + SpecialResource) \<times> 'w"
  api_cluster_version :: "string \<Rightarrow> 'w \<Rightarrow> (goerr + (string \<times> string) list) \<times> 'w"
  api_secret :: "string \<Rightarrow> string \<Rightarrow> 'w \<Rightarrow> (goerr + (string \<times> string) list) \<times> 'w"
  api_logs :: "string \<Rightarrow> string \<Rightarrow> 'w \<Rightarrow> log_result \<times> 'w"
  poll_ticks :: "'w \<Rightarrow> nat \<times> 'w"
  fs :: "string \<Rightarrow> 'w \<Rightarrow> fsnode \<times> 'w"
  template_exec :: "string \<Rightarrow> runtimeInformation \<Rightarrow> template_result"
  yaml_to_json :: "string \<Rightarrow> goerr + string"
  UnmarshalJSON :: "string \<Rightarrow> goerr + entries"
  json_Unmarshal :: "string \<Rightarrow> goerr + entries"
  regexp_MatchString :: "string \<Rightarrow> string \<Rightarrow> bool"

text \<open>
  An environment that hands out well-formed objects: what the server answers to a \<open>Get\<close> or a list,
  and what a document decodes to, has every key once.
\<close>

definition wf_env :: "'w env \<Rightarrow> bool" where
  "wf_env E \<longleftrightarrow>
     (\<forall>k ns n w m. fst (api_get E k ns n w) = Inr m \<longrightarrow> wf_obj (JMap m)) \<and>
     (\<forall>v k opts w ms. fst (api_list E v k opts w) = Inr ms \<longrightarrow> (\<forall>m \<in> set ms. wf_obj (JMap m))) \<and>
     (\<forall>b m. UnmarshalJSON E b = Inr m \<longrightarrow> wf_obj (JMap m))"

section \<open>State\<close>

record 'w sro =
  specialresource :: SpecialResource
  parent :: SpecialResource
  dependency :: SpecialResourceDependency
  node_list :: "json list"
  node_count :: int64
  runInfo :: runtimeInformation
  world :: 'w
  calls :: "call list"

text \<open>The state of a freshly started operator in a given world.\<close>

definition init_sro :: "'w \<Rightarrow> 'w sro" where
  "init_sro w =
     \<lparr>specialresource = zero_SpecialResource, parent = zero_SpecialResource,
      dependency = zero_Dependency, node_list = [], node_count = 0xDEADBEEF,
      runInfo = runInfo_init, world = w, calls = []\<rparr>"

text \<open>Sending a request: it is recorded, and the environment answers and moves on.\<close>

definition request :: "call \<Rightarrow> ('w \<Rightarrow> 'a \<times> 'w) \<Rightarrow> ('w sro, 'a) io" where
  "request c f = (\<lambda>s. case f (world s) of
       (a, w) \<Rightarrow> (Val a, s\<lparr>world := w, calls := calls s @ [c]\<rparr>))"

section \<open>misc.go\<close>

definition exitOnError :: "goerr option \<Rightarrow> ('s, unit) io" where
  "exitOnError err = (if err \<noteq> None then os_Exit else ret ())"

definition exitOnErrorOrNotFound :: "'a nested \<Rightarrow> ('s, 'a) io" where
  "exitOnErrorOrNotFound n = (case n of NErr e \<Rightarrow> os_Exit | NMissing \<Rightarrow> os_Exit | NFound v \<Rightarrow> ret v)"

section \<open>The controller-runtime client on unstructured objects\<close>

text \<open>
  \<open>src/vendor/sigs.k8s.io/controller-runtime/pkg/client/unstructured_client.go\<close>: the request is
  built from the object's group, version and kind; on success the object is overwritten by the
  answer and keeps its group, version and kind. On an error it stays as it was.
\<close>

definition client_Get :: "'w env \<Rightarrow> string \<Rightarrow> string \<Rightarrow> json \<Rightarrow> ('w sro, goerr option \<times> json) io" where
  "client_Get E ns name obj =
     (let k = GroupVersionKind obj in
      bnd (request (CGet k ns name) (api_get E k ns name)) (\<lambda>r.
      case r of Inl e \<Rightarrow> ret (Some e, obj)
              | Inr m \<Rightarrow> ret (None, SetGroupVersionKind (JMap m) k)))"

definition client_Create :: "'w env \<Rightarrow> json \<Rightarrow> ('w sro, goerr option \<times> json) io" where
  "client_Create E obj =
     (let k = GroupVersionKind obj in
      bnd (request (CCreate obj) (api_create E obj)) (\<lambda>r.
      case r of Inl e \<Rightarrow> ret (Some e, obj)
              | Inr m \<Rightarrow> ret (None, SetGroupVersionKind (JMap m) k)))"

definition client_Update :: "'w env \<Rightarrow> json \<Rightarrow> ('w sro, goerr option \<times> json) io" where
  "client_Update E obj =
     (let k = GroupVersionKind obj in
      bnd (request (CUpdate obj) (api_update E obj)) (\<lambda>r.
      case r of Inl e \<Rightarrow> ret (Some e, obj)
              | Inr m \<Rightarrow> ret (None, SetGroupVersionKind (JMap m) k)))"

definition client_List :: "'w env \<Rightarrow> string \<Rightarrow> string \<Rightarrow> list_opts \<Rightarrow> ('w sro, goerr + json list) io" where
  "client_List E apiVersion kind opts =
     bnd (request (CList apiVersion kind opts) (api_list E apiVersion kind opts)) (\<lambda>r.
     ret (map_sum id (map JMap) r))"

definition InNamespace :: "string \<Rightarrow> list_opts" where
  "InNamespace ns = \<lparr>lo_Namespace = ns, lo_Labels = []\<rparr>"

definition MatchingLabels :: "string \<Rightarrow> string \<Rightarrow> list_opts \<Rightarrow> list_opts" where
  "MatchingLabels k v opts = opts\<lparr>lo_Labels := [(k, v)]\<rparr>"

text \<open>A new object of a given API version and kind, as the code builds before a \<open>Get\<close>.\<close>

definition new_object :: "string \<Rightarrow> string \<Rightarrow> json" where
  "new_object apiVersion kind = SetKind (SetAPIVersion (JMap []) apiVersion) kind"

section \<open>Relations kept by every operation\<close>

text \<open>Reading requests: everything but creating, updating and status updates.\<close>

primrec is_read :: "call \<Rightarrow> bool" where
  "is_read (CGet k ns n) = True"
| "is_read (CList v k opts) = True"
| "is_read (CCreate obj) = False"
| "is_read (CUpdate obj) = False"
| "is_read CListSpecialResources = True"
| "is_read (CStatusUpdate sr) = False"
| "is_read (CGetClusterVersion n) = True"
| "is_read (CGetSecret ns n) = True"
| "is_read (CGetLogs ns n) = True"

lemma resp_case_log_result [resp]:
  "(\<And>y. keeps R (f y)) \<Longrightarrow> (\<And>y. keeps R (g y)) \<Longrightarrow> (\<And>y. keeps R (h y)) \<Longrightarrow>
     keeps R (case x of LogOpenErr y \<Rightarrow> f y | LogCopyErr y \<Rightarrow> g y | LogData y \<Rightarrow> h y)"
  by (cases x) simp_all

lemma resp_case_template_result [resp]:
  "(\<And>y. keeps R (f y)) \<Longrightarrow> (\<And>y. keeps R (g y)) \<Longrightarrow> (\<And>y. keeps R (h y)) \<Longrightarrow>
     keeps R (case x of TParseErr y \<Rightarrow> f y | TExecErr y \<Rightarrow> g y | TOk y \<Rightarrow> h y)"
  by (cases x) simp_all

text \<open>The world after a request, and the state after sending it.\<close>

primrec next_world :: "'w env \<Rightarrow> call \<Rightarrow> 'w \<Rightarrow> 'w" where
  "next_world E (CGet k ns n) w = snd (api_get E k ns n w)"
| "next_world E (CList v k opts) w = snd (api_list E v k opts w)"
| "next_world E (CCreate obj) w = snd (api_create E obj w)"
| "next_world E (CUpdate obj) w = snd (api_update E obj w)"
| "next_world E CListSpecialResources w = snd (api_list_sr E w)"
| "next_world E (CStatusUpdate sr) w = snd (api_status_update E sr w)"
| "next_world E (CGetClusterVersion n) w = snd (api_cluster_version E n w)"
| "next_world E (CGetSecret ns n) w = snd (api_secret E ns n w)"
| "next_world E (CGetLogs ns n) w = snd (api_logs E ns n w)"

definition sent :: "'w env \<Rightarrow> call \<Rightarrow> 'w sro \<Rightarrow> 'w sro" where
  "sent E c s = s\<lparr>world := next_world E c (world s), calls := calls s @ [c]\<rparr>"

text \<open>
  The contract between the operations and a relation on operator states, in a given environment.
  \<open>watch\<close> is what every
  operation that only reads the cluster relies on: the relation composes, sending a read request
  keeps it, and so do the assignments to the package variables such an operation makes (other than
  naming the vendor to rebuild), where the nodes are some that the server has listed. The
  components prove, inside the locales, that each of their operations keeps any such relation.
\<close>

locale watch = step_rel R for R :: "'w sro \<Rightarrow> 'w sro \<Rightarrow> bool" +
  fixes E :: "'w env"
  assumes r_read: "is_read c \<Longrightarrow> R s (sent E c s)"
    and r_world: "R s (s\<lparr>world := snd (poll_ticks E (world s))\<rparr>)"
    and r_file: "R s (s\<lparr>world := snd (fs E p (world s))\<rparr>)"
    and r_count: "R s (s\<lparr>node_count := n\<rparr>)"
    and r_nodes: "fst (api_list E v k opts w) = Inr items \<Longrightarrow> R s (s\<lparr>node_list := map JMap items\<rparr>)"
    and r_runInfo: "StateName ri = StateName (runInfo s) \<Longrightarrow> GroupName ri = GroupName (runInfo s) \<Longrightarrow>
        UpdateVendor ri = UpdateVendor (runInfo s) \<Longrightarrow> R s (s\<lparr>runInfo := ri\<rparr>)"
begin

declare resp_rules [resp]

lemma keeps_request: "(\<And>s. R s (sent E c s)) \<Longrightarrow> (\<And>w. snd (f w) = next_world E c w) \<Longrightarrow> keeps R (request c f)"
  by (auto simp: keeps_def request_def sent_def split: prod.split) (metis snd_conv)

lemma keeps_read_requests [resp]:
  "keeps R (request (CGet k ns n) (api_get E k ns n))"
  "keeps R (request (CList v kd opts) (api_list E v kd opts))"
  "keeps R (request CListSpecialResources (api_list_sr E))"
  "keeps R (request (CGetClusterVersion n) (api_cluster_version E n))"
  "keeps R (request (CGetSecret ns n) (api_secret E ns n))"
  "keeps R (request (CGetLogs ns n) (api_logs E ns n))"
  by (rule keeps_request; simp add: r_read)+

lemma keeps_client_Get [resp]: "keeps R (client_Get E ns name obj)"
  unfolding client_Get_def by (auto intro!: resp)

lemma keeps_client_List [resp]: "keeps R (client_List E v k opts)"
  unfolding client_List_def by (auto intro!: resp)

lemma keeps_exitOnError [resp]: "keeps R (exitOnError err)"
  unfolding exitOnError_def by (auto intro!: resp)

lemma keeps_exitOnErrorOrNotFound [resp]: "keeps R (exitOnErrorOrNotFound n)"
  unfolding exitOnErrorOrNotFound_def by (auto intro!: resp)

end

text \<open>
  \<open>operate\<close> adds the updates, where \<open>oku\<close> gives the updated objects that keep the relation, and the
  assignments to the reconciler's own fields. \<open>create\<close> adds the creation of the objects in \<open>okc\<close>, at
  any time; a relation that some creations keep only when they follow a certain answer of the
  server is handled by the locales of \<open>Resources\<close>.
\<close>

locale operate = watch R E for R :: "'w sro \<Rightarrow> 'w sro \<Rightarrow> bool" and E :: "'w env" +
  fixes oku :: "json \<Rightarrow> bool"
  assumes r_update: "oku obj \<Longrightarrow> R s (sent E (CUpdate obj) s)"
    and r_status: "R s (sent E (CStatusUpdate sr) s)"
    and r_sr: "R s (s\<lparr>specialresource := sr\<rparr>)"
    and r_parent: "R s (s\<lparr>parent := sr\<rparr>)"
    and r_dependency: "R s (s\<lparr>dependency := d\<rparr>)"
begin

lemma keeps_update_request [resp]: "oku obj \<Longrightarrow> keeps R (request (CUpdate obj) (api_update E obj))"
  by (rule keeps_request) (simp_all add: r_update)

lemma keeps_client_Update [resp]: "oku obj \<Longrightarrow> keeps R (client_Update E obj)"
  unfolding client_Update_def by (auto intro!: resp)

lemma keeps_status_request [resp]: "keeps R (request (CStatusUpdate sr) (api_status_update E sr))"
  by (rule keeps_request) (simp_all add: r_status)

end

locale create = operate R E oku
  for R :: "'w sro \<Rightarrow> 'w sro \<Rightarrow> bool" and E :: "'w env" and oku :: "json \<Rightarrow> bool" +
  fixes okc :: "json \<Rightarrow> bool"
  assumes r_create: "okc obj \<Longrightarrow> R s (sent E (CCreate obj) s)"
begin

lemma keeps_client_Create [resp]: "okc obj \<Longrightarrow> keeps R (client_Create E obj)"
  unfolding client_Create_def Let_def
  by (intro resp keeps_request) (simp_all add: r_create)

end

text \<open>\<open>sends P\<close> relates two states when the second's history extends the first's by requests in \<open>P\<close>.\<close>

definition sends :: "(call \<Rightarrow> bool) \<Rightarrow> 'w sro \<Rightarrow> 'w sro \<Rightarrow> bool" where
  "sends P s t \<longleftrightarrow> (\<exists>cs. calls t = calls s @ cs \<and> list_all P cs)"

lemma sends_refl: "sends P s s" and sends_trans: "sends P s t \<Longrightarrow> sends P t u \<Longrightarrow> sends P s u"
  by (auto simp: sends_def)

text \<open>Reading operations send read requests only.\<close>

interpretation reads: watch "sends is_read" E for E :: "'w env"
  by unfold_locales (auto simp: sends_def sent_def)

section \<open>One-step evaluation\<close>

lemma request_apply [io_simps]:
  "request c f s = (Val (fst (f (world s))), s\<lparr>world := snd (f (world s)), calls := calls s @ [c]\<rparr>)"
  by (simp add: request_def split: prod.split)

lemma exitOnError_simps [simp]:
  "exitOnError None = ret ()" "exitOnError (Some e) = os_Exit"
  by (simp_all add: exitOnError_def)

lemma exitOnErrorOrNotFound_simps [simp]:
  "exitOnErrorOrNotFound (NErr e) = os_Exit"
  "exitOnErrorOrNotFound NMissing = os_Exit"
  "exitOnErrorOrNotFound (NFound v) = ret v"
  by (simp_all add: exitOnErrorOrNotFound_def)

section \<open>A concrete environment\<close>

text \<open>
  An empty cluster, to run the operations on: nothing is found, lists are empty, writes are
  accepted and echoed, no file exists, templates are copied through, and a log matches a pattern it
  contains.
\<close>

definition echo :: "json \<Rightarrow> unit \<Rightarrow> (goerr + entries) \<times> unit" where
  "echo obj w = (case obj of JMap m \<Rightarrow> Inr m | _ \<Rightarrow> Inl (Fundamental ''no object''), w)"

definition bare_env :: "unit env" where
  "bare_env =
     \<lparr>api_get = \<lambda>k ns n w. (Inl (StatusError ''NotFound'' n), w),
      api_list = \<lambda>v k opts w. (Inr [], w),
      api_create = echo, api_update = echo,
      api_list_sr = \<lambda>w. (Inr [], w),
      api_status_update = \<lambda>sr w. (Inr sr, w),
      api_cluster_version = \<lambda>n w. (Inr [], w),
      api_secret = \<lambda>ns n w. (Inr [], w),
      api_logs = \<lambda>ns n w. (LogData [], w),
      poll_ticks = \<lambda>w. (0, w),
      fs = \<lambda>p w. (FMissing, w),
      template_exec = \<lambda>spec ri. TOk spec,
      yaml_to_json = Inr,
      UnmarshalJSON = \<lambda>b. Inl (Fundamental ''invalid''),
      json_Unmarshal = \<lambda>b. Inl (Fundamental ''invalid''),
      regexp_MatchString = \<lambda>p b. strings_Contains b p\<rparr>"

lemma bare_env_simps [simp]:
  "api_get bare_env k ns n w = (Inl (StatusError ''NotFound'' n), w)"
  "api_list bare_env v kd opts w = (Inr [], w)"
  "api_create bare_env = echo" "api_update bare_env = echo"
  "api_list_sr bare_env w = (Inr [], w)"
  "api_status_update bare_env sr w = (Inr sr, w)"
  "poll_ticks bare_env w = (0, w)"
  "template_exec bare_env spec ri = TOk spec"
  "yaml_to_json bare_env y = Inr y"
  by (simp_all add: bare_env_def)

end
