(* ===== verification/Runtime_Info.thy ===== *)
theory Runtime_Info
  imports Operator_State
begin

text \<open>
  Facts about the cluster that manifests are templated with, and the proxy settings:
  \<open>src/controllers/runtime.go\<close>.
\<close>

section \<open>Operating system and kernel\<close>

definition os_label :: string where
  "os_label = ''feature.node.kubernetes.io/system-os_release''"

definition renderOperatingSystem :: "string \<Rightarrow> string \<Rightarrow> string \<Rightarrow> string \<times> string \<times> string" where
  "renderOperatingSystem rel maj minor =
     (if rel = ''rhcos'' then
        (let rel = ''rhel''; num = strconv_Atoi minor in
         if maj = ''4'' \<and> num < 4 then
           (let maj = ''8'' in (rel @ maj, rel @ maj @ ''.0'', maj @ ''.0''))
         else if maj = ''4'' \<and> minor = ''4'' then
           (let maj = ''8'' in (rel @ maj, rel @ maj @ ''.1'', maj @ ''.1''))
         else if maj = ''4'' \<and> minor = ''5'' then
           (let maj = ''8'' in (rel @ maj, rel @ maj @ ''.2'', maj @ ''.2''))
         else
           (let maj = ''8'' in (rel @ maj, rel @ maj @ ''.2'', maj @ ''.2'')))
      else if minor = [] then (rel @ maj, rel @ maj, maj)
      else (rel @ maj, rel @ maj @ ''.'' @ minor, maj @ ''.'' @ minor))"

text \<open>The loops over the nodes look at the first node only (\<open>break\<close> at the end of the body).\<close>

definition getOperatingSystem :: "json list \<Rightarrow> goerr + (string \<times> string \<times> string)" where
  "getOperatingSystem nodes = (case nodes of
       [] \<Rightarrow> Inr (renderOperatingSystem [] [] [])
     | node # _ \<Rightarrow>
         (let labels = GetLabels node;
              nodeOSrel = lookup0 labels (os_label @ ''.ID'');
              nodeOSmaj = lookup0 labels (os_label @ ''.VERSION_ID.major'');
              nodeOSmin = lookup0 labels (os_label @ ''.VERSION_ID.minor'')
          in if nodeOSrel = [] \<or> nodeOSmaj = [] then
               Inl (Fundamental (''Cannot extract '' @ os_label @ ''.*, is NFD running? Check node labels''))
             else Inr (renderOperatingSystem nodeOSrel nodeOSmaj nodeOSmin)))"

definition kernel_label :: string where
  "kernel_label = ''feature.node.kubernetes.io/kernel-version.full''"

definition getKernelVersion :: "json list \<Rightarrow> goerr + string" where
  "getKernelVersion nodes = (case nodes of
       [] \<Rightarrow> Inr []
     | node # _ \<Rightarrow> (case lookup (GetLabels node) kernel_label of
           None \<Rightarrow> Inl (Fundamental (''Label '' @ kernel_label @ '' not found is NFD running? Check node labels''))
         | Some v \<Rightarrow> Inr v))"

section \<open>Cluster version\<close>

text \<open>The update history is a list of states and versions.\<close>

definition major_minor :: "string \<Rightarrow> string" where
  "major_minor version =
     (let s = split_char (CHR ''.'') version in
      if length s > 1 then s ! 0 @ ''.'' @ s ! 1 else s ! 0)"

fun completed_version :: "(string \<times> string) list \<Rightarrow> goerr + (string \<times> string)" where
  "completed_version [] = Inl (Fundamental ''Undefined Cluster Version'')"
| "completed_version ((state, version) # history) =
     (if state \<noteq> ''Completed'' then completed_version history
      else Inr (version, major_minor version))"

definition getClusterVersion :: "'w env \<Rightarrow> ('w sro, goerr + (string \<times> string)) io" where
  "getClusterVersion E =
     bnd (request (CGetClusterVersion ''version'') (api_cluster_version E ''version'')) (\<lambda>r.
     case r of
       Inl e \<Rightarrow> ret (Inl (WithMessage ''ConfigClient unable to get ClusterVersions'' e))
     | Inr history \<Rightarrow> ret (completed_version history))"

section \<open>Push secret and OS image\<close>

fun find_secret :: "json list \<Rightarrow> goerr + string" where
  "find_secret [] = Inl (Fundamental ''Cannot find Secret builder-dockercfg'')"
| "find_secret (secret # secrets) =
     (if strings_Contains (GetName secret) ''builder-dockercfg'' then Inr (GetName secret)
      else find_secret secrets)"

definition getPushSecretName :: "'w env \<Rightarrow> ('w sro, goerr + string) io" where
  "getPushSecretName E =
     bnd (gets (\<lambda>s. sr_Namespace (specialresource s))) (\<lambda>ns.
     bnd (client_List E ''v1'' ''SecretList'' (InNamespace ns)) (\<lambda>r.
     case r of
       Inl e \<Rightarrow> ret (Inl (WithMessage ''Client cannot get SecretList'' e))
     | Inr items \<Rightarrow> ret (find_secret items)))"

definition getOSImageURL :: "'w env \<Rightarrow> ('w sro, goerr + string) io" where
  "getOSImageURL E =
     bnd (client_Get E ''openshift-machine-config-operator'' ''machine-config-osimageurl''
            (new_object ''v1'' ''ConfigMap'')) (\<lambda>(err, cm).
     if IsNotFound err then
       ret (Inl (WithMessage
         ''ConfigMap machine-config-osimageurl -n  openshift-machine-config-operator not found'' (the err)))
     else bnd (exitOnErrorOrNotFound (NestedString cm [''data'', ''osImageURL''])) (\<lambda>osImageURL.
          ret (Inr osImageURL)))"

section \<open>Proxy\<close>

text \<open>On an error or a missing field the struct field is the empty string.\<close>

definition proxy_of :: "json \<Rightarrow> proxyConfiguration" where
  "proxy_of cfg =
     \<lparr>HttpProxy = nested_val [] (NestedString cfg [''spec'', ''httpProxy'']),
      HttpsProxy = nested_val [] (NestedString cfg [''spec'', ''httpsProxy'']),
      NoProxy = nested_val [] (NestedString cfg [''spec'', ''noProxy'']),
      TrustedCA = nested_val [] (NestedString cfg [''spec'', ''trustedCA'', ''name''])\<rparr>"

fun cluster_proxy :: "proxyConfiguration \<Rightarrow> json list \<Rightarrow> proxyConfiguration" where
  "cluster_proxy proxy [] = proxy"
| "cluster_proxy proxy (cfg # cfgs) =
     cluster_proxy (if strings_Contains (GetName cfg) ''cluster'' then proxy_of cfg else proxy) cfgs"

definition getProxyConfiguration :: "'w env \<Rightarrow> ('w sro, goerr + proxyConfiguration) io" where
  "getProxyConfiguration E =
     bnd (client_List E ''config.openshift.io/v1'' ''ProxyList'' (InNamespace [])) (\<lambda>r.
     case r of
       Inl e \<Rightarrow> ret (Inl (WithMessage ''Client cannot get ProxyList'' e))
     | Inr items \<Rightarrow> ret (Inr (cluster_proxy zero_proxy items)))"

text \<open>
  \<open>setupContainersProxy\<close> appends three environment variables to the first container, in place;
  the model returns the changed slice. It never returns an error.
\<close>

definition proxy_env :: "proxyConfiguration \<Rightarrow> json list" where
  "proxy_env px =
     [JMap [(''name'', JStr ''HTTP_PROXY''), (''value'', JStr (HttpProxy px))],
      JMap [(''name'', JStr ''HTTPS_PROXY''), (''value'', JStr (HttpsProxy px))],
      JMap [(''name'', JStr ''NO_PROXY''), (''value'', JStr (NoProxy px))]]"

definition setupContainersProxy :: "json list \<Rightarrow> ('w sro, json list) io" where
  "setupContainersProxy containers = (case containers of
       [] \<Rightarrow> ret []
     | container # cs \<Rightarrow>
         (case container of
            JMap m \<Rightarrow>
              (case NestedSlice container [''env''] of
                 NErr e \<Rightarrow> os_Exit
               | n \<Rightarrow>
                   bnd (gets (\<lambda>s. Proxy (runInfo s))) (\<lambda>px.
                   case SetNestedField container (JSlice (nested_val [] n @ proxy_env px)) [''env''] of
                     Inl e \<Rightarrow> ret (container # cs)
                   | Inr container' \<Rightarrow> ret (container' # cs)))
          | _ \<Rightarrow> ret (container # cs)))"

text \<open>
  \<open>NestedSlice\<close> hands out a deep copy of the containers. The callers change that copy and let it
  go out of scope, so the object they return is the one they were given.
\<close>

definition setupDaemonSetProxy :: "json \<Rightarrow> ('w sro, goerr option \<times> json) io" where
  "setupDaemonSetProxy obj =
     bnd (exitOnErrorOrNotFound (NestedSlice obj [''spec'', ''template'', ''spec'', ''containers''])) (\<lambda>containers.
     bnd (setupContainersProxy containers) (\<lambda>_. ret (None, obj)))"

definition setupPodProxy :: "json \<Rightarrow> ('w sro, goerr option \<times> json) io" where
  "setupPodProxy obj =
     bnd (exitOnErrorOrNotFound (NestedSlice obj [''spec'', ''containers''])) (\<lambda>containers.
     bnd (setupContainersProxy containers) (\<lambda>_. ret (None, obj)))"

definition setupProxy :: "json \<Rightarrow> ('w sro, goerr option \<times> json) io" where
  "setupProxy obj =
     bnd (if GetKind obj = ''Pod'' then setupPodProxy obj else ret (None, obj)) (\<lambda>(err, obj).
     case err of
       Some e \<Rightarrow> ret (Some (WithMessage ''Cannot setup Pod Proxy'' e), obj)
     | None \<Rightarrow>
         bnd (if GetKind obj = ''DaemonSet'' then setupDaemonSetProxy obj else ret (None, obj)) (\<lambda>(err, obj).
         case err of
           Some e \<Rightarrow> ret (Some (WithMessage ''Cannot setup DaemonSet Proxy'' e), obj)
         | None \<Rightarrow> ret (None, obj)))"

section \<open>Collecting the runtime information\<close>

text \<open>\<open>x, err = f(); exitOnError(errs.Wrap(err, msg))\<close>\<close>

definition must :: "goerr + 'a \<Rightarrow> ('s, 'a) io" where
  "must r = (case r of Inl e \<Rightarrow> os_Exit | Inr x \<Rightarrow> ret x)"

definition set_runInfo :: "(runtimeInformation \<Rightarrow> runtimeInformation) \<Rightarrow> ('w sro, unit) io" where
  "set_runInfo f = modify (\<lambda>s. s\<lparr>runInfo := f (runInfo s)\<rparr>)"

definition getRuntimeInformation :: "'w env \<Rightarrow> ('w sro, unit) io" where
  "getRuntimeInformation E =
     bnd (gets node_list) (\<lambda>nodes.
     bnd (must (getOperatingSystem nodes)) (\<lambda>(maj, majmin, dec).
     bnd (set_runInfo (\<lambda>ri. ri\<lparr>OperatingSystemMajor := maj, OperatingSystemMajorMinor := majmin,
                               OperatingSystemDecimal := dec\<rparr>)) (\<lambda>_.
     bnd (must (getKernelVersion nodes)) (\<lambda>kernel.
     bnd (set_runInfo (\<lambda>ri. ri\<lparr>KernelVersion := kernel\<rparr>)) (\<lambda>_.
     bnd (bnd (getClusterVersion E) must) (\<lambda>(version, majorMinor).
     bnd (set_runInfo (\<lambda>ri. ri\<lparr>ClusterVersion := version, ClusterVersionMajorMinor := majorMinor\<rparr>)) (\<lambda>_.
     bnd (bnd (getPushSecretName E) must) (\<lambda>secret.
     bnd (set_runInfo (\<lambda>ri. ri\<lparr>PushSecretName := secret\<rparr>)) (\<lambda>_.
     bnd (bnd (getOSImageURL E) must) (\<lambda>url.
     bnd (set_runInfo (\<lambda>ri. ri\<lparr>OSImageURL := url\<rparr>)) (\<lambda>_.
     bnd (bnd (getProxyConfiguration E) must) (\<lambda>proxy.
     bnd (set_runInfo (\<lambda>ri. ri\<lparr>Proxy := proxy\<rparr>)) (\<lambda>_.
     bnd (gets specialresource) (\<lambda>sr.
     set_runInfo (\<lambda>ri. ri\<lparr>ri_SpecialResource := sr\<rparr>)))))))))))))))"

section \<open>What the operations keep\<close>

context watch
begin

lemma keeps_set_runInfo [resp]:
  "(\<And>ri. StateName (f ri) = StateName ri) \<Longrightarrow> (\<And>ri. GroupName (f ri) = GroupName ri) \<Longrightarrow>
     (\<And>ri. UpdateVendor (f ri) = UpdateVendor ri) \<Longrightarrow> keeps R (set_runInfo f)"
  unfolding set_runInfo_def by (auto intro!: resp_modify r_runInfo)

lemma keeps_must [resp]: "keeps R (must r)"
  unfolding must_def by (auto intro!: resp)

lemma keeps_getClusterVersion [resp]: "keeps R (getClusterVersion E)"
  unfolding getClusterVersion_def by (auto intro!: resp)

lemma keeps_getPushSecretName [resp]: "keeps R (getPushSecretName E)"
  unfolding getPushSecretName_def by (auto intro!: resp)

lemma keeps_getOSImageURL [resp]: "keeps R (getOSImageURL E)"
  unfolding getOSImageURL_def by (auto intro!: resp)

lemma keeps_getProxyConfiguration [resp]: "keeps R (getProxyConfiguration E)"
  unfolding getProxyConfiguration_def by (auto intro!: resp)

lemma keeps_getRuntimeInformation [resp]: "keeps R (getRuntimeInformation E)"
  unfolding getRuntimeInformation_def by (intro resp) simp_all

lemma keeps_setupContainersProxy [resp]: "keeps R (setupContainersProxy cs)"
  unfolding setupContainersProxy_def by (intro resp)

lemma keeps_setupProxy [resp]: "keeps R (setupProxy obj)"
  unfolding setupProxy_def setupPodProxy_def setupDaemonSetProxy_def by (intro resp)

end

section \<open>Helper lemmas\<close>

lemma decimal_eq_iff: "n < 2 ^ 63 \<Longrightarrow> m < 2 ^ 63 \<Longrightarrow> decimal n = decimal m \<longleftrightarrow> n = m"
  by (metis Atoi_decimal of_nat_eq_iff)

lemma decimal_digits: "decimal 0 = ''0''" "decimal 1 = ''1''" "decimal 2 = ''2''" "decimal 4 = ''4''" "decimal 5 = ''5''"
  by code_simp+

lemma completed_version_find:
  "completed_version history = (case find (\<lambda>(state, version). state = ''Completed'') history of
     None \<Rightarrow> Inl (Fundamental ''Undefined Cluster Version'')
   | Some (state, version) \<Rightarrow> Inr (version, major_minor version))"
  by (induction history rule: completed_version.induct) auto

lemma find_secret_find:
  "find_secret items = (case find (\<lambda>i. strings_Contains (GetName i) ''builder-dockercfg'') items of
     None \<Rightarrow> Inl (Fundamental ''Cannot find Secret builder-dockercfg'')
   | Some i \<Rightarrow> Inr (GetName i))"
  by (induction items) auto

lemma cluster_proxy_append: "cluster_proxy p (xs @ ys) = cluster_proxy (cluster_proxy p xs) ys"
  by (induction xs arbitrary: p) auto

lemma cluster_proxy_last:
  "cluster_proxy p cfgs = (case find (\<lambda>c. strings_Contains (GetName c) ''cluster'') (rev cfgs) of
     None \<Rightarrow> p | Some c \<Rightarrow> proxy_of c)"
  by (induction cfgs rule: rev_induct) (auto simp: cluster_proxy_append)

lemma join_char_Cons: "ps \<noteq> [] \<Longrightarrow> join_char sep (p # ps) = p @ sep # join_char sep ps"
  by (cases ps) auto

section \<open>Properties\<close>

text \<open>
  The three forms of the operating system agree: the second is the release name followed by the
  third, the first is the release name followed by the major version, and the third is the major
  version, alone or with a dot and a minor version behind it. For RHCOS the names are those of RHEL 8.
\<close>

lemma renderOperatingSystem_consistent:
  "case renderOperatingSystem rel maj minor of (major, majorMinor, dec) \<Rightarrow>
     (let r = (if rel = ''rhcos'' then ''rhel'' else rel); m = (if rel = ''rhcos'' then ''8'' else maj) in
      major = r @ m \<and> majorMinor = r @ dec \<and> (dec = m \<or> (\<exists>d. d \<noteq> [] \<and> dec = m @ ''.'' @ d)))"
  by (auto simp: renderOperatingSystem_def Let_def)

text \<open>
  RHCOS 4.n is rendered as RHEL 8.0 below 4.4, as RHEL 8.1 for 4.4 and as RHEL 8.2 from 4.5 on,
  for every minor version in the range of a 64-bit integer.
\<close>

lemma renderOperatingSystem_rhcos:
  assumes "n < 2 ^ 63"
  shows "renderOperatingSystem ''rhcos'' ''4'' (decimal n) =
    (''rhel8'', ''rhel8.'' @ decimal (min (n - 3) 2), ''8.'' @ decimal (min (n - 3) 2))"
proof -
  have 4: "decimal n = ''4'' \<longleftrightarrow> n = 4"
    using decimal_eq_iff[OF assms, of 4] by (simp add: decimal_digits)
  consider "n \<le> 3" | "n = 4" | "n \<ge> 5" by linarith
  then show ?thesis
  proof cases
    case 1
    then show ?thesis using assms by (simp add: renderOperatingSystem_def Atoi_decimal decimal_digits)
  next
    case 2
    then show ?thesis
      using 4 assms Atoi_decimal[OF assms] decimal_digits by (simp add: renderOperatingSystem_def)
  next
    case 3
    then have "min (n - 3) 2 = 2" by simp
    then show ?thesis
      using 3 4 assms Atoi_decimal[OF assms] decimal_digits by (simp add: renderOperatingSystem_def)
  qed
qed

text \<open>
  The cluster version is that of the first history entry that is completed, and the short form
  given with it is its beginning up to the second dot. One request is sent.
\<close>

lemma getClusterVersion_first_completed:
  "\<exists>w. getClusterVersion E s =
     (Val (case fst (api_cluster_version E ''version'' (world s)) of
             Inl e \<Rightarrow> Inl (WithMessage ''ConfigClient unable to get ClusterVersions'' e)
           | Inr history \<Rightarrow> (case find (\<lambda>(state, version). state = ''Completed'') history of
                 None \<Rightarrow> Inl (Fundamental ''Undefined Cluster Version'')
               | Some (state, version) \<Rightarrow> Inr (version, major_minor version))),
      s\<lparr>world := w, calls := calls s @ [CGetClusterVersion ''version'']\<rparr>)"
  by (rule exI[of _ "snd (api_cluster_version E ''version'' (world s))"])
    (auto simp: getClusterVersion_def io_simps completed_version_find split: sum.split)

text \<open>
  The short form of a version is its longest beginning with at most one dot that ends at the end
  or in front of a dot.
\<close>

lemma major_minor_prefix:
  "\<exists>rest. version = major_minor version @ rest \<and>
     count_list (major_minor version) (CHR ''.'') = min 1 (count_list version (CHR ''.'')) \<and>
     (rest = [] \<or> hd rest = CHR ''.'')"
proof -
  have j: "join_char (CHR ''.'') (split_char (CHR ''.'') version) = version" by (rule join_split_char)
  have no: "count_list p (CHR ''.'') = 0" if "p \<in> set (split_char (CHR ''.'') version)" for p
    using split_char_no_sep[OF that] by (simp add: count_list_0_iff)
  consider p where "split_char (CHR ''.'') version = [p]"
    | p q where "split_char (CHR ''.'') version = [p, q]"
    | p q r rs where "split_char (CHR ''.'') version = p # q # r # rs"
    by (metis list.exhaust split_char_not_Nil)
  then show ?thesis
  proof cases
    case 1
    with j no[of p] show ?thesis by (auto simp: major_minor_def)
  next
    case 2
    with j no[of p] no[of q] show ?thesis
      by (auto simp: major_minor_def join_char_Cons intro!: exI[of _ "[]"])
  next
    case 3
    with j have v: "version = p @ ''.'' @ q @ ''.'' @ join_char (CHR ''.'') (r # rs)" by simp
    have m: "major_minor version = p @ ''.'' @ q" using 3 by (simp add: major_minor_def)
    show ?thesis
      unfolding m using v no[of p] no[of q] 3
      by (intro exI[of _ "''.'' @ join_char (CHR ''.'') (r # rs)"]) simp
  qed
qed

text \<open>
  The push secret is the first one listed in the resource's namespace whose name contains
  \<open>builder-dockercfg\<close>, and without one there is an error.
\<close>

lemma getPushSecretName_first:
  "fst (getPushSecretName E s) = Val
     (case fst (api_list E ''v1'' ''SecretList'' (InNamespace (sr_Namespace (specialresource s))) (world s)) of
        Inl e \<Rightarrow> Inl (WithMessage ''Client cannot get SecretList'' e)
      | Inr items \<Rightarrow>
          (case find (\<lambda>n. \<exists>a b. n = a @ ''builder-dockercfg'' @ b) (map (\<lambda>i. GetName (JMap i)) items) of
             None \<Rightarrow> Inl (Fundamental ''Cannot find Secret builder-dockercfg'')
           | Some n \<Rightarrow> Inr n))"
proof -
  have "find P (map f xs) = map_option f (find (\<lambda>x. P (f x)) xs)" for P :: "string \<Rightarrow> bool" and f :: "entries \<Rightarrow> string" and xs
    by (induction xs) auto
  moreover have "find P (map f xs) = map_option f (find (\<lambda>x. P (f x)) xs)" for P :: "json \<Rightarrow> bool" and f :: "entries \<Rightarrow> json" and xs
    by (induction xs) auto
  ultimately show ?thesis
    by (auto simp: getPushSecretName_def client_List_def io_simps find_secret_find strings_Contains_iff
        split: sum.split option.split)
qed

text \<open>
  The proxy settings are those of the last listed proxy object whose name contains \<open>cluster\<close>,
  and empty without one; only a failing list is an error.
\<close>

lemma getProxyConfiguration_last:
  "fst (getProxyConfiguration E s) = Val
     (case fst (api_list E ''config.openshift.io/v1'' ''ProxyList'' (InNamespace []) (world s)) of
        Inl e \<Rightarrow> Inl (WithMessage ''Client cannot get ProxyList'' e)
      | Inr items \<Rightarrow>
          Inr (case find (\<lambda>c. \<exists>a b. GetName c = a @ ''cluster'' @ b) (rev (map JMap items)) of
                 None \<Rightarrow> zero_proxy | Some c \<Rightarrow> proxy_of c))"
  by (auto simp: getProxyConfiguration_def client_List_def io_simps cluster_proxy_last strings_Contains_iff
      rev_map split: sum.split)


text \<open>
  \<open>setupContainersProxy\<close>, on the slice it is given, appends the three proxy variables to the
  environment of the first container, which may be missing, and leaves the other containers alone.
\<close>

lemma setupContainersProxy_appends:
  assumes "\<not> (\<exists>e. NestedSlice (JMap m) [''env''] = NErr e)"
  shows "\<exists>m'. setupContainersProxy (JMap m # cs) s = (Val (JMap m' # cs), s) \<and>
    NestedSlice (JMap m') [''env''] =
      NFound (nested_val [] (NestedSlice (JMap m) [''env'']) @ proxy_env (Proxy (runInfo s))) \<and>
    (\<forall>k. k \<noteq> ''env'' \<longrightarrow> map_of m' k = map_of m k)"
  using assms
  by (intro exI[of _ "AList.update ''env'' (JSlice (nested_val [] (NestedSlice (JMap m) [''env'']) @
        proxy_env (Proxy (runInfo s)))) m"])
    (auto simp: setupContainersProxy_def io_simps NestedSlice_def update_conv split: nested.splits)

lemma must_Val_iff [simp]: "must r s = (Val x, t) \<longleftrightarrow> r = Inr x \<and> t = s"
  by (auto simp: must_def split: sum.splits)

lemma set_runInfo_Val_iff [simp]: "set_runInfo f s = (Val x, t) \<longleftrightarrow> t = s\<lparr>runInfo := f (runInfo s)\<rparr>"
  by (auto simp: set_runInfo_def modify_def)

lemma gets_Val_iff [simp]: "gets f s = (Val x, t) \<longleftrightarrow> x = f s \<and> t = s"
  by (auto simp: gets_def)

text \<open>Each of the queries sends one request and changes nothing else.\<close>

lemma query_requests:
  "getClusterVersion E s = (r1, t) \<Longrightarrow> \<exists>w. t = s\<lparr>world := w, calls := calls s @ [CGetClusterVersion ''version'']\<rparr>"
  "getPushSecretName E s = (r2, t) \<Longrightarrow>
     \<exists>w. t = s\<lparr>world := w, calls := calls s @ [CList ''v1'' ''SecretList'' (InNamespace (sr_Namespace (specialresource s)))]\<rparr>"
  "getOSImageURL E s = (r3, t) \<Longrightarrow>
     \<exists>w. t = s\<lparr>world := w, calls := calls s @ [CGet (GroupVersionKind (new_object ''v1'' ''ConfigMap''))
       ''openshift-machine-config-operator'' ''machine-config-osimageurl'']\<rparr>"
  "getProxyConfiguration E s = (r4, t) \<Longrightarrow>
     \<exists>w. t = s\<lparr>world := w, calls := calls s @ [CList ''config.openshift.io/v1'' ''ProxyList'' (InNamespace [])]\<rparr>"
  by (auto simp: getClusterVersion_def getPushSecretName_def getOSImageURL_def getProxyConfiguration_def
      client_List_def client_Get_def Let_def exitOnErrorOrNotFound_def io_simps
      split: sum.splits if_splits nested.splits)

text \<open>
  C35: when \<open>getRuntimeInformation\<close> returns, it has sent exactly the four queries, in the order of the
  code; operating system and kernel come from the cached nodes, the custom resource has been copied,
  and everything else of the state, the vendor to rebuild included, is as before.
\<close>

theorem getRuntimeInformation_returns:
  assumes "getRuntimeInformation E s = (Val (), t)"
  shows "calls t = calls s @
      [CGetClusterVersion ''version'',
       CList ''v1'' ''SecretList'' (InNamespace (sr_Namespace (specialresource s))),
       CGet (GroupVersionKind (new_object ''v1'' ''ConfigMap''))
         ''openshift-machine-config-operator'' ''machine-config-osimageurl'',
       CList ''config.openshift.io/v1'' ''ProxyList'' (InNamespace [])] \<and>
    getOperatingSystem (node_list s) = Inr (OperatingSystemMajor (runInfo t),
      OperatingSystemMajorMinor (runInfo t), OperatingSystemDecimal (runInfo t)) \<and>
    getKernelVersion (node_list s) = Inr (KernelVersion (runInfo t)) \<and>
    ri_SpecialResource (runInfo t) = specialresource s \<and>
    UpdateVendor (runInfo t) = UpdateVendor (runInfo s) \<and>
    t = s\<lparr>runInfo := runInfo t, world := world t, calls := calls t\<rparr>"
  using assms unfolding getRuntimeInformation_def
  by (elim bnd_ValE) (clarsimp elim!: bnd_ValE dest!: query_requests)

definition sample_query_env :: "unit env" where
  "sample_query_env = bare_env
     \<lparr>api_cluster_version := \<lambda>n w. (Inr [(''Partial'', ''4.7.0''), (''Completed'', ''4.6.1'')], w),
      api_list := \<lambda>v k opts w. (Inr [[(''metadata'', JMap [(''name'', JStr ''builder-dockercfg-x'')])]], w),
      api_get := \<lambda>k ns n w. (Inr [(''data'', JMap [(''osImageURL'', JStr ''quay'')])], w)\<rparr>"

lemma sample_queries:
  "\<exists>t. getClusterVersion sample_query_env s = (Val (Inr (''4.6.1'', ''4.6'')), t)"
  "\<exists>t. getPushSecretName sample_query_env s = (Val (Inr ''builder-dockercfg-x''), t)"
  "\<exists>t. getOSImageURL sample_query_env s = (Val (Inr ''quay''), t)"
  "\<exists>t. getProxyConfiguration sample_query_env s = (Val (Inr zero_proxy), t)"
  by (simp_all add: getClusterVersion_def getPushSecretName_def getOSImageURL_def getProxyConfiguration_def
      client_List_def client_Get_def Let_def sample_query_env_def io_simps major_minor_def
      GetName_def getNestedString_def NestedString_def SetGroupVersionKind_def SetKind_def SetAPIVersion_def
      setNestedField_def)

theorem getRuntimeInformation_returns_witness:
  "length (calls (snd (getRuntimeInformation sample_query_env (init_sro ())))) = 4 \<and>
   UpdateVendor (runInfo (snd (getRuntimeInformation sample_query_env (init_sro ())))) = []"
proof -
  let ?r = "getRuntimeInformation sample_query_env (init_sro ())"
  have "\<exists>t. ?r = (Val (), t)"
    by (simp add: getRuntimeInformation_def bnd_Val_iff getOperatingSystem_def getKernelVersion_def
        renderOperatingSystem_def init_sro_def split_paired_Ex)
      (metis sample_queries)
  then have "?r = (Val (), snd ?r)" by (metis prod.collapse snd_conv)
  from getRuntimeInformation_returns[OF this] show ?thesis by (simp add: init_sro_def runInfo_init_def)
qed

end
