(* ===== verification/Wait_For.thy ===== *)
theory Wait_For
  imports Runtime_Info
begin

text \<open>
  Waiting for resources: \<open>src/controllers/waitfor.go\<close>, over \<open>wait.Poll\<close> of
  \<open>src/vendor/k8s.io/apimachinery/pkg/util/wait/wait.go\<close>.
\<close>

section \<open>wait.Poll\<close>

text \<open>
  \<open>WaitFor\<close> evaluates the condition once for every tick the poller delivers and once more when the
  timeout closes the channel; then it gives up. How many ticks get through before the timeout
  depends on the clock, so it is the environment that says it.
\<close>

type_synonym 's condition = "('s, bool \<times> goerr option) io"

primrec poll_loop :: "nat \<Rightarrow> 's condition \<Rightarrow> ('s, goerr option) io" where
  "poll_loop 0 cond =
     bnd cond (\<lambda>(ok, err).
     case err of Some e \<Rightarrow> ret (Some e)
     | None \<Rightarrow> if ok then ret None else ret (Some ErrWaitTimeout))"
| "poll_loop (Suc n) cond =
     bnd cond (\<lambda>(ok, err).
     case err of Some e \<Rightarrow> ret (Some e)
     | None \<Rightarrow> if ok then ret None else poll_loop n cond)"

definition tick_count :: "'w env \<Rightarrow> ('w sro, nat) io" where
  "tick_count E = (\<lambda>s. case poll_ticks E (world s) of (n, w) \<Rightarrow> (Val n, s\<lparr>world := w\<rparr>))"

definition Poll :: "'w env \<Rightarrow> 'w sro condition \<Rightarrow> ('w sro, goerr option) io" where
  "Poll E cond = bnd (tick_count E) (\<lambda>n. poll_loop n cond)"

section \<open>controllers/waitfor.go\<close>

type_synonym 'w statusCallback = "json \<Rightarrow> ('w sro, bool) io"

text \<open>The dynamic types \<open>makeStatusCallback\<close> distinguishes; anything else panics.\<close>

datatype status_value = StInt64 int64 | StInt int64 | StString string | StOther string

definition makeStatusCallback :: "status_value \<Rightarrow> string list \<Rightarrow> 'w statusCallback" where
  "makeStatusCallback status path obj = (case status of
       StInt64 expected \<Rightarrow>
         bnd (exitOnErrorOrNotFound (NestedInt64 obj path)) (\<lambda>current. ret (current = expected))
     | StInt expected \<Rightarrow>
         bnd (exitOnErrorOrNotFound (NestedInt64 obj path)) (\<lambda>current. ret (current = expected))
     | StString expected \<Rightarrow>
         bnd (exitOnErrorOrNotFound (NestedString obj path)) (\<lambda>current. ret (current = expected))
     | StOther ty \<Rightarrow> panic (''cannot extract type from '' @ ty))"

definition waitForResourceAvailability :: "'w env \<Rightarrow> json \<Rightarrow> ('w sro, goerr option) io" where
  "waitForResourceAvailability E obj =
     Poll E (bnd (client_Get E (GetNamespace obj) (GetName obj) obj) (\<lambda>(err, found).
             case err of
               Some e \<Rightarrow> if IsNotFound err then ret (False, None) else ret (False, Some e)
             | None \<Rightarrow> ret (True, None)))"

definition waitForResourceFullAvailability ::
    "'w env \<Rightarrow> json \<Rightarrow> 'w statusCallback \<Rightarrow> ('w sro, goerr option) io" where
  "waitForResourceFullAvailability E obj callback =
     Poll E (bnd (client_Get E (GetNamespace obj) (GetName obj) obj) (\<lambda>(err, found).
             case err of
               Some e \<Rightarrow> ret (False, Some e)
             | None \<Rightarrow> bnd (callback found) (\<lambda>ok. if ok then ret (True, None) else ret (False, None))))"

definition waitForPod :: "'w env \<Rightarrow> json \<Rightarrow> ('w sro, goerr option) io" where
  "waitForPod E obj =
     on_err (waitForResourceAvailability E obj) (\<lambda>e. ret (Some e))
       (waitForResourceFullAvailability E obj (makeStatusCallback (StString ''Succeeded'') [''status'', ''phase'']))"

text \<open>
  The callback remembers the number of nodes in \<open>node.count\<close>. When both counters are present the
  second \<open>if\<close> overrides the first.
\<close>

definition waitForDaemonSetCallback :: "'w statusCallback" where
  "waitForDaemonSetCallback obj =
     bnd (exitOnErrorOrNotFound (NestedInt64 obj [''status'', ''desiredNumberScheduled''])) (\<lambda>desired.
     bnd (modify (\<lambda>s. s\<lparr>node_count := desired\<rparr>)) (\<lambda>_.
     bnd (gets node_count) (\<lambda>count.
     let callback = (\<lambda>obj. ret False);
         callback = (if nested_found (NestedInt64 obj [''status'', ''numberUnavailable''])
                     then makeStatusCallback (StInt 0) [''status'', ''numberUnavailable''] else callback);
         callback = (if nested_found (NestedInt64 obj [''status'', ''numberAvailable''])
                     then makeStatusCallback (StInt64 count) [''status'', ''numberAvailable''] else callback)
     in callback obj)))"

definition waitForDaemonSet :: "'w env \<Rightarrow> json \<Rightarrow> ('w sro, goerr option) io" where
  "waitForDaemonSet E obj =
     on_err (waitForResourceAvailability E obj) (\<lambda>e. ret (Some e))
       (waitForResourceFullAvailability E obj waitForDaemonSetCallback)"

definition waitForBuild :: "'w env \<Rightarrow> json \<Rightarrow> ('w sro, goerr option) io" where
  "waitForBuild E obj =
     on_err (waitForResourceAvailability E obj) (\<lambda>e. ret (Some e))
       (bnd (gets (\<lambda>s. sr_Namespace (specialresource s))) (\<lambda>ns.
        bnd (client_List E ''build.openshift.io/v1'' ''build'' (InNamespace ns)) (\<lambda>r.
        case r of
          Inl e \<Rightarrow> ret (Some (WithMessage ''Could not get BuildList'' e))
        | Inr builds \<Rightarrow>
            bnd (for_range (\<lambda>build.
                   waitForResourceFullAvailability E build
                     (makeStatusCallback (StString ''Complete'') [''status'', ''phase''])) builds) (\<lambda>err.
            ret err))))"

text \<open>The table \<open>waitFor\<close>, by kind; a kind that is not in it is not waited for.\<close>

definition waitFor :: "'w env \<Rightarrow> string \<Rightarrow> (json \<Rightarrow> ('w sro, goerr option) io) option" where
  "waitFor E kind =
     map_of [(''Pod'', waitForPod E), (''DaemonSet'', waitForDaemonSet E), (''BuildConfig'', waitForBuild E)] kind"

definition waitForResource :: "'w env \<Rightarrow> json \<Rightarrow> ('w sro, goerr option) io" where
  "waitForResource E obj = (case waitFor E (GetKind obj) of
       None \<Rightarrow> ret None
     | Some wait \<Rightarrow> on_err (wait obj) (\<lambda>e. ret (Some (WithMessage ''Waiting too long for resource'' e))) (ret None))"

text \<open>
  The end of the log that is matched: the last 100 bytes, but nothing when the whole log has at
  most 100.
\<close>

definition last_bytes :: "string \<Rightarrow> string" where
  "last_bytes logs =
     (let cutoff = (if length logs \<le> 100 then 0 else 100) in drop (length logs - cutoff) logs)"

definition waitForDaemonSetLogs :: "'w env \<Rightarrow> json \<Rightarrow> string \<Rightarrow> ('w sro, goerr option) io" where
  "waitForDaemonSetLogs E obj pattern =
     (let selector = lookup0 (GetLabels obj) ''app'' in
      bnd (gets (\<lambda>s. sr_Namespace (specialresource s))) (\<lambda>ns.
      bnd (client_List E ''v1'' ''pod'' (MatchingLabels ''app'' selector (InNamespace ns))) (\<lambda>r.
      case r of
        Inl e \<Rightarrow> ret (Some (WithMessage ''Could not get PodList'' e))
      | Inr pods \<Rightarrow> (case pods of
            [] \<Rightarrow> ret None
          | pod # _ \<Rightarrow>
              bnd (request (CGetLogs (GetNamespace pod) (GetName pod))
                     (api_logs E (GetNamespace pod) (GetName pod))) (\<lambda>l.
              case l of
                LogOpenErr e \<Rightarrow> ret (Some (WithMessage ''Error in opening stream'' e))
              | LogCopyErr e \<Rightarrow> ret (Some (WithMessage ''Error in copy information from podLogs to buf'' e))
              | LogData logs \<Rightarrow>
                  if \<not> regexp_MatchString E pattern (last_bytes logs)
                  then ret (Some (Fundamental (''Not yet done. Not matched against: '' @ pattern)))
                  else ret None)))))"

section \<open>What the operations keep\<close>

context watch
begin

lemma keeps_poll_loop [resp]: "keeps R cond \<Longrightarrow> keeps R (poll_loop n cond)"
  by (induction n) (auto intro!: resp)

lemma keeps_tick_count [resp]: "keeps R (tick_count E)"
  by (auto simp: keeps_def tick_count_def split: prod.split) (metis r_world snd_conv)

lemma keeps_Poll [resp]: "keeps R cond \<Longrightarrow> keeps R (Poll E cond)"
  unfolding Poll_def by (auto intro!: resp)

lemma keeps_waitForResourceAvailability [resp]: "keeps R (waitForResourceAvailability E obj)"
  unfolding waitForResourceAvailability_def by (intro resp)

lemma keeps_waitForResourceFullAvailability [resp]:
  "(\<And>obj. keeps R (callback obj)) \<Longrightarrow> keeps R (waitForResourceFullAvailability E obj callback)"
  unfolding waitForResourceFullAvailability_def by (intro resp)

lemma keeps_makeStatusCallback [resp]: "keeps R (makeStatusCallback st path obj)"
  unfolding makeStatusCallback_def by (cases st) (auto intro!: resp)

lemma keeps_waitForDaemonSetCallback [resp]: "keeps R (waitForDaemonSetCallback obj)"
  unfolding waitForDaemonSetCallback_def Let_def
  by (auto intro!: resp resp_modify r_count)

lemma keeps_waitForDaemonSet [resp]: "keeps R (waitForDaemonSet E obj)"
  unfolding waitForDaemonSet_def by (intro resp)

lemma keeps_waitForPod [resp]: "keeps R (waitForPod E obj)"
  unfolding waitForPod_def by (intro resp)

lemma keeps_waitForBuild [resp]: "keeps R (waitForBuild E obj)"
  unfolding waitForBuild_def by (intro resp)

lemma keeps_waitForResource [resp]: "keeps R (waitForResource E obj)"
  unfolding waitForResource_def waitFor_def
  by (auto intro!: resp split: if_splits)

lemma keeps_waitForDaemonSetLogs [resp]: "keeps R (waitForDaemonSetLogs E obj pattern)"
  unfolding waitForDaemonSetLogs_def by (intro resp)

end

section \<open>Polling\<close>

text \<open>The state after \<open>k\<close> evaluations of a condition that all answered \<open>false\<close> without error.\<close>

primrec polled :: "'s condition \<Rightarrow> nat \<Rightarrow> 's \<Rightarrow> 's option" where
  "polled cond 0 s = Some s"
| "polled cond (Suc k) s = (case cond s of (Val (False, None), t) \<Rightarrow> polled cond k t | _ \<Rightarrow> None)"

lemma polled_Suc_iff:
  "polled cond (Suc k) s = Some u \<longleftrightarrow> (\<exists>t. cond s = (Val (False, None), t) \<and> polled cond k t = Some u)"
  by (auto split: prod.splits outcome.splits option.splits bool.splits)

lemma poll_loop_None_iff:
  "poll_loop n cond s = (Val None, t) \<longleftrightarrow>
     (\<exists>k\<le>n. \<exists>u. polled cond k s = Some u \<and> cond u = (Val (True, None), t))"
proof (induction n arbitrary: s)
  case 0
  then show ?case by (auto simp: bnd_Val_iff split: option.splits if_splits)
next
  case (Suc n)
  have "poll_loop (Suc n) cond s = (Val None, t) \<longleftrightarrow> cond s = (Val (True, None), t) \<or>
      (\<exists>u. cond s = (Val (False, None), u) \<and> poll_loop n cond u = (Val None, t))"
    by (auto simp: bnd_Val_iff split: option.splits if_splits)
  also have "\<dots> \<longleftrightarrow> (\<exists>u. polled cond 0 s = Some u \<and> cond u = (Val (True, None), t)) \<or>
      (\<exists>k\<le>n. \<exists>u. polled cond (Suc k) s = Some u \<and> cond u = (Val (True, None), t))"
    unfolding Suc polled_Suc_iff by auto
  also have "\<dots> \<longleftrightarrow> (\<exists>k\<le>Suc n. \<exists>u. polled cond k s = Some u \<and> cond u = (Val (True, None), t))"
    by (metis Suc_le_mono le0 not0_implies_Suc)
  finally show ?case .
qed

text \<open>A condition that sends exactly one request each time is evaluated at most once per tick and once more.\<close>

lemma poll_loop_calls:
  assumes "\<And>s. calls (snd (cond s)) = calls s @ [c]"
  shows "\<exists>k\<le>n. calls (snd (poll_loop n cond s)) = calls s @ replicate (Suc k) c"
proof (induction n arbitrary: s)
  case 0
  then show ?case using assms[of s]
    by (auto simp: io_simps split: prod.split outcome.split option.split)
next
  case (Suc n)
  show ?case
  proof (cases "\<exists>t. cond s = (Val (False, None), t)")
    case True
    then obtain t where t: "cond s = (Val (False, None), t)" by blast
    obtain k where "k \<le> n" "calls (snd (poll_loop n cond t)) = calls t @ replicate (Suc k) c" using Suc by blast
    moreover have "calls t = calls s @ [c]" using assms[of s] t by simp
    ultimately have "Suc k \<le> Suc n \<and> calls (snd (poll_loop (Suc n) cond s)) = calls s @ replicate (Suc (Suc k)) c"
      using t by (simp add: io_simps)
    then show ?thesis by blast
  next
    case False
    then have "calls (snd (poll_loop (Suc n) cond s)) = calls s @ [c]"
      using assms[of s] by (auto simp: io_simps split: prod.split outcome.split option.split)
    then show ?thesis by (intro exI[of _ 0]) simp
  qed
qed

lemma Poll_calls:
  assumes "\<And>s. calls (snd (cond s)) = calls s @ [c]" and "\<And>w. fst (poll_ticks E w) \<le> N"
  shows "\<exists>k\<le>N. calls (snd (Poll E cond s)) = calls s @ replicate (Suc k) c"
proof -
  obtain n w where n: "poll_ticks E (world s) = (n, w)" by (cases "poll_ticks E (world s)")
  from assms(2)[of "world s"] n have "n \<le> N" by simp
  moreover obtain k where "k \<le> n" "calls (snd (poll_loop n cond (s\<lparr>world := w\<rparr>))) =
      calls (s\<lparr>world := w\<rparr>) @ replicate (Suc k) c"
    using poll_loop_calls[of cond c n "s\<lparr>world := w\<rparr>", OF assms(1)] by blast
  ultimately show ?thesis using n
    by (intro exI[of _ k]) (simp add: Poll_def tick_count_def bnd_def)
qed

abbreviation get_call :: "json \<Rightarrow> call" where
  "get_call obj \<equiv> CGet (GroupVersionKind obj) (GetNamespace obj) (GetName obj)"

lemma client_Get_calls:
  "client_Get E ns n obj s = (r, t) \<Longrightarrow> calls t = calls s @ [CGet (GroupVersionKind obj) ns n]"
  by (auto simp: client_Get_def Let_def io_simps split: sum.splits)

lemma waitForResourceAvailability_calls:
  assumes "\<And>w. fst (poll_ticks E w) \<le> N"
  shows "\<exists>k\<le>N. calls (snd (waitForResourceAvailability E obj s)) = calls s @ replicate (Suc k) (get_call obj)"
  unfolding waitForResourceAvailability_def
  by (rule Poll_calls[OF _ assms])
    (auto simp: bnd_apply ret_apply dest: client_Get_calls split: prod.split outcome.split option.split)

lemma waitForDaemonSetCallback_eq:
  "waitForDaemonSetCallback obj s = (case NestedInt64 obj [''status'', ''desiredNumberScheduled''] of
     NFound desired \<Rightarrow>
       (Val (case NestedInt64 obj [''status'', ''numberAvailable''] of
               NFound available \<Rightarrow> available = desired
             | _ \<Rightarrow> NestedInt64 obj [''status'', ''numberUnavailable''] = NFound 0),
        s\<lparr>node_count := desired\<rparr>)
   | _ \<Rightarrow> (Exited, s))"
  by (cases "NestedInt64 obj [''status'', ''desiredNumberScheduled'']";
      cases "NestedInt64 obj [''status'', ''numberAvailable'']";
      cases "NestedInt64 obj [''status'', ''numberUnavailable'']")
    (auto simp: waitForDaemonSetCallback_def makeStatusCallback_def io_simps Let_def)

lemma waitForResourceFullAvailability_calls:
  assumes "\<And>w. fst (poll_ticks E w) \<le> N" and "\<And>j s. calls (snd (callback j s)) = calls s"
  shows "\<exists>k\<le>N. calls (snd (waitForResourceFullAvailability E obj callback s)) =
    calls s @ replicate (Suc k) (get_call obj)"
  unfolding waitForResourceFullAvailability_def
proof (rule Poll_calls[OF _ assms(1)])
  fix s :: "'a sro"
  obtain r t where g: "client_Get E (GetNamespace obj) (GetName obj) obj s = (r, t)"
    by (cases "client_Get E (GetNamespace obj) (GetName obj) obj s")
  have c: "calls t = calls s @ [get_call obj]" using client_Get_calls[OF g] .
  have "calls (snd (bnd (callback o') (\<lambda>ok. if ok then ret (True, None) else ret (False, None)) t)) = calls t" for o'
    using assms(2)[of o' t] by (auto simp: bnd_apply ret_apply split: prod.split outcome.split)
  with g c show "calls (snd (bnd (client_Get E (GetNamespace obj) (GetName obj) obj)
      (\<lambda>(err, found). case err of Some e \<Rightarrow> ret (False, Some e)
        | None \<Rightarrow> bnd (callback found) (\<lambda>ok. if ok then ret (True, None) else ret (False, None))) s)) =
    calls s @ [get_call obj]"
    by (subst bnd_apply) (auto simp: ret_apply split: outcome.split option.split)
qed

section \<open>Properties\<close>

text \<open>
  C32: polling succeeds exactly when the condition answers true after some number of answers false,
  none of them an error, and that number is at most the number of ticks before the timeout.
\<close>

theorem Poll_succeeds_iff:
  "Poll E cond s = (Val None, t) \<longleftrightarrow>
     (\<exists>k u. k \<le> fst (poll_ticks E (world s)) \<and>
        polled cond k (s\<lparr>world := snd (poll_ticks E (world s))\<rparr>) = Some u \<and> cond u = (Val (True, None), t))"
  by (auto simp: Poll_def tick_count_def bnd_def poll_loop_None_iff split: prod.split)

text \<open>
  C33: waiting for a daemon set sends nothing but \<open>Get\<close> requests for that daemon set; when no poll
  sees more than \<open>N\<close> ticks there is at least one and there are at most \<open>2 * (N + 1)\<close>.
\<close>

theorem waitForDaemonSet_requests:
  assumes "\<And>w. fst (poll_ticks E w) \<le> N"
  shows "\<exists>k. 1 \<le> k \<and> k \<le> 2 * (N + 1) \<and>
    calls (snd (waitForDaemonSet E obj s)) = calls s @ replicate k (get_call obj)"
proof -
  obtain r t where w: "waitForResourceAvailability E obj s = (r, t)"
    by (cases "waitForResourceAvailability E obj s")
  from waitForResourceAvailability_calls[of E N obj s, OF assms] w
  obtain k where k: "k \<le> N" "calls t = calls s @ replicate (Suc k) (get_call obj)" by auto
  have cb: "calls (snd (waitForDaemonSetCallback j u)) = calls u" for j and u :: "'a sro"
    by (simp add: waitForDaemonSetCallback_eq split: nested.split)
  from waitForResourceFullAvailability_calls[of E N waitForDaemonSetCallback obj t, OF assms cb]
  obtain l where l: "l \<le> N" "calls (snd (waitForResourceFullAvailability E obj waitForDaemonSetCallback t)) =
      calls t @ replicate (Suc l) (get_call obj)" by auto
  show ?thesis
  proof (cases "r = Val None")
    case True
    then have "calls (snd (waitForDaemonSet E obj s)) = calls s @ replicate (Suc k + Suc l) (get_call obj)"
      using w k l by (simp add: waitForDaemonSet_def on_err_def bnd_apply replicate_add replicate_app_Cons_same)
    with k(1) l(1) show ?thesis by (intro exI[of _ "Suc k + Suc l"]) simp
  next
    case False
    then have "calls (snd (waitForDaemonSet E obj s)) = calls s @ replicate (Suc k) (get_call obj)"
      using w k by (simp add: waitForDaemonSet_def on_err_def bnd_apply ret_apply split: outcome.split option.split)
    with k(1) show ?thesis by (intro exI[of _ "Suc k"]) simp
  qed
qed

theorem waitForDaemonSet_requests_witness:
  "\<exists>k. 1 \<le> k \<and> k \<le> 2 \<and> calls (snd (waitForDaemonSet bare_env (new_object ''apps/v1'' ''DaemonSet'') (init_sro ()))) =
     replicate k (get_call (new_object ''apps/v1'' ''DaemonSet''))"
proof -
  have "fst (poll_ticks bare_env w) \<le> 0" for w by (simp add: bare_env_def)
  from waitForDaemonSet_requests[OF this, of "new_object ''apps/v1'' ''DaemonSet''" "init_sro ()"]
  show ?thesis by (simp add: init_sro_def)
qed

text \<open>
  A daemon set counts as available when the number of available pods, if given, is the number
  desired, and otherwise when it reports zero unavailable pods; the desired number is remembered as
  the node count, and the process ends when it is missing.
\<close>

lemma waitForDaemonSetCallback_decision:
  "waitForDaemonSetCallback obj s = (case NestedInt64 obj [''status'', ''desiredNumberScheduled''] of
     NFound desired \<Rightarrow>
       (Val (case NestedInt64 obj [''status'', ''numberAvailable''] of
               NFound available \<Rightarrow> available = desired
             | _ \<Rightarrow> NestedInt64 obj [''status'', ''numberUnavailable''] = NFound 0),
        s\<lparr>node_count := desired\<rparr>)
   | _ \<Rightarrow> (Exited, s))"
  by (rule waitForDaemonSetCallback_eq)

text \<open>The relation kept by everything that only watches: reads are sent, the reconciler's fields stay.\<close>

definition watches :: "'w sro \<Rightarrow> 'w sro \<Rightarrow> bool" where
  "watches s t \<longleftrightarrow> sends is_read s t \<and> specialresource t = specialresource s \<and> parent t = parent s \<and>
     dependency t = dependency s"

interpretation watching: watch watches E for E :: "'w env"
  by unfold_locales (auto simp: watches_def sends_def sent_def)

text \<open>
  Waiting for a resource, whatever its kind and however it ends, sends read requests only and
  leaves the custom resource, its parent and the dependency in the reconciler as they are; for a
  kind without an entry in the table it does nothing and succeeds.
\<close>

lemma waitForResource_only_reads:
  "\<exists>cs. calls (snd (waitForResource E obj s)) = calls s @ cs \<and> list_all is_read cs \<and>
     specialresource (snd (waitForResource E obj s)) = specialresource s \<and>
     parent (snd (waitForResource E obj s)) = parent s \<and>
     dependency (snd (waitForResource E obj s)) = dependency s \<and>
     (GetKind obj \<in> {''Pod'', ''DaemonSet'', ''BuildConfig''} \<or> waitForResource E obj s = (Val None, s))"
proof -
  have "watches s (snd (waitForResource E obj s))"
    using watching.keeps_waitForResource[of E obj] by (simp add: keeps_def)
  moreover have "GetKind obj \<in> {''Pod'', ''DaemonSet'', ''BuildConfig''} \<or> waitForResource E obj s = (Val None, s)"
    by (auto simp: waitForResource_def waitFor_def ret_apply)
  ultimately show ?thesis by (auto simp: watches_def sends_def)
qed

text \<open>
  When the first pod's log has at most 100 bytes, it is the empty string that is matched against
  the pattern: a pattern the empty string does not match is reported as not yet done, whatever the log says.
\<close>

lemma waitForDaemonSetLogs_short:
  assumes "fst (api_list E ''v1'' ''pod'' (MatchingLabels ''app'' (lookup0 (GetLabels obj) ''app'')
      (InNamespace (sr_Namespace (specialresource s)))) (world s)) = Inr (pod # pods)"
    and "\<And>ns n w. \<exists>logs. fst (api_logs E ns n w) = LogData logs \<and> length logs \<le> 100"
    and "\<not> regexp_MatchString E pattern []"
  shows "fst (waitForDaemonSetLogs E obj pattern s) =
    Val (Some (Fundamental (''Not yet done. Not matched against: '' @ pattern)))"
proof -
  have "\<exists>logs. fst (api_logs E ns n w) = LogData logs \<and> last_bytes logs = []" for ns n w
    using assms(2)[of ns n w] by (auto simp: last_bytes_def)
  then obtain logs where "fst (api_logs E (GetNamespace (JMap pod)) (GetName (JMap pod))
      (snd (api_list E ''v1'' ''pod'' (MatchingLabels ''app'' (lookup0 (GetLabels obj) ''app'')
        (InNamespace (sr_Namespace (specialresource s)))) (world s)))) = LogData logs" "last_bytes logs = []"
    by blast
  with assms(1,3) show ?thesis
    by (simp add: waitForDaemonSetLogs_def Let_def client_List_def io_simps)
qed

end
