(* ===== verification/Node_Labels.thy ===== *)
theory Node_Labels
  imports Wait_For
begin

text \<open>
  The node cache (\<open>cacheNodes\<close> of \<open>src/controllers/resources.go\<close>), the status of the custom resource
  (\<open>src/controllers/status.go\<close>) and the labels that mark a node as ready for the next state
  (\<open>src/controllers/scale_up_down.go\<close>).
\<close>

section \<open>cacheNodes\<close>

definition node_selector :: "SpecialResource \<Rightarrow> list_opts" where
  "node_selector sr =
     (let sel = node_Selector (spec_Node (sr_Spec sr)) in
      if sel \<noteq> [] then MatchingLabels sel ''true'' (InNamespace [])
      else MatchingLabels ''node-role.kubernetes.io/worker'' [] (InNamespace []))"

definition cacheNodes :: "'w env \<Rightarrow> bool \<Rightarrow> ('w sro, goerr + json list) io" where
  "cacheNodes E force =
     bnd (gets (\<lambda>s. (node_list s, node_count s, node_selector (specialresource s)))) (\<lambda>(items, count, opts).
     let cached = (word_of_nat (length items) :: int64) in
     if cached = count \<and> \<not> force then ret (Inr items)
     else bnd (client_List E ''v1'' ''NodeList'' opts) (\<lambda>r.
          case r of
            Inl e \<Rightarrow> ret (Inl (WithMessage ''Client cannot get NodeList'' e))
          | Inr items \<Rightarrow> bnd (modify (\<lambda>s. s\<lparr>node_list := items\<rparr>)) (\<lambda>_. ret (Inr items))))"

section \<open>status.go\<close>

text \<open>
  The label map has one entry, whose key becomes the state. An error of the status update is only
  logged; on success the in-memory resource is overwritten by the answer.
\<close>

definition updateStatus :: "'w env \<Rightarrow> string \<Rightarrow> ('w sro, unit) io" where
  "updateStatus E key =
     bnd (modify (\<lambda>s. s\<lparr>specialresource := set_status_state key (specialresource s)\<rparr>)) (\<lambda>_.
     bnd (gets specialresource) (\<lambda>sr.
     bnd (request (CStatusUpdate sr) (api_status_update E sr)) (\<lambda>r.
     case r of
       Inl e \<Rightarrow> ret ()
     | Inr sr' \<Rightarrow> modify (\<lambda>s. s\<lparr>specialresource := sr'\<rparr>))))"

section \<open>scale\_up\_down.go\<close>

definition state_annotation :: string where
  "state_annotation = ''specialresource.openshift.io/state''"

definition stateLabels :: "resourceStateName \<Rightarrow> string \<Rightarrow> (string \<times> string) list" where
  "stateLabels st hw =
     [(''driver-container'', st_DriverContainer st @ ''-'' @ hw),
      (''runtime-enablement'', st_RuntimeEnablement st @ ''-'' @ hw),
      (''device-plugin'', st_DevicePlugin st @ ''-'' @ hw),
      (''device-monitoring'', st_DeviceMonitoring st @ ''-'' @ hw)]"

text \<open>
  One node of the loop, for the label key \<open>k\<close> of the object's state. Writing to the nil map that
  \<open>GetLabels\<close> returns for a node without labels panics.
\<close>

definition label_node :: "'w env \<Rightarrow> string \<Rightarrow> json \<Rightarrow> ('w sro, goerr option option) io" where
  "label_node E k node =
     (let labels = GetLabels node in
      if lookup labels k \<noteq> None then bnd (updateStatus E k) (\<lambda>_. ret None)
      else case labels of
             None \<Rightarrow> panic ''assignment to entry in nil map''
           | Some m \<Rightarrow>
               bnd (client_Update E (SetLabels node (AList.update k ''ready'' m))) (\<lambda>(err, updated).
               if IsForbidden err then
                 ret (Some (Some (Fundamental (''Forbidden check Role, ClusterRole and Bindings for operator '' @ Error (the err)))))
               else if IsConflict err then
                 bnd (cacheNodes E True) (\<lambda>_.
                 ret (Some (Some (Fundamental (''Node Conflict Label map['' @ k @ '':ready] err '' @ Error (the err))))))
               else if err \<noteq> None then ret (Some (Some (Fundamental ''Couldn't Update Node'')))
               else bnd (updateStatus E k) (\<lambda>_. ret None)))"

definition labelNodesAccordingToState :: "'w env \<Rightarrow> json \<Rightarrow> ('w sro, goerr option) io" where
  "labelNodesAccordingToState E obj =
     (if GetKind obj \<noteq> ''DaemonSet'' then ret None
      else bnd (cacheNodes E True) (\<lambda>_.
           bnd (gets (\<lambda>s. stateLabels (StateName (runInfo s)) (sr_Name (specialresource s)))) (\<lambda>labels.
           bnd (gets node_list) (\<lambda>nodes.
           bnd (for_range (\<lambda>node.
                  case map_of labels (lookup0 (GetAnnotations obj) state_annotation) of
                    None \<Rightarrow> ret (Some None)
                  | Some k \<Rightarrow> label_node E k node) nodes) (\<lambda>r.
           ret (case r of None \<Rightarrow> None | Some err \<Rightarrow> err))))))"

section \<open>What the operations keep\<close>

context watch
begin

lemma keeps_cacheNodes [resp]: "keeps R (cacheNodes E force)"
proof -
  have "keeps R (modify (\<lambda>s. s\<lparr>node_list := items\<rparr>))"
    if "client_List E v k opts s = (Val (Inr items), t)" for items v k opts s t
    using that by (auto simp: client_List_def map_sum_def io_simps intro!: resp_modify r_nodes split: sum.splits)
  then show ?thesis
    unfolding cacheNodes_def by (auto intro!: resp resp_bnd_result[OF keeps_client_List] split: sum.split)
qed

end

text \<open>An update that sets a label of a listed node to \<open>ready\<close>.\<close>

definition label_update :: "json \<Rightarrow> bool" where
  "label_update obj \<longleftrightarrow> (\<exists>node k m. GetLabels node = Some m \<and> k \<notin> fst ` set m \<and>
     obj = SetLabels node (AList.update k ''ready'' m))"

context operate
begin

lemma keeps_updateStatus [resp]: "keeps R (updateStatus E k)"
  unfolding updateStatus_def by (auto intro!: resp resp_modify r_sr)

lemma keeps_label_node:
  assumes "\<And>m. GetLabels node = Some m \<Longrightarrow> lookup (GetLabels node) k = None \<Longrightarrow>
    oku (SetLabels node (AList.update k ''ready'' m))"
  shows "keeps R (label_node E k node)"
  unfolding label_node_def Let_def using assms by (auto intro!: resp)

lemma keeps_labelNodesAccordingToState:
  assumes "\<And>obj. label_update obj \<Longrightarrow> oku obj"
  shows "keeps R (labelNodesAccordingToState E obj)"
proof -
  have "oku (SetLabels node (AList.update k ''ready'' m))"
    if "GetLabels node = Some m" "lookup (GetLabels node) k = None" for node k m
    using that by (intro assms) (auto simp: label_update_def lookup_def map_of_eq_None_iff)
  then show ?thesis
    unfolding labelNodesAccordingToState_def by (intro resp keeps_label_node)
qed

end

section \<open>Helper lemmas\<close>

text \<open>Every operation only extends the history, and status updates and reads are no object writes.\<close>

interpretation history: operate "sends (\<lambda>c. True)" E "\<lambda>obj. True" for E :: "'w env"
  by unfold_locales (auto simp: sends_def sent_def)

definition no_object_write :: "call \<Rightarrow> bool" where
  "no_object_write c \<longleftrightarrow> is_read c \<or> (\<exists>sr. c = CStatusUpdate sr)"

interpretation no_write: operate "sends no_object_write" E "\<lambda>obj. False" for E :: "'w env"
  by unfold_locales (auto simp: sends_def sent_def no_object_write_def)

lemma history_grows: "sends (\<lambda>c. True) s t \<Longrightarrow> set (calls s) \<subseteq> set (calls t)"
  by (auto simp: sends_def)

lemma cacheNodes_result:
  "cacheNodes E force s = (r, t) \<Longrightarrow> (\<exists>x. r = Val x) \<and> runInfo t = runInfo s \<and> specialresource t = specialresource s"
  by (auto simp: cacheNodes_def Let_def client_List_def io_simps map_sum_def
      split: if_splits sum.splits)

lemma updateStatus_returns: "\<exists>t. updateStatus E k s = (Val (), t)"
  by (auto simp: updateStatus_def io_simps split: sum.split)

lemma label_node_done:
  assumes "label_node E k node s = (Val None, t)"
  shows "lookup (GetLabels node) k \<noteq> None \<or>
    (\<exists>m. GetLabels node = Some m \<and> CUpdate (SetLabels node (AList.update k ''ready'' m)) \<in> set (calls t))"
proof (cases "lookup (GetLabels node) k = None")
  case True
  with assms obtain m where m: "GetLabels node = Some m"
    by (auto simp: label_node_def split: option.splits)
  let ?o = "SetLabels node (AList.update k ''ready'' m)"
  from assms True m obtain err j u v where u: "client_Update E ?o s = (Val (err, j), u)"
    and v: "updateStatus E k u = (Val (), t)"
    by (auto simp: label_node_def elim!: bnd_ValE split: if_splits)
  from u have "CUpdate ?o \<in> set (calls u)"
    by (auto simp: client_Update_def Let_def io_simps split: sum.splits)
  moreover have "set (calls u) \<subseteq> set (calls t)"
    using keepsD[OF history.keeps_updateStatus v] by (rule history_grows)
  ultimately show ?thesis using m by blast
qed simp

lemma label_nodes_done:
  assumes "loop_trace (label_node E k) nodes s t" and "node \<in> set nodes"
  shows "lookup (GetLabels node) k \<noteq> None \<or>
    (\<exists>m. GetLabels node = Some m \<and> CUpdate (SetLabels node (AList.update k ''ready'' m)) \<in> set (calls t))"
  using assms
proof (induction nodes arbitrary: s)
  case (Cons n nodes)
  from Cons(2) obtain u where u: "label_node E k n s = (Val None, u)" "loop_trace (label_node E k) nodes u t"
    by auto
  from u(2) have "for_range (label_node E k) nodes u = (Val None, t)" by (simp add: for_range_None_iff)
  moreover have "keeps (sends (\<lambda>c. True)) (for_range (label_node E k) nodes)"
    by (simp add: history.resp_for_range history.keeps_label_node)
  ultimately have "set (calls u) \<subseteq> set (calls t)" by (intro history_grows) (rule keepsD)
  with Cons u show ?case using label_node_done[OF u(1)] by (cases "node = n") auto
qed simp

lemma label_nodes_present:
  assumes "\<And>node. node \<in> set nodes \<Longrightarrow> lookup (GetLabels node) k \<noteq> None"
  shows "\<exists>t. for_range (label_node E k) nodes s = (Val None, t) \<and> sends no_object_write s t"
  using assms
proof (induction nodes arbitrary: s)
  case Nil
  then show ?case by (simp add: ret_apply sends_refl)
next
  case (Cons n nodes)
  obtain u where u: "updateStatus E k s = (Val (), u)" using updateStatus_returns by blast
  with Cons(2)[of n] have "label_node E k n s = (Val None, u)"
    by (auto simp: label_node_def bnd_apply ret_apply)
  moreover have "sends no_object_write s u" using keepsD[OF no_write.keeps_updateStatus u] .
  moreover obtain t where "for_range (label_node E k) nodes u = (Val None, t)" "sends no_object_write u t"
    using Cons by (metis list.set_intros(2))
  ultimately show ?case by (auto simp: bnd_apply intro: sends_trans)
qed

text \<open>The label of the state an object stands for, with the names held in a given state.\<close>

definition state_label :: "'w sro \<Rightarrow> json \<Rightarrow> string option" where
  "state_label s obj = map_of (stateLabels (StateName (runInfo s)) (sr_Name (specialresource s)))
     (lookup0 (GetAnnotations obj) state_annotation)"

lemma labelNodes_unfold:
  assumes "GetKind obj = ''DaemonSet''" and "state_label s obj = Some k"
  shows "labelNodesAccordingToState E obj s =
    bnd (for_range (label_node E k) (node_list (snd (cacheNodes E True s))))
      (\<lambda>r. ret (case r of None \<Rightarrow> None | Some err \<Rightarrow> err)) (snd (cacheNodes E True s))"
proof -
  obtain r u where u: "cacheNodes E True s = (r, u)" by (cases "cacheNodes E True s")
  with cacheNodes_result[OF u] assms show ?thesis
    by (auto simp: labelNodesAccordingToState_def state_label_def bnd_apply gets_apply)
qed

lemma label_node_result: "label_node E k node s \<noteq> (Val (Some None), t)"
  by (auto simp: label_node_def Let_def elim!: bnd_ValE split: option.splits if_splits)

lemma label_nodes_None:
  assumes "for_range (label_node E k) nodes s = (Val (Some None), t)"
  shows False
  using assms by (metis for_range_Some_iff label_node_result)

section \<open>Properties\<close>

text \<open>
  C25: when labelling the nodes for a daemon set of a known state succeeds, every node that was listed
  either had the label of that state already, or an update was sent that adds it to the node's
  labels.
\<close>

theorem labelNodes_covers_all_nodes:
  assumes "labelNodesAccordingToState E obj s = (Val None, t)"
    and "GetKind obj = ''DaemonSet''" and "state_label s obj = Some k"
  shows "\<forall>node \<in> set (node_list (snd (cacheNodes E True s))).
    lookup (GetLabels node) k \<noteq> None \<or>
    (\<exists>m. GetLabels node = Some m \<and> CUpdate (SetLabels node (AList.update k ''ready'' m)) \<in> set (calls t))"
proof -
  let ?u = "snd (cacheNodes E True s)"
  from assms(1) labelNodes_unfold[OF assms(2,3)]
  obtain r where r: "for_range (label_node E k) (node_list ?u) ?u = (Val r, t)"
      "(case r of None \<Rightarrow> None | Some err \<Rightarrow> err) = None"
    by (auto simp: bnd_Val_iff)
  with label_nodes_None have "r = None" by (cases r) auto
  with r have "loop_trace (label_node E k) (node_list ?u) ?u t" by (simp add: for_range_None_iff)
  then show ?thesis using label_nodes_done by blast
qed

definition sample_node :: entries where
  "sample_node = [(''kind'', JStr ''Node''), (''metadata'', JMap [(''labels'', JMap [(''a'', JStr ''b'')])])]"

definition sample_daemonset :: json where
  "sample_daemonset = JMap [(''kind'', JStr ''DaemonSet''), (''metadata'', JMap [(''annotations'',
     JMap [(''specialresource.openshift.io/state'', JStr ''device-plugin'')])])]"

definition sample_node_env :: "unit env" where
  "sample_node_env = bare_env\<lparr>api_list := \<lambda>v k opts w. (Inr [sample_node], w)\<rparr>"

lemma sample_labelling:
  "GetKind sample_daemonset = ''DaemonSet''"
  "state_label (init_sro ()) sample_daemonset = Some ''specialresource.openshift.io/device-plugin-''"
  "node_list (snd (cacheNodes sample_node_env True (init_sro ()))) = [JMap sample_node]"
  "GetLabels (JMap sample_node) = Some [(''a'', ''b'')]"
  by code_simp+

lemma sample_node_env_simps:
  "api_update sample_node_env = echo" "api_status_update sample_node_env sr w = (Inr sr, w)"
  by (simp_all add: sample_node_env_def)

theorem labelNodes_covers_all_nodes_witness:
  "CUpdate (SetLabels (JMap sample_node) [(''a'', ''b''), (''specialresource.openshift.io/device-plugin-'', ''ready'')])
     \<in> set (calls (snd (labelNodesAccordingToState sample_node_env sample_daemonset (init_sro ()))))"
proof -
  let ?r = "labelNodesAccordingToState sample_node_env sample_daemonset (init_sro ())"
  obtain m where "SetLabels (JMap sample_node)
      [(''a'', ''b''), (''specialresource.openshift.io/device-plugin-'', ''ready'')] = JMap m"
    by (simp add: SetLabels_def setNestedField_def sample_node_def)
  then have "fst ?r = Val None"
    by (simp add: labelNodes_unfold[OF sample_labelling(1,2)] sample_labelling label_node_def lookup_def
        client_Update_def updateStatus_def sample_node_env_simps echo_def Let_def io_simps)
  then have "?r = (Val None, snd ?r)" by (metis prod.collapse)
  from labelNodes_covers_all_nodes[OF this sample_labelling(1,2)] show ?thesis
    by (simp add: sample_labelling lookup_def)
qed



end
