(* ===== verification/Callbacks.thy ===== *)
theory Callbacks
  imports Node_Labels
begin

text \<open>
  The hooks around creating a resource, selected by its annotations: \<open>src/controllers/callbacks.go\<close>
  and the Grafana callback of \<open>src/controllers/custom.go\<close>.
\<close>

section \<open>custom.go\<close>

text \<open>
  \<open>getPromURLPass\<close>: the first data source of the monitoring stack's Grafana secret. The secret's
  data are bytes by key; a missing key gives the nil slice, on which unmarshalling fails.
\<close>

definition getPromURLPass :: "'w env \<Rightarrow> ('w sro, goerr + (string \<times> string)) io" where
  "getPromURLPass E =
     bnd (request (CGetSecret ''openshift-monitoring'' ''grafana-datasources'')
            (api_secret E ''openshift-monitoring'' ''grafana-datasources'')) (\<lambda>r.
     case r of
       Inl e \<Rightarrow> ret (Inl e)
     | Inr data \<Rightarrow>
         (case json_Unmarshal E (lookup0 (Some data) ''prometheus.yaml'') of
            Inl e \<Rightarrow> ret (Inl e)
          | Inr sec \<Rightarrow>
              bnd (exitOnErrorOrNotFound (NestedSlice (JMap sec) [''datasources''])) (\<lambda>datasources.
              case datasources of
                [] \<Rightarrow> ret (Inr ([], []))
              | datasource # _ \<Rightarrow>
                  (case datasource of
                     JMap m \<Rightarrow>
                       bnd (exitOnErrorOrNotFound (NestedString datasource [''url''])) (\<lambda>promURL.
                       bnd (exitOnErrorOrNotFound (NestedString datasource [''basicAuthPassword''])) (\<lambda>promPass.
                       ret (Inr (promURL, promPass))))
                   | _ \<Rightarrow> ret (Inr ([], []))))))"

definition fill_prometheus :: "string \<Rightarrow> string \<Rightarrow> string \<Rightarrow> string" where
  "fill_prometheus promURL promPass promData =
     replace_all ''REPLACE_PROM_USER'' ''internal''
       (replace_all ''REPLACE_PROM_PASS'' promPass
         (replace_all ''REPLACE_PROM_URL'' promURL promData))"

definition customGrafanaConfigMap :: "'w env \<Rightarrow> json \<Rightarrow> ('w sro, goerr option \<times> json) io" where
  "customGrafanaConfigMap E obj =
     bnd (exitOnErrorOrNotFound (NestedString obj [''data'', ''ocp-prometheus.yml''])) (\<lambda>promData.
     bnd (getPromURLPass E) (\<lambda>r.
     case r of
       Inl e \<Rightarrow> ret (Some e, obj)
     | Inr (promURL, promPass) \<Rightarrow>
         (case SetNestedField obj (JStr (fill_prometheus promURL promPass promData)) [''data'', ''ocp-prometheus.yml''] of
            Inl e \<Rightarrow> ret (Some e, obj)
          | Inr obj' \<Rightarrow> ret (None, obj'))))"

section \<open>callbacks.go\<close>

definition customCallback :: "'w env \<Rightarrow> string \<Rightarrow> (json \<Rightarrow> ('w sro, goerr option \<times> json) io) option" where
  "customCallback E name = map_of [(''specialresource-grafana-configmap'', customGrafanaConfigMap E)] name"

definition beforeCRUDhooks :: "'w env \<Rightarrow> json \<Rightarrow> ('w sro, goerr option \<times> json) io" where
  "beforeCRUDhooks E obj =
     (let annotations = GetAnnotations obj in
      bnd (if lookup annotations ''specialresource.openshift.io/proxy'' = Some ''true''
           then setupProxy obj else ret (None, obj)) (\<lambda>(err, obj).
      case err of
        Some e \<Rightarrow> ret (Some (WithMessage ''Could not setup Proxy'' e), obj)
      | None \<Rightarrow>
          (case lookup annotations ''specialresource.openshift.io/callback'' of
             None \<Rightarrow> ret (None, obj)
           | Some todo \<Rightarrow>
               (case customCallback E todo of
                  None \<Rightarrow> ret (None, obj)
                | Some run \<Rightarrow>
                    bnd (run obj) (\<lambda>(err, obj).
                    case err of
                      Some e \<Rightarrow> ret (Some (WithMessage ''Could not run prefix callback'' e), obj)
                    | None \<Rightarrow> ret (None, obj))))))"

definition vendor_annotation :: string where
  "vendor_annotation = ''specialresource.openshift.io/driver-container-vendor''"

text \<open>
  The pods of a driver container that does not come up. Pods without container statuses are passed
  over; the first pod with some decides. \<open>reason\<close> is declared outside the loop and is carried
  along.
\<close>

definition waiting_reason :: "string \<Rightarrow> json list \<Rightarrow> string" where
  "waiting_reason reason containerStatuses = (case containerStatuses of
       [] \<Rightarrow> reason
     | containerStatus # _ \<Rightarrow>
         (case containerStatus of
            JMap m \<Rightarrow> nested_val [] (NestedString containerStatus [''state'', ''waiting'', ''reason''])
          | _ \<Rightarrow> reason))"

fun check_pods :: "json \<Rightarrow> string \<Rightarrow> json list \<Rightarrow> ('w sro, goerr option) io" where
  "check_pods obj reason [] =
     ret (Some (Fundamental (''Unexpected Phase of Pods in DameonSet: '' @ GetName obj)))"
| "check_pods obj reason (pod # pods) =
     (case NestedSlice pod [''status'', ''containerStatuses''] of
        NFound containerStatuses \<Rightarrow>
          (let reason = waiting_reason reason containerStatuses;
               unset = bnd (set_runInfo (\<lambda>ri. ri\<lparr>UpdateVendor := []\<rparr>)) (\<lambda>_. ret None)
           in if reason = ''ImagePullBackOff'' \<or> reason = ''ErrImagePull'' then
                (case lookup (GetAnnotations obj) vendor_annotation of
                   Some vendor \<Rightarrow>
                     bnd (set_runInfo (\<lambda>ri. ri\<lparr>UpdateVendor := vendor\<rparr>)) (\<lambda>_.
                     ret (Some (Fundamental (''ImagePullBackOff need to rebuild'' @ vendor @ ''driver-container''))))
                 | None \<Rightarrow> unset)
              else unset)
      | _ \<Rightarrow>
          bnd (exitOnErrorOrNotFound (NestedString pod [''status'', ''phase''])) (\<lambda>_.
          check_pods obj reason pods))"

definition checkForImagePullBackOff :: "'w env \<Rightarrow> json \<Rightarrow> ('w sro, goerr option) io" where
  "checkForImagePullBackOff E obj =
     bnd (waitForDaemonSet E obj) (\<lambda>err.
     if err = None then ret None
     else
       bnd (gets (\<lambda>s. sr_Namespace (specialresource s))) (\<lambda>ns.
       bnd (client_List E ''v1'' ''PodList''
              (MatchingLabels ''app'' (lookup0 (GetLabels obj) ''app'') (InNamespace ns))) (\<lambda>r.
       case r of
         Inl e \<Rightarrow> ret (Some e)
       | Inr pods \<Rightarrow>
           if pods = [] then ret (Some (Fundamental ''No Pods found, reconciling''))
           else check_pods obj [] pods)))"

definition afterCRUDhooks :: "'w env \<Rightarrow> json \<Rightarrow> ('w sro, goerr option) io" where
  "afterCRUDhooks E obj =
     (let annotations = GetAnnotations obj in
      on_err (if lookup annotations state_annotation = Some ''driver-container''
              then checkForImagePullBackOff E obj else ret None)
        (\<lambda>e. ret (Some (WithMessage ''Cannot check for ImagePullBackOff'' e)))
     (on_err (if lookup annotations ''specialresource.openshift.io/wait'' = Some ''true''
              then waitForResource E obj else ret None)
        (\<lambda>e. ret (Some (WithMessage ''Could not wait for resource'' e)))
     (on_err (case lookup annotations ''specialresource.openshift.io/wait-for-logs'' of
                Some pattern \<Rightarrow> if pattern \<noteq> [] then waitForDaemonSetLogs E obj pattern else ret None
              | None \<Rightarrow> ret None)
        (\<lambda>e. ret (Some (WithMessage ''Could not wait for DaemonSet logs'' e)))
     (labelNodesAccordingToState E obj))))"

section \<open>What the operations keep\<close>

context watch
begin

lemma keeps_getPromURLPass [resp]: "keeps R (getPromURLPass E)"
  unfolding getPromURLPass_def by (intro resp)

lemma keeps_customGrafanaConfigMap [resp]: "keeps R (customGrafanaConfigMap E obj)"
  unfolding customGrafanaConfigMap_def by (intro resp)

lemma keeps_beforeCRUDhooks [resp]: "keeps R (beforeCRUDhooks E obj)"
proof -
  have "customCallback E n = Some run \<Longrightarrow> keeps R (run obj')" for n run obj'
    by (auto simp: customCallback_def intro: keeps_customGrafanaConfigMap split: if_splits)
  then show ?thesis unfolding beforeCRUDhooks_def Let_def by (intro resp)
qed

end

text \<open>\<open>vet\<close> adds the assignments that a check of the pods of a driver container makes.\<close>

locale vet = watch R E for R :: "'w sro \<Rightarrow> 'w sro \<Rightarrow> bool" and E :: "'w env" +
  assumes r_vendor: "R s (s\<lparr>runInfo := (runInfo s)\<lparr>UpdateVendor := v\<rparr>\<rparr>)"
begin

lemma keeps_set_vendor [resp]: "keeps R (set_runInfo (\<lambda>ri. ri\<lparr>UpdateVendor := v\<rparr>))"
  unfolding set_runInfo_def by (intro resp_modify r_vendor)

lemma keeps_check_pods [resp]: "keeps R (check_pods obj reason pods)"
  by (induction obj reason pods rule: check_pods.induct)
    (simp_all only: check_pods.simps Let_def, (intro resp; simp)+)

lemma keeps_checkForImagePullBackOff [resp]: "keeps R (checkForImagePullBackOff E obj)"
  unfolding checkForImagePullBackOff_def by (intro resp)

end

interpretation vetting: vet "sends is_read" E for E :: "'w env"
  by unfold_locales (auto simp: sends_def)

context operate
begin

lemma keeps_afterCRUDhooks:
  assumes "keeps R (checkForImagePullBackOff E obj)" and "keeps R (labelNodesAccordingToState E obj)"
  shows "keeps R (afterCRUDhooks E obj)"
  unfolding afterCRUDhooks_def Let_def by (intro resp assms)

end

section \<open>What the hooks keep of the object\<close>

lemma setupProxy_result:
  "setupProxy obj s = (Val (err, obj'), t) \<Longrightarrow> err = None \<and> obj' = obj"
  by (auto simp: setupProxy_def setupPodProxy_def setupDaemonSetProxy_def bnd_Val_iff ret_apply
      split: if_splits)

text \<open>Two objects with the same kind, name, namespace, labels and annotations.\<close>

definition same_meta :: "json \<Rightarrow> json \<Rightarrow> bool" where
  "same_meta a b \<longleftrightarrow> GetKind a = GetKind b \<and> GetName a = GetName b \<and> GetNamespace a = GetNamespace b \<and>
     GetLabels a = GetLabels b \<and> GetAnnotations a = GetAnnotations b"

lemma same_meta_refl [simp]: "same_meta a a"
  by (simp add: same_meta_def)

lemma same_meta_trans: "same_meta a b \<Longrightarrow> same_meta b c \<Longrightarrow> same_meta a c"
  by (simp add: same_meta_def)

lemma SetNestedField_same_meta:
  assumes "SetNestedField obj v p = Inr obj'"
    and "\<And>q. q \<in> {[''kind''], [''metadata'', ''name''], [''metadata'', ''namespace''],
        [''metadata'', ''labels''], [''metadata'', ''annotations'']} \<Longrightarrow> \<not> prefix p q \<and> \<not> prefix q p"
  shows "same_meta obj' obj"
proof -
  have "obj' = setNestedField obj v p" using assms(1) by (simp add: setNestedField_def)
  then show ?thesis
    using assms(2) by (simp add: same_meta_def meta_defs meta_simps)
qed

lemma customGrafanaConfigMap_same_meta:
  "customGrafanaConfigMap E obj s = (Val (err, obj'), t) \<Longrightarrow> same_meta obj' obj"
  by (auto simp: customGrafanaConfigMap_def elim!: bnd_ValE SetNestedField_same_meta
      split: sum.splits prod.splits)

lemma beforeCRUDhooks_same_meta:
  assumes "beforeCRUDhooks E obj s = (Val (err, obj'), t)"
  shows "same_meta obj' obj"
  using assms
  by (auto simp: beforeCRUDhooks_def Let_def customCallback_def elim!: bnd_ValE
      dest!: setupProxy_result customGrafanaConfigMap_same_meta
      split: if_splits option.splits)

lemma beforeCRUDhooks_wf:
  assumes "beforeCRUDhooks E obj s = (Val (err, obj'), t)" and "wf_obj obj"
  shows "wf_obj obj'"
proof -
  have "customGrafanaConfigMap E obj s = (Val (err, obj'), t) \<Longrightarrow> wf_obj obj'" for err s t
    using assms(2)
    by (auto simp: customGrafanaConfigMap_def elim!: bnd_ValE intro: wf_obj_SetString split: sum.splits prod.splits)
  with assms show ?thesis
    by (auto simp: beforeCRUDhooks_def Let_def customCallback_def elim!: bnd_ValE dest!: setupProxy_result
        split: if_splits option.splits)
qed

section \<open>Helper lemmas\<close>

text \<open>A pod that is passed over: it has a phase but no container statuses yet.\<close>

definition no_statuses :: "json \<Rightarrow> bool" where
  "no_statuses pod \<longleftrightarrow> \<not> nested_found (NestedSlice pod [''status'', ''containerStatuses'']) \<and>
     nested_found (NestedString pod [''status'', ''phase''])"

lemma check_pods_pass_over:
  "list_all no_statuses pre \<Longrightarrow> check_pods obj reason (pre @ pods) = check_pods obj reason pods"
proof (induction pre)
  case (Cons p pre)
  then obtain ph where "NestedString p [''status'', ''phase''] = NFound ph"
    by (cases "NestedString p [''status'', ''phase'']") (auto simp: no_statuses_def)
  with Cons show ?case
    by (cases "NestedSlice p [''status'', ''containerStatuses'']") (auto simp: no_statuses_def)
qed simp

lemma check_pods_decision:
  assumes "list_all no_statuses pre"
    and "NestedSlice pod [''status'', ''containerStatuses''] = NFound statuses"
  shows "check_pods obj [] (pre @ pod # post) s =
    (case (waiting_reason [] statuses \<in> {''ImagePullBackOff'', ''ErrImagePull''},
           lookup (GetAnnotations obj) vendor_annotation) of
       (True, Some vendor) \<Rightarrow>
         (Val (Some (Fundamental (''ImagePullBackOff need to rebuild'' @ vendor @ ''driver-container''))),
          s\<lparr>runInfo := (runInfo s)\<lparr>UpdateVendor := vendor\<rparr>\<rparr>)
     | _ \<Rightarrow> (Val None, s\<lparr>runInfo := (runInfo s)\<lparr>UpdateVendor := []\<rparr>\<rparr>))"
  using assms(2)
  by (auto simp: check_pods_pass_over[OF assms(1)] set_runInfo_def io_simps Let_def split: option.split)

lemma label_node_errors: "label_node E k node s = (Val (Some (Some e)), t) \<Longrightarrow> \<exists>m. e = Fundamental m"
  by (auto simp: label_node_def Let_def elim!: bnd_ValE split: option.splits if_splits)

lemma labelNodes_errors:
  assumes "labelNodesAccordingToState E obj s = (Val (Some e), t)"
  shows "\<exists>m. e = Fundamental m"
  using assms
  by (auto simp: labelNodesAccordingToState_def for_range_Some_iff elim!: bnd_ValE
      split: if_splits option.splits) (rule label_node_errors)

section \<open>Properties\<close>

text \<open>
  The first pod with container statuses decides, whatever pods come after it. When its first
  container waits because its image cannot be pulled and the daemon set names a vendor, that vendor
  is to be rebuilt and the reconcile is asked to run again; otherwise no vendor is.
\<close>

lemma check_pods_first_decides:
  assumes "list_all no_statuses pre"
    and "NestedSlice pod [''status'', ''containerStatuses''] = NFound statuses"
  shows "check_pods obj [] (pre @ pod # post) s =
    (case (waiting_reason [] statuses \<in> {''ImagePullBackOff'', ''ErrImagePull''},
           lookup (GetAnnotations obj) vendor_annotation) of
       (True, Some vendor) \<Rightarrow>
         (Val (Some (Fundamental (''ImagePullBackOff need to rebuild'' @ vendor @ ''driver-container''))),
          s\<lparr>runInfo := (runInfo s)\<lparr>UpdateVendor := vendor\<rparr>\<rparr>)
     | _ \<Rightarrow> (Val None, s\<lparr>runInfo := (runInfo s)\<lparr>UpdateVendor := []\<rparr>\<rparr>))"
  using assms by (rule check_pods_decision)

definition sample_pod :: "string \<Rightarrow> json" where
  "sample_pod reason = JMap [(''status'', JMap [(''containerStatuses'', JSlice [JMap [(''state'',
     JMap [(''waiting'', JMap [(''reason'', JStr reason)])])]])])]"

definition sample_driver :: json where
  "sample_driver = JMap [(''kind'', JStr ''DaemonSet''), (''metadata'', JMap [(''annotations'',
     JMap [(vendor_annotation, JStr ''acme'')])])]"

lemma sample_pod_statuses:
  "NestedSlice (sample_pod r) [''status'', ''containerStatuses''] = NFound [JMap [(''state'',
     JMap [(''waiting'', JMap [(''reason'', JStr r)])])]]"
  by (simp add: sample_pod_def NestedSlice_def)

lemma sample_driver_vendor: "lookup (GetAnnotations sample_driver) vendor_annotation = Some ''acme''"
  by code_simp


definition sample_grafana :: json where
  "sample_grafana = JMap [(''kind'', JStr ''ConfigMap''), (''data'', JMap [(''ocp-prometheus.yml'',
     JStr ''REPLACE_PROM_USER:REPLACE_PROM_PASS@REPLACE_PROM_URL'')])]"

definition sample_grafana_env :: "unit env" where
  "sample_grafana_env = bare_env\<lparr>json_Unmarshal := \<lambda>b. Inr [(''datasources'', JSlice [JMap
     [(''url'', JStr ''prom''), (''basicAuthPassword'', JStr ''pw'')]])], api_secret := \<lambda>ns n w. (Inr [], w)\<rparr>"


text \<open>
  The hooks that run before a resource is written only read from the cluster, leave the
  reconciler's fields alone, and whatever they do to the object they keep its kind, name,
  namespace, labels and annotations.
\<close>

lemma beforeCRUDhooks_keep_identity:
  "watches s (snd (beforeCRUDhooks E obj s)) \<and>
   (case fst (beforeCRUDhooks E obj s) of Val (err, obj') \<Rightarrow> same_meta obj' obj | _ \<Rightarrow> True)"
proof -
  have "watches s (snd (beforeCRUDhooks E obj s))"
    using watching.keeps_beforeCRUDhooks[of E obj] by (simp add: keeps_def)
  moreover have "fst (beforeCRUDhooks E obj s) = Val (err, obj') \<Longrightarrow> same_meta obj' obj" for err obj'
    using beforeCRUDhooks_same_meta[of E obj s err obj' "snd (beforeCRUDhooks E obj s)"]
    by (metis prod.collapse)
  ultimately show ?thesis by (auto split: outcome.split)
qed

text \<open>
  C24: nodes are labelled only behind the waits: when a hook after the write fails because an image
  cannot be pulled, the resource does not come up or its log does not match, then nothing but read
  requests has been sent, no label and no status.
\<close>

theorem afterCRUDhooks_failed_wait_labels_nothing:
  assumes "afterCRUDhooks E obj s = (Val (Some (WithMessage m e)), t)"
  shows "\<exists>cs. calls t = calls s @ cs \<and> list_all is_read cs"
proof -
  have r: "m u = (Val x, v) \<Longrightarrow> keeps (sends is_read) m \<Longrightarrow> sends is_read u v" for m :: "('a sro, goerr option) io" and x u v
    by (rule keepsD)
  have k: "keeps (sends is_read) (if c1 then checkForImagePullBackOff E obj else ret None)"
    "keeps (sends is_read) (if c2 then waitForResource E obj else ret None)"
    "keeps (sends is_read) (case po of Some p \<Rightarrow> if p \<noteq> [] then waitForDaemonSetLogs E obj p else ret None | None \<Rightarrow> ret None)"
    for c1 c2 and po :: "string option"
    by (auto intro!: vetting.keeps_checkForImagePullBackOff reads.keeps_waitForResource
        reads.keeps_waitForDaemonSetLogs reads.resp_ret split: option.split)
  have "sends is_read s t"
    using assms unfolding afterCRUDhooks_def Let_def
    by (elim on_err_ValE) (auto dest!: r[OF _ k(1)] r[OF _ k(2)] r[OF _ k(3)] labelNodes_errors intro: sends_trans)
  then show ?thesis by (simp add: sends_def)
qed

definition sample_waiting :: json where
  "sample_waiting = JMap [(''kind'', JStr ''Pod''), (''metadata'', JMap [(''annotations'',
     JMap [(''specialresource.openshift.io/wait'', JStr ''true'')])])]"

lemma sample_waiting_fails:
  "\<exists>e t. afterCRUDhooks bare_env sample_waiting (init_sro ()) = (Val (Some (WithMessage ''Could not wait for resource'' e)), t)"
proof -
  have a: "lookup (GetAnnotations sample_waiting) state_annotation = None"
    "lookup (GetAnnotations sample_waiting) ''specialresource.openshift.io/wait'' = Some ''true''"
    "GetKind sample_waiting = ''Pod''"
    by code_simp+
  have "\<exists>e t. waitForResource bare_env sample_waiting s = (Val (Some e), t)" for s :: "unit sro"
    by (simp add: waitForResource_def waitFor_def a waitForPod_def waitForResourceAvailability_def Poll_def
        tick_count_def client_Get_def IsNotFound_def Let_def io_simps)
  then obtain e t where "waitForResource bare_env sample_waiting (init_sro ()) = (Val (Some e), t)" by blast
  then show ?thesis by (simp add: afterCRUDhooks_def a on_err_def bnd_apply ret_apply)
qed

theorem afterCRUDhooks_failed_wait_labels_nothing_witness:
  "list_all is_read (calls (snd (afterCRUDhooks bare_env sample_waiting (init_sro ()))))"
proof -
  obtain e t where t: "afterCRUDhooks bare_env sample_waiting (init_sro ()) =
      (Val (Some (WithMessage ''Could not wait for resource'' e)), t)"
    using sample_waiting_fails by blast
  from afterCRUDhooks_failed_wait_labels_nothing[OF t] t show ?thesis by (auto simp: init_sro_def)
qed

end
