(* ===== verification/Manifests.thy ===== *)
theory Manifests
  imports Operator_State
begin

text \<open>
  Reading the recipe files of the operator image: \<open>src/controllers/manifests.go\<close>. \<open>filepath.Walk\<close>
  visits the root and then its entries in lexical order; because the callback answers
  \<open>SkipDir\<close> for every directory but the root, the walk never goes deeper, which is the part of it
  written out here. Every look at the file system is a step of its own, between which files may change.
\<close>

section \<open>controllers/manifests.go\<close>

record assetsFromFile =
  asset_name :: string
  asset_content :: string

text \<open>The pattern \<open>[0-9][0-9][0-9][0-9]-*.yaml\<close>.\<close>

definition asset_pattern :: "glob list" where
  "asset_pattern =
     replicate 4 (GRange (CHR ''0'') (CHR ''9'')) @ GLit (CHR ''-'') # GStar # map GLit ''.yaml''"

datatype walk_ret = WNil | WSkipDir

fun is_dir :: "fsnode \<Rightarrow> bool" where
  "is_dir (FDir r) = True"
| "is_dir n = False"

text \<open>One access to the file system: \<open>Stat\<close>, \<open>Lstat\<close>, the names in a directory, the bytes of a file.\<close>

definition look :: "'w env \<Rightarrow> string \<Rightarrow> ('w sro, fsnode) io" where
  "look E p = (\<lambda>s. case fs E p (world s) of (n, w) \<Rightarrow> (Val n, s\<lparr>world := w\<rparr>))"

text \<open>
  The callback. \<open>info\<close> is \<open>None\<close> for the nil \<open>os.FileInfo\<close> that \<open>Walk\<close> passes together with an
  error; the callback looks at it before it looks at the error, which is a nil dereference.
\<close>

definition walk_fn ::
    "string \<Rightarrow> string \<Rightarrow> string \<Rightarrow> fsnode option \<Rightarrow> string list \<Rightarrow> ('s, walk_ret \<times> string list) io" where
  "walk_fn root ext path info files =
     (case info of
        None \<Rightarrow> panic ''nil pointer dereference''
      | Some n \<Rightarrow>
          (if is_dir n then (if path = root then ret (WNil, files) else ret (WSkipDir, files))
           else if filepath_Ext path \<noteq> ext then ret (WNil, files)
           else if \<not> glob_match asset_pattern (filepath_Base path) then ret (WNil, files)
           else ret (WNil, files @ [path])))"

fun lstat :: "fsnode \<Rightarrow> fsnode option" where
  "lstat FMissing = None"
| "lstat (FErr e) = None"
| "lstat n = Some n"

text \<open>
  The entries of the root. \<open>Walk\<close> reads the names in a directory before it calls back, also in one that
  is then skipped; an error of reading them is only passed to the callback, which ignores it.
\<close>

primrec walk_names :: "'w env \<Rightarrow> string \<Rightarrow> string \<Rightarrow> string list \<Rightarrow> string list \<Rightarrow> ('w sro, string list) io" where
  "walk_names E root ext [] files = ret files"
| "walk_names E root ext (n # ns) files =
     bnd (look E (filepath_Join root n)) (\<lambda>node.
     bnd (if is_dir node then bnd (look E (filepath_Join root n)) (\<lambda>_. ret ()) else ret ()) (\<lambda>_.
     bnd (walk_fn root ext (filepath_Join root n) (lstat node) files) (\<lambda>(r, files).
     walk_names E root ext ns files)))"

definition filePathWalkDir :: "'w env \<Rightarrow> string \<Rightarrow> string \<Rightarrow> ('w sro, string list) io" where
  "filePathWalkDir E root ext =
     bnd (look E root) (\<lambda>stat.
     if stat = FMissing then os_Exit
     else
       bnd (look E root) (\<lambda>node.
       if is_dir node then
         bnd (look E root) (\<lambda>dir.
         bnd (walk_fn root ext root (lstat node) []) (\<lambda>(r, files).
         case dir of FDir (Inr names) \<Rightarrow> walk_names E root ext (sort names) files | _ \<Rightarrow> ret files))
       else bnd (walk_fn root ext root (lstat node) []) (\<lambda>(r, files). ret files)))"

primrec read_assets :: "'w env \<Rightarrow> string list \<Rightarrow> ('w sro, assetsFromFile list) io" where
  "read_assets E [] = ret []"
| "read_assets E (file # files) =
     bnd (look E file) (\<lambda>node. case node of
       FFile (Inr buffer) \<Rightarrow>
         bnd (read_assets E files) (\<lambda>as.
         ret (\<lparr>asset_name = filepath_Base file, asset_content = buffer\<rparr> # as))
     | FFile (Inl e) \<Rightarrow> panic (Error e)
     | FErr e \<Rightarrow> panic (Error e)
     | _ \<Rightarrow> panic ''read error'')"

definition getAssetsFrom :: "'w env \<Rightarrow> string \<Rightarrow> ('w sro, assetsFromFile list) io" where
  "getAssetsFrom E assets = bnd (filePathWalkDir E assets ''.yaml'') (read_assets E)"

lemma look_apply [io_simps]:
  "look E p s = (Val (fst (fs E p (world s))), s\<lparr>world := snd (fs E p (world s))\<rparr>)"
  by (simp add: look_def split: prod.split)

section \<open>Which files are read\<close>

definition is_digit :: "char \<Rightarrow> bool" where
  "is_digit c = (CHR ''0'' \<le> c \<and> c \<le> CHR ''9'')"

text \<open>A manifest name: four digits, a dash, anything, and the suffix \<open>.yaml\<close>.\<close>

definition is_manifest_name :: "string \<Rightarrow> bool" where
  "is_manifest_name n \<longleftrightarrow>
     (\<exists>d m. n = d @ ''-'' @ m @ ''.yaml'' \<and> length d = 4 \<and> list_all is_digit d \<and> CHR ''/'' \<notin> set m)"

lemma glob_match_digits:
  "glob_match (replicate k (GRange (CHR ''0'') (CHR ''9'')) @ ps) s \<longleftrightarrow>
     (\<exists>d r. s = d @ r \<and> length d = k \<and> list_all is_digit d \<and> glob_match ps r)"
proof (induction k arbitrary: s)
  case 0
  then show ?case by simp
next
  case (Suc k)
  show ?case
  proof (cases s)
    case Nil
    then show ?thesis by simp
  next
    case (Cons c t)
    have "(\<exists>d r. c # t = d @ r \<and> length d = Suc k \<and> list_all is_digit d \<and> glob_match ps r) \<longleftrightarrow>
        is_digit c \<and> (\<exists>d r. t = d @ r \<and> length d = k \<and> list_all is_digit d \<and> glob_match ps r)"
      (is "?L \<longleftrightarrow> is_digit c \<and> ?R")
    proof
      assume ?L
      then obtain d r where d: "c # t = d @ r" "length d = Suc k" "list_all is_digit d" "glob_match ps r"
        by blast
      then obtain d' where "d = c # d'" by (cases d) auto
      with d have "is_digit c" "t = d' @ r \<and> length d' = k \<and> list_all is_digit d' \<and> glob_match ps r"
        by auto
      then show "is_digit c \<and> ?R" by blast
    next
      assume "is_digit c \<and> ?R"
      then obtain d r where "is_digit c" "t = d @ r" "length d = k" "list_all is_digit d" "glob_match ps r"
        by blast
      then have "c # t = (c # d) @ r \<and> length (c # d) = Suc k \<and> list_all is_digit (c # d) \<and> glob_match ps r"
        by simp
      then show ?L by blast
    qed
    moreover have "glob_match (replicate (Suc k) (GRange (CHR ''0'') (CHR ''9'')) @ ps) (c # t) \<longleftrightarrow>
        is_digit c \<and> glob_match (replicate k (GRange (CHR ''0'') (CHR ''9'')) @ ps) t"
      by (simp add: is_digit_def)
    ultimately show ?thesis unfolding Cons by (simp only: Suc)
  qed
qed

lemma glob_match_GLit: "glob_match (GLit l # ps) s \<longleftrightarrow> (\<exists>r. s = l # r \<and> glob_match ps r)"
  by (cases s) auto

lemma asset_pattern_iff: "glob_match asset_pattern n \<longleftrightarrow> is_manifest_name n"
  unfolding asset_pattern_def is_manifest_name_def
  by (auto simp: glob_match_digits glob_match_GLit glob_match_star glob_match_lits
      simp del: glob_match.simps list.map)

lemma filepath_Ext_yaml:
  assumes "CHR ''/'' \<notin> set m"
  shows "filepath_Ext (filepath_Join dir (m @ ''.yaml'')) = ''.yaml''"
proof -
  have "filepath_Base (filepath_Join dir (m @ ''.yaml'')) = m @ ''.yaml''"
    using assms by (intro filepath_Base_Join) simp
  then show ?thesis by (simp add: filepath_Ext_def)
qed

lemma manifest_name_ext:
  assumes "is_manifest_name n" and "CHR ''/'' \<notin> set n"
  shows "filepath_Ext (filepath_Join dir n) = ''.yaml''"
proof -
  from assms(1) obtain d m where "n = (d @ ''-'' @ m) @ ''.yaml''"
    unfolding is_manifest_name_def by auto
  moreover from this assms(2) have "CHR ''/'' \<notin> set (d @ ''-'' @ m)" by simp
  ultimately show ?thesis using filepath_Ext_yaml by blast
qed

text \<open>
  A readable directory: its entries are plain names, and each is a directory or a file that can be
  read.
\<close>

definition readable_dir :: "(string \<Rightarrow> fsnode) \<Rightarrow> string \<Rightarrow> string list \<Rightarrow> bool" where
  "readable_dir fsm dir names \<longleftrightarrow> fsm dir = FDir (Inr names) \<and>
     (\<forall>n \<in> set names. CHR ''/'' \<notin> set n \<and>
        ((\<exists>r. fsm (filepath_Join dir n) = FDir r) \<or> (\<exists>c. fsm (filepath_Join dir n) = FFile (Inr c))))"

fun content_of :: "fsnode \<Rightarrow> string" where
  "content_of (FFile (Inr c)) = c"
| "content_of n = []"

definition manifest_names :: "(string \<Rightarrow> fsnode) \<Rightarrow> string \<Rightarrow> string list \<Rightarrow> string list" where
  "manifest_names fsm dir ns =
     filter (\<lambda>n. \<not> is_dir (fsm (filepath_Join dir n)) \<and> glob_match asset_pattern n) ns"

text \<open>A directory whose tree does not change while the operator runs, as in a container image.\<close>

definition fixed_tree :: "'w env \<Rightarrow> (string \<Rightarrow> fsnode) \<Rightarrow> string \<Rightarrow> bool" where
  "fixed_tree E fsm dir \<longleftrightarrow> (\<forall>p w. prefix dir p \<longrightarrow> fst (fs E p w) = fsm p)"

lemma look_fixed:
  assumes "fixed_tree E fsm dir"
  shows "\<exists>w. look E (filepath_Join dir n) s = (Val (fsm (filepath_Join dir n)), s\<lparr>world := w\<rparr>)"
    and "\<exists>w. look E dir s = (Val (fsm dir), s\<lparr>world := w\<rparr>)"
  using assms by (auto simp: fixed_tree_def look_apply filepath_Join_def)

lemma walk_fn_entry:
  assumes "CHR ''/'' \<notin> set n" and "lstat nd = Some nd"
  shows "walk_fn dir ''.yaml'' (filepath_Join dir n) (lstat nd) files s =
    (Val (if is_dir nd then WSkipDir else WNil,
         files @ (if \<not> is_dir nd \<and> glob_match asset_pattern n then [filepath_Join dir n] else [])), s)"
proof -
  have "filepath_Join dir n \<noteq> dir" by (simp add: filepath_Join_def)
  moreover have "glob_match asset_pattern n \<Longrightarrow> filepath_Ext (filepath_Join dir n) = ''.yaml''"
    using assms(1) asset_pattern_iff manifest_name_ext by blast
  ultimately show ?thesis using assms by (auto simp: walk_fn_def ret_apply)
qed

lemma walk_names_fixed:
  assumes "fixed_tree E fsm dir"
    and "\<And>n. n \<in> set ns \<Longrightarrow> CHR ''/'' \<notin> set n \<and> lstat (fsm (filepath_Join dir n)) = Some (fsm (filepath_Join dir n))"
  shows "\<exists>w. walk_names E dir ''.yaml'' ns files s =
    (Val (files @ map (filepath_Join dir) (manifest_names fsm dir ns)), s\<lparr>world := w\<rparr>)"
  using assms(2)
proof (induction ns arbitrary: files s)
  case Nil
  then show ?case by (auto simp: manifest_names_def ret_apply intro: exI[of _ "world s"])
next
  case (Cons n ns)
  let ?p = "filepath_Join dir n"
  let ?files = "files @ (if \<not> is_dir (fsm ?p) \<and> glob_match asset_pattern n then [?p] else [])"
  obtain w where 1: "look E ?p s = (Val (fsm ?p), s\<lparr>world := w\<rparr>)" using look_fixed(1)[OF assms(1)] by blast
  obtain w' where 2: "(if is_dir (fsm ?p) then bnd (look E ?p) (\<lambda>_. ret ()) else ret ()) (s\<lparr>world := w\<rparr>) =
      (Val (), s\<lparr>world := w'\<rparr>)"
    by (cases "is_dir (fsm ?p)") (auto simp: bnd_apply ret_apply look_apply)
  have 3: "walk_fn dir ''.yaml'' ?p (lstat (fsm ?p)) files u =
      (Val (if is_dir (fsm ?p) then WSkipDir else WNil, ?files), u)" for u :: "'a sro"
    using Cons(2)[of n] by (intro walk_fn_entry) auto
  obtain w'' where "walk_names E dir ''.yaml'' ns ?files (s\<lparr>world := w'\<rparr>) =
      (Val (?files @ map (filepath_Join dir) (manifest_names fsm dir ns)), s\<lparr>world := w''\<rparr>)"
    using Cons(1)[of ?files "s\<lparr>world := w'\<rparr>"] Cons(2) by auto
  then have "walk_names E dir ''.yaml'' (n # ns) files s =
      (Val (?files @ map (filepath_Join dir) (manifest_names fsm dir ns)), s\<lparr>world := w''\<rparr>)"
    by (simp only: walk_names.simps bnd_apply 1 2 3 outcome.case prod.case)
  then show ?case by (auto simp: manifest_names_def)
qed

lemma read_assets_fixed:
  assumes "fixed_tree E fsm dir" and "\<And>n. n \<in> set ns \<Longrightarrow> \<exists>c. fsm (filepath_Join dir n) = FFile (Inr c)"
  shows "\<exists>w. read_assets E (map (filepath_Join dir) ns) s =
    (Val (map (\<lambda>n. \<lparr>asset_name = filepath_Base (filepath_Join dir n),
       asset_content = content_of (fsm (filepath_Join dir n))\<rparr>) ns), s\<lparr>world := w\<rparr>)"
  using assms(2)
proof (induction ns arbitrary: s)
  case Nil
  then show ?case by (auto simp: ret_apply intro: exI[of _ "world s"])
next
  case (Cons n ns)
  obtain c where c: "fsm (filepath_Join dir n) = FFile (Inr c)" using Cons(2) by auto
  obtain w where 1: "look E (filepath_Join dir n) s = (Val (FFile (Inr c)), s\<lparr>world := w\<rparr>)"
    using look_fixed(1)[OF assms(1)] c by metis
  obtain w' where "read_assets E (map (filepath_Join dir) ns) (s\<lparr>world := w\<rparr>) =
      (Val (map (\<lambda>n. \<lparr>asset_name = filepath_Base (filepath_Join dir n),
         asset_content = content_of (fsm (filepath_Join dir n))\<rparr>) ns), s\<lparr>world := w'\<rparr>)"
    using Cons(1)[of "s\<lparr>world := w\<rparr>"] Cons(2) by auto
  with 1 c show ?case by (auto simp: bnd_apply ret_apply)
qed

lemma getAssetsFrom_fixed:
  assumes "fixed_tree E fsm dir" and "readable_dir fsm dir names"
  shows "\<exists>w. getAssetsFrom E dir s = (Val
    (map (\<lambda>n. \<lparr>asset_name = n, asset_content = content_of (fsm (filepath_Join dir n))\<rparr>)
      (manifest_names fsm dir (sort names))), s\<lparr>world := w\<rparr>)"
proof -
  let ?ns = "manifest_names fsm dir (sort names)"
  have dir: "fsm dir = FDir (Inr names)" using assms(2) by (simp add: readable_dir_def)
  have ent: "CHR ''/'' \<notin> set n \<and> lstat (fsm (filepath_Join dir n)) = Some (fsm (filepath_Join dir n))"
    if "n \<in> set (sort names)" for n
    using assms(2) that by (auto simp: readable_dir_def)
  have look: "\<exists>w. look E dir t = (Val (FDir (Inr names)), t\<lparr>world := w\<rparr>)" for t
    using look_fixed(2)[OF assms(1)] dir by metis
  obtain w1 where 1: "look E dir s = (Val (FDir (Inr names)), s\<lparr>world := w1\<rparr>)" using look by blast
  obtain w2 where 2: "look E dir (s\<lparr>world := w1\<rparr>) = (Val (FDir (Inr names)), s\<lparr>world := w2\<rparr>)"
    using look[of "s\<lparr>world := w1\<rparr>"] by auto
  obtain w3 where 3: "look E dir (s\<lparr>world := w2\<rparr>) = (Val (FDir (Inr names)), s\<lparr>world := w3\<rparr>)"
    using look[of "s\<lparr>world := w2\<rparr>"] by auto
  obtain w4 where "walk_names E dir ''.yaml'' (sort names) [] (s\<lparr>world := w3\<rparr>) =
      (Val (map (filepath_Join dir) ?ns), s\<lparr>world := w4\<rparr>)"
    using walk_names_fixed[OF assms(1) ent, of "sort names" "[]" "s\<lparr>world := w3\<rparr>"] by auto
  with 1 2 3 have walk: "filePathWalkDir E dir ''.yaml'' s = (Val (map (filepath_Join dir) ?ns), s\<lparr>world := w4\<rparr>)"
    by (simp add: filePathWalkDir_def walk_fn_def bnd_apply ret_apply)
  have "\<exists>c. fsm (filepath_Join dir n) = FFile (Inr c)" if "n \<in> set ?ns" for n
    using assms(2) that by (auto simp: readable_dir_def manifest_names_def)
  from read_assets_fixed[OF assms(1) this, where s = "s\<lparr>world := w4\<rparr>"] obtain w5
    where "read_assets E (map (filepath_Join dir) ?ns) (s\<lparr>world := w4\<rparr>) =
      (Val (map (\<lambda>n. \<lparr>asset_name = filepath_Base (filepath_Join dir n),
         asset_content = content_of (fsm (filepath_Join dir n))\<rparr>) ?ns), s\<lparr>world := w5\<rparr>)"
    by auto
  moreover have "filepath_Base (filepath_Join dir n) = n" if "n \<in> set ?ns" for n
    using ent that by (auto simp: manifest_names_def)
  ultimately show ?thesis using walk by (auto simp: getAssetsFrom_def bnd_apply cong: map_cong)
qed

context watch
begin

lemma keeps_look [resp]: "keeps R (look E p)"
  by (auto simp: keeps_def look_apply r_file)

lemma keeps_walk_fn [resp]: "keeps R (walk_fn root ext path info files)"
  unfolding walk_fn_def by (intro resp)

lemma keeps_walk_names [resp]: "keeps R (walk_names E root ext ns files)"
  by (induction ns arbitrary: files) (simp_all only: walk_names.simps, (intro resp; assumption?)+)

lemma keeps_read_assets [resp]: "keeps R (read_assets E files)"
  by (induction files) (auto intro!: resp split: fsnode.split sum.split)

lemma keeps_getAssetsFrom [resp]: "keeps R (getAssetsFrom E path)"
proof -
  have "keeps R (case dir of FDir (Inr names) \<Rightarrow> walk_names E path ''.yaml'' (sort names) files | _ \<Rightarrow> ret files)"
    for dir files
    by (auto intro!: resp split: fsnode.split sum.split)
  then show ?thesis unfolding getAssetsFrom_def filePathWalkDir_def by (intro resp)
qed

end

section \<open>Properties\<close>

text \<open>
  C34: from a readable directory, \<open>getAssetsFrom\<close> returns exactly the files directly in it whose name
  is four digits, a dash, anything and \<open>.yaml\<close>, sorted by name, each with its content, when nothing
  changes them meanwhile; it changes nothing in the operator's state and sends nothing.
\<close>

theorem getAssetsFrom_manifests:
  assumes "fixed_tree E fsm dir" and "readable_dir fsm dir names"
  shows "\<exists>as w. getAssetsFrom E dir s = (Val as, s\<lparr>world := w\<rparr>) \<and>
    map asset_name as = filter (\<lambda>n. is_manifest_name n \<and> \<not> is_dir (fsm (filepath_Join dir n))) (sort names) \<and>
    list_all (\<lambda>a. fsm (filepath_Join dir (asset_name a)) = FFile (Inr (asset_content a))) as"
proof -
  have "fsm (filepath_Join dir n) = FFile (Inr (content_of (fsm (filepath_Join dir n))))"
    if "n \<in> set (manifest_names fsm dir (sort names))" for n
    using assms(2) that by (auto simp: readable_dir_def manifest_names_def)
  moreover obtain w where "getAssetsFrom E dir s = (Val
      (map (\<lambda>n. \<lparr>asset_name = n, asset_content = content_of (fsm (filepath_Join dir n))\<rparr>)
        (manifest_names fsm dir (sort names))), s\<lparr>world := w\<rparr>)"
    using getAssetsFrom_fixed[OF assms] by blast
  ultimately show ?thesis
    by (intro exI conjI) (assumption, simp_all add: list_all_iff o_def manifest_names_def asset_pattern_iff conj_commute)
qed

definition sample_fs :: "string \<Rightarrow> fsnode" where
  "sample_fs p =
     (if p = ''/r'' then FDir (Inr [''0002-b.yaml'', ''0001-a.yaml'', ''notes.yaml'', ''0003-d.yaml''])
      else if p = ''/r/0003-d.yaml'' then FDir (Inr [])
      else FFile (Inr p))"

abbreviation sample_fs_env :: "unit env" where
  "sample_fs_env \<equiv> bare_env\<lparr>fs := \<lambda>p w. (sample_fs p, w)\<rparr>"

lemma sample_fs_readable:
  "fixed_tree sample_fs_env sample_fs ''/r''"
  "readable_dir sample_fs ''/r'' [''0002-b.yaml'', ''0001-a.yaml'', ''notes.yaml'', ''0003-d.yaml'']"
  by (simp_all add: fixed_tree_def readable_dir_def sample_fs_def filepath_Join_def)

theorem getAssetsFrom_manifests_witness:
  "\<exists>as t. getAssetsFrom sample_fs_env ''/r'' (init_sro ()) = (Val as, t) \<and>
     map asset_name as = [''0001-a.yaml'', ''0002-b.yaml'']"
proof -
  from getAssetsFrom_manifests[OF sample_fs_readable] obtain as w
    where as: "getAssetsFrom sample_fs_env ''/r'' (init_sro ()) = (Val as, (init_sro ())\<lparr>world := w\<rparr>)"
      and n: "map asset_name as = filter (\<lambda>n. glob_match asset_pattern n \<and> \<not> is_dir (sample_fs (filepath_Join ''/r'' n)))
          (sort [''0002-b.yaml'', ''0001-a.yaml'', ''notes.yaml'', ''0003-d.yaml''])"
    unfolding asset_pattern_iff by blast
  have "filter (\<lambda>n. glob_match asset_pattern n \<and> \<not> is_dir (sample_fs (filepath_Join ''/r'' n)))
      (sort [''0002-b.yaml'', ''0001-a.yaml'', ''notes.yaml'', ''0003-d.yaml'']) = [''0001-a.yaml'', ''0002-b.yaml'']"
    by code_simp
  with as n show ?thesis by auto
qed

end
