(* ===== verification/Yaml_Scan.thy ===== *)
theory Yaml_Scan
  imports Go_Std
begin

text \<open>
  Splitting a manifest into YAML documents: the scanner of \<open>src/yamlutil/scan.go\<close> and the reader
  it is built on (\<open>YAMLReader\<close> and \<open>LineReader\<close> of
  \<open>src/vendor/k8s.io/apimachinery/pkg/util/yaml/decoder.go\<close>, over \<open>bufio.Reader.ReadLine\<close>). The
  scanner is written over an abstract reader with the contract \<open>doc_reader\<close>; \<open>YAMLReader_Read\<close>
  satisfies it, so scanning always ends, never hits the panic on empty tokens, and visits the
  documents of \<open>documents\<close>, in order.
\<close>

section \<open>yamlutil/scan.go over an abstract reader\<close>

text \<open>
  What one \<open>Read\<close> gives: an error (\<open>Inl\<close>), the nil slice without error (\<open>Inr None\<close>) or a
  token (\<open>Inr (Some t)\<close>), and the reader after it.
\<close>

type_synonym 'r read = "'r \<Rightarrow> (goerr + string option) \<times> 'r"

record 'r Scanner =
  sc_reader :: 'r
  sc_token :: string
  sc_err :: "goerr option"
  sc_empties :: nat
  sc_done :: bool

definition maxExecutiveEmpties :: nat where
  "maxExecutiveEmpties = 100"

definition new_scanner :: "'r \<Rightarrow> 'r Scanner" where
  "new_scanner r = \<lparr>sc_reader = r, sc_token = [], sc_err = None, sc_empties = 0, sc_done = False\<rparr>"

definition Scanner_Err :: "'r Scanner \<Rightarrow> goerr option" where
  "Scanner_Err s = (if sc_err s = Some IoEOF then None else sc_err s)"

definition Scanner_Text :: "'r Scanner \<Rightarrow> string" where
  [simp]: "Scanner_Text s = sc_token s"

definition Scanner_Bytes :: "'r Scanner \<Rightarrow> string" where
  [simp]: "Scanner_Bytes s = sc_token s"

text \<open>
  The loop of \<open>Scan\<close>. It goes round only on a nil token, which counts \<open>empties\<close> up to the
  limit, so it ends for every reader.
\<close>

function scan_loop :: "'r read \<Rightarrow> 'r Scanner \<Rightarrow> bool outcome \<times> 'r Scanner" where
  "scan_loop rd s =
     (case rd (sc_reader s) of
        (Inl e, r) \<Rightarrow>
          (Val False, s\<lparr>sc_reader := r, sc_err := Some e, sc_done := (if e = IoEOF then True else sc_done s)\<rparr>)
      | (Inr None, r) \<Rightarrow>
          (if sc_empties s + 1 > maxExecutiveEmpties
           then (Panicked ''yaml.Scan: too many empty tokens without progressing'',
                 s\<lparr>sc_reader := r, sc_empties := sc_empties s + 1\<rparr>)
           else scan_loop rd (s\<lparr>sc_reader := r, sc_empties := sc_empties s + 1\<rparr>))
      | (Inr (Some t), r) \<Rightarrow> (Val True, s\<lparr>sc_reader := r, sc_empties := 0, sc_token := t\<rparr>))"
  by pat_completeness auto
termination
  by (relation "measure (\<lambda>(rd, s). Suc maxExecutiveEmpties - sc_empties s)") auto

declare scan_loop.simps [simp del]

definition Scan :: "'r read \<Rightarrow> 'r Scanner \<Rightarrow> bool outcome \<times> 'r Scanner" where
  "Scan rd s = (if sc_done s then (Val False, s) else scan_loop rd s)"

section \<open>The contract of a document reader\<close>

text \<open>
  A document reader never returns the nil token, makes progress with every token, and reports no
  error but the end of its input. \<open>docs r\<close> is the list of tokens it will give.
\<close>

locale doc_reader =
  fixes rd :: "'r read"
    and size :: "'r \<Rightarrow> nat"
  assumes no_nil: "rd r \<noteq> (Inr None, r')"
    and progress: "rd r = (Inr (Some t), r') \<Longrightarrow> size r' < size r"
    and only_eof: "rd r = (Inl e, r') \<Longrightarrow> e = IoEOF"
begin

lemma Scan_eq:
  "Scan rd s =
     (if sc_done s then (Val False, s)
      else case rd (sc_reader s) of
             (Inl e, r) \<Rightarrow> (Val False, s\<lparr>sc_reader := r, sc_err := Some IoEOF, sc_done := True\<rparr>)
           | (Inr t, r) \<Rightarrow> (Val True, s\<lparr>sc_reader := r, sc_empties := 0, sc_token := the t\<rparr>))"
proof (cases "rd (sc_reader s)")
  case (Pair a r)
  show ?thesis
  proof (cases a)
    case (Inl e)
    with Pair have "e = IoEOF" using only_eof by blast
    with Pair Inl show ?thesis by (simp add: Scan_def scan_loop.simps)
  next
    case (Inr t)
    with Pair no_nil obtain u where "t = Some u" by (cases t) auto
    with Pair Inr show ?thesis by (simp add: Scan_def scan_loop.simps)
  qed
qed

lemma Scan_returns: "\<exists>b s'. Scan rd s = (Val b, s')"
  by (cases "rd (sc_reader s)") (auto simp: Scan_eq split: sum.split)

lemma Scan_progress: "Scan rd s = (Val True, s') \<Longrightarrow> size (sc_reader s') < size (sc_reader s)"
proof -
  assume a: "Scan rd s = (Val True, s')"
  obtain a r where rd: "rd (sc_reader s) = (a, r)" by (cases "rd (sc_reader s)")
  with a obtain t where "a = Inr t" "sc_reader s' = r"
    by (auto simp: Scan_eq split: sum.splits if_splits)
  moreover from this rd no_nil obtain u where "t = Some u" by (cases t) auto
  ultimately show ?thesis using rd progress by simp
qed

lemma Scan_done: "Scan rd s = (Val False, s') \<Longrightarrow> sc_done s' \<and> (\<not> sc_done s \<longrightarrow> Scanner_Err s' = None)"
  by (cases "rd (sc_reader s)") (auto simp: Scan_eq Scanner_Err_def split: sum.splits if_splits)

end

section \<open>The YAML reader\<close>

text \<open>
  \<open>LineReader.Read\<close> over \<open>bufio.Reader.ReadLine\<close>: the bytes up to the next newline, which is
  dropped together with a carriage return in front of it, and then a newline is written back. At
  the end of the input only that newline is returned, with \<open>io.EOF\<close>.
\<close>

definition drop_cr :: "string \<Rightarrow> string" where
  "drop_cr l = (if l \<noteq> [] \<and> last l = CHR 0x0D then butlast l else l)"

definition LineReader_Read :: "string \<Rightarrow> string \<times> bool \<times> string" where
  "LineReader_Read rest =
     (if rest = [] then ([CHR 0x0A], True, [])
      else let l = takeWhile (\<lambda>c. c \<noteq> CHR 0x0A) rest; r = dropWhile (\<lambda>c. c \<noteq> CHR 0x0A) rest
           in case r of
                [] \<Rightarrow> (l @ [CHR 0x0A], False, [])
              | _ # r' \<Rightarrow> (drop_cr l @ [CHR 0x0A], False, r'))"

text \<open>
  Whether every rune of a byte string is white space (\<open>unicode.IsSpace\<close>): the ASCII blanks and
  the UTF-8 encodings of U+0085, U+00A0, U+1680, U+2000 to U+200A, U+2028, U+2029, U+202F, U+205F
  and U+3000. This is when \<open>strings.TrimRightFunc\<close> leaves nothing.
\<close>

definition byte :: "char \<Rightarrow> nat" where
  "byte c = of_char c"

definition space_rune2 :: "char \<Rightarrow> char \<Rightarrow> bool" where
  "space_rune2 c d = (byte c = 0xC2 \<and> byte d \<in> {0x85, 0xA0})"

definition space_rune3 :: "char \<Rightarrow> char \<Rightarrow> char \<Rightarrow> bool" where
  "space_rune3 c d e =
     (byte c = 0xE1 \<and> byte d = 0x9A \<and> byte e = 0x80
      \<or> byte c = 0xE2 \<and> byte d = 0x80 \<and> (0x80 \<le> byte e \<and> byte e \<le> 0x8A \<or> byte e \<in> {0xA8, 0xA9, 0xAF})
      \<or> byte c = 0xE2 \<and> byte d = 0x81 \<and> byte e = 0x9F
      \<or> byte c = 0xE3 \<and> byte d = 0x80 \<and> byte e = 0x80)"

fun all_space :: "string \<Rightarrow> bool" where
  "all_space [] = True"
| "all_space (c # s) =
     (byte c \<in> {9, 10, 11, 12, 13, 32} \<and> all_space s
      \<or> (case s of
           [] \<Rightarrow> False
         | d # s' \<Rightarrow>
             space_rune2 c d \<and> all_space s'
             \<or> (case s' of [] \<Rightarrow> False | e # s'' \<Rightarrow> space_rune3 c d e \<and> all_space s'')))"

definition is_separator :: "string \<Rightarrow> bool" where
  "is_separator line = (prefix ''---'' line \<and> all_space (drop 3 line))"

text \<open>
  \<open>YAMLReader.Read\<close> with the bytes buffered so far. A separator ends a non-empty buffer and is
  dropped; with an empty buffer it is kept as the first line of the document.
\<close>

lemma LineReader_progress [simp]:
  "LineReader_Read rest = (line, False, r') \<Longrightarrow> length r' < length rest"
proof -
  assume a: "LineReader_Read rest = (line, False, r')"
  then have ne: "rest \<noteq> []" by (auto simp: LineReader_Read_def)
  have "length (dropWhile (\<lambda>c. c \<noteq> CHR 0x0A) rest) \<le> length rest" by (rule length_dropWhile_le)
  with a ne show ?thesis
    by (auto simp: LineReader_Read_def Let_def split: list.splits)
qed

function yaml_read :: "string \<Rightarrow> string \<Rightarrow> (goerr + string option) \<times> string" where
  "yaml_read buf rest =
     (case LineReader_Read rest of
        (line, eof, r') \<Rightarrow>
          (if is_separator line \<and> buf \<noteq> [] then (Inr (Some buf), r')
           else if eof then (if buf \<noteq> [] then (Inr (Some buf), r') else (Inl IoEOF, r'))
           else yaml_read (buf @ line) r'))"
  by pat_completeness auto
termination
  by (relation "measure (\<lambda>(buf, rest). length rest)") (auto dest: LineReader_progress[OF sym])

declare yaml_read.simps [simp del]

definition YAMLReader_Read :: "string read" where
  "YAMLReader_Read rest = yaml_read [] rest"

section \<open>What is scanned\<close>

text \<open>The lines of an input as \<open>LineReader\<close> delivers them, and the documents they group into.\<close>

function lines_of :: "string \<Rightarrow> string list" where
  "lines_of rest =
     (case LineReader_Read rest of (line, eof, r') \<Rightarrow> if eof then [] else line # lines_of r')"
  by pat_completeness auto
termination
  by (relation "measure length") (auto dest: LineReader_progress[OF sym])

declare lines_of.simps [simp del]

fun group_lines :: "string \<Rightarrow> string list \<Rightarrow> string list" where
  "group_lines buf [] = (if buf = [] then [] else [buf])"
| "group_lines buf (l # ls) =
     (if is_separator l \<and> buf \<noteq> [] then buf # group_lines [] ls else group_lines (buf @ l) ls)"

definition documents :: "string \<Rightarrow> string list" where
  "documents y = group_lines [] (lines_of y)"

lemma LineReader_eof_iff: "LineReader_Read rest = (line, True, r') \<longleftrightarrow> rest = [] \<and> line = [CHR 0x0A] \<and> r' = []"
  by (auto simp: LineReader_Read_def Let_def split: list.splits)

lemma newline_not_separator [simp]: "\<not> is_separator [CHR 0x0A]"
  by (simp add: is_separator_def)

lemma yaml_read_cases:
  "case yaml_read buf rest of
     (Inl e, r) \<Rightarrow> e = IoEOF \<and> group_lines buf (lines_of rest) = []
   | (Inr None, r) \<Rightarrow> False
   | (Inr (Some t), r) \<Rightarrow> t \<noteq> [] \<and> group_lines buf (lines_of rest) = t # group_lines [] (lines_of r)
        \<and> (length r < length rest \<or> rest = [] \<and> r = [] \<and> t = buf)"
proof (induction buf rest rule: yaml_read.induct)
  case (1 buf rest)
  obtain line eof r' where l: "LineReader_Read rest = (line, eof, r')" by (cases "LineReader_Read rest") auto
  show ?case
  proof (cases eof)
    case True
    with l have e: "rest = []" "line = [CHR 0x0A]" "r' = []" by (auto simp: LineReader_eof_iff)
    then have "lines_of [] = []" using l True by (simp add: lines_of.simps)
    moreover have "yaml_read buf [] = (if buf \<noteq> [] then (Inr (Some buf), []) else (Inl IoEOF, []))"
      using l e True by (simp add: yaml_read.simps[of buf "[]"])
    ultimately show ?thesis using e(1) by simp
  next
    case False
    then have ln: "lines_of rest = line # lines_of r'" using l by (simp add: lines_of.simps[of rest])
    have lt: "length r' < length rest" using l False by simp
    show ?thesis
    proof (cases "is_separator line \<and> buf \<noteq> []")
      case True
      with l ln lt show ?thesis by (simp add: yaml_read.simps[of buf rest])
    next
      case no: False
      have "yaml_read buf rest = yaml_read (buf @ line) r'"
        using l no False by (subst yaml_read.simps) auto
      moreover have "group_lines buf (lines_of rest) = group_lines (buf @ line) (lines_of r')"
        using no ln by auto
      moreover note "1.IH"[OF l[symmetric] refl no] False lt
      ultimately show ?thesis by (auto split: prod.splits sum.splits option.splits)
    qed
  qed
qed

lemma YAMLReader_cases:
  shows "YAMLReader_Read r \<noteq> (Inr None, r')"
    and "YAMLReader_Read r = (Inr (Some t), r') \<Longrightarrow> length r' < length r"
    and "YAMLReader_Read r = (Inl e, r') \<Longrightarrow> e = IoEOF"
    and "YAMLReader_Read r = (Inr (Some t), r') \<Longrightarrow> t \<noteq> [] \<and> documents r = t # documents r'"
    and "YAMLReader_Read r = (Inl e, r') \<Longrightarrow> documents r = []"
  using yaml_read_cases[of "[]" r] by (auto simp: YAMLReader_Read_def documents_def)

interpretation yaml: doc_reader YAMLReader_Read length
  by unfold_locales (rule YAMLReader_cases, erule YAMLReader_cases, erule YAMLReader_cases)

definition NewYAMLScanner :: "string \<Rightarrow> string Scanner" where
  "NewYAMLScanner b = new_scanner b"

text \<open>The tokens that \<open>for scanner.Scan() { scanner.Bytes() }\<close> visits.\<close>

function scan_tokens :: "string Scanner \<Rightarrow> string list" where
  "scan_tokens sc = (case Scan YAMLReader_Read sc of
       (Val True, sc') \<Rightarrow> Scanner_Bytes sc' # scan_tokens sc'
     | _ \<Rightarrow> [])"
  by pat_completeness auto
termination
  by (relation "measure (\<lambda>sc. length (sc_reader sc))") (auto dest: yaml.Scan_progress[OF sym])

declare scan_tokens.simps [simp del]

lemma scan_tokens_documents:
  "\<not> sc_done sc \<Longrightarrow> scan_tokens sc = documents (sc_reader sc)"
proof (induction sc rule: scan_tokens.induct)
  case (1 sc)
  obtain a r where rd: "YAMLReader_Read (sc_reader sc) = (a, r)" by (cases "YAMLReader_Read (sc_reader sc)")
  show ?case
  proof (cases a)
    case (Inl e)
    with rd 1(2) have "Scan YAMLReader_Read sc =
        (Val False, sc\<lparr>sc_reader := r, sc_err := Some IoEOF, sc_done := True\<rparr>)"
      by (simp add: yaml.Scan_eq)
    with rd Inl show ?thesis by (simp add: scan_tokens.simps[of sc] YAMLReader_cases(5))
  next
    case (Inr t)
    with rd YAMLReader_cases(1) obtain u where u: "t = Some u" by (cases t) auto
    let ?sc' = "sc\<lparr>sc_reader := r, sc_empties := 0, sc_token := u\<rparr>"
    from rd Inr u 1(2) have sc: "Scan YAMLReader_Read sc = (Val True, ?sc')"
      by (simp add: yaml.Scan_eq)
    from 1(1)[OF sc[symmetric]] 1(2) have "scan_tokens ?sc' = documents r" by simp
    moreover have "documents (sc_reader sc) = u # documents r"
      using rd Inr u YAMLReader_cases(4) by blast
    ultimately show ?thesis using sc by (simp add: scan_tokens.simps[of sc])
  qed
qed

text \<open>Grouping drops nothing but separator lines, and no document is empty.\<close>

lemma group_lines_kept:
  "\<exists>ls'. subseq ls' ls \<and> concat (group_lines buf ls) = buf @ concat ls'
     \<and> filter (\<lambda>l. \<not> is_separator l) ls' = filter (\<lambda>l. \<not> is_separator l) ls"
proof (induction buf ls rule: group_lines.induct)
  case (1 buf)
  then show ?case by auto
next
  case (2 buf l ls)
  show ?case
  proof (cases "is_separator l \<and> buf \<noteq> []")
    case True
    with 2(1) obtain ls' where "subseq ls' ls" "concat (group_lines [] ls) = concat ls'"
      "filter (\<lambda>l. \<not> is_separator l) ls' = filter (\<lambda>l. \<not> is_separator l) ls" by auto
    with True show ?thesis by (intro exI[of _ ls']) auto
  next
    case False
    with 2(2) obtain ls' where "subseq ls' ls" "concat (group_lines (buf @ l) ls) = (buf @ l) @ concat ls'"
      "filter (\<lambda>l. \<not> is_separator l) ls' = filter (\<lambda>l. \<not> is_separator l) ls" by auto
    with False show ?thesis by (intro exI[of _ "l # ls'"]) auto
  qed
qed

lemma LineReader_nonempty: "LineReader_Read rest = (line, eof, r') \<Longrightarrow> line \<noteq> []"
  by (auto simp: LineReader_Read_def Let_def split: if_splits list.splits)

lemma lines_of_nonempty: "l \<in> set (lines_of rest) \<Longrightarrow> l \<noteq> []"
proof (induction rest rule: lines_of.induct)
  case (1 rest)
  obtain line eof r' where l: "LineReader_Read rest = (line, eof, r')" by (cases "LineReader_Read rest") auto
  with 1 show ?case
    by (auto simp: lines_of.simps[of rest] split: if_splits dest: LineReader_nonempty)
qed

lemma group_lines_nonempty: "d \<in> set (group_lines buf ls) \<Longrightarrow> d \<noteq> []"
  by (induction buf ls rule: group_lines.induct) (auto split: if_splits)

section \<open>Printing documents\<close>

text \<open>
  A manifest written out of documents given by their lines: every line is ended by a newline, and
  separators stand between the documents. A plain line holds no line break and is no separator.
\<close>

definition plain_line :: "string \<Rightarrow> bool" where
  "plain_line l \<longleftrightarrow> CHR 0x0A \<notin> set l \<and> (l = [] \<or> last l \<noteq> CHR 0x0D) \<and> \<not> is_separator (l @ [CHR 0x0A])"

definition print_lines :: "string list \<Rightarrow> string" where
  "print_lines ls = concat (map (\<lambda>l. l @ [CHR 0x0A]) ls)"

fun print_docs :: "string list list \<Rightarrow> string" where
  "print_docs [] = []"
| "print_docs [d] = print_lines d"
| "print_docs (d # ds) = print_lines d @ ''---'' @ [CHR 0x0A] @ print_docs ds"

lemma lines_of_Nil [simp]: "lines_of [] = []"
  by (simp add: lines_of.simps LineReader_Read_def)

lemma lines_of_line:
  assumes "CHR 0x0A \<notin> set l" and "l = [] \<or> last l \<noteq> CHR 0x0D"
  shows "lines_of (l @ CHR 0x0A # rest) = (l @ [CHR 0x0A]) # lines_of rest"
proof -
  from assms(1) have "takeWhile (\<lambda>c. c \<noteq> CHR 0x0A) (l @ CHR 0x0A # rest) = l"
    "dropWhile (\<lambda>c. c \<noteq> CHR 0x0A) (l @ CHR 0x0A # rest) = CHR 0x0A # rest"
    by (auto simp: takeWhile_append dropWhile_append)
  moreover from assms(2) have "drop_cr l = l" by (auto simp: drop_cr_def)
  ultimately show ?thesis
    by (simp add: lines_of.simps[of "l @ CHR 0x0A # rest"] LineReader_Read_def)
qed

lemma documents_print_lines:
  assumes "list_all plain_line ls"
  shows "group_lines buf (lines_of (print_lines ls @ rest)) = group_lines (buf @ print_lines ls) (lines_of rest)"
  using assms
  by (induction ls arbitrary: buf) (simp_all add: print_lines_def plain_line_def lines_of_line)

lemma separator_line: "lines_of (''---'' @ CHR 0x0A # rest) = (''---'' @ [CHR 0x0A]) # lines_of rest"
  by (rule lines_of_line) simp_all

lemma is_separator_line: "is_separator (''---'' @ [CHR 0x0A])"
  by code_simp

lemma print_lines_nonempty: "ls \<noteq> [] \<Longrightarrow> print_lines ls \<noteq> []"
  by (cases ls) (simp_all add: print_lines_def)

lemma documents_print_docs:
  assumes "list_all (\<lambda>d. d \<noteq> [] \<and> list_all plain_line d) dss"
  shows "documents (print_docs dss) = map print_lines dss"
  using assms
proof (induction dss rule: print_docs.induct)
  case 1
  then show ?case by (simp add: documents_def)
next
  case (2 d)
  then have "documents (print_lines d @ []) = [print_lines d]"
    unfolding documents_def by (subst documents_print_lines) (simp_all add: print_lines_nonempty)
  then show ?case by simp
next
  case (3 d d' ds)
  then have "documents (print_docs (d # d' # ds)) =
      group_lines (print_lines d) (lines_of (''---'' @ CHR 0x0A # print_docs (d' # ds)))"
    by (simp add: documents_def documents_print_lines)
  also have "\<dots> = print_lines d # documents (print_docs (d' # ds))"
    using 3(2) print_lines_nonempty[of d] is_separator_line
    by (subst separator_line) (simp add: documents_def)
  finally show ?case using 3 by simp
qed

section \<open>Too many empty tokens\<close>

text \<open>The next \<open>n\<close> reads all give the nil token.\<close>

primrec all_nil :: "'r read \<Rightarrow> nat \<Rightarrow> 'r \<Rightarrow> bool" where
  "all_nil rd 0 r = True"
| "all_nil rd (Suc n) r = (case rd r of (Inr None, r') \<Rightarrow> all_nil rd n r' | _ \<Rightarrow> False)"

lemma scan_loop_panics:
  "(\<exists>p. fst (scan_loop rd s) = Panicked p) \<longleftrightarrow>
     all_nil rd (Suc (maxExecutiveEmpties - sc_empties s)) (sc_reader s)"
proof (induction rd s rule: scan_loop.induct)
  case (1 rd s)
  show ?case
  proof (cases "fst (rd (sc_reader s)) = Inr None \<and> sc_empties s < maxExecutiveEmpties")
    case True
    then obtain r where r: "rd (sc_reader s) = (Inr None, r)" by (cases "rd (sc_reader s)") auto
    with True obtain k where "maxExecutiveEmpties - sc_empties s = Suc k"
      "maxExecutiveEmpties - Suc (sc_empties s) = k" by (metis Suc_diff_Suc)
    with 1[OF r[symmetric] refl refl] r True show ?thesis by (simp add: scan_loop.simps[of rd s])
  next
    case False
    then show ?thesis
      by (auto simp: scan_loop.simps[of rd s] split: prod.split sum.split option.split)
  qed
qed

section \<open>Properties\<close>


text \<open>
  No scanned document is empty, and all together they hold every line of the manifest in its
  order, except for some of the separator lines.
\<close>

lemma documents_lose_no_line:
  "[] \<notin> set (scan_tokens (NewYAMLScanner y)) \<and>
   (\<exists>ls. subseq ls (lines_of y) \<and> concat (scan_tokens (NewYAMLScanner y)) = concat ls \<and>
      filter (\<lambda>l. \<not> is_separator l) ls = filter (\<lambda>l. \<not> is_separator l) (lines_of y))"
  using group_lines_kept[of "lines_of y" "[]"] group_lines_nonempty[of "[]" "[]" "lines_of y"]
  by (auto simp: scan_tokens_documents NewYAMLScanner_def new_scanner_def documents_def)

text \<open>
  C23: documents that are written out with separators between them are scanned back as they were.
\<close>

theorem scan_print_docs:
  assumes "list_all (\<lambda>d. d \<noteq> [] \<and> list_all plain_line d) dss"
  shows "scan_tokens (NewYAMLScanner (print_docs dss)) = map print_lines dss"
  using documents_print_docs[OF assms]
  by (simp add: scan_tokens_documents NewYAMLScanner_def new_scanner_def)

theorem scan_print_docs_witness:
  "scan_tokens (NewYAMLScanner (print_docs [[''kind: Pod''], [''kind: Service'', ''spec:'']])) =
     [''kind: Pod'' @ [CHR 0x0A], ''kind: Service'' @ CHR 0x0A # ''spec:'' @ [CHR 0x0A]]"
proof -
  have "list_all (\<lambda>d. d \<noteq> [] \<and> list_all plain_line d) [[''kind: Pod''], [''kind: Service'', ''spec:'']]"
    by code_simp
  from scan_print_docs[OF this] show ?thesis by (simp add: print_lines_def)
qed

text \<open>
  C39: for any reader, \<open>Scan\<close> panics exactly when it is not done yet and the reads that bring its
  count of empty tokens above 100 all give the nil token.
\<close>

theorem Scan_panics_iff:
  "(\<exists>p. fst (Scan rd s) = Panicked p) \<longleftrightarrow>
     \<not> sc_done s \<and> all_nil rd (Suc (maxExecutiveEmpties - sc_empties s)) (sc_reader s)"
  using scan_loop_panics[of rd s] by (simp add: Scan_def)

text \<open>
  C38: with the YAML reader \<open>Scan\<close> always returns: true with fewer bytes left to read, or false, and
  then every later call returns false too.
\<close>

theorem Scan_returns_or_ends:
  "case Scan YAMLReader_Read s of
     (Val True, s') \<Rightarrow> length (sc_reader s') < length (sc_reader s)
   | (Val False, s') \<Rightarrow> Scan YAMLReader_Read s' = (Val False, s')
   | _ \<Rightarrow> False"
proof -
  obtain b s' where "Scan YAMLReader_Read s = (Val b, s')" using yaml.Scan_returns by blast
  then show ?thesis
    using yaml.Scan_progress[of s s'] yaml.Scan_done[of s s'] by (cases b) (auto simp: Scan_def)
qed

end
