(* ===== verification/Resources.thy ===== *)
theory Resources
  imports Callbacks Manifests Yaml_Scan
begin

text \<open>
  Creating and updating the resources of a recipe: \<open>src/controllers/resources.go\<close>.
\<close>

section \<open>CRUD\<close>

definition needToUpdateResourceVersion :: "string \<Rightarrow> bool" where
  "needToUpdateResourceVersion kind \<longleftrightarrow>
     kind = ''SecurityContextConstraints'' \<or> kind = ''Service'' \<or> kind = ''ServiceMonitor'' \<or>
     kind = ''Route'' \<or> kind = ''BuildConfig'' \<or> kind = ''ImageStream'' \<or>
     kind = ''PrometheusRule'' \<or> kind = ''CSIDriver''"

definition resourceNamespaced :: "string \<Rightarrow> bool" where
  "resourceNamespaced kind \<longleftrightarrow>
     \<not> (kind = ''Namespace'' \<or> kind = ''ClusterRole'' \<or> kind = ''ClusterRoleBinding'' \<or>
        kind = ''SecurityContextConstraint'' \<or> kind = ''SpecialResource'')"

text \<open>\<open>updateResourceVersion\<close> changes \<open>req\<close>; the model returns the changed object.\<close>

definition updateResourceVersion :: "json \<Rightarrow> json \<Rightarrow> ('w sro, goerr + json) io" where
  "updateResourceVersion req found =
     (let kind = GetKind found in
      bnd (if needToUpdateResourceVersion kind then
             bnd (exitOnErrorOrNotFound (NestedString found [''metadata'', ''resourceVersion''])) (\<lambda>version.
             ret (SetNestedField req (JStr version) [''metadata'', ''resourceVersion'']))
           else ret (Inr req)) (\<lambda>r.
      case r of
        Inl e \<Rightarrow> ret (Inl (WithMessage ''Couldn't update ResourceVersion'' e))
      | Inr req \<Rightarrow>
          if kind = ''Service'' then
            bnd (exitOnErrorOrNotFound (NestedString found [''spec'', ''clusterIP''])) (\<lambda>clusterIP.
            case SetNestedField req (JStr clusterIP) [''spec'', ''clusterIP''] of
              Inl e \<Rightarrow> ret (Inl (WithMessage ''Couldn't update clusterIP'' e))
            | Inr req \<Rightarrow> ret (Inr req))
          else ret (Inr req)))"

text \<open>
  The owner reference CRUD sets: the group and version the scheme has registered for
  \<open>SpecialResource\<close> (\<open>src/api/v1beta1/groupversion_info.go\<close>).
\<close>

definition sr_GroupVersion :: string where
  "sr_GroupVersion = ''sro.openshift.io/v1beta1''"

definition own :: "SpecialResource \<Rightarrow> json \<Rightarrow> goerr + json" where
  "own sr obj = SetControllerReference (meta_Namespace (sr_ObjectMeta sr)) (sr_Name sr)
     (meta_UID (sr_ObjectMeta sr)) sr_GroupVersion ''SpecialResource'' obj"

definition never_updated :: "string \<Rightarrow> bool" where
  "never_updated kind \<longleftrightarrow> kind = ''ServiceAccount'' \<or> kind = ''Pod'' \<or> kind = ''BuildConfig''"

text \<open>The update of an object that was found: a copy of it, with the version of what was found.\<close>

definition crud_update :: "'w env \<Rightarrow> json \<Rightarrow> json \<Rightarrow> ('w sro, goerr option \<times> json) io" where
  "crud_update E obj found =
     bnd (updateResourceVersion obj found) (\<lambda>r.
     case r of
       Inl e \<Rightarrow> ret (Some (WithMessage ''Couldn't Update ResourceVersion'' e), obj)
     | Inr required \<Rightarrow>
         bnd (client_Update E required) (\<lambda>(err, required).
         case err of
           Some e \<Rightarrow> ret (Some (WithMessage ''Couldn't Update Resource'' e), obj)
         | None \<Rightarrow> ret (None, obj)))"

text \<open>
  \<open>CRUD\<close> returns its error and the object it was given a pointer to: with its owner reference, and
  overwritten by the server's answer where it was created. An update goes out as a copy.
\<close>

definition CRUD :: "'w env \<Rightarrow> json \<Rightarrow> ('w sro, goerr option \<times> json) io" where
  "CRUD E obj =
     (let found = obj in
      bnd (gets specialresource) (\<lambda>sr.
      case (if GetKind obj \<noteq> ''SpecialResource'' then own sr obj else Inr obj) of
        Inl e \<Rightarrow> ret (Some (WithMessage ''Failed to set controller reference'' e), obj)
      | Inr obj \<Rightarrow>
          bnd (client_Get E (GetNamespace obj) (GetName obj) found) (\<lambda>(err, found).
          if IsNotFound err then
            bnd (client_Create E obj) (\<lambda>(err, obj).
            case err of
              Some e \<Rightarrow> ret (Some (WithMessage ''Couldn't Create Resource'' e), obj)
            | None \<Rightarrow> ret (None, obj))
          else if IsForbidden err then
            ret (Wrap err ''Forbidden check Role, ClusterRole and Bindings for operator'', obj)
          else if err \<noteq> None then ret (Wrap err ''Unexpected error'', obj)
          else if never_updated (GetKind obj) then ret (None, obj)
          else crud_update E obj found)))"

definition rebuildDriverContainer :: "json \<Rightarrow> ('w sro, goerr option) io" where
  "rebuildDriverContainer obj =
     (if GetKind obj = ''BuildConfig'' then
        (case lookup (GetAnnotations obj) vendor_annotation of
           Some vendor \<Rightarrow>
             bnd (gets (\<lambda>s. UpdateVendor (runInfo s))) (\<lambda>updateVendor.
             if vendor = updateVendor then ret None
             else ret (Some (Fundamental ''vendor != updateVendor'')))
         | None \<Rightarrow> ret (Some (Fundamental ''No driver-container-vendor found, nor vendor == updateVendor'')))
      else ret None)"

section \<open>createFromYAML\<close>

definition templateRuntimeInformation :: "'w env \<Rightarrow> string \<Rightarrow> ('w sro, goerr + string) io" where
  "templateRuntimeInformation E spec =
     bnd (gets runInfo) (\<lambda>ri.
     case template_exec E spec ri of
       TParseErr m \<Rightarrow> panic m
     | TExecErr e \<Rightarrow>
         ret (Inl (WithMessage ''Cannot templatize spec for resource info injection, check manifest'' e))
     | TOk out \<Rightarrow> ret (Inr out))"

text \<open>
  Templating, decoding and namespacing of one document: \<open>Inl\<close> is an error that \<open>createFromYAML\<close>
  returns.
\<close>

definition decode_doc :: "'w env \<Rightarrow> string \<Rightarrow> string \<Rightarrow> ('w sro, goerr + json) io" where
  "decode_doc E namespace yamlSpec =
     bnd (templateRuntimeInformation E yamlSpec) (\<lambda>r.
     case r of
       Inl e \<Rightarrow> ret (Inl (WithMessage ''Cannot inject runtime information 1st pass'' e))
     | Inr yamlSpec \<Rightarrow>
         bnd (templateRuntimeInformation E yamlSpec) (\<lambda>r.
         case r of
           Inl e \<Rightarrow> ret (Inl (WithMessage ''Cannot inject runtime information 2nd pass'' e))
         | Inr yamlSpec \<Rightarrow>
             (case yaml_to_json E yamlSpec of
                Inl e \<Rightarrow> ret (Inl (WithMessage (''Could not convert yaml file to json'' @ yamlSpec) e))
              | Inr jsonSpec \<Rightarrow>
                  bnd (must (UnmarshalJSON E jsonSpec)) (\<lambda>m.
                  let obj = JMap m in
                  ret (Inr (if resourceNamespaced (GetKind obj) then SetNamespace obj namespace else obj))))))"

text \<open>
  The body of the loop over the documents: \<open>Some r\<close> returns \<open>r\<close> from \<open>createFromYAML\<close>, which also
  is how a build configuration that is not to be rebuilt ends it.
\<close>

definition create_doc :: "'w env \<Rightarrow> string \<Rightarrow> string \<Rightarrow> ('w sro, goerr option option) io" where
  "create_doc E namespace yamlSpec =
     bnd (decode_doc E namespace yamlSpec) (\<lambda>r.
     case r of
       Inl e \<Rightarrow> ret (Some (Some e))
     | Inr obj \<Rightarrow>
         on_err (rebuildDriverContainer obj) (\<lambda>e. ret (Some None))
        (bnd (beforeCRUDhooks E obj) (\<lambda>(err, obj).
         case err of
           Some e \<Rightarrow> ret (Some (Some (WithMessage ''Before CRUD hooks failed'' e)))
         | None \<Rightarrow>
             bnd (CRUD E obj) (\<lambda>(err, obj).
             bnd (exitOnError (Wrap err ''CRUD exited non-zero'')) (\<lambda>_.
             on_err (afterCRUDhooks E obj)
               (\<lambda>e. ret (Some (Some (WithMessage ''After CRUD hooks failed'' e))))
               (ret None))))))"

function create_loop :: "'w env \<Rightarrow> string \<Rightarrow> string Scanner \<Rightarrow> 'w sro \<Rightarrow> goerr option outcome \<times> 'w sro" where
  "create_loop E namespace scanner s =
     (case Scan YAMLReader_Read scanner of
        (Val True, scanner') \<Rightarrow>
          (case create_doc E namespace (Scanner_Bytes scanner') s of
             (Val None, s') \<Rightarrow> create_loop E namespace scanner' s'
           | (Val (Some r), s') \<Rightarrow> (Val r, s')
           | (Exited, s') \<Rightarrow> (Exited, s')
           | (Panicked p, s') \<Rightarrow> (Panicked p, s'))
      | (Val False, scanner') \<Rightarrow> (Val (Wrap (Scanner_Err scanner') ''Failed to scan manifest''), s)
      | (Exited, scanner') \<Rightarrow> (Exited, s)
      | (Panicked p, scanner') \<Rightarrow> (Panicked p, s))"
  by pat_completeness auto
termination
  by (relation "measure (\<lambda>(E, ns, sc, s). length (sc_reader sc))") (auto dest: yaml.Scan_progress[OF sym])

declare create_loop.simps [simp del]

definition createFromYAML :: "'w env \<Rightarrow> string \<Rightarrow> string \<Rightarrow> ('w sro, goerr option) io" where
  "createFromYAML E yamlFile namespace = create_loop E namespace (NewYAMLScanner yamlFile)"

section \<open>Namespace, role binding, configuration\<close>

definition namespace_yaml :: string where
  "namespace_yaml = ''apiVersion: v1
kind: Namespace
metadata:
  annotations:
    specialresource.openshift.io/wait: \"true\"
  name: ''"

definition createSpecialResourceNamespace :: "'w env \<Rightarrow> ('w sro, unit) io" where
  "createSpecialResourceNamespace E =
     bnd (gets specialresource) (\<lambda>sr.
     bnd (if sr_Namespace sr \<noteq> [] then ret ()
          else modify (\<lambda>s. s\<lparr>specialresource := set_spec_namespace (sr_Name sr) sr\<rparr>)) (\<lambda>_.
     bnd (gets (\<lambda>s. namespace_yaml @ sr_Namespace (specialresource s))) (\<lambda>ns.
     bnd (createFromYAML E ns []) exitOnError)))"

definition builder_subject :: "string \<Rightarrow> json" where
  "builder_subject ns =
     JMap [(''kind'', JStr ''ServiceAccount''), (''name'', JStr ''builder''), (''namespace'', JStr ns)]"

text \<open>
  The loop over the subjects of an existing binding: whether one of the wanted namespace is there.
  A subject whose namespace is not a string ends the process.
\<close>

fun has_subject :: "string \<Rightarrow> json list \<Rightarrow> ('w sro, bool) io" where
  "has_subject ns [] = ret False"
| "has_subject ns (subject # subjects) = (case subject of
       JMap m \<Rightarrow>
         (case NestedString subject [''namespace''] of
            NErr e \<Rightarrow> os_Exit
          | n \<Rightarrow> if nested_val [] n = ns then ret True else has_subject ns subjects)
     | _ \<Rightarrow> has_subject ns subjects)"

definition set_or_exit :: "json \<Rightarrow> json \<Rightarrow> string list \<Rightarrow> ('w sro, json) io" where
  "set_or_exit obj v path = must (SetNestedField obj v path)"

text \<open>Filling in a binding that does not exist yet.\<close>

definition fill_binding :: "string \<Rightarrow> string \<Rightarrow> json \<Rightarrow> ('w sro, json) io" where
  "fill_binding ns parentNs rb =
     bnd (set_or_exit (SetNamespace (SetName rb ''system:image-puller'') ns)
            (JStr ''rbac.authorization.k8s.io'') [''roleRef'', ''apiGroup'']) (\<lambda>rb.
     bnd (set_or_exit rb (JStr ''ClusterRole'') [''roleRef'', ''kind'']) (\<lambda>rb.
     bnd (set_or_exit rb (JStr ''system:image-puller'') [''roleRef'', ''name'']) (\<lambda>rb.
     ret (setNestedField rb (JSlice [builder_subject parentNs]) [''subjects'']))))"

text \<open>What is done with the answer to the \<open>Get\<close>.\<close>

definition ensure_binding :: "'w env \<Rightarrow> string \<Rightarrow> string \<Rightarrow> goerr option \<Rightarrow> json \<Rightarrow> ('w sro, goerr option) io" where
  "ensure_binding E ns parentNs err rb =
     (if IsNotFound err then
        bnd (fill_binding ns parentNs rb) (\<lambda>rb.
        bnd (client_Create E rb) (\<lambda>(err, rb).
        case err of
          Some e \<Rightarrow> ret (Some (WithMessage ''Couldn't Create Resource'' e))
        | None \<Rightarrow> ret None))
      else if IsForbidden err then
        ret (Wrap err ''Forbidden check Role, ClusterRole and Bindings for operator'')
      else if err \<noteq> None then ret (Wrap err ''Unexpected error'')
      else
        (case NestedSlice rb [''subjects''] of
           NErr e \<Rightarrow> os_Exit
         | n \<Rightarrow>
             bnd (has_subject parentNs (nested_val [] n)) (\<lambda>present.
             if present then ret None
             else
               bnd (client_Update E
                      (setNestedField rb (JSlice (nested_val [] n @ [builder_subject parentNs])) [''subjects''])) (\<lambda>(err, rb).
               case err of
                 Some e \<Rightarrow> ret (Some (WithMessage ''Couldn't Update Resource'' e))
               | None \<Rightarrow> ret None))))"

definition createImagePullerRoleBinding :: "'w env \<Rightarrow> ('w sro, goerr option) io" where
  "createImagePullerRoleBinding E =
     bnd (gets (\<lambda>s. (dep_ImageReference (dependency s), sr_Namespace (specialresource s),
                     sr_Namespace (parent s)))) (\<lambda>(imageReference, ns, parentNs).
     if imageReference \<noteq> ''true'' then ret None
     else bnd (client_Get E ns ''system:image-puller''
                 (new_object ''rbac.authorization.k8s.io/v1'' ''RoleBinding'')) (\<lambda>(err, rb).
          ensure_binding E ns parentNs err rb))"

text \<open>
  The configuration built from the local recipes: the assets in the order read, a later one
  replacing an earlier one of the same name.
\<close>

definition asset_data :: "assetsFromFile list \<Rightarrow> (string \<times> json) list" where
  "asset_data as = fold (\<lambda>a. AList.update (asset_name a) (JStr (asset_content a))) as []"

definition getLocalHardwareConfiguration :: "'w env \<Rightarrow> string \<Rightarrow> string \<Rightarrow> ('w sro, goerr + json) io" where
  "getLocalHardwareConfiguration E path name =
     bnd (ret (SetName (new_object ''v1'' ''ConfigMap'') name)) (\<lambda>cm.
     bnd (getAssetsFrom E path) (\<lambda>manifests.
     case SetNestedField cm (JMap (asset_data manifests)) [''data''] of
       Inl e \<Rightarrow> ret (Inl (WithMessage ''Couldn't update ConfigMap data field'' e))
     | Inr cm \<Rightarrow> ret (Inr cm)))"

text \<open>Any error of the \<open>Get\<close> other than not found is dropped.\<close>

definition getHardwareConfiguration :: "'w env \<Rightarrow> ('w sro, goerr + json) io" where
  "getHardwareConfiguration E =
     bnd (gets (\<lambda>s. (sr_Namespace (specialresource s), sr_Name (specialresource s)))) (\<lambda>(ns, name).
     bnd (client_Get E ns name (new_object ''v1'' ''ConfigMap'')) (\<lambda>(err, cm).
     if IsNotFound err then
       getLocalHardwareConfiguration E (''/opt/sro/recipes/'' @ name @ ''/manifests'') name
     else ret (Inr cm)))"

section \<open>Reconciling the states\<close>

text \<open>The body of the loop: the entry of a state must be a string, or the type assertion panics.\<close>

definition run_state :: "'w env \<Rightarrow> (string \<times> json) list \<Rightarrow> string \<Rightarrow> ('w sro, goerr option) io" where
  "run_state E manifests state = (case map_of manifests state of
       Some (JStr y) \<Rightarrow>
         bnd (gets (\<lambda>s. sr_Namespace (specialresource s))) (\<lambda>ns.
         on_err (createFromYAML E y ns)
           (\<lambda>e. ret (Some (WithMessage ''Failed to create resources'' e))) (ret None))
     | _ \<Rightarrow> panic ''interface conversion: interface {} is not string'')"

definition ReconcileHardwareStates :: "'w env \<Rightarrow> json \<Rightarrow> ('w sro, goerr option) io" where
  "ReconcileHardwareStates E config =
     bnd (exitOnErrorOrNotFound (NestedMap config [''data''])) (\<lambda>manifests.
     for_range (run_state E manifests) (sort (map fst manifests)))"

definition ReconcileHardwareConfigurations :: "'w env \<Rightarrow> ('w sro, goerr option) io" where
  "ReconcileHardwareConfigurations E =
     bnd (createSpecialResourceNamespace E) (\<lambda>_.
     on_err (createImagePullerRoleBinding E)
       (\<lambda>e. ret (Some (WithMessage ''Could not create ImagePuller RoleBinding '' e)))
     (bnd (getHardwareConfiguration E) (\<lambda>r.
      case r of
        Inl e \<Rightarrow> ret (Some (WithMessage ''Error reconciling Hardware Configuration States'' e))
      | Inr config \<Rightarrow>
          bnd (bnd (cacheNodes E False) must) (\<lambda>_.
          bnd (getRuntimeInformation E) (\<lambda>_.
          on_err (ReconcileHardwareStates E config)
            (\<lambda>e. ret (Some (WithMessage ''Cannot reconcile hardware states'' e))) (ret None))))))"

section \<open>What is created and updated\<close>

text \<open>
  An object is owned when it has a metadata map and its controller is a \<open>SpecialResource\<close>; nothing
  is said of objects whose metadata is no map, on which the setters have no effect.
\<close>

definition owned :: "json \<Rightarrow> bool" where
  "owned obj \<longleftrightarrow> (\<forall>m. NestedFieldNoCopy obj [''metadata''] = NFound (JMap m) \<longrightarrow>
     (\<exists>r. GetControllerOf obj = Some r \<and> or_APIVersion r = sr_GroupVersion \<and> or_Kind r = ''SpecialResource''))"

definition in_namespace :: "string \<Rightarrow> json \<Rightarrow> bool" where
  "in_namespace ns obj \<longleftrightarrow> (resourceNamespaced (GetKind obj) \<longrightarrow> GetNamespace obj \<in> {ns, []})"

definition child :: "string \<Rightarrow> json \<Rightarrow> bool" where
  "child ns obj \<longleftrightarrow> (GetKind obj = ''SpecialResource'' \<or> owned obj) \<and> in_namespace ns obj \<and>
     (GetKind obj = ''BuildConfig'' \<longrightarrow> lookup (GetAnnotations obj) vendor_annotation \<noteq> None)"

definition child_update :: "string \<Rightarrow> json \<Rightarrow> bool" where
  "child_update ns obj \<longleftrightarrow> \<not> never_updated (GetKind obj) \<and> in_namespace ns obj"

lemma SetOwnerReferences_controller:
  assumes "NestedFieldNoCopy (SetOwnerReferences obj refs) [''metadata''] = NFound (JMap m)"
  shows "GetOwnerReferences (SetOwnerReferences obj refs) = refs"
proof (cases "SetNestedField obj (JSlice (map owner_ToUnstructured refs)) [''metadata'', ''ownerReferences'']")
  case (Inl e)
  with assms have "NestedFieldNoCopy obj [''metadata''] = NFound (JMap m)"
    by (simp add: SetOwnerReferences_def setNestedField_def)
  with has_metadata_SetNestedField Inl show ?thesis by (metis sum.distinct(1))
next
  case (Inr j)
  then have "NestedFieldNoCopy j [''metadata'', ''ownerReferences''] =
      NFound (JSlice (map owner_ToUnstructured refs))"
    by (rule SetNestedField_same)
  with Inr show ?thesis
    by (simp add: SetOwnerReferences_def setNestedField_def GetOwnerReferences_def o_def)
qed

lemma own_keeps:
  assumes "own sr obj = Inr obj'"
  shows "same_meta obj' obj"
  using SetControllerReference_keeps[OF assms[unfolded own_def]] by (simp add: same_meta_def)

lemma own_controller:
  assumes "own sr obj = Inr obj'" and "NestedFieldNoCopy obj' [''metadata''] = NFound (JMap m)"
  shows "GetControllerOf obj' = Some
    \<lparr>or_APIVersion = sr_GroupVersion, or_Kind = ''SpecialResource'', or_Name = sr_Name sr,
     or_UID = meta_UID (sr_ObjectMeta sr), or_Controller = Some True, or_BlockOwnerDeletion = Some True\<rparr>"
  using assms(1)[unfolded own_def]
proof (rule SetControllerReference_cases)
  fix ref
  assume ref: "ref = \<lparr>or_APIVersion = sr_GroupVersion, or_Kind = ''SpecialResource'', or_Name = sr_Name sr,
      or_UID = meta_UID (sr_ObjectMeta sr), or_Controller = Some True, or_BlockOwnerDeletion = Some True\<rparr>"
    and obj': "obj' = SetOwnerReferences obj (upsertOwnerRef ref (GetOwnerReferences obj))"
    and same: "\<And>r. GetControllerOf obj = Some r \<Longrightarrow> referSameObject r ref"
  have "find (\<lambda>r. or_Controller r = Some True) (upsertOwnerRef ref (GetOwnerReferences obj)) = Some ref"
    using same by (intro find_upsertOwnerRef) (auto simp: ref GetControllerOf_def)
  with assms(2) show ?thesis
    by (simp add: GetControllerOf_def obj' SetOwnerReferences_controller ref)
qed

lemma own_owned: "own sr obj = Inr obj' \<Longrightarrow> owned obj'"
  by (auto simp: owned_def dest: own_controller)

lemma updateResourceVersion_same_meta:
  assumes "updateResourceVersion req found s = (Val (Inr req'), t)"
  shows "same_meta req' req"
  using assms
  by (auto simp: updateResourceVersion_def Let_def elim!: bnd_ValE
      split: if_splits sum.splits dest!: SetNestedField_same_meta)
    (simp add: same_meta_def)

section \<open>What the operations keep\<close>

context watch
begin

lemma keeps_updateResourceVersion [resp]: "keeps R (updateResourceVersion req found)"
  unfolding updateResourceVersion_def Let_def by (intro resp)

lemma keeps_rebuildDriverContainer [resp]: "keeps R (rebuildDriverContainer obj)"
  unfolding rebuildDriverContainer_def by (intro resp)

lemma keeps_templateRuntimeInformation [resp]: "keeps R (templateRuntimeInformation E spec)"
  unfolding templateRuntimeInformation_def by (intro resp)

lemma keeps_decode_doc [resp]: "keeps R (decode_doc E ns y)"
  unfolding decode_doc_def by (intro resp)

lemma keeps_getHardwareConfiguration [resp]: "keeps R (getHardwareConfiguration E)"
  unfolding getHardwareConfiguration_def getLocalHardwareConfiguration_def by (intro resp)

lemma keeps_has_subject [resp]: "keeps R (has_subject ns subjects)"
proof (induction subjects)
  case (Cons subject subjects)
  then show ?case by (simp only: has_subject.simps) (intro resp)
qed (simp only: has_subject.simps, intro resp)

lemma keeps_set_or_exit [resp]: "keeps R (set_or_exit obj v path)"
  unfolding set_or_exit_def by (intro resp)

end

lemma SetNamespace_in_namespace: "in_namespace ns (SetNamespace obj ns)"
  using GetNamespace_SetNamespace[of obj ns] by (simp add: in_namespace_def)

lemma decode_doc_in_namespace:
  "decode_doc E ns y s = (Val (Inr obj), t) \<Longrightarrow> in_namespace ns obj"
  by (auto simp: decode_doc_def must_def Let_def SetNamespace_in_namespace elim!: bnd_ValE
      split: sum.splits) (simp add: in_namespace_def)

lemma decode_doc_wf:
  "decode_doc E ns y s = (Val (Inr obj), t) \<Longrightarrow> wf_env E \<Longrightarrow> wf_obj obj"
  by (auto simp: decode_doc_def must_def Let_def wf_env_def wf_obj_setters simp del: wf_obj_JMap
      elim!: bnd_ValE split: sum.splits)

lemma rebuildDriverContainer_None:
  "rebuildDriverContainer obj s = (Val None, t) \<Longrightarrow> t = s \<and>
     (GetKind obj = ''BuildConfig'' \<longrightarrow>
        lookup (GetAnnotations obj) vendor_annotation = Some (UpdateVendor (runInfo s)))"
  by (auto simp: rebuildDriverContainer_def gets_def elim!: bnd_ValE split: if_splits option.splits)

context operate
begin

lemma keeps_crud_update:
  assumes "\<And>req and s t :: 'w sro. updateResourceVersion obj found s = (Val (Inr req), t) \<Longrightarrow> oku req"
  shows "keeps R (crud_update E obj found)"
  unfolding crud_update_def
proof (rule resp_bnd_result)
  fix r and s t :: "'w sro"
  assume upd: "updateResourceVersion obj found s = (Val r, t)"
  have "oku req" if "r = Inr req" for req
    using upd unfolding that by (rule assms)
  then show "keeps R (case r of
       Inl e \<Rightarrow> ret (Some (WithMessage ''Couldn't Update ResourceVersion'' e), obj)
     | Inr required \<Rightarrow>
         bnd (client_Update E required) (\<lambda>(err, required).
         case err of
           Some e \<Rightarrow> ret (Some (WithMessage ''Couldn't Update Resource'' e), obj)
         | None \<Rightarrow> ret (None, obj)))"
    by (intro resp) simp
qed (intro resp)

end

context create
begin

lemma keeps_CRUD:
  assumes c: "\<And>sr obj'. GetKind obj = ''SpecialResource'' \<and> obj' = obj \<or> own sr obj = Inr obj' \<Longrightarrow> okc obj'"
    and u: "\<And>obj'. same_meta obj' obj \<Longrightarrow> \<not> never_updated (GetKind obj) \<Longrightarrow> oku obj'"
  shows "keeps R (CRUD E obj)"
proof -
  have obj: "okc obj' \<and> same_meta obj' obj"
    if "(if GetKind obj \<noteq> ''SpecialResource'' then own sr obj else Inr obj) = Inr obj'" for sr obj'
    using that c own_keeps by (auto split: if_splits)
  have "keeps R (crud_update E obj' found)"
    if "same_meta obj' obj" "\<not> never_updated (GetKind obj')" for obj' found
    using that u by (intro keeps_crud_update) (auto dest!: updateResourceVersion_same_meta simp: same_meta_def)
  with obj show ?thesis unfolding CRUD_def Let_def by (intro resp) blast+
qed

end

text \<open>The objects \<open>CRUD\<close> is given when a manifest is worked off in a namespace.\<close>

definition admitted :: "'w env \<Rightarrow> string \<Rightarrow> json \<Rightarrow> bool" where
  "admitted E ns obj \<longleftrightarrow> in_namespace ns obj \<and>
     (GetKind obj = ''BuildConfig'' \<longrightarrow> lookup (GetAnnotations obj) vendor_annotation \<noteq> None) \<and>
     (wf_env E \<longrightarrow> wf_obj obj)"

text \<open>A build configuration passes the guard only when its vendor is the one to rebuild.\<close>

definition cleared :: "json \<Rightarrow> 'w sro \<Rightarrow> bool" where
  "cleared obj s \<longleftrightarrow> (GetKind obj = ''BuildConfig'' \<longrightarrow>
     lookup (GetAnnotations obj) vendor_annotation = Some (UpdateVendor (runInfo s)))"

interpretation same_vendor: watch "\<lambda>s t. UpdateVendor (runInfo t) = UpdateVendor (runInfo s)" E for E :: "'w env"
  by unfold_locales (simp_all add: sent_def)

lemma cleared_after_hooks:
  assumes "rebuildDriverContainer obj s = (Val None, t)" and "beforeCRUDhooks E obj t = (Val (err, obj'), u)"
  shows "cleared obj' u"
  using rebuildDriverContainer_None[OF assms(1)] beforeCRUDhooks_same_meta[OF assms(2)]
    keepsD[OF same_vendor.keeps_beforeCRUDhooks assms(2)]
  by (simp add: cleared_def same_meta_def)

text \<open>
  Supervision of everything a manifest can make the operator write: \<open>CRUD\<close> on the objects of an
  admitted namespace that have passed the guard, the check of a driver container, and node labels.
\<close>

locale supervise = operate R E oku
  for R :: "'w sro \<Rightarrow> 'w sro \<Rightarrow> bool" and E :: "'w env" and oku :: "json \<Rightarrow> bool" +
  fixes nsok :: "string \<Rightarrow> bool"
  assumes ok_CRUD: "nsok ns \<Longrightarrow> admitted E ns obj \<Longrightarrow> cleared obj s \<Longrightarrow> R s (snd (CRUD E obj s))"
    and ok_check: "keeps R (checkForImagePullBackOff E obj)"
    and ok_labels: "keeps R (labelNodesAccordingToState E obj)"
begin

text \<open>\<open>CRUD\<close> and what follows it in the loop over the documents.\<close>

lemma after_CRUD:
  assumes "nsok ns" and "admitted E ns obj" and "cleared obj s"
  shows "R s (snd (bnd (CRUD E obj) (\<lambda>(err, obj).
     bnd (exitOnError (Wrap err ''CRUD exited non-zero'')) (\<lambda>_.
     on_err (afterCRUDhooks E obj)
       (\<lambda>e. ret (Some (Some (WithMessage ''After CRUD hooks failed'' e))))
       (ret None))) s))"
  by (rule step_bnd, rule ok_CRUD[OF assms], rule keeps_snd)
    (intro resp keeps_afterCRUDhooks ok_labels ok_check)

lemma keeps_create_doc:
  assumes "nsok ns"
  shows "keeps R (create_doc E ns y)"
  unfolding create_doc_def
proof (rule resp_bnd_result, rule resp)
  fix r s t
  assume d: "decode_doc E ns y s = (Val r, t)"
  show "keeps R (case r of
       Inl e \<Rightarrow> ret (Some (Some e))
     | Inr obj \<Rightarrow>
         on_err (rebuildDriverContainer obj) (\<lambda>e. ret (Some None))
        (bnd (beforeCRUDhooks E obj) (\<lambda>(err, obj).
         case err of
           Some e \<Rightarrow> ret (Some (Some (WithMessage ''Before CRUD hooks failed'' e)))
         | None \<Rightarrow>
             bnd (CRUD E obj) (\<lambda>(err, obj).
             bnd (exitOnError (Wrap err ''CRUD exited non-zero'')) (\<lambda>_.
             on_err (afterCRUDhooks E obj)
               (\<lambda>e. ret (Some (Some (WithMessage ''After CRUD hooks failed'' e))))
               (ret None))))))"
  proof (cases r)
    case (Inl e)
    then show ?thesis by (simp add: resp_ret)
  next
    case (Inr obj)
    from d Inr have ns: "in_namespace ns obj" "wf_env E \<longrightarrow> wf_obj obj"
      using decode_doc_in_namespace decode_doc_wf by blast+
    have ok: "admitted E ns obj' \<and> cleared obj' w"
      if "rebuildDriverContainer obj u = (Val None, v)" "beforeCRUDhooks E obj v = (Val (err, obj'), w)"
      for obj' err and u v w :: "'w sro"
      using ns beforeCRUDhooks_same_meta[OF that(2)] beforeCRUDhooks_wf[OF that(2)] rebuildDriverContainer_None[OF that(1)]
        cleared_after_hooks[OF that]
      by (auto simp: admitted_def in_namespace_def same_meta_def)
    show ?thesis unfolding Inr sum.case
    proof (rule keepsI, rule step_on_err)
      fix u v :: "'w sro"
      assume passed: "rebuildDriverContainer obj u = (Val None, v)"
      show "R v (snd (bnd (beforeCRUDhooks E obj) (\<lambda>(err, obj).
         case err of
           Some e \<Rightarrow> ret (Some (Some (WithMessage ''Before CRUD hooks failed'' e)))
         | None \<Rightarrow>
             bnd (CRUD E obj) (\<lambda>(err, obj).
             bnd (exitOnError (Wrap err ''CRUD exited non-zero'')) (\<lambda>_.
             on_err (afterCRUDhooks E obj)
               (\<lambda>e. ret (Some (Some (WithMessage ''After CRUD hooks failed'' e))))
               (ret None)))) v))"
      proof (rule step_bnd, rule keeps_snd, rule keeps_beforeCRUDhooks, clarify)
        fix err obj' w
        assume "beforeCRUDhooks E obj v = (Val (err, obj'), w)"
        with ok passed have "admitted E ns obj'" "cleared obj' w" by blast+
        note after_CRUD[OF assms this]
        then show "R w (snd ((case err of
             Some e \<Rightarrow> ret (Some (Some (WithMessage ''Before CRUD hooks failed'' e)))
           | None \<Rightarrow>
               bnd (CRUD E obj') (\<lambda>(err, obj).
               bnd (exitOnError (Wrap err ''CRUD exited non-zero'')) (\<lambda>_.
               on_err (afterCRUDhooks E obj)
                 (\<lambda>e. ret (Some (Some (WithMessage ''After CRUD hooks failed'' e))))
                 (ret None)))) w))"
          by (cases err) (simp_all add: keeps_snd resp_ret)
      qed
    qed (auto intro!: keeps_snd resp_ret keeps_rebuildDriverContainer)
  qed
qed

end

section \<open>createFromYAML visits the documents\<close>

text \<open>The loop over the scanner is a loop over the documents of the manifest.\<close>

lemma create_loop_documents:
  assumes "\<not> sc_done sc"
  shows "create_loop E ns sc s =
    bnd (for_range (create_doc E ns) (documents (sc_reader sc)))
      (\<lambda>r. ret (case r of Some e \<Rightarrow> e | None \<Rightarrow> None)) s"
  using assms
proof (induction E ns sc s rule: create_loop.induct)
  case (1 E ns sc s)
  obtain a r where rd: "YAMLReader_Read (sc_reader sc) = (a, r)"
    by (cases "YAMLReader_Read (sc_reader sc)")
  show ?case
  proof (cases a)
    case (Inl e)
    with rd 1(2) have "Scan YAMLReader_Read sc =
        (Val False, sc\<lparr>sc_reader := r, sc_err := Some IoEOF, sc_done := True\<rparr>)"
      by (simp add: yaml.Scan_eq)
    with rd Inl YAMLReader_cases(5) show ?thesis
      by (simp add: create_loop.simps[of E ns sc s] Scanner_Err_def io_simps)
  next
    case (Inr t)
    with rd YAMLReader_cases(1) obtain u where u: "t = Some u" by (cases t) auto
    let ?sc' = "sc\<lparr>sc_reader := r, sc_empties := 0, sc_token := u\<rparr>"
    have sc: "Scan YAMLReader_Read sc = (Val True, ?sc')"
      using rd Inr u 1(2) by (simp add: yaml.Scan_eq)
    have doc: "documents (sc_reader sc) = u # documents r"
      using rd Inr u YAMLReader_cases(4) by blast
    have ih: "create_doc E ns u s = (Val None, s') \<Longrightarrow> create_loop E ns ?sc' s' =
        bnd (for_range (create_doc E ns) (documents r)) (\<lambda>r. ret (case r of Some e \<Rightarrow> e | None \<Rightarrow> None)) s'" for s'
      using 1(1)[OF sc[symmetric] refl] 1(2) by simp
    show ?thesis
      using sc doc ih
      by (auto simp: create_loop.simps[of E ns sc s] io_simps split: prod.split outcome.split option.split)
  qed
qed

lemma createFromYAML_documents:
  "createFromYAML E y ns =
     bnd (for_range (create_doc E ns) (documents y)) (\<lambda>r. ret (case r of Some e \<Rightarrow> e | None \<Rightarrow> None))"
  by (rule ext) (simp add: createFromYAML_def NewYAMLScanner_def new_scanner_def create_loop_documents)

context supervise
begin

lemma keeps_createFromYAML: "nsok ns \<Longrightarrow> keeps R (createFromYAML E y ns)"
  unfolding createFromYAML_documents by (intro resp keeps_create_doc)

end

text \<open>
  Supervision of a whole reconcile: any namespace may be worked in, and the binding that lets
  another namespace pull images may be written.
\<close>

definition image_puller_binding :: "json \<Rightarrow> bool" where
  "image_puller_binding obj \<longleftrightarrow> GetKind obj = ''RoleBinding'' \<and> GetName obj = ''system:image-puller''"

lemma new_binding_kind: "GetKind (new_object v k) = k"
  by (simp add: new_object_def SetKind_def SetAPIVersion_def GetKind_def getNestedString_def
      setNestedField_def NestedString_def)

lemma GetName_SetName:
  assumes "NestedFieldNoCopy obj [''metadata''] = NMissing" and "\<exists>m. obj = JMap m" and "n \<noteq> []"
  shows "GetName (SetName obj n) = n"
  using assms by (auto simp: SetName_def setNestedField_def GetName_def getNestedString_def
      NestedString_def update_conv split: option.splits)

lemma SetName_keeps_kind: "GetKind (SetName obj n) = GetKind obj"
  by (simp add: SetName_def meta_defs meta_simps)

lemma set_or_exit_same_meta:
  assumes "set_or_exit obj v (f # ps) s = (Val obj', t)" and "f \<noteq> ''kind''" and "f \<noteq> ''metadata''"
  shows "same_meta obj' obj"
  using assms by (auto simp: set_or_exit_def must_def split: sum.splits elim!: SetNestedField_same_meta)

lemma setNestedField_same_meta:
  assumes "f \<noteq> ''kind''" and "f \<noteq> ''metadata''"
  shows "same_meta (setNestedField obj v (f # ps)) obj"
  using assms by (auto simp: setNestedField_def split: sum.splits elim!: SetNestedField_same_meta)

lemma fill_binding_result:
  assumes "fill_binding ns p (new_object ''rbac.authorization.k8s.io/v1'' ''RoleBinding'') s = (Val rb, t)"
  shows "image_puller_binding rb"
proof -
  let ?o = "SetName (new_object ''rbac.authorization.k8s.io/v1'' ''RoleBinding'') ''system:image-puller''"
  have "GetName ?o = ''system:image-puller''"
    by (rule GetName_SetName) (simp_all add: new_object_def SetKind_def SetAPIVersion_def setNestedField_def)
  moreover have "GetKind ?o = ''RoleBinding''" by (simp add: SetName_keeps_kind new_binding_kind)
  moreover have "same_meta rb (SetNamespace ?o ns)"
  proof -
    from assms obtain a b c where "rb = setNestedField c (JSlice [builder_subject p]) [''subjects'']"
      and "same_meta c b" and "same_meta b a" and "same_meta a (SetNamespace ?o ns)"
      by (auto simp: fill_binding_def elim!: bnd_ValE dest!: set_or_exit_same_meta)
    moreover have "same_meta (setNestedField c (JSlice [builder_subject p]) [''subjects'']) c"
      by (rule setNestedField_same_meta) simp_all
    ultimately show ?thesis by (simp add: same_meta_def)
  qed
  ultimately show ?thesis by (simp add: image_puller_binding_def same_meta_def)
qed

lemma client_Get_result:
  assumes "client_Get E ns n obj s = (Val (err, j), t)"
  shows "err = None \<and> (\<exists>m. j = SetGroupVersionKind (JMap m) (GroupVersionKind obj)) \<or> err \<noteq> None \<and> j = obj"
  using assms by (auto simp: client_Get_def Let_def elim!: bnd_ValE split: sum.splits)

lemma GetKind_SetGroupVersionKind [simp]: "GetKind (SetGroupVersionKind (JMap m) k) = gvk_Kind k"
  by (simp add: SetGroupVersionKind_def SetKind_def SetAPIVersion_def GetKind_def getNestedString_def
      setNestedField_def NestedString_def update_conv)

lemma binding_gvk: "gvk_Kind (GroupVersionKind (new_object ''rbac.authorization.k8s.io/v1'' ''RoleBinding'')) = ''RoleBinding''"
  by code_simp

lemma client_Get_binding_kind:
  assumes "client_Get E ns n (new_object ''rbac.authorization.k8s.io/v1'' ''RoleBinding'') s = (Val (err, rb), t)"
  shows "GetKind rb = ''RoleBinding''"
    and "IsNotFound err \<Longrightarrow> rb = new_object ''rbac.authorization.k8s.io/v1'' ''RoleBinding''"
  using client_Get_result[OF assms] by (auto simp: binding_gvk new_binding_kind)

context watch
begin

lemma keeps_fill_binding [resp]: "keeps R (fill_binding ns p rb)"
  unfolding fill_binding_def by (intro resp)

end

locale govern = supervise R E oku nsok
  for R :: "'w sro \<Rightarrow> 'w sro \<Rightarrow> bool" and E :: "'w env" and oku :: "json \<Rightarrow> bool"
    and nsok :: "string \<Rightarrow> bool" +
  assumes ok_namespace: "nsok ns"
    and ok_binding [resp]: "keeps R (createImagePullerRoleBinding E)"
begin

lemma keeps_createSpecialResourceNamespace [resp]: "keeps R (createSpecialResourceNamespace E)"
  unfolding createSpecialResourceNamespace_def
  by (intro resp resp_modify r_sr keeps_createFromYAML ok_namespace)

lemma keeps_run_state [resp]: "keeps R (run_state E manifests state)"
  unfolding run_state_def by (intro resp keeps_createFromYAML ok_namespace)

lemma keeps_ReconcileHardwareStates [resp]: "keeps R (ReconcileHardwareStates E config)"
  unfolding ReconcileHardwareStates_def by (intro resp)

lemma keeps_ReconcileHardwareConfigurations [resp]: "keeps R (ReconcileHardwareConfigurations E)"
  unfolding ReconcileHardwareConfigurations_def by (intro resp)

end

section \<open>Contracts by the form of the written objects\<close>

text \<open>
  For a relation that looks only at the form of the objects written, the laws of \<open>supervise\<close> and
  \<open>govern\<close> follow from conditions on those objects.
\<close>

locale supervise_forms = create R E oku okc + vet R E
  for R :: "'w sro \<Rightarrow> 'w sro \<Rightarrow> bool" and E :: "'w env" and oku okc :: "json \<Rightarrow> bool" +
  fixes nsok :: "string \<Rightarrow> bool"
  assumes form_child: "nsok ns \<Longrightarrow> child ns obj \<Longrightarrow> okc obj"
    and form_child_update: "nsok ns \<Longrightarrow> child_update ns obj \<Longrightarrow> oku obj"
    and form_label_update: "label_update obj \<Longrightarrow> oku obj"
begin

lemma keeps_CRUD_child:
  assumes "nsok ns" and "admitted E ns obj"
  shows "keeps R (CRUD E obj)"
proof (rule keeps_CRUD)
  fix sr obj'
  assume "GetKind obj = ''SpecialResource'' \<and> obj' = obj \<or> own sr obj = Inr obj'"
  then show "okc obj'"
    using assms own_owned own_keeps
    by (intro form_child[OF assms(1)]) (auto simp: admitted_def child_def in_namespace_def same_meta_def)
next
  fix obj'
  assume "same_meta obj' obj" and "\<not> never_updated (GetKind obj)"
  with assms show "oku obj'"
    by (intro form_child_update[OF assms(1)])
      (auto simp: admitted_def child_update_def in_namespace_def same_meta_def)
qed

end

sublocale supervise_forms \<subseteq> supervise R E oku nsok
  by unfold_locales (auto intro: keeps_snd keeps_CRUD_child keeps_checkForImagePullBackOff
      keeps_labelNodesAccordingToState form_label_update)

locale govern_forms = supervise_forms R E oku okc nsok
  for R :: "'w sro \<Rightarrow> 'w sro \<Rightarrow> bool" and E :: "'w env" and oku okc :: "json \<Rightarrow> bool"
    and nsok :: "string \<Rightarrow> bool" +
  assumes form_namespace: "nsok ns"
    and form_binding: "image_puller_binding obj \<Longrightarrow> okc obj"
    and form_binding_update: "GetKind obj = ''RoleBinding'' \<Longrightarrow> oku obj"
begin

lemma keeps_ensure_binding:
  assumes "GetKind rb = ''RoleBinding''"
    and "IsNotFound err \<Longrightarrow> rb = new_object ''rbac.authorization.k8s.io/v1'' ''RoleBinding''"
  shows "keeps R (ensure_binding E ns p err rb)"
proof -
  have "oku (setNestedField rb v [''subjects''])" for v
    using assms(1) setNestedField_same_meta[of "''subjects''" rb v "[]"]
    by (intro form_binding_update) (simp add: same_meta_def)
  moreover have "okc rb'" if "fill_binding ns p rb s = (Val rb', t)" "IsNotFound err" for rb' s t
    using that assms(2) fill_binding_result form_binding by blast
  ultimately show ?thesis
    unfolding ensure_binding_def by (auto intro!: resp resp_bnd_result)
qed

lemma keeps_createImagePullerRoleBinding: "keeps R (createImagePullerRoleBinding E)"
proof -
  have "keeps R (bnd (client_Get E ns n (new_object ''rbac.authorization.k8s.io/v1'' ''RoleBinding''))
      (\<lambda>(err, rb). ensure_binding E ns p err rb))" for ns n p
    by (rule resp_bnd_result)
      (auto intro!: resp keeps_ensure_binding dest: client_Get_binding_kind)
  then show ?thesis
    unfolding createImagePullerRoleBinding_def by (auto intro!: resp_bnd resp_gets resp_ret)
qed

end

sublocale govern_forms \<subseteq> govern R E oku nsok
  by unfold_locales (simp_all add: form_namespace keeps_createImagePullerRoleBinding)

section \<open>Helper lemmas\<close>

text \<open>What a manifest worked off in the namespace \<open>ns\<close> may write.\<close>

fun confined :: "string \<Rightarrow> call \<Rightarrow> bool" where
  "confined ns (CCreate obj) = child ns obj"
| "confined ns (CUpdate obj) = (child_update ns obj \<or> label_update obj)"
| "confined ns c = True"

lemma confined_read: "is_read c \<Longrightarrow> confined ns c"
  by (cases c) simp_all

interpretation confine: supervise_forms "sends (confined ns)" E
    "\<lambda>obj. child_update ns obj \<or> label_update obj" "child ns" "\<lambda>n. n = ns" for ns and E :: "'w env"
proof unfold_locales
  fix s :: "'w sro" and c
  show "is_read c \<Longrightarrow> sends (confined ns) s (sent E c s)"
    by (auto simp: sends_def sent_def confined_read)
qed (auto simp: sends_def sent_def)

text \<open>The object \<open>CRUD\<close> works on: with its owner reference, unless it is a custom resource itself.\<close>

definition owned_form :: "SpecialResource \<Rightarrow> json \<Rightarrow> goerr + json" where
  "owned_form sr obj = (if GetKind obj \<noteq> ''SpecialResource'' then own sr obj else Inr obj)"

lemma owned_form_same_meta: "owned_form sr obj = Inr obj' \<Longrightarrow> same_meta obj' obj"
  by (auto simp: owned_form_def split: if_splits dest: own_keeps)

lemma CRUD_owned_form:
  assumes "owned_form (specialresource s) obj = Inr obj'"
  shows "CRUD E obj s =
    bnd (client_Get E (GetNamespace obj) (GetName obj) obj) (\<lambda>(err, found).
      if IsNotFound err then
        bnd (client_Create E obj') (\<lambda>(err, obj).
        case err of Some e \<Rightarrow> ret (Some (WithMessage ''Couldn't Create Resource'' e), obj) | None \<Rightarrow> ret (None, obj))
      else if IsForbidden err then ret (Wrap err ''Forbidden check Role, ClusterRole and Bindings for operator'', obj')
      else if err \<noteq> None then ret (Wrap err ''Unexpected error'', obj')
      else if never_updated (GetKind obj') then ret (None, obj')
      else crud_update E obj' found) s"
  using assms owned_form_same_meta[OF assms]
  by (simp add: CRUD_def owned_form_def same_meta_def bnd_apply[of "gets specialresource"] gets_apply)

lemma client_Get_Inl:
  assumes "fst (api_get E (GroupVersionKind obj) ns n (world s)) = Inl e"
  shows "\<exists>w. client_Get E ns n obj s = (Val (Some e, obj), s\<lparr>world := w, calls := calls s @ [CGet (GroupVersionKind obj) ns n]\<rparr>)"
  using assms by (auto simp: client_Get_def Let_def io_simps)

lemma client_Get_Inr:
  assumes "fst (api_get E (GroupVersionKind obj) ns n (world s)) = Inr m"
  shows "\<exists>w. client_Get E ns n obj s = (Val (None, SetGroupVersionKind (JMap m) (GroupVersionKind obj)),
    s\<lparr>world := w, calls := calls s @ [CGet (GroupVersionKind obj) ns n]\<rparr>)"
  using assms by (auto simp: client_Get_def Let_def io_simps)

lemma client_Create_calls:
  "\<exists>w r. client_Create E obj s = (Val r, s\<lparr>world := w, calls := calls s @ [CCreate obj]\<rparr>)"
  by (auto simp: client_Create_def Let_def io_simps split: sum.split)

lemma client_Update_calls:
  "\<exists>w r. client_Update E obj s = (Val r, s\<lparr>world := w, calls := calls s @ [CUpdate obj]\<rparr>)"
  by (auto simp: client_Update_def Let_def io_simps split: sum.split)

section \<open>Properties\<close>


text \<open>
  \<open>createFromYAML\<close> runs the body of its loop on the documents of the manifest, in order, until one
  returns, and returns what that one returned, and no error at the end.
\<close>

lemma createFromYAML_runs_documents:
  "createFromYAML E y ns s =
     (case for_range (create_doc E ns) (documents y) s of
        (Val (Some r), t) \<Rightarrow> (Val r, t)
      | (Val None, t) \<Rightarrow> (Val None, t)
      | (Exited, t) \<Rightarrow> (Exited, t)
      | (Panicked p, t) \<Rightarrow> (Panicked p, t))"
  by (simp add: createFromYAML_documents bnd_apply ret_apply split: prod.split outcome.split option.split)

text \<open>
  C7: \<open>CRUD\<close> on an object the server does not know sends exactly a \<open>Get\<close> and the creation of the
  object with its owner reference.
\<close>

theorem CRUD_creates_missing:
  assumes "owned_form (specialresource s) obj = Inr obj'"
    and "fst (api_get E (GroupVersionKind obj) (GetNamespace obj) (GetName obj) (world s)) = Inl e"
    and "IsNotFound (Some e)"
  shows "\<exists>w r. CRUD E obj s = (Val r, s\<lparr>world := w, calls := calls s @ [get_call obj, CCreate obj']\<rparr>)"
proof -
  from client_Get_Inl[OF assms(2)] obtain w where
    g: "client_Get E (GetNamespace obj) (GetName obj) obj s =
      (Val (Some e, obj), s\<lparr>world := w, calls := calls s @ [get_call obj]\<rparr>)" by blast
  obtain w' err j where c: "client_Create E obj' (s\<lparr>world := w, calls := calls s @ [get_call obj]\<rparr>) =
      (Val (err, j), s\<lparr>world := w', calls := calls s @ [get_call obj, CCreate obj']\<rparr>)"
    using client_Create_calls[of E obj' "s\<lparr>world := w, calls := calls s @ [get_call obj]\<rparr>"] by auto
  show ?thesis
    using g c assms(3)
    by (auto simp: CRUD_owned_form[OF assms(1)] bnd_apply ret_apply split: option.split)
qed

definition sample_object :: "string \<Rightarrow> json" where
  "sample_object kind = JMap [(''kind'', JStr kind), (''apiVersion'', JStr ''v1''),
     (''metadata'', JMap [(''name'', JStr ''x''), (''namespace'', JStr ''ns''), (''resourceVersion'', JStr ''7'')])]"

lemma sample_owned: "\<exists>obj'. owned_form zero_SpecialResource (sample_object k) = Inr obj'"
  by (simp add: owned_form_def own_def SetControllerReference_def validateOwner_def GetControllerOf_def
      GetOwnerReferences_def sample_object_def zero_SpecialResource_def)

lemma sample_meta: "GetKind (sample_object k) = k" "GetNamespace (sample_object k) = ''ns''"
  "GetName (sample_object k) = ''x''"
  by (simp_all add: sample_object_def meta_defs getNestedString_def NestedString_def)

theorem CRUD_creates_missing_witness:
  "\<exists>obj'. owned_form zero_SpecialResource (sample_object ''Service'') = Inr obj' \<and>
     calls (snd (CRUD bare_env (sample_object ''Service'') (init_sro ()))) =
       [get_call (sample_object ''Service''), CCreate obj']"
proof -
  obtain obj' where o: "owned_form zero_SpecialResource (sample_object ''Service'') = Inr obj'"
    using sample_owned by blast
  then have "owned_form (specialresource (init_sro ())) (sample_object ''Service'') = Inr obj'"
    by (simp add: init_sro_def)
  from CRUD_creates_missing[OF this, of bare_env "StatusError ''NotFound'' ''x''"] o show ?thesis
    by (auto simp: IsNotFound_def sample_meta init_sro_def)
qed

text \<open>
  C8: \<open>CRUD\<close> writes nothing, and sends the \<open>Get\<close> only, when the server answers with an error other
  than not found, which is then returned with a message, or knows the object and it is a service
  account, a pod or a build configuration, and then no error is returned.
\<close>

theorem CRUD_writes_nothing:
  assumes "owned_form (specialresource s) obj = Inr obj'"
    and "case fst (api_get E (GroupVersionKind obj) (GetNamespace obj) (GetName obj) (world s)) of
        Inl e \<Rightarrow> \<not> IsNotFound (Some e) \<and> err = Some e
      | Inr m \<Rightarrow> never_updated (GetKind obj) \<and> err = None"
  shows "\<exists>w msg. CRUD E obj s = (Val (Wrap err msg, obj'), s\<lparr>world := w, calls := calls s @ [get_call obj]\<rparr>)"
proof (cases "fst (api_get E (GroupVersionKind obj) (GetNamespace obj) (GetName obj) (world s))")
  case (Inl e)
  from client_Get_Inl[OF Inl] assms(2) Inl show ?thesis
    by (cases "IsForbidden (Some e)") (auto simp: CRUD_owned_form[OF assms(1)] bnd_apply ret_apply)
next
  case (Inr m)
  from client_Get_Inr[OF Inr] assms(2) Inr owned_form_same_meta[OF assms(1)] show ?thesis
    by (auto simp: CRUD_owned_form[OF assms(1)] bnd_apply ret_apply same_meta_def)
qed

theorem CRUD_writes_nothing_witness:
  "calls (snd (CRUD (bare_env\<lparr>api_get := \<lambda>k ns n w. (Inr [], w)\<rparr>) (sample_object ''Pod'') (init_sro ()))) =
     [get_call (sample_object ''Pod'')]"
proof -
  let ?E = "bare_env\<lparr>api_get := \<lambda>k ns n w. (Inr [], w)\<rparr>"
  obtain obj' where "owned_form (specialresource (init_sro ())) (sample_object ''Pod'') = Inr obj'"
    using sample_owned by (auto simp: init_sro_def)
  from CRUD_writes_nothing[OF this, where E = ?E and err = None] show ?thesis
    by (auto simp: never_updated_def sample_meta init_sro_def)
qed

lemma exitOnErrorOrNotFound_Val_iff: "exitOnErrorOrNotFound n s = (Val x, t) \<longleftrightarrow> n = NFound x \<and> t = s"
  by (cases n) (auto simp: ret_apply)

lemma updateResourceVersion_cases:
  assumes "updateResourceVersion req found s = (Val (Inr req'), t)"
  obtains mid where
    "if needToUpdateResourceVersion (GetKind found)
     then \<exists>v. NestedString found [''metadata'', ''resourceVersion''] = NFound v \<and>
            SetNestedField req (JStr v) [''metadata'', ''resourceVersion''] = Inr mid
     else mid = req"
    and "if GetKind found = ''Service''
     then \<exists>c. NestedString found [''spec'', ''clusterIP''] = NFound c \<and>
            SetNestedField mid (JStr c) [''spec'', ''clusterIP''] = Inr req'
     else req' = mid"
  using assms unfolding updateResourceVersion_def Let_def
proof (rule bnd_ValE)
  fix r u
  assume v: "(if needToUpdateResourceVersion (GetKind found)
      then bnd (exitOnErrorOrNotFound (NestedString found [''metadata'', ''resourceVersion'']))
        (\<lambda>version. ret (SetNestedField req (JStr version) [''metadata'', ''resourceVersion'']))
      else ret (Inr req)) s = (Val r, u)"
    and c: "(case r of Inl e \<Rightarrow> ret (Inl (WithMessage ''Couldn't update ResourceVersion'' e))
      | Inr req \<Rightarrow>
          if GetKind found = ''Service'' then
            bnd (exitOnErrorOrNotFound (NestedString found [''spec'', ''clusterIP''])) (\<lambda>clusterIP.
            case SetNestedField req (JStr clusterIP) [''spec'', ''clusterIP''] of
              Inl e \<Rightarrow> ret (Inl (WithMessage ''Couldn't update clusterIP'' e))
            | Inr req \<Rightarrow> ret (Inr req))
          else ret (Inr req)) u = (Val (Inr req'), t)"
  from c obtain mid where mid: "r = Inr mid" by (cases r) auto
  show thesis
  proof (rule that[of mid])
    show "if needToUpdateResourceVersion (GetKind found)
        then \<exists>v. NestedString found [''metadata'', ''resourceVersion''] = NFound v \<and>
            SetNestedField req (JStr v) [''metadata'', ''resourceVersion''] = Inr mid
        else mid = req"
      using v mid by (auto simp: bnd_Val_iff exitOnErrorOrNotFound_Val_iff split: if_splits)
    show "if GetKind found = ''Service''
        then \<exists>c. NestedString found [''spec'', ''clusterIP''] = NFound c \<and>
            SetNestedField mid (JStr c) [''spec'', ''clusterIP''] = Inr req'
        else req' = mid"
    proof (cases "GetKind found = ''Service''")
      case True
      with c mid obtain ip where ip: "NestedString found [''spec'', ''clusterIP''] = NFound ip"
        and set: "(case SetNestedField mid (JStr ip) [''spec'', ''clusterIP''] of
            Inl e \<Rightarrow> ret (Inl (WithMessage ''Couldn't update clusterIP'' e))
          | Inr req \<Rightarrow> ret (Inr req)) u = (Val (Inr req'), t)"
        by (auto simp: bnd_Val_iff exitOnErrorOrNotFound_Val_iff)
      then have "SetNestedField mid (JStr ip) [''spec'', ''clusterIP''] = Inr req'"
        by (cases "SetNestedField mid (JStr ip) [''spec'', ''clusterIP'']") simp_all
      with True ip show ?thesis by simp
    qed (use c mid in simp)
  qed
qed

lemma updateResourceVersion_result:
  assumes "updateResourceVersion req found s = (Val (Inr req'), t)"
  shows "needToUpdateResourceVersion (GetKind found) \<Longrightarrow>
      NestedString req' [''metadata'', ''resourceVersion''] = NestedString found [''metadata'', ''resourceVersion'']"
    and "GetKind found = ''Service'' \<Longrightarrow>
      NestedString req' [''spec'', ''clusterIP''] = NestedString found [''spec'', ''clusterIP'']"
    and "\<not> prefix [''metadata'', ''resourceVersion''] q \<Longrightarrow> \<not> prefix q [''metadata'', ''resourceVersion''] \<Longrightarrow>
      \<not> prefix [''spec'', ''clusterIP''] q \<Longrightarrow> \<not> prefix q [''spec'', ''clusterIP''] \<Longrightarrow>
      NestedFieldNoCopy req' q = NestedFieldNoCopy req q"
proof -
  let ?v = "[''metadata'', ''resourceVersion'']" and ?c = "[''spec'', ''clusterIP'']"
  obtain mid where v: "if needToUpdateResourceVersion (GetKind found)
      then \<exists>v. NestedString found ?v = NFound v \<and> SetNestedField req (JStr v) ?v = Inr mid else mid = req"
    and c: "if GetKind found = ''Service''
      then \<exists>c. NestedString found ?c = NFound c \<and> SetNestedField mid (JStr c) ?c = Inr req' else req' = mid"
    using assms by (rule updateResourceVersion_cases)
  have apart: "NestedFieldNoCopy mid q = NestedFieldNoCopy req q" if "\<not> prefix ?v q" "\<not> prefix q ?v" for q
    using v that by (auto split: if_splits dest: SetNestedField_apart)
  have capart: "NestedFieldNoCopy req' q = NestedFieldNoCopy mid q" if "\<not> prefix ?c q" "\<not> prefix q ?c" for q
    using c that by (auto split: if_splits dest: SetNestedField_apart)
  show "NestedString req' ?v = NestedString found ?v" if "needToUpdateResourceVersion (GetKind found)"
  proof -
    have "NestedString mid ?v = NestedString found ?v"
      using v that NestedString_SetNestedField by auto
    moreover have "NestedString req' ?v = NestedString mid ?v"
      using capart[of ?v] unfolding NestedString_def by simp
    ultimately show ?thesis by simp
  qed
  show "NestedString req' ?c = NestedString found ?c" if "GetKind found = ''Service''"
    using c that NestedString_SetNestedField by auto
  show "NestedFieldNoCopy req' q = NestedFieldNoCopy req q"
    if "\<not> prefix ?v q" "\<not> prefix q ?v" "\<not> prefix ?c q" "\<not> prefix q ?c"
    using apart capart that by simp
qed

text \<open>Operations that leave the state exactly as it is.\<close>

interpretation pure: step_rel "(=)"
  by unfold_locales auto

lemma keeps_eq [resp]:
  "keeps (=) (exitOnErrorOrNotFound n)" "keeps (=) (must r)" "keeps (=) (exitOnError err)"
  by (cases n; simp add: pure.resp_ret pure.resp_exit)
    (auto simp: must_def exitOnError_def pure.resp_ret pure.resp_exit split: sum.split)

lemma keeps_eq_updateResourceVersion: "keeps (=) (updateResourceVersion req found)"
  unfolding updateResourceVersion_def Let_def by (intro resp pure.resp_rules)

lemma keeps_eq_decode_doc: "keeps (=) (decode_doc E ns y)"
  unfolding decode_doc_def templateRuntimeInformation_def by (intro resp pure.resp_rules)

lemma keeps_eqD: "keeps (=) m \<Longrightarrow> snd (m s) = s"
  by (simp add: keeps_def)


lemma sample_update_sent:
  "calls (snd (crud_update bare_env (sample_object ''Route'') (sample_object ''Route'') (init_sro ()))) \<noteq> []"
proof -
  have k: "GetKind (sample_object ''Route'') = ''Route''" "needToUpdateResourceVersion ''Route''"
    by (simp_all add: sample_meta needToUpdateResourceVersion_def)
  have "\<exists>u. updateResourceVersion (sample_object ''Route'') (sample_object ''Route'') s = (Val (Inr u), s)" for s :: "unit sro"
    unfolding updateResourceVersion_def k Let_def
    by (simp add: sample_object_def NestedString_def k(2) ret_def bnd_def)
  then obtain u where u: "updateResourceVersion (sample_object ''Route'') (sample_object ''Route'') (init_sro ()) = (Val (Inr u), init_sro ())"
    by blast
  obtain w err j where "client_Update bare_env u (init_sro ()) =
      (Val (err, j), (init_sro ())\<lparr>world := w, calls := calls (init_sro ()) @ [CUpdate u]\<rparr>)"
    using client_Update_calls[of bare_env u "init_sro ()"] by auto
  then show ?thesis by (cases err) (simp_all add: crud_update_def bnd_apply u ret_apply)
qed


text \<open>
  C11: an object with metadata that has passed the owner step of \<open>CRUD\<close> has the current custom
  resource as its controller, and has kept its kind, name, namespace, labels and annotations.
\<close>

theorem own_sets_controller:
  assumes "own sr obj = Inr obj'" and "NestedFieldNoCopy obj' [''metadata''] = NFound (JMap m)"
  shows "GetControllerOf obj' = Some
      \<lparr>or_APIVersion = sr_GroupVersion, or_Kind = ''SpecialResource'', or_Name = sr_Name sr,
       or_UID = meta_UID (sr_ObjectMeta sr), or_Controller = Some True, or_BlockOwnerDeletion = Some True\<rparr> \<and>
    same_meta obj' obj"
  using own_controller[OF assms] own_keeps[OF assms(1)] by simp

theorem own_sets_controller_witness:
  "\<exists>obj' r. own zero_SpecialResource (sample_object ''Service'') = Inr obj' \<and>
     GetControllerOf obj' = Some r \<and> or_Kind r = ''SpecialResource'' \<and> GetName obj' = ''x''"
proof -
  obtain obj' m where o: "own zero_SpecialResource (sample_object ''Service'') = Inr obj'"
    "NestedFieldNoCopy obj' [''metadata''] = NFound (JMap m)"
    by (simp add: own_def SetControllerReference_def validateOwner_def GetControllerOf_def GetOwnerReferences_def
        SetOwnerReferences_def setNestedField_def sample_object_def zero_SpecialResource_def)
  from own_sets_controller[OF this] o(1) sample_meta(3) show ?thesis by (auto simp: same_meta_def)
qed

lemma createFromYAML_build_guard:
  assumes "documents y = d # ds" and "fst (decode_doc E ns d s) = Val (Inr obj)"
    and "GetKind obj = ''BuildConfig''"
    and "lookup (GetAnnotations obj) vendor_annotation \<noteq> Some (UpdateVendor (runInfo s))"
  shows "createFromYAML E y ns s = (Val None, s)"
proof -
  have "decode_doc E ns d s = (Val (Inr obj), s)"
    using assms(2) keeps_eqD[OF keeps_eq_decode_doc, of E ns d s] by (metis prod.collapse)
  moreover have "\<exists>e. rebuildDriverContainer obj s = (Val (Some e), s)"
    using assms(3,4) by (auto simp: rebuildDriverContainer_def io_simps split: option.split)
  ultimately have "create_doc E ns d s = (Val (Some None), s)"
    by (auto simp: create_doc_def bnd_apply on_err_def ret_apply)
  with assms(1) show ?thesis by (simp add: createFromYAML_documents bnd_apply ret_apply)
qed

text \<open>
  A build configuration whose vendor is not the one to rebuild, or that names none, ends its
  manifest: the documents behind it are skipped, nothing is sent, and no error is returned.
\<close>

lemma createFromYAML_skips_build:
  assumes "documents y = d # ds" and "fst (decode_doc E ns d s) = Val (Inr obj)"
    and "GetKind obj = ''BuildConfig''"
    and "lookup (GetAnnotations obj) vendor_annotation \<noteq> Some (UpdateVendor (runInfo s))"
  shows "createFromYAML E y ns s = (Val None, s)"
  using assms by (rule createFromYAML_build_guard)

definition sample_build_env :: "unit env" where
  "sample_build_env = bare_env\<lparr>UnmarshalJSON := \<lambda>b. Inr [(''kind'', JStr ''BuildConfig'')]\<rparr>"

text \<open>
  C28: after the check of a driver container whose image cannot be pulled, the guard lets pass exactly
  the objects that are no build configurations and the build configurations of the vendor that the
  daemon set named.
\<close>

theorem image_pull_failure_enables_rebuild:
  assumes "list_all no_statuses pre"
    and "NestedSlice pod [''status'', ''containerStatuses''] = NFound statuses"
    and "waiting_reason [] statuses \<in> {''ImagePullBackOff'', ''ErrImagePull''}"
    and "lookup (GetAnnotations daemonset) vendor_annotation = Some vendor"
  shows "fst (rebuildDriverContainer obj (snd (check_pods daemonset [] (pre @ pod # post) s))) = Val None \<longleftrightarrow>
    GetKind obj \<noteq> ''BuildConfig'' \<or> lookup (GetAnnotations obj) vendor_annotation = Some vendor"
  using check_pods_decision[OF assms(1,2), of daemonset post s] assms(3,4)
  by (auto simp: rebuildDriverContainer_def io_simps split: option.split)

theorem image_pull_failure_enables_rebuild_witness:
  "fst (rebuildDriverContainer (sample_object ''BuildConfig'')
     (snd (check_pods sample_driver [] [sample_pod ''ErrImagePull''] (init_sro ())))) \<noteq> Val None"
proof -
  have "waiting_reason [] [JMap [(''state'', JMap [(''waiting'', JMap [(''reason'', JStr ''ErrImagePull'')])])]]
      \<in> {''ImagePullBackOff'', ''ErrImagePull''}"
    by (simp add: waiting_reason_def NestedString_def)
  moreover have "lookup (GetAnnotations (sample_object ''BuildConfig'')) vendor_annotation = None" by code_simp
  ultimately show ?thesis
    using image_pull_failure_enables_rebuild[of "[]" "sample_pod ''ErrImagePull''" _ sample_driver "''acme''"
        "sample_object ''BuildConfig''" "[]" "init_sro ()", OF _ sample_pod_statuses _ sample_driver_vendor]
    by (simp add: sample_meta del: check_pods.simps)
qed

text \<open>
  C12: the states of a configuration are worked off in ascending order of their names, each only after
  the one before it has succeeded, up to the end or to the first that fails, whose error is
  returned.
\<close>

theorem ReconcileHardwareStates_in_order:
  assumes "ReconcileHardwareStates E config s = (Val r, t)"
  shows "\<exists>manifests finished rest u. NestedMap config [''data''] = NFound manifests \<and>
    sorted (finished @ rest) \<and> mset (finished @ rest) = mset (map fst manifests) \<and>
    loop_trace (run_state E manifests) finished s u \<and>
    (case r of None \<Rightarrow> rest = [] \<and> t = u
     | Some e \<Rightarrow> rest \<noteq> [] \<and> run_state E manifests (hd rest) u = (Val (Some e), t))"
proof -
  from assms obtain manifests where m: "NestedMap config [''data''] = NFound manifests"
    and run: "for_range (run_state E manifests) (sort (map fst manifests)) s = (Val r, t)"
    unfolding ReconcileHardwareStates_def by (auto simp: exitOnErrorOrNotFound_Val_iff elim!: bnd_ValE)
  show ?thesis
  proof (cases r)
    case None
    with m run show ?thesis
      by (intro exI[of _ manifests] exI[of _ "sort (map fst manifests)"] exI[of _ "[]"] exI[of _ t])
        (simp add: for_range_None_iff)
  next
    case (Some e)
    with run obtain ys x zs u where x: "sort (map fst manifests) = ys @ x # zs"
      "loop_trace (run_state E manifests) ys s u" "run_state E manifests x u = (Val (Some e), t)"
      by (auto simp: for_range_Some_iff)
    have "sorted (ys @ x # zs)" "mset (ys @ x # zs) = mset (map fst manifests)"
      using sorted_sort mset_sort[of "\<lambda>x. x" "map fst manifests"] x(1) by metis+
    with m x Some show ?thesis
      by (intro exI[of _ manifests] exI[of _ ys] exI[of _ "x # zs"] exI[of _ u]) simp
  qed
qed

definition sample_config :: json where
  "sample_config = JMap [(''data'', JMap [(''0002-b'', JStr []), (''0001-a'', JStr [])])]"

theorem ReconcileHardwareStates_in_order_witness:
  "\<exists>manifests. NestedMap sample_config [''data''] = NFound manifests \<and>
     loop_trace (run_state bare_env manifests) [''0001-a'', ''0002-b''] (init_sro ()) (init_sro ())"
proof -
  let ?m = "[(''0002-b'', JStr []), (''0001-a'', JStr [])]"
  have d: "NestedMap sample_config [''data''] = NFound ?m"
    by (simp add: sample_config_def NestedMap_def)
  have s: "sort (map fst ?m) = [''0001-a'', ''0002-b'']" by code_simp
  have "createFromYAML bare_env [] ns u = (Val None, u)" for ns u
    by (simp add: createFromYAML_documents documents_def ret_apply)
  then have "run_state bare_env ?m k u = (Val None, u)" if "k \<in> {''0001-a'', ''0002-b''}" for k u
    using that by (auto simp: run_state_def io_simps)
  then have "for_range (run_state bare_env ?m) [''0001-a'', ''0002-b''] (init_sro ()) = (Val None, init_sro ())"
    by (simp add: bnd_apply ret_apply)
  then have "ReconcileHardwareStates bare_env sample_config (init_sro ()) = (Val None, init_sro ())"
    by (simp only: ReconcileHardwareStates_def d exitOnErrorOrNotFound_simps bnd_ret_left s)
  from ReconcileHardwareStates_in_order[OF this] obtain finished
    where "sorted finished" "mset finished = mset (map fst ?m)" and run: "loop_trace (run_state bare_env ?m) finished (init_sro ()) (init_sro ())"
    using d by auto
  then have "finished = sort (map fst ?m)" by (intro properties_for_sort[symmetric]) simp_all
  with run s d show ?thesis by auto
qed

lemma map_of_asset_data:
  "map_of (fold (\<lambda>a. AList.update (asset_name a) (JStr (asset_content a)))
      (map (\<lambda>n. \<lparr>asset_name = n, asset_content = f n\<rparr>) ns) m) k =
    (if k \<in> set ns then Some (JStr (f k)) else map_of m k)"
  by (induction ns arbitrary: m) (auto simp: update_conv)

text \<open>
  The configuration built from a readable recipe directory maps every manifest name in the
  directory to the content of that file and has no other entry, when nothing changes the directory
  meanwhile; building it changes nothing in the operator's state and sends nothing.
\<close>

lemma getLocalHardwareConfiguration_data:
  assumes "fixed_tree E fsm path" and "readable_dir fsm path names"
  shows "\<exists>cm data w. getLocalHardwareConfiguration E path name s = (Val (Inr cm), s\<lparr>world := w\<rparr>) \<and>
    GetKind cm = ''ConfigMap'' \<and> NestedMap cm [''data''] = NFound data \<and>
    map_of data = (\<lambda>n. if n \<in> set names \<and> is_manifest_name n \<and> \<not> is_dir (fsm (filepath_Join path n))
                       then Some (JStr (content_of (fsm (filepath_Join path n)))) else None)"
proof -
  let ?f = "\<lambda>n. content_of (fsm (filepath_Join path n))"
  let ?as = "map (\<lambda>n. \<lparr>asset_name = n, asset_content = ?f n\<rparr>) (manifest_names fsm path (sort names))"
  let ?o = "SetName (new_object ''v1'' ''ConfigMap'') name"
  have "\<exists>o1. ?o = JMap o1"
    by (simp add: new_object_def SetKind_def SetAPIVersion_def SetName_def setNestedField_def)
  then obtain cm where cm: "SetNestedField ?o (JMap (asset_data ?as)) [''data''] = Inr cm" by auto
  obtain w where "getAssetsFrom E path s = (Val ?as, s\<lparr>world := w\<rparr>)" using getAssetsFrom_fixed[OF assms] by blast
  with cm have "getLocalHardwareConfiguration E path name s = (Val (Inr cm), s\<lparr>world := w\<rparr>)"
    by (simp add: getLocalHardwareConfiguration_def bnd_apply ret_apply)
  moreover have "NestedMap cm [''data''] = NFound (asset_data ?as)"
    using SetNestedField_same[OF cm] by (simp add: NestedMap_def)
  moreover have "GetKind cm = ''ConfigMap''"
  proof -
    have "same_meta cm ?o" by (rule SetNestedField_same_meta[OF cm]) auto
    then show ?thesis by (simp add: same_meta_def SetName_keeps_kind new_binding_kind)
  qed
  moreover have "map_of (asset_data ?as) = (\<lambda>n. if n \<in> set names \<and> is_manifest_name n \<and>
      \<not> is_dir (fsm (filepath_Join path n)) then Some (JStr (?f n)) else None)"
    by (rule ext) (auto simp: asset_data_def map_of_asset_data manifest_names_def asset_pattern_iff)
  ultimately show ?thesis by blast
qed

section \<open>The image-puller binding\<close>

definition other_namespace :: "string \<Rightarrow> json \<Rightarrow> bool" where
  "other_namespace ns subject =
     (case subject of JMap m \<Rightarrow> nested_val [] (NestedString subject [''namespace'']) \<noteq> ns | _ \<Rightarrow> True)"

lemma has_subject_False: "has_subject ns subjects s = (Val False, t) \<Longrightarrow> t = s \<and> list_all (other_namespace ns) subjects"
proof (induction subjects)
  case (Cons subject subjects)
  then show ?case
    by (cases subject; cases "NestedString subject [''namespace'']")
      (simp_all add: other_namespace_def split: if_splits)
qed (simp add: ret_apply)

lemma keeps_eq_has_subject: "keeps (=) (has_subject ns subjects)"
proof (induction subjects)
  case (Cons subject subjects)
  then show ?case by (simp only: has_subject.simps) (intro resp pure.resp_rules)
qed (simp only: has_subject.simps, intro pure.resp_rules)

lemma SetNestedField_JMap: "SetNestedField (JMap m) v [f] = Inr (JMap (AList.update f v m))"
  by simp

lemma set_subjects: "NestedSlice (setNestedField (JMap m) (JSlice l) [''subjects'']) [''subjects''] = NFound l"
  by (simp add: setNestedField_def NestedSlice_def update_conv)

lemma SetNestedField_is_map: "SetNestedField obj v p = Inr obj' \<Longrightarrow> \<exists>m. obj' = JMap m"
  by (induction obj v p rule: SetNestedField.induct) (auto simp: map_sum_def split: option.splits json.splits sum.splits)

lemma fill_binding_subjects:
  assumes "fill_binding ns p rb s = (Val rb', t)"
  shows "t = s \<and> NestedSlice rb' [''subjects''] = NFound [builder_subject p]"
proof -
  from assms obtain a where "rb' = setNestedField a (JSlice [builder_subject p]) [''subjects'']"
    and a: "\<exists>m. a = JMap m" and "t = s"
    by (auto simp: fill_binding_def set_or_exit_def elim!: bnd_ValE dest!: SetNestedField_is_map)
  moreover from a obtain m where "a = JMap m" by blast
  ultimately show ?thesis by (simp add: set_subjects)
qed

lemma keeps_eq_fill_binding: "keeps (=) (fill_binding ns p rb)"
  unfolding fill_binding_def set_or_exit_def by (intro resp pure.resp_rules)

text \<open>The requests for the binding: a \<open>Get\<close>, then nothing, a creation or an update of its subjects.\<close>

definition binding_calls :: "string \<Rightarrow> string \<Rightarrow> call list \<Rightarrow> bool" where
  "binding_calls ns parentNs cs \<longleftrightarrow>
     (\<exists>rest. cs = CGet (GroupVersionKind (new_object ''rbac.authorization.k8s.io/v1'' ''RoleBinding''))
                ns ''system:image-puller'' # rest \<and>
        (rest = [] \<or>
         (\<exists>rb. rest = [CCreate rb] \<and> image_puller_binding rb \<and>
            NestedSlice rb [''subjects''] = NFound [builder_subject parentNs]) \<or>
         (\<exists>rb old. rest = [CUpdate rb] \<and> list_all (other_namespace parentNs) old \<and>
            NestedSlice rb [''subjects''] = NFound (old @ [builder_subject parentNs]))))"

lemma ensure_binding_update_calls:
  "\<exists>cs. calls (snd (bnd (has_subject p l) (\<lambda>present. if present then ret None else
       bnd (client_Update E (setNestedField (JMap m) (JSlice (l @ [builder_subject p])) [''subjects''])) (\<lambda>(err, rb).
         case err of Some e \<Rightarrow> ret (Some (WithMessage msg e)) | None \<Rightarrow> ret None)) s)) = calls s @ cs \<and>
     (cs = [] \<or> (\<exists>rb. cs = [CUpdate rb] \<and> list_all (other_namespace p) l \<and>
        NestedSlice rb [''subjects''] = NFound (l @ [builder_subject p])))"
proof -
  let ?rb = "setNestedField (JMap m) (JSlice (l @ [builder_subject p])) [''subjects'']"
  obtain r where h: "has_subject p l s = (r, s)"
    using keeps_eqD[OF keeps_eq_has_subject, of p l s] by (cases "has_subject p l s") auto
  show ?thesis
  proof (cases "r = Val False")
    case True
    with h have "list_all (other_namespace p) l" using has_subject_False by blast
    moreover obtain w err j where "client_Update E ?rb s = (Val (err, j), s\<lparr>world := w, calls := calls s @ [CUpdate ?rb]\<rparr>)"
      using client_Update_calls[of E ?rb s] by auto
    ultimately show ?thesis using h True
      by (intro exI[of _ "[CUpdate ?rb]"]) (cases err; simp add: bnd_apply ret_apply set_subjects)
  next
    case False
    with h show ?thesis by (intro exI[of _ "[]"]) (auto simp: bnd_apply ret_apply split: outcome.split)
  qed
qed

lemma ensure_binding_calls:
  assumes "err = None \<Longrightarrow> \<exists>m. rb = JMap m"
    and "IsNotFound err \<Longrightarrow> rb = new_object ''rbac.authorization.k8s.io/v1'' ''RoleBinding''"
  shows "\<exists>cs. calls (snd (ensure_binding E ns p err rb s)) = calls s @ cs \<and>
    (cs = [] \<or>
     (\<exists>rb. cs = [CCreate rb] \<and> image_puller_binding rb \<and> NestedSlice rb [''subjects''] = NFound [builder_subject p]) \<or>
     (\<exists>rb old. cs = [CUpdate rb] \<and> list_all (other_namespace p) old \<and>
        NestedSlice rb [''subjects''] = NFound (old @ [builder_subject p])))"
proof -
  consider "IsNotFound err" | "\<not> IsNotFound err" "err \<noteq> None" | "err = None" by auto
  then show ?thesis
  proof cases
    case 1
    obtain r where f: "fill_binding ns p rb s = (r, s)"
      using keeps_eqD[OF keeps_eq_fill_binding, of ns p rb s] by (cases "fill_binding ns p rb s") auto
    show ?thesis
    proof (cases r)
      case (Val rb')
      with f 1 assms(2) have "image_puller_binding rb'" using fill_binding_result by blast
      moreover have "NestedSlice rb' [''subjects''] = NFound [builder_subject p]"
        using fill_binding_subjects f Val by blast
      moreover obtain w e j where "client_Create E rb' s = (Val (e, j), s\<lparr>world := w, calls := calls s @ [CCreate rb']\<rparr>)"
        using client_Create_calls[of E rb' s] by auto
      ultimately show ?thesis using f Val 1
        by (intro exI[of _ "[CCreate rb']"]) (cases e; simp add: ensure_binding_def bnd_apply ret_apply)
    qed (use f 1 in \<open>auto simp: ensure_binding_def bnd_apply\<close>)
  next
    case 2
    then show ?thesis by (auto simp: ensure_binding_def ret_apply)
  next
    case 3
    with assms(1) obtain m where m: "rb = JMap m" by blast
    have "\<exists>e. NestedSlice rb [''subjects''] = NErr e \<and> ensure_binding E ns p err rb s = (Exited, s) \<or>
        ensure_binding E ns p err rb s = bnd (has_subject p (nested_val [] (NestedSlice rb [''subjects'']))) (\<lambda>present.
          if present then ret None else bnd (client_Update E (setNestedField rb
            (JSlice (nested_val [] (NestedSlice rb [''subjects'']) @ [builder_subject p])) [''subjects''])) (\<lambda>(err, rb).
            case err of Some e \<Rightarrow> ret (Some (WithMessage ''Couldn't Update Resource'' e)) | None \<Rightarrow> ret None)) s"
      using 3 by (cases "NestedSlice rb [''subjects'']") (simp_all add: ensure_binding_def os_Exit_apply cong del: if_weak_cong)
    with ensure_binding_update_calls[of p "nested_val [] (NestedSlice rb [''subjects''])" E m "''Couldn't Update Resource''" s] m
    show ?thesis by fastforce
  qed
qed


section \<open>The two places that create\<close>

text \<open>
  Laws for relations that a creation keeps only after a \<open>Get\<close> that found nothing: \<open>CRUD\<close> and the
  image-puller binding, from the state they start in.
\<close>

lemma snd_client_Get: "snd (client_Get E ns n obj s) = sent E (CGet (GroupVersionKind obj) ns n) s"
  by (auto simp: client_Get_def Let_def io_simps sent_def split: sum.split)

lemma snd_client_Create: "snd (client_Create E obj s) = sent E (CCreate obj) s"
  by (auto simp: client_Create_def Let_def io_simps sent_def split: sum.split)

lemma client_Get_returns:
  obtains err j where "client_Get E ns n obj s = (Val (err, j), sent E (CGet (GroupVersionKind obj) ns n) s)"
proof -
  have "\<exists>err j. fst (client_Get E ns n obj s) = Val (err, j)"
    by (simp add: client_Get_def Let_def io_simps split: sum.split)
  then show ?thesis using that snd_client_Get by (metis prod.collapse)
qed

lemma CRUD_no_form:
  assumes "owned_form (specialresource s) obj = Inl e"
  shows "CRUD E obj s = (Val (Some (WithMessage ''Failed to set controller reference'' e), obj), s)"
  using assms by (simp add: CRUD_def owned_form_def bnd_apply[of "gets specialresource"] gets_apply ret_apply)

abbreviation new_binding :: json where
  "new_binding \<equiv> new_object ''rbac.authorization.k8s.io/v1'' ''RoleBinding''"

context operate
begin

lemma since_after_Create:
  assumes "R s (sent E (CCreate obj) t)" and "\<And>err j. keeps R (f (err, j))"
  shows "R s (snd (bnd (client_Create E obj) f t))"
proof (rule since_bnd)
  show "R s (snd (client_Create E obj t))" using assms(1) by (simp add: snd_client_Create)
  fix x u
  assume "client_Create E obj t = (Val x, u)"
  with assms(1) have "R s u" using snd_client_Create[of E obj t] by simp
  with assms(2) show "R s (snd (f x u))" by (cases x) (auto intro: since_keeps)
qed

lemma step_CRUD:
  assumes c: "\<And>obj' err j t. owned_form (specialresource s) obj = Inr obj' \<Longrightarrow>
      client_Get E (GetNamespace obj) (GetName obj) obj s = (Val (err, j), t) \<Longrightarrow> IsNotFound err \<Longrightarrow>
      R s (sent E (CCreate obj') t)"
    and u: "\<And>obj' found req and v w :: 'w sro. owned_form (specialresource s) obj = Inr obj' \<Longrightarrow>
      updateResourceVersion obj' found v = (Val (Inr req), w) \<Longrightarrow> oku req"
  shows "R s (snd (CRUD E obj s))"
proof (cases "owned_form (specialresource s) obj")
  case (Inl e)
  then show ?thesis by (simp add: CRUD_no_form step_refl)
next
  case (Inr obj')
  have upd: "keeps R (crud_update E obj' found)" for found
    using u[OF Inr] by (rule keeps_crud_update)
  show ?thesis unfolding CRUD_owned_form[OF Inr]
  proof (rule since_bnd, rule keeps_snd, rule keeps_client_Get, clarify)
    fix err found t
    assume get: "client_Get E (GetNamespace obj) (GetName obj) obj s = (Val (err, found), t)"
    then have "R s t" by (rule keepsD[OF keeps_client_Get])
    show "R s (snd ((if IsNotFound err then
        bnd (client_Create E obj') (\<lambda>(err, obj).
        case err of Some e \<Rightarrow> ret (Some (WithMessage ''Couldn't Create Resource'' e), obj) | None \<Rightarrow> ret (None, obj))
      else if IsForbidden err then ret (Wrap err ''Forbidden check Role, ClusterRole and Bindings for operator'', obj')
      else if err \<noteq> None then ret (Wrap err ''Unexpected error'', obj')
      else if never_updated (GetKind obj') then ret (None, obj')
      else crud_update E obj' found) t))"
    proof (cases "IsNotFound err")
      case True
      with c[OF Inr get] show ?thesis
        by (simp, intro since_after_Create) (auto intro!: resp_ret split: option.split)
    next
      case False
      with \<open>R s t\<close> show ?thesis by (auto intro!: since_keeps resp_ret upd)
    qed
  qed
qed

lemma step_createImagePullerRoleBinding:
  assumes c: "\<And>ns p err j t rb v. client_Get E ns ''system:image-puller'' new_binding s = (Val (err, j), t) \<Longrightarrow>
      IsNotFound err \<Longrightarrow> fill_binding ns p new_binding t = (Val rb, v) \<Longrightarrow> R s (sent E (CCreate rb) t)"
    and u: "\<And>ns p err rb t. client_Get E ns ''system:image-puller'' new_binding s = (Val (err, rb), t) \<Longrightarrow>
      oku (setNestedField rb (JSlice (nested_val [] (NestedSlice rb [''subjects'']) @ [builder_subject p])) [''subjects''])"
  shows "R s (snd (createImagePullerRoleBinding E s))"
proof -
  have body: "R s (snd (bnd (client_Get E ns ''system:image-puller'' new_binding)
      (\<lambda>(err, rb). ensure_binding E ns p err rb) s))" for ns p
  proof (rule since_bnd, rule keeps_snd, rule keeps_client_Get, clarify)
    fix err rb t
    assume get: "client_Get E ns ''system:image-puller'' new_binding s = (Val (err, rb), t)"
    then have st: "R s t" by (rule keepsD[OF keeps_client_Get])
    show "R s (snd (ensure_binding E ns p err rb t))"
    proof (cases "IsNotFound err")
      case True
      have rb: "rb = new_binding" using client_Get_binding_kind(2)[OF get True] .
      have "R s (snd (bnd (fill_binding ns p new_binding) (\<lambda>rb. bnd (client_Create E rb) (\<lambda>(err, rb).
          case err of Some e \<Rightarrow> ret (Some (WithMessage ''Couldn't Create Resource'' e)) | None \<Rightarrow> ret None)) t))"
      proof (rule since_bnd, rule since_keeps[OF st], rule keeps_fill_binding)
        fix rb' v
        assume fill: "fill_binding ns p new_binding t = (Val rb', v)"
        then have "v = t" using keepsD[OF keeps_eq_fill_binding] by metis
        with c[OF get True fill] show "R s (snd (bnd (client_Create E rb') (\<lambda>(err, rb).
            case err of Some e \<Rightarrow> ret (Some (WithMessage ''Couldn't Create Resource'' e)) | None \<Rightarrow> ret None) v))"
          by (auto intro!: since_after_Create resp_ret split: option.split)
      qed
      with True rb show ?thesis by (simp add: ensure_binding_def)
    next
      case False
      from False u[OF get] show ?thesis unfolding ensure_binding_def
        by (intro since_keeps[OF st]) (intro resp; simp)
    qed
  qed
  show ?thesis
    unfolding createImagePullerRoleBinding_def
    by (rule step_bnd) (auto intro!: body keeps_snd resp_gets resp_ret)
qed

end

end
