(* ===== verification/Controller.thy ===== *)
theory Controller
  imports Resources
begin

text \<open>
  The reconcile loop over all custom resources and their dependencies:
  \<open>src/controllers/specialresource.go\<close> and \<open>src/controllers/specialresource_controller.go\<close>.
\<close>

record Result =
  Requeue :: bool

definition getDependencyFrom :: "SpecialResource list \<Rightarrow> string \<Rightarrow> goerr + SpecialResource" where
  "getDependencyFrom items name = (case find (\<lambda>sr. sr_Name sr = name) items of
       Some sr \<Rightarrow> Inr sr
     | None \<Rightarrow> Inl (Fundamental ''Not found''))"

text \<open>
  Creating a missing dependency from its recipe. Only the first manifest is used. The function
  always returns an error, together with the zero resource.
\<close>

definition createSpecialResourceFrom :: "'w env \<Rightarrow> string \<Rightarrow> ('w sro, goerr option \<times> SpecialResource) io" where
  "createSpecialResourceFrom E name =
     bnd (getAssetsFrom E (''/opt/sro/recipes/'' @ name)) (\<lambda>manifests.
     case manifests of
       [] \<Rightarrow> os_Exit
     | manifest # _ \<Rightarrow>
         bnd (gets (\<lambda>s. sr_Namespace (specialresource s))) (\<lambda>ns.
         bnd (createFromYAML E (asset_content manifest) ns) (\<lambda>err.
         bnd (exitOnError err) (\<lambda>_.
         ret (Some (Fundamental ''Created new SpecialResource we need to Reconcile''), zero_SpecialResource)))))"

definition set_specialresource :: "SpecialResource \<Rightarrow> ('w sro, unit) io" where
  "set_specialresource sr = modify (\<lambda>s. s\<lparr>specialresource := sr\<rparr>)"

text \<open>The loop body for one dependency of the current parent.\<close>

definition reconcile_dependency ::
    "'w env \<Rightarrow> SpecialResource list \<Rightarrow> SpecialResourceDependency \<Rightarrow> ('w sro, (Result \<times> goerr option) option) io" where
  "reconcile_dependency E items dep =
     bnd (modify (\<lambda>s. s\<lparr>dependency := dep\<rparr>)) (\<lambda>_.
     case getDependencyFrom items (dep_Name dep) of
       Inl e \<Rightarrow>
         bnd (set_specialresource zero_SpecialResource) (\<lambda>_.
         bnd (createSpecialResourceFrom E (dep_Name dep)) (\<lambda>(err, sr).
         bnd (set_specialresource sr) (\<lambda>_.
         case err of
           Some e \<Rightarrow> ret (Some (\<lparr>Requeue = True\<rparr>, None))
         | None \<Rightarrow> ret (Some (\<lparr>Requeue = False\<rparr>, None)))))
     | Inr sr \<Rightarrow>
         bnd (set_specialresource sr) (\<lambda>_.
         on_err (ReconcileHardwareConfigurations E)
           (\<lambda>e. ret (Some (\<lparr>Requeue = True\<rparr>, None))) (ret None)))"

text \<open>The loop body for one custom resource.\<close>

definition reconcile_parent ::
    "'w env \<Rightarrow> SpecialResource list \<Rightarrow> SpecialResource \<Rightarrow> ('w sro, (Result \<times> goerr option) option) io" where
  "reconcile_parent E items sr =
     bnd (modify (\<lambda>s. s\<lparr>parent := sr\<rparr>)) (\<lambda>_.
     bnd (for_range (reconcile_dependency E items) (spec_DependsOn (sr_Spec sr))) (\<lambda>r.
     case r of
       Some res \<Rightarrow> ret (Some res)
     | None \<Rightarrow>
         bnd (set_specialresource sr) (\<lambda>_.
         on_err (ReconcileHardwareConfigurations E)
           (\<lambda>e. ret (Some (\<lparr>Requeue = True\<rparr>, None))) (ret None))))"

definition ReconcilerSpecialResources :: "'w env \<Rightarrow> ('w sro, Result \<times> goerr option) io" where
  "ReconcilerSpecialResources E =
     bnd (request CListSpecialResources (api_list_sr E)) (\<lambda>r.
     case r of
       Inl e \<Rightarrow> if IsNotFound (Some e) then ret (\<lparr>Requeue = False\<rparr>, None)
                else ret (\<lparr>Requeue = False\<rparr>, Some e)
     | Inr items \<Rightarrow>
         bnd (for_range (reconcile_parent E items) items) (\<lambda>r.
         ret (case r of Some res \<Rightarrow> res | None \<Rightarrow> (\<lparr>Requeue = False\<rparr>, None))))"

definition Reconcile :: "'w env \<Rightarrow> ('w sro, Result \<times> goerr option) io" where
  "Reconcile E = ReconcilerSpecialResources E"

section \<open>What a reconcile keeps\<close>

context govern
begin

lemma keeps_createSpecialResourceFrom [resp]: "keeps R (createSpecialResourceFrom E name)"
  unfolding createSpecialResourceFrom_def by (intro resp keeps_createFromYAML ok_namespace)

lemma keeps_set_specialresource [resp]: "keeps R (set_specialresource sr)"
  unfolding set_specialresource_def by (intro resp_modify r_sr)

lemma keeps_reconcile_dependency [resp]: "keeps R (reconcile_dependency E items dep)"
  unfolding reconcile_dependency_def by (intro resp resp_modify r_dependency)

lemma keeps_reconcile_parent [resp]: "keeps R (reconcile_parent E items sr)"
  unfolding reconcile_parent_def by (intro resp resp_modify r_parent)

lemma keeps_Reconcile: "keeps R (Reconcile E)"
  unfolding Reconcile_def ReconcilerSpecialResources_def by (intro resp)

end

text \<open>
  The requests the operator may send. Reads and status updates are always allowed. An object it
  creates is a custom resource, is owned by one, or is the image-puller binding, and a build
  configuration names its vendor. It updates no service account, pod or build configuration, other
  than to mark a listed node as ready.
\<close>

definition permitted_create :: "json \<Rightarrow> bool" where
  "permitted_create obj \<longleftrightarrow> (\<exists>ns. child ns obj) \<or> image_puller_binding obj"

definition permitted_update :: "json \<Rightarrow> bool" where
  "permitted_update obj \<longleftrightarrow> \<not> never_updated (GetKind obj) \<or> label_update obj"

fun permitted :: "call \<Rightarrow> bool" where
  "permitted (CCreate obj) = permitted_create obj"
| "permitted (CUpdate obj) = permitted_update obj"
| "permitted c = True"

lemma permitted_read: "is_read c \<Longrightarrow> permitted c"
  by (cases c) simp_all

interpretation permit: govern_forms "sends permitted" E permitted_update permitted_create "\<lambda>ns. True"
  for E :: "'w env"
proof unfold_locales
  fix s :: "'w sro" and c
  show "is_read c \<Longrightarrow> sends permitted s (sent E c s)"
    by (auto simp: sends_def sent_def permitted_read)
qed (auto simp: sends_def sent_def permitted_create_def permitted_update_def child_update_def never_updated_def
    intro: exI[of _ "[]"])

text \<open>The names that manifests and node labels are built from are never changed.\<close>

definition same_names :: "'w sro \<Rightarrow> 'w sro \<Rightarrow> bool" where
  "same_names s t \<longleftrightarrow> StateName (runInfo t) = StateName (runInfo s) \<and> GroupName (runInfo t) = GroupName (runInfo s)"

interpretation names: govern_forms same_names E "\<lambda>obj. True" "\<lambda>obj. True" "\<lambda>ns. True" for E :: "'w env"
  by unfold_locales (auto simp: same_names_def sent_def)

section \<open>The operator as a state machine\<close>

text \<open>
  The manager calls \<open>Reconcile\<close> again and again, one at a time; between calls the cluster changes
  on its own. A step that ends the process has no successor.
\<close>

inductive op_step :: "'w env \<Rightarrow> 'w sro \<Rightarrow> 'w sro \<Rightarrow> bool" for E where
  reconcile: "Reconcile E s = (Val r, t) \<Longrightarrow> op_step E s t"
| cluster: "op_step E s (s\<lparr>world := w\<rparr>)"

inductive_cases op_stepE: "op_step E s t"

inductive reachable :: "'w env \<Rightarrow> 'w sro \<Rightarrow> bool" for E where
  start: "reachable E (init_sro w)"
| step: "reachable E s \<Longrightarrow> op_step E s t \<Longrightarrow> reachable E t"

text \<open>An invariant that a kept relation carries over, and that does not look at the world, holds of every reachable state.\<close>

context govern
begin

lemma reachable_keeps:
  assumes "reachable E s" and "\<And>w. I (init_sro w)" and "\<And>s t. R s t \<Longrightarrow> I s \<Longrightarrow> I t"
    and "\<And>s w. I s \<Longrightarrow> I (s\<lparr>world := w\<rparr>)"
  shows "I s"
  using assms(1)
proof (induction rule: reachable.induct)
  case (step s t)
  from step(2) show ?case
  proof (rule op_stepE)
    fix r
    assume "Reconcile E s = (Val r, t)"
    then have "R s t" by (rule keepsD[OF keeps_Reconcile])
    with step(3) show ?thesis by (rule assms(3)[rotated])
  qed (simp add: assms(4) step(3))
qed (rule assms(2))

end

definition operator_inv :: "'w sro \<Rightarrow> bool" where
  "operator_inv s \<longleftrightarrow> StateName (runInfo s) = StateName runInfo_init \<and>
     GroupName (runInfo s) = GroupName runInfo_init \<and> list_all permitted (calls s)"

lemma operator_inv_init: "operator_inv (init_sro w)"
  by (simp add: operator_inv_def init_sro_def)

lemma op_step_inv: "op_step E s t \<Longrightarrow> operator_inv s \<Longrightarrow> operator_inv t"
proof (erule op_stepE)
  fix r assume inv: "operator_inv s" and r: "Reconcile E s = (Val r, t)"
  from keepsD[OF permit.keeps_Reconcile r] keepsD[OF names.keeps_Reconcile r] inv
  show "operator_inv t" by (auto simp: operator_inv_def sends_def same_names_def)
qed (simp add: operator_inv_def)

lemma reachable_inv: "reachable E s \<Longrightarrow> operator_inv s"
  by (induction rule: reachable.induct) (auto intro: operator_inv_init op_step_inv)

section \<open>The loops of a reconcile\<close>

lemma getDependencyFrom_missing:
  "\<forall>sr \<in> set items. sr_Name sr \<noteq> name \<Longrightarrow> getDependencyFrom items name = Inl (Fundamental ''Not found'')"
  by (auto simp: getDependencyFrom_def find_None_iff split: option.split dest: find_Some_iff[THEN iffD1])

lemma getDependencyFrom_found:
  "getDependencyFrom items name = Inr sr \<Longrightarrow> sr \<in> set items \<and> sr_Name sr = name"
  by (auto simp: getDependencyFrom_def find_Some_iff split: option.splits)

lemma createSpecialResourceFrom_error:
  "createSpecialResourceFrom E name s = (Val (err, sr), t) \<Longrightarrow> err \<noteq> None"
  by (auto simp: createSpecialResourceFrom_def elim!: bnd_ValE split: list.splits)

lemma Reconcile_listed:
  assumes "fst (api_list_sr E (world s)) = Inr items"
  shows "Reconcile E s =
    bnd (for_range (reconcile_parent E items) items)
      (\<lambda>r. ret (case r of Some res \<Rightarrow> res | None \<Rightarrow> (\<lparr>Requeue = False\<rparr>, None)))
      (s\<lparr>world := snd (api_list_sr E (world s)), calls := calls s @ [CListSpecialResources]\<rparr>)"
  using assms
  by (simp add: Reconcile_def ReconcilerSpecialResources_def request_apply
      bnd_apply[of "request CListSpecialResources (api_list_sr E)"])

text \<open>A loop body that returns always asks to be called again, without error.\<close>

lemma reconcile_dependency_result:
  assumes "reconcile_dependency E items dep s = (Val r, t)"
  shows "r = Some (\<lparr>Requeue = True\<rparr>, None) \<or>
    r = None \<and> (\<exists>sr. getDependencyFrom items (dep_Name dep) = Inr sr \<and>
      ReconcileHardwareConfigurations E (s\<lparr>dependency := dep, specialresource := sr\<rparr>) = (Val None, t))"
  using assms
  by (auto simp: reconcile_dependency_def set_specialresource_def modify_def
      elim!: bnd_ValE on_err_ValE dest: createSpecialResourceFrom_error split: sum.splits option.splits)

lemma reconcile_parent_result:
  assumes "reconcile_parent E items sr s = (Val r, t)"
  shows "r = Some (\<lparr>Requeue = True\<rparr>, None) \<or>
    r = None \<and> (\<exists>u v. loop_trace (reconcile_dependency E items) (spec_DependsOn (sr_Spec sr)) (s\<lparr>parent := sr\<rparr>) u \<and>
      ReconcileHardwareConfigurations E (u\<lparr>specialresource := sr\<rparr>) = (Val None, t))"
proof -
  from assms obtain q u where q: "for_range (reconcile_dependency E items) (spec_DependsOn (sr_Spec sr)) (s\<lparr>parent := sr\<rparr>) = (Val q, u)"
    and rest: "(case q of Some res \<Rightarrow> ret (Some res) | None \<Rightarrow> bnd (set_specialresource sr) (\<lambda>_.
         on_err (ReconcileHardwareConfigurations E) (\<lambda>e. ret (Some (\<lparr>Requeue = True\<rparr>, None))) (ret None))) u = (Val r, t)"
    unfolding reconcile_parent_def by (auto simp: modify_def elim!: bnd_ValE)
  show ?thesis
  proof (cases q)
    case None
    with q rest show ?thesis
      by (auto simp: for_range_None_iff set_specialresource_def modify_def elim!: bnd_ValE on_err_ValE)
  next
    case (Some res)
    with q reconcile_dependency_result rest show ?thesis by (fastforce simp: for_range_Some_iff)
  qed
qed

lemma loop_trace_each:
  assumes "loop_trace body xs s t" and "x \<in> set xs"
  obtains u v where "body x u = (Val None, v)"
  using loop_trace_mem[OF assms] by blast

text \<open>A reconcile that does not ask to be called again has gone through all custom resources.\<close>

lemma Reconcile_done_trace:
  assumes "Reconcile E s = (Val (\<lparr>Requeue = False\<rparr>, None), t)"
    and "fst (api_list_sr E (world s)) = Inr items"
  shows "loop_trace (reconcile_parent E items) items
    (s\<lparr>world := snd (api_list_sr E (world s)), calls := calls s @ [CListSpecialResources]\<rparr>) t"
proof -
  let ?s = "s\<lparr>world := snd (api_list_sr E (world s)), calls := calls s @ [CListSpecialResources]\<rparr>"
  from assms obtain r where r: "for_range (reconcile_parent E items) items ?s = (Val r, t)"
      "(case r of Some res \<Rightarrow> res | None \<Rightarrow> (\<lparr>Requeue = False\<rparr>, None)) = (\<lparr>Requeue = False\<rparr>, None)"
    by (auto simp: Reconcile_listed elim!: bnd_ValE)
  have "r = None"
    using r reconcile_parent_result by (cases r) (fastforce simp: for_range_Some_iff)+
  with r(1) show ?thesis by (simp add: for_range_None_iff)
qed

end
