(* ===== verification/Convergence.thy ===== *)
theory Convergence
  imports Controller
begin

text \<open>
  What the operator does to a cluster that remembers: nothing it has created, and nothing that was
  there before, is created again, in the same reconcile or a later one. The API server stays a
  parameter; what is used of it is stated as laws.
\<close>

section \<open>A server that remembers\<close>

datatype object_key = Key gvk string string

definition key_of :: "json \<Rightarrow> object_key" where
  "key_of obj = Key (GroupVersionKind obj) (GetNamespace obj) (GetName obj)"

text \<open>
  \<open>has w k\<close>: in the world \<open>w\<close> the server has an object with the key \<open>k\<close>. A \<open>Get\<close> answers with an
  object only when there is one and with \<open>NotFound\<close> only when there is none (unstructured objects are
  read from the server itself, not from the manager's cache), an accepted creation
  makes the object present, and no request of the operator (it sends no deletions) no waiting and no
  look at a file makes an object disappear.
\<close>

definition api_store :: "'w env \<Rightarrow> ('w \<Rightarrow> object_key \<Rightarrow> bool) \<Rightarrow> bool" where
  "api_store E has \<longleftrightarrow>
     (\<forall>k ns n w e. fst (api_get E k ns n w) = Inl e \<longrightarrow> IsNotFound (Some e) \<longrightarrow> \<not> has w (Key k ns n)) \<and>
     (\<forall>k ns n w m. fst (api_get E k ns n w) = Inr m \<longrightarrow> has w (Key k ns n)) \<and>
     (\<forall>obj w m. fst (api_create E obj w) = Inr m \<longrightarrow> has (snd (api_create E obj w)) (key_of obj)) \<and>
     (\<forall>c w x. has w x \<longrightarrow> has (next_world E c w) x) \<and>
     (\<forall>w x. has w x \<longrightarrow> has (snd (poll_ticks E w)) x) \<and>
     (\<forall>p w x. has w x \<longrightarrow> has (snd (fs E p w)) x)"

lemma api_store_laws:
  assumes "api_store E has"
  shows "fst (api_get E k ns n w) = Inl e \<Longrightarrow> IsNotFound (Some e) \<Longrightarrow> \<not> has w (Key k ns n)"
    and "fst (api_get E k ns n w) = Inr m \<Longrightarrow> has w (Key k ns n)"
    and "fst (api_create E obj w) = Inr m' \<Longrightarrow> has (next_world E (CCreate obj) w) (key_of obj)"
    and "has w x \<Longrightarrow> has (next_world E c w) x"
    and "has w x \<Longrightarrow> has (snd (poll_ticks E w)) x"
    and "has w x \<Longrightarrow> has (snd (fs E p w)) x"
proof -
  note laws = assms[unfolded api_store_def]
  note later = laws[THEN conjunct2, THEN conjunct2, THEN conjunct2]
  show "\<not> has w (Key k ns n)" if "fst (api_get E k ns n w) = Inl e" "IsNotFound (Some e)"
    using laws[THEN conjunct1] that by blast
  show "has w (Key k ns n)" if "fst (api_get E k ns n w) = Inr m"
    using laws[THEN conjunct2, THEN conjunct1] that by blast
  show "has (next_world E (CCreate obj) w) (key_of obj)" if "fst (api_create E obj w) = Inr m'"
    using laws[THEN conjunct2, THEN conjunct2, THEN conjunct1] that by simp
  show "has (next_world E c w) x" if "has w x" using later[THEN conjunct1] that by blast
  show "has (snd (poll_ticks E w)) x" if "has w x" using later[THEN conjunct2, THEN conjunct1] that by blast
  show "has (snd (fs E p w)) x" if "has w x" using later[THEN conjunct2, THEN conjunct2] that by blast
qed

text \<open>
  The relation that every operation keeps on such a server: nothing disappears, and only absent
  objects are created.
\<close>

definition creates_absent :: "'w env \<Rightarrow> ('w \<Rightarrow> object_key \<Rightarrow> bool) \<Rightarrow> 'w sro \<Rightarrow> 'w sro \<Rightarrow> bool" where
  "creates_absent E has s t \<longleftrightarrow> (api_store E has \<longrightarrow>
     (\<forall>x. has (world s) x \<longrightarrow> has (world t) x) \<and>
     (\<exists>cs. calls t = calls s @ cs \<and> (\<forall>obj. CCreate obj \<in> set cs \<longrightarrow> \<not> has (world s) (key_of obj))))"

lemma creates_absent_sent:
  assumes "\<And>obj. c \<noteq> CCreate obj"
  shows "creates_absent E has s (sent E c s)"
  using assms by (auto simp: creates_absent_def sent_def api_store_laws(4))

lemma creates_absent_trans:
  assumes "creates_absent E has s t" and "creates_absent E has t u"
  shows "creates_absent E has s u"
  unfolding creates_absent_def
proof (intro impI conjI)
  assume "api_store E has"
  with assms obtain cs ds where mono: "\<And>x. has (world s) x \<Longrightarrow> has (world t) x"
    "\<And>x. has (world t) x \<Longrightarrow> has (world u) x"
    and "calls t = calls s @ cs" "calls u = calls t @ ds"
    and "\<And>obj. CCreate obj \<in> set cs \<Longrightarrow> \<not> has (world s) (key_of obj)"
    and "\<And>obj. CCreate obj \<in> set ds \<Longrightarrow> \<not> has (world t) (key_of obj)"
    unfolding creates_absent_def by metis
  then show "\<exists>cs. calls u = calls s @ cs \<and> (\<forall>obj. CCreate obj \<in> set cs \<longrightarrow> \<not> has (world s) (key_of obj))"
    by (intro exI[of _ "cs @ ds"]) auto
  show "\<forall>x. has (world s) x \<longrightarrow> has (world u) x" using mono by blast
qed

interpretation absent_ops: operate "creates_absent E has" E "\<lambda>obj. True"
  for E :: "'w env" and has :: "'w \<Rightarrow> object_key \<Rightarrow> bool"
proof unfold_locales
  fix s t u :: "'w sro" and c
  show "creates_absent E has s s" by (simp add: creates_absent_def)
  show "creates_absent E has s u" if "creates_absent E has s t" "creates_absent E has t u"
    using that by (rule creates_absent_trans)
  show "creates_absent E has s (sent E c s)" if "is_read c"
    using that by (intro creates_absent_sent) auto
  show "creates_absent E has s (sent E (CUpdate obj) s)" for obj
    by (rule creates_absent_sent) simp
  show "creates_absent E has s (sent E (CStatusUpdate sr) s)" for sr
    by (rule creates_absent_sent) simp
qed (simp_all add: creates_absent_def api_store_laws(5,6))

interpretation absent_check: vet "creates_absent E has" E
  for E :: "'w env" and has :: "'w \<Rightarrow> object_key \<Rightarrow> bool"
  by unfold_locales (simp add: creates_absent_def)

section \<open>The two places that create\<close>

text \<open>A \<open>Get\<close> that finds nothing, followed by the creation of an object with the key asked for.\<close>

lemma creates_absent_after_Get:
  assumes "client_Get E ns n obj s = (Val (err, j), s1)" and "IsNotFound err"
    and "key_of obj' = Key (GroupVersionKind obj) ns n"
  shows "creates_absent E has s (sent E (CCreate obj') s1)"
proof -
  have s1: "s1 = sent E (CGet (GroupVersionKind obj) ns n) s"
    using snd_client_Get[of E ns n obj s] assms(1) by simp
  obtain e where "fst (api_get E (GroupVersionKind obj) ns n (world s)) = Inl e" "IsNotFound (Some e)"
    using assms(1,2) by (auto simp: client_Get_def Let_def io_simps split: sum.splits)
  then show ?thesis
    using assms(3) by (auto simp: creates_absent_def s1 sent_def simp del: next_world.simps
        intro: api_store_laws(4) dest: api_store_laws(1))
qed

lemma GetAPIVersion_SetOwnerReferences: "GetAPIVersion (SetOwnerReferences obj refs) = GetAPIVersion obj"
  by (simp add: SetOwnerReferences_def meta_defs meta_simps)

lemma owned_form_key:
  assumes "owned_form sr obj = Inr obj'"
  shows "key_of obj' = key_of obj"
proof -
  have "GetAPIVersion obj' = GetAPIVersion obj"
    using assms by (auto simp: owned_form_def own_def GetAPIVersion_SetOwnerReferences
        elim!: SetControllerReference_cases split: if_splits)
  with owned_form_same_meta[OF assms] show ?thesis
    by (simp add: key_of_def GroupVersionKind_def same_meta_def split: option.split prod.split)
qed

lemma creates_absent_CRUD: "creates_absent E has s (snd (CRUD E obj s))"
  by (rule absent_ops.step_CRUD)
    (auto intro!: creates_absent_after_Get simp: owned_form_key key_of_def[of obj])

text \<open>The image-puller binding is created under the key it was asked for.\<close>

lemma fill_binding_key:
  assumes "fill_binding ns p new_binding s = (Val rb, t)"
  shows "key_of rb = Key (GroupVersionKind new_binding) ns ''system:image-puller''"
proof -
  let ?o = "SetName new_binding ''system:image-puller''"
  let ?b = "SetNamespace ?o ns"
  from assms obtain a b c where rb: "rb = setNestedField c (JSlice [builder_subject p]) [''subjects'']"
    and steps: "SetNestedField ?b (JStr ''rbac.authorization.k8s.io'') [''roleRef'', ''apiGroup''] = Inr a"
      "SetNestedField a (JStr ''ClusterRole'') [''roleRef'', ''kind''] = Inr b"
      "SetNestedField b (JStr ''system:image-puller'') [''roleRef'', ''name''] = Inr c"
    by (auto simp: fill_binding_def set_or_exit_def must_def elim!: bnd_ValE split: sum.splits)
  then have abc: "a = setNestedField ?b (JStr ''rbac.authorization.k8s.io'') [''roleRef'', ''apiGroup'']"
    "b = setNestedField a (JStr ''ClusterRole'') [''roleRef'', ''kind'']"
    "c = setNestedField b (JStr ''system:image-puller'') [''roleRef'', ''name'']"
    by (simp_all add: setNestedField_def)
  have "\<exists>m. NestedFieldNoCopy ?o [''metadata''] = NFound (JMap m)"
    by (simp add: new_object_def SetKind_def SetAPIVersion_def SetName_def setNestedField_def)
  then have ns: "GetNamespace ?b = ns"
    using GetNamespace_SetNamespace[of ?o ns] GetNamespace_SetNamespace_eq by (cases "ns = []") auto
  have name: "GetName ?o = ''system:image-puller''"
    by (rule GetName_SetName) (simp_all add: new_object_def SetKind_def SetAPIVersion_def setNestedField_def)
  have "same_meta rb ?b" and "GetAPIVersion rb = GetAPIVersion new_binding"
    by (simp_all add: rb abc same_meta_def meta_defs meta_simps SetNamespace_def SetName_def)
  with ns name show ?thesis
    by (simp add: key_of_def GroupVersionKind_def same_meta_def SetName_keeps_kind
        split: option.split prod.split)
qed

lemma creates_absent_binding: "keeps (creates_absent E has) (createImagePullerRoleBinding E)"
  by (intro keepsI absent_ops.step_createImagePullerRoleBinding)
    (auto intro: creates_absent_after_Get fill_binding_key)

interpretation absent: govern "creates_absent E has" E "\<lambda>obj. True" "\<lambda>ns. True"
  for E :: "'w env" and has :: "'w \<Rightarrow> object_key \<Rightarrow> bool"
  by unfold_locales
    (auto intro: creates_absent_CRUD creates_absent_binding absent_check.keeps_checkForImagePullBackOff
      absent_ops.keeps_labelNodesAccordingToState)

section \<open>Later states\<close>

text \<open>
  The operator goes on: it reconciles, and between reconciles the cluster changes on its own, without
  losing objects.
\<close>

inductive later :: "'w env \<Rightarrow> ('w \<Rightarrow> object_key \<Rightarrow> bool) \<Rightarrow> 'w sro \<Rightarrow> 'w sro \<Rightarrow> bool" for E has where
  now: "later E has s s"
| reconcile: "later E has s t \<Longrightarrow> Reconcile E t = (Val r, u) \<Longrightarrow> later E has s u"
| cluster: "later E has s t \<Longrightarrow> (\<And>x. has (world t) x \<Longrightarrow> has w x) \<Longrightarrow> later E has s (t\<lparr>world := w\<rparr>)"

lemma later_creates_absent: "later E has s t \<Longrightarrow> creates_absent E has s t"
proof (induction rule: later.induct)
  case (reconcile s t r u)
  then show ?case using keepsD[OF absent.keeps_Reconcile] creates_absent_trans by blast
qed (auto simp: creates_absent_def)

lemma later_keeps:
  assumes "api_store E has" and "later E has s t" and "has (world s) x"
  shows "has (world t) x \<and>
    (\<exists>cs. calls t = calls s @ cs \<and> (\<forall>obj. CCreate obj \<in> set cs \<longrightarrow> key_of obj \<noteq> x))"
  using later_creates_absent[OF assms(2)] assms(1,3) unfolding creates_absent_def by blast

lemma CRUD_present:
  assumes "api_store E has" and "CRUD E obj s = (Val (None, obj'), t)"
  shows "has (world t) (key_of obj)"
proof (cases "owned_form (specialresource s) obj")
  case (Inl e)
  with assms(2) show ?thesis by (simp add: CRUD_no_form)
next
  case (Inr o')
  obtain r s1 where get: "client_Get E (GetNamespace obj) (GetName obj) obj s = (r, s1)" by fastforce
  then obtain err found where r: "r = Val (err, found)"
    by (auto simp: client_Get_def Let_def io_simps split: sum.splits)
  have s1: "s1 = sent E (CGet (GroupVersionKind obj) (GetNamespace obj) (GetName obj)) s"
    using snd_client_Get[of E "GetNamespace obj" "GetName obj" obj s] get by simp
  show ?thesis
  proof (cases err)
    case None
    then obtain m where "fst (api_get E (GroupVersionKind obj) (GetNamespace obj) (GetName obj) (world s)) = Inr m"
      using get r by (auto simp: client_Get_def Let_def io_simps split: sum.splits)
    with assms(1) have "has (world s) (key_of obj)" unfolding key_of_def by (rule api_store_laws(2))
    moreover have "creates_absent E has s t" using creates_absent_CRUD[of E has s obj] assms(2) by simp
    ultimately show ?thesis using assms(1) by (simp add: creates_absent_def)
  next
    case (Some e)
    with assms(2) get r have nf: "IsNotFound err"
      by (auto simp: CRUD_owned_form[OF Inr] bnd_apply ret_apply split: if_splits)
    obtain c where create: "client_Create E o' s1 = (Val (None, c), t)"
      using assms(2) get r nf
      by (auto simp: CRUD_owned_form[OF Inr] bnd_apply ret_apply split: prod.splits outcome.splits option.splits)
    then obtain m where "fst (api_create E o' (world s1)) = Inr m"
      by (auto simp: client_Create_def Let_def io_simps split: sum.splits)
    with assms(1) have "has (next_world E (CCreate o') (world s1)) (key_of o')" by (rule api_store_laws(3))
    then show ?thesis
      using snd_client_Create[of E o' s1] create owned_form_key[OF Inr] by (simp add: sent_def)
  qed
qed

section \<open>A cluster in memory\<close>

text \<open>A server that keeps the keys of its objects and is otherwise the empty cluster.\<close>

definition memory_env :: "object_key list env" where
  "memory_env =
     \<lparr>api_get = \<lambda>k ns n w. (if Key k ns n \<in> set w then Inr [] else Inl (StatusError ''NotFound'' n), w),
      api_list = \<lambda>v k opts w. (Inr [], w),
      api_create = \<lambda>obj w. (if key_of obj \<in> set w then Inl (StatusError ''AlreadyExists'' []) else Inr [],
        List.insert (key_of obj) w),
      api_update = \<lambda>obj w. (Inr [], w),
      api_list_sr = \<lambda>w. (Inr [], w),
      api_status_update = \<lambda>sr w. (Inr sr, w),
      api_cluster_version = \<lambda>n w. (Inr [], w),
      api_secret = \<lambda>ns n w. (Inr [], w),
      api_logs = \<lambda>ns n w. (LogData [], w),
      poll_ticks = \<lambda>w. (0, w),
      fs = \<lambda>p w. (FMissing, w),
      template_exec = \<lambda>spec ri. TOk spec,
      yaml_to_json = Inr,
      UnmarshalJSON = \<lambda>b. Inl (Fundamental ''invalid''),
      json_Unmarshal = \<lambda>b. Inl (Fundamental ''invalid''),
      regexp_MatchString = \<lambda>p b. strings_Contains b p\<rparr>"

lemma memory_api_store: "api_store memory_env (\<lambda>w x. x \<in> set w)"
proof -
  have "x \<in> set w \<Longrightarrow> x \<in> set (next_world memory_env c w)" for c w x
    by (cases c) (simp_all add: memory_env_def)
  then show ?thesis unfolding api_store_def by (auto simp: memory_env_def split: if_splits)
qed

section \<open>Properties\<close>

text \<open>
  C17: A reconcile creates only what is missing. On a server that remembers, whatever else it answers,
  every object a reconcile asks to create, at any of its manifests and however it ends, was absent
  when the reconcile began, and nothing that was present then is gone afterwards.
\<close>

theorem Reconcile_creates_absent:
  assumes "api_store E has"
  shows "(\<forall>x. has (world s) x \<longrightarrow> has (world (snd (Reconcile E s))) x) \<and>
    (\<exists>cs. calls (snd (Reconcile E s)) = calls s @ cs \<and>
       (\<forall>obj. CCreate obj \<in> set cs \<longrightarrow> \<not> has (world s) (key_of obj)))"
  using assms absent.keeps_Reconcile[of E has] by (auto simp: keeps_def creates_absent_def)

theorem Reconcile_creates_absent_witness:
  "\<exists>cs. calls (snd (Reconcile memory_env (init_sro [key_of new_binding]))) = cs \<and>
     CCreate new_binding \<notin> set cs"
  using Reconcile_creates_absent[OF memory_api_store, of "init_sro [key_of new_binding]"]
  by (auto simp: init_sro_def)

text \<open>
  C16: The operator converges. Once \<open>CRUD\<close> has succeeded for an object, the server has it, and in
  every later state (after any number of reconciles, and changes of the cluster that lose no
  objects) the server still has it and the operator has not asked to create it again.
\<close>

theorem CRUD_converges:
  assumes "api_store E has" and "CRUD E obj s = (Val (None, obj'), t)" and "later E has t u"
  shows "has (world u) (key_of obj) \<and>
    (\<exists>cs. calls u = calls t @ cs \<and> (\<forall>o'. CCreate o' \<in> set cs \<longrightarrow> key_of o' \<noteq> key_of obj))"
  using later_keeps[OF assms(1,3) CRUD_present[OF assms(1,2)]] .

lemma sample_CRUD_memory:
  "\<exists>obj' t. CRUD memory_env (new_object ''sro.openshift.io/v1beta1'' ''SpecialResource'') (init_sro []) = (Val (None, obj'), t)"
proof -
  let ?o = "new_object ''sro.openshift.io/v1beta1'' ''SpecialResource''"
  have "owned_form sr ?o = Inr ?o" for sr by (simp add: owned_form_def new_binding_kind)
  then show ?thesis
    by (simp add: CRUD_owned_form bnd_apply ret_apply client_Get_def client_Create_def Let_def io_simps
        memory_env_def init_sro_def IsNotFound_def)
qed

theorem CRUD_converges_witness:
  "\<exists>obj' t r u.
     CRUD memory_env (new_object ''sro.openshift.io/v1beta1'' ''SpecialResource'') (init_sro []) =
       (Val (None, obj'), t) \<and>
     Reconcile memory_env t = (Val r, u) \<and>
     key_of (new_object ''sro.openshift.io/v1beta1'' ''SpecialResource'') \<in> set (world u)"
proof -
  obtain obj' t where crud: "CRUD memory_env (new_object ''sro.openshift.io/v1beta1'' ''SpecialResource'')
      (init_sro []) = (Val (None, obj'), t)"
    using sample_CRUD_memory by blast
  obtain r u where rec: "Reconcile memory_env t = (Val r, u)"
    by (simp add: Reconcile_def ReconcilerSpecialResources_def io_simps memory_env_def)
  from later.now rec have "later memory_env (\<lambda>w x. x \<in> set w) t u" by (rule later.reconcile)
  from CRUD_converges[OF memory_api_store crud this] crud rec show ?thesis by blast
qed

end
