(* ===== verification/Cluster_Spec.thy ===== *)
theory Cluster_Spec
  imports Convergence
begin

text \<open>
  The operator against an abstract cluster: what a reconcile does to the objects the cluster was last
  asked to hold, where a server is a partial function from keys to objects. \<open>CRUD\<close>
  (\<open>src/controllers/resources.go\<close>) implements the operation \<open>upsert\<close> on it, and a whole reconcile is
  a sequence of the transitions of \<open>ensure_step\<close>.
\<close>

section \<open>The abstract cluster\<close>

type_synonym cluster = "object_key \<Rightarrow> json option"

text \<open>
  Making sure of an object: it is put in where there is none, and the object in its place is
  replaced, by the request that \<open>CRUD\<close> builds for it, unless its kind is one that is never updated.
\<close>

definition upsert :: "json \<Rightarrow> json \<Rightarrow> cluster \<Rightarrow> cluster" where
  "upsert obj req st = (case st (key_of obj) of
       None \<Rightarrow> st(key_of obj \<mapsto> obj)
     | Some old \<Rightarrow> if never_updated (GetKind obj) then st else st(key_of obj \<mapsto> req))"

text \<open>
  The request replaces the object under the same key, and differs from it in the resource version
  and the address of a service at most.
\<close>

definition update_form :: "json \<Rightarrow> json \<Rightarrow> bool" where
  "update_form req obj \<longleftrightarrow> key_of req = key_of obj \<and> same_meta req obj \<and>
     (\<forall>q. \<not> prefix [''metadata'', ''resourceVersion''] q \<longrightarrow> \<not> prefix q [''metadata'', ''resourceVersion''] \<longrightarrow>
        \<not> prefix [''spec'', ''clusterIP''] q \<longrightarrow> \<not> prefix q [''spec'', ''clusterIP''] \<longrightarrow>
        NestedFieldNoCopy req q = NestedFieldNoCopy obj q)"

inductive ensure_step :: "cluster \<Rightarrow> cluster \<Rightarrow> bool" where
  insert: "st (key_of obj) = None \<Longrightarrow> permitted_create obj \<Longrightarrow> ensure_step st (st(key_of obj \<mapsto> obj))"
| replace: "st (key_of obj) = Some old \<Longrightarrow> permitted_update obj \<Longrightarrow> ensure_step st (st(key_of obj \<mapsto> obj))"

lemma ensure_steps_dom: "ensure_step\<^sup>*\<^sup>* st st' \<Longrightarrow> dom st \<subseteq> dom st'"
  by (induction rule: rtranclp_induct) (simp, erule ensure_step.cases, auto)

text \<open>
  A server whose content is changed by accepted requests of the operator only. \<open>content w\<close> are the
  objects it was last asked to hold in the world \<open>w\<close> (a real server adds fields of its own to them):
  a \<open>Get\<close> answers with an object or with \<open>NotFound\<close> only as the content says, a creation is accepted
  only where there is nothing and an update only where there is something, either then sets the
  object, and whatever is refused, read, waited for, or written to a status leaves the content as
  it is.
\<close>

definition api_content :: "'w env \<Rightarrow> ('w \<Rightarrow> cluster) \<Rightarrow> bool" where
  "api_content E content \<longleftrightarrow>
     (\<forall>k ns n w. case fst (api_get E k ns n w) of
        Inl e \<Rightarrow> IsNotFound (Some e) \<longrightarrow> content w (Key k ns n) = None
      | Inr m \<Rightarrow> content w (Key k ns n) \<noteq> None) \<and>
     (\<forall>obj w. case fst (api_create E obj w) of
        Inl e \<Rightarrow> content (next_world E (CCreate obj) w) = content w
      | Inr m \<Rightarrow> content w (key_of obj) = None \<and>
          content (next_world E (CCreate obj) w) = (content w)(key_of obj \<mapsto> obj)) \<and>
     (\<forall>obj w. case fst (api_update E obj w) of
        Inl e \<Rightarrow> content (next_world E (CUpdate obj) w) = content w
      | Inr m \<Rightarrow> content w (key_of obj) \<noteq> None \<and>
          content (next_world E (CUpdate obj) w) = (content w)(key_of obj \<mapsto> obj)) \<and>
     (\<forall>c w. is_read c \<longrightarrow> content (next_world E c w) = content w) \<and>
     (\<forall>sr w. content (next_world E (CStatusUpdate sr) w) = content w) \<and>
     (\<forall>w. content (snd (poll_ticks E w)) = content w) \<and>
     (\<forall>p w. content (snd (fs E p w)) = content w)"

lemma api_content_laws:
  assumes "api_content E content"
  shows "fst (api_get E k ns n w) = Inl e \<Longrightarrow> IsNotFound (Some e) \<Longrightarrow> content w (Key k ns n) = None"
    and "fst (api_get E k ns n w) = Inr m \<Longrightarrow> content w (Key k ns n) \<noteq> None"
    and "fst (api_create E obj w) = Inl e \<Longrightarrow> content (next_world E (CCreate obj) w) = content w"
    and "fst (api_create E obj w) = Inr m \<Longrightarrow> content w (key_of obj) = None \<and>
      content (next_world E (CCreate obj) w) = (content w)(key_of obj \<mapsto> obj)"
    and "fst (api_update E obj w) = Inl e \<Longrightarrow> content (next_world E (CUpdate obj) w) = content w"
    and "fst (api_update E obj w) = Inr m \<Longrightarrow> content w (key_of obj) \<noteq> None \<and>
      content (next_world E (CUpdate obj) w) = (content w)(key_of obj \<mapsto> obj)"
    and "is_read c \<Longrightarrow> content (next_world E c w) = content w"
    and "content (next_world E (CStatusUpdate sr) w) = content w"
    and "content (snd (poll_ticks E w)) = content w"
    and "content (snd (fs E p w)) = content w"
proof -
  note laws = assms[unfolded api_content_def]
  note l2 = laws[THEN conjunct2]
  note l3 = l2[THEN conjunct2]
  note l4 = l3[THEN conjunct2]
  note l5 = l4[THEN conjunct2]
  note get = laws[THEN conjunct1, THEN spec, THEN spec, THEN spec, THEN spec, of w k ns n]
  note create = l2[THEN conjunct1, THEN spec, THEN spec, of obj w]
  note update = l3[THEN conjunct1, THEN spec, THEN spec, of obj w]
  show "content w (Key k ns n) = None" if "fst (api_get E k ns n w) = Inl e" "IsNotFound (Some e)"
    using get that by simp
  show "content w (Key k ns n) \<noteq> None" if "fst (api_get E k ns n w) = Inr m"
    using get that by simp
  show "content (next_world E (CCreate obj) w) = content w" if "fst (api_create E obj w) = Inl e"
    using create that by simp
  show "content w (key_of obj) = None \<and> content (next_world E (CCreate obj) w) = (content w)(key_of obj \<mapsto> obj)"
    if "fst (api_create E obj w) = Inr m"
    using create that by simp
  show "content (next_world E (CUpdate obj) w) = content w" if "fst (api_update E obj w) = Inl e"
    using update that by simp
  show "content w (key_of obj) \<noteq> None \<and> content (next_world E (CUpdate obj) w) = (content w)(key_of obj \<mapsto> obj)"
    if "fst (api_update E obj w) = Inr m"
    using update that by simp
  show "content (next_world E c w) = content w" if "is_read c"
    using l4[THEN conjunct1] that by blast
  show "content (next_world E (CStatusUpdate sr) w) = content w"
    using l5[THEN conjunct1] by blast
  show "content (snd (poll_ticks E w)) = content w"
    using l5[THEN conjunct2, THEN conjunct1] by blast
  show "content (snd (fs E p w)) = content w"
    using l5[THEN conjunct2, THEN conjunct2] by blast
qed

section \<open>A reconcile as transitions\<close>

definition ensures :: "'w env \<Rightarrow> ('w \<Rightarrow> cluster) \<Rightarrow> 'w sro \<Rightarrow> 'w sro \<Rightarrow> bool" where
  "ensures E content s t \<longleftrightarrow>
     (api_content E content \<longrightarrow> ensure_step\<^sup>*\<^sup>* (content (world s)) (content (world t)))"

lemma ensures_same:
  assumes "api_content E content \<Longrightarrow> content (world t) = content (world s)"
  shows "ensures E content s t"
  using assms by (simp add: ensures_def)

lemma ensures_create:
  assumes "permitted_create obj"
  shows "ensures E content s (sent E (CCreate obj) s)"
  unfolding ensures_def
proof
  assume api: "api_content E content"
  show "ensure_step\<^sup>*\<^sup>* (content (world s)) (content (world (sent E (CCreate obj) s)))"
  proof (cases "fst (api_create E obj (world s))")
    case (Inl e)
    from api_content_laws(3)[OF api Inl] show ?thesis by (simp add: sent_def)
  next
    case (Inr m)
    from api_content_laws(4)[OF api Inr] ensure_step.insert[OF _ assms] show ?thesis
      by (auto simp: sent_def)
  qed
qed

lemma ensures_update:
  assumes "permitted_update obj"
  shows "ensures E content s (sent E (CUpdate obj) s)"
  unfolding ensures_def
proof
  assume api: "api_content E content"
  show "ensure_step\<^sup>*\<^sup>* (content (world s)) (content (world (sent E (CUpdate obj) s)))"
  proof (cases "fst (api_update E obj (world s))")
    case (Inl e)
    from api_content_laws(5)[OF api Inl] show ?thesis by (simp add: sent_def)
  next
    case (Inr m)
    from api_content_laws(6)[OF api Inr] ensure_step.replace[OF _ assms] show ?thesis
      by (auto simp: sent_def)
  qed
qed

interpretation ensuring: govern_forms "ensures E content" E permitted_update permitted_create "\<lambda>ns. True"
  for E :: "'w env" and content :: "'w \<Rightarrow> cluster"
proof unfold_locales
  fix s t u :: "'w sro" and c
  show "ensures E content s u" if "ensures E content s t" "ensures E content t u"
    using that by (auto simp: ensures_def)
  show "ensures E content s (sent E c s)" if "is_read c"
    using that by (intro ensures_same) (simp add: sent_def api_content_laws(7))
  show "ensures E content s (sent E (CUpdate obj) s)" if "permitted_update obj" for obj
    using that by (rule ensures_update)
  show "ensures E content s (sent E (CCreate obj) s)" if "permitted_create obj" for obj
    using that by (rule ensures_create)
  show "ensures E content s (sent E (CStatusUpdate sr) s)" for sr
    by (intro ensures_same) (simp add: sent_def api_content_laws(8) del: next_world.simps)
qed (auto simp: ensures_def api_content_laws(9,10) permitted_create_def permitted_update_def child_update_def
    never_updated_def intro: exI[of _ "[]"])

section \<open>CRUD as an upsert\<close>

lemma GetAPIVersion_congruent:
  "NestedFieldNoCopy a [''apiVersion''] = NestedFieldNoCopy b [''apiVersion''] \<Longrightarrow> GetAPIVersion a = GetAPIVersion b"
  by (simp add: GetAPIVersion_def getNestedString_def NestedString_def)

lemma same_key:
  assumes "same_meta a b" and "GetAPIVersion a = GetAPIVersion b"
  shows "key_of a = key_of b"
  using assms by (simp add: key_of_def GroupVersionKind_def same_meta_def split: option.split prod.split)

lemma updateResourceVersion_form:
  assumes "updateResourceVersion obj found s = (Val (Inr req), t)"
  shows "update_form req obj"
proof -
  note meta = updateResourceVersion_same_meta[OF assms]
  have "GetAPIVersion req = GetAPIVersion obj"
    by (intro GetAPIVersion_congruent updateResourceVersion_result(3)[OF assms]) simp_all
  with meta updateResourceVersion_result(3)[OF assms] same_key show ?thesis
    unfolding update_form_def by blast
qed

lemma snd_client_Update: "snd (client_Update E obj s) = sent E (CUpdate obj) s"
  by (auto simp: client_Update_def Let_def io_simps sent_def split: sum.split)

lemma client_Update_content:
  assumes "api_content E content" and "client_Update E req s = (Val (err, j), t)"
  shows "content (world t) =
    (if err = None then (content (world s))(key_of req \<mapsto> req) else content (world s))"
    and "err = None \<Longrightarrow> content (world s) (key_of req) \<noteq> None"
proof -
  have t: "t = sent E (CUpdate req) s" using snd_client_Update[of E req s] assms(2) by simp
  have err: "err = None \<longleftrightarrow> (\<exists>m. fst (api_update E req (world s)) = Inr m)"
    using assms(2) by (auto simp: client_Update_def Let_def io_simps split: sum.splits)
  then show "content (world t) =
      (if err = None then (content (world s))(key_of req \<mapsto> req) else content (world s))"
    using api_content_laws(5,6)[OF assms(1), of req "world s"]
    by (cases "fst (api_update E req (world s))") (auto simp: t sent_def simp del: next_world.simps)
  show "content (world s) (key_of req) \<noteq> None" if "err = None"
    using err that api_content_laws(6)[OF assms(1), of req "world s"] by blast
qed

lemma client_Create_content:
  assumes "api_content E content" and "client_Create E obj s = (Val (err, j), t)"
  shows "content (world t) =
    (if err = None then (content (world s))(key_of obj \<mapsto> obj) else content (world s))"
    and "err = None \<Longrightarrow> content (world s) (key_of obj) = None"
proof -
  have t: "t = sent E (CCreate obj) s" using snd_client_Create[of E obj s] assms(2) by simp
  have err: "err = None \<longleftrightarrow> (\<exists>m. fst (api_create E obj (world s)) = Inr m)"
    using assms(2) by (auto simp: client_Create_def Let_def io_simps split: sum.splits)
  then show "content (world t) =
      (if err = None then (content (world s))(key_of obj \<mapsto> obj) else content (world s))"
    using api_content_laws(3,4)[OF assms(1), of obj "world s"]
    by (cases "fst (api_create E obj (world s))") (auto simp: t sent_def simp del: next_world.simps)
  show "content (world s) (key_of obj) = None" if "err = None"
    using err that api_content_laws(4)[OF assms(1), of obj "world s"] by blast
qed

lemma client_Get_content:
  assumes "api_content E content" and "client_Get E ns n obj s = (Val (err, j), t)"
  shows "content (world t) = content (world s)"
    and "err = None \<Longrightarrow> content (world s) (Key (GroupVersionKind obj) ns n) \<noteq> None"
    and "IsNotFound err \<Longrightarrow> content (world s) (Key (GroupVersionKind obj) ns n) = None"
proof -
  have "t = sent E (CGet (GroupVersionKind obj) ns n) s" using snd_client_Get[of E ns n obj s] assms(2) by simp
  then show "content (world t) = content (world s)"
    by (simp add: sent_def api_content_laws(7)[OF assms(1)] del: next_world.simps)
  let ?r = "fst (api_get E (GroupVersionKind obj) ns n (world s))"
  have r: "err = (case ?r of Inl e \<Rightarrow> Some e | Inr m \<Rightarrow> None)"
    using assms(2) by (auto simp: client_Get_def Let_def io_simps split: sum.splits)
  show "content (world s) (Key (GroupVersionKind obj) ns n) \<noteq> None" if "err = None"
    using r that api_content_laws(2)[OF assms(1)] by (cases ?r) auto
  show "content (world s) (Key (GroupVersionKind obj) ns n) = None" if "IsNotFound err"
    using r that api_content_laws(1)[OF assms(1)] by (cases ?r) auto
qed

text \<open>What a run of \<open>CRUD\<close> has done to the content, by its outcome.\<close>

definition implements :: "SpecialResource \<Rightarrow> json \<Rightarrow> cluster \<Rightarrow> (goerr option \<times> json) outcome \<Rightarrow> cluster \<Rightarrow> bool" where
  "implements sr obj st r st' = (case r of
       Val (None, j) \<Rightarrow> \<exists>obj' req. owned_form sr obj = Inr obj' \<and> update_form req obj' \<and> st' = upsert obj' req st
     | _ \<Rightarrow> st' = st)"

lemma implementsI:
  assumes "owned_form sr obj = Inr obj'"
    and "\<And>j. r = Val (None, j) \<Longrightarrow> \<exists>req. update_form req obj' \<and> st' = upsert obj' req st"
    and "\<nexists>j. r = Val (None, j) \<Longrightarrow> st' = st"
  shows "implements sr obj st r st'"
  using assms by (auto simp: implements_def split: outcome.split prod.split option.split)

lemma update_form_refl: "update_form obj obj"
  by (simp add: update_form_def)

lemma crud_update_implements:
  assumes "api_content E content" and form: "owned_form sr obj = Inr obj'"
    and old: "content (world s) (key_of obj') \<noteq> None" and "\<not> never_updated (GetKind obj')"
    and run: "crud_update E obj' found s = (r, t)"
  shows "implements sr obj (content (world s)) r (content (world t))"
proof -
  obtain v where v: "updateResourceVersion obj' found s = (v, s)"
    using keeps_eqD[OF keeps_eq_updateResourceVersion, of obj' found s] by (cases "updateResourceVersion obj' found s") auto
  show ?thesis
  proof (cases "\<exists>req. v = Val (Inr req)")
    case True
    then obtain req where req: "v = Val (Inr req)" ..
    obtain w x where "client_Update E req s = (Val x, s\<lparr>world := w, calls := calls s @ [CUpdate req]\<rparr>)"
      using client_Update_calls[of E req s] by blast
    then obtain err j u where upd: "client_Update E req s = (Val (err, j), u)" by (cases x) auto
    with run v req have rt: "t = u" "r = Val (case err of None \<Rightarrow> (None, obj')
        | Some e \<Rightarrow> (Some (WithMessage ''Couldn't Update Resource'' e), obj'))"
      by (auto simp: crud_update_def bnd_apply ret_apply split: option.splits)
    have f: "update_form req obj'" using v req by (intro updateResourceVersion_form) simp
    then have k: "key_of req = key_of obj'" by (simp add: update_form_def)
    show ?thesis
      using client_Update_content[OF assms(1) upd] old assms(4) f
      by (intro implementsI[OF form]) (auto simp: rt upsert_def k split: option.splits)
  next
    case False
    with run v have "t = s" "\<And>j. r \<noteq> Val (None, j)"
      by (auto simp: crud_update_def bnd_apply ret_apply split: outcome.splits sum.splits)
    then show ?thesis by (intro implementsI[OF form]) auto
  qed
qed

lemma CRUD_implements:
  assumes api: "api_content E content" and run: "CRUD E obj s = (r, t)"
  shows "implements (specialresource s) obj (content (world s)) r (content (world t))"
proof (cases "owned_form (specialresource s) obj")
  case (Inl e)
  with run show ?thesis by (auto simp: CRUD_no_form implements_def)
next
  case (Inr obj')
  have key: "Key (GroupVersionKind obj) (GetNamespace obj) (GetName obj) = key_of obj'"
    using owned_form_key[OF Inr] by (simp add: key_of_def)
  obtain err found u where get: "client_Get E (GetNamespace obj) (GetName obj) obj s = (Val (err, found), u)"
    by (rule client_Get_returns)
  note got = client_Get_content[OF api get, unfolded key]
  note run' = run[unfolded CRUD_owned_form[OF Inr] bnd_apply get, simplified]
  consider (missing) "IsNotFound err" | (error) "\<not> IsNotFound err" "err \<noteq> None" | (found) "err = None"
    by auto
  then show ?thesis
  proof cases
    case missing
    obtain w x where "client_Create E obj' u = (Val x, u\<lparr>world := w, calls := calls u @ [CCreate obj']\<rparr>)"
      using client_Create_calls[of E obj' u] by blast
    then obtain err' j v where create: "client_Create E obj' u = (Val (err', j), v)" by (cases x) auto
    with run' missing have rt: "t = v" "r = Val (case err' of None \<Rightarrow> (None, j)
        | Some e \<Rightarrow> (Some (WithMessage ''Couldn't Create Resource'' e), j))"
      by (auto simp: bnd_apply ret_apply split: option.splits)
    show ?thesis
      using client_Create_content[OF api create] got(1) update_form_refl[of obj']
      by (intro implementsI[OF Inr]) (auto simp: rt upsert_def split: option.splits)
  next
    case error
    with run' got(1) show ?thesis
      by (intro implementsI[OF Inr]) (auto simp: ret_apply split: if_splits)
  next
    case found
    show ?thesis
    proof (cases "never_updated (GetKind obj')")
      case True
      with run' found got(1) got(2)[OF found] update_form_refl[of obj'] show ?thesis
        by (intro implementsI[OF Inr]) (auto simp: ret_apply upsert_def)
    next
      case False
      with run' found have "crud_update E obj' found u = (r, t)" by simp
      from crud_update_implements[OF api Inr _ False this] got show ?thesis using found by simp
    qed
  qed
qed

section \<open>A cluster in memory\<close>

text \<open>
  A server that keeps the objects it is given, with one custom resource, on which every document
  decodes to a namespace, and without any recipe.
\<close>

type_synonym memory = "(object_key \<times> json) list"

definition sample_namespace :: json where
  "sample_namespace = JMap [(''apiVersion'', JStr ''v1''), (''kind'', JStr ''Namespace''),
     (''metadata'', JMap [(''name'', JStr ''acme'')])]"

definition memory_create :: "json \<Rightarrow> memory \<Rightarrow> (goerr + entries) \<times> memory" where
  "memory_create obj w = (if map_of w (key_of obj) = None then (Inr [], AList.update (key_of obj) obj w)
     else (Inl (StatusError ''AlreadyExists'' []), w))"

definition memory_update :: "json \<Rightarrow> memory \<Rightarrow> (goerr + entries) \<times> memory" where
  "memory_update obj w = (if map_of w (key_of obj) = None then (Inl (StatusError ''NotFound'' []), w)
     else (Inr [], AList.update (key_of obj) obj w))"

definition content_env :: "memory env" where
  "content_env =
     \<lparr>api_get = \<lambda>k ns n w. (case map_of w (Key k ns n) of
        Some (JMap m) \<Rightarrow> Inr m | Some j \<Rightarrow> Inr [] | None \<Rightarrow> Inl (StatusError ''NotFound'' n), w),
      api_list = \<lambda>v k opts w. (Inr [], w),
      api_create = memory_create,
      api_update = memory_update,
      api_list_sr = \<lambda>w. (Inr [zero_SpecialResource], w),
      api_status_update = \<lambda>sr w. (Inr sr, w),
      api_cluster_version = \<lambda>n w. (Inr [], w),
      api_secret = \<lambda>ns n w. (Inr [], w),
      api_logs = \<lambda>ns n w. (LogData [], w),
      poll_ticks = \<lambda>w. (0, w),
      fs = \<lambda>p w. (FMissing, w),
      template_exec = \<lambda>spec ri. TOk spec,
      yaml_to_json = Inr,
      UnmarshalJSON = \<lambda>b. Inr [(''apiVersion'', JStr ''v1''), (''kind'', JStr ''Namespace''),
        (''metadata'', JMap [(''name'', JStr ''acme'')])],
      json_Unmarshal = \<lambda>b. Inl (Fundamental ''invalid''),
      regexp_MatchString = \<lambda>p b. strings_Contains b p\<rparr>"

lemma content_env_api_content: "api_content content_env map_of"
proof -
  have "map_of (next_world content_env c w) = map_of w" if "is_read c" for c w
    using that by (cases c) (simp_all add: content_env_def)
  then show ?thesis
    unfolding api_content_def
    by (auto simp: content_env_def memory_create_def memory_update_def update_conv' split: option.splits json.splits)
qed

section \<open>Properties\<close>


definition owned_namespace :: json where
  "owned_namespace = JMap [(''apiVersion'', JStr ''v1''), (''kind'', JStr ''Namespace''),
     (''metadata'', JMap [(''name'', JStr ''acme''), (''ownerReferences'', JSlice [JMap
        [(''apiVersion'', JStr ''sro.openshift.io/v1beta1''), (''kind'', JStr ''SpecialResource''),
         (''name'', JStr []), (''uid'', JStr []), (''controller'', JBool True),
         (''blockOwnerDeletion'', JBool True)]])])]"

lemma sample_CRUD_content:
  "fst (CRUD content_env sample_namespace (init_sro [])) =
     Val (None, JMap [(''apiVersion'', JStr ''v1''), (''kind'', JStr ''Namespace'')])"
  "owned_form (specialresource (init_sro ([] :: memory))) sample_namespace = Inr owned_namespace"
  by code_simp+



lemma sample_Reconcile_content:
  "world (snd (Reconcile content_env (init_sro []))) = [(key_of owned_namespace, owned_namespace)]"
  by code_simp


end
