(* ===== verification/Deployed.thy ===== *)
theory Deployed
  imports Cluster_Spec
begin

text \<open>
  What a finished reconcile has brought about: every object of every recipe is in the cluster. The
  recipes are those the run has read, and their documents those it has filled in, so the
  specification follows the run through its states.
\<close>

section \<open>Recipes that are present\<close>

text \<open>
  A build configuration is set aside, and with it the rest of its manifest, unless its vendor is the
  one to rebuild (\<open>rebuildDriverContainer\<close> and its caller in \<open>src/controllers/resources.go\<close>).
\<close>

definition set_aside :: "json \<Rightarrow> 'w sro \<Rightarrow> bool" where
  "set_aside obj s \<longleftrightarrow> GetKind obj = ''BuildConfig'' \<and>
     lookup (GetAnnotations obj) vendor_annotation \<noteq> Some (UpdateVendor (runInfo s))"

text \<open>
  \<open>docs_present E there ns ds s\<close>: the objects of the documents \<open>ds\<close>, worked off one after the other
  from the state \<open>s\<close> on, are \<open>there\<close>, up to the first that is set aside.
\<close>

primrec docs_present :: "'w env \<Rightarrow> (object_key \<Rightarrow> bool) \<Rightarrow> string \<Rightarrow> string list \<Rightarrow> 'w sro \<Rightarrow> bool" where
  "docs_present E there ns [] s \<longleftrightarrow> True"
| "docs_present E there ns (d # ds) s \<longleftrightarrow> (case fst (decode_doc E ns d s) of
       Val (Inr obj) \<Rightarrow> set_aside obj s \<or>
         (there (key_of obj) \<and> docs_present E there ns ds (snd (create_doc E ns d s)))
     | _ \<Rightarrow> False)"

primrec states_present :: "'w env \<Rightarrow> (object_key \<Rightarrow> bool) \<Rightarrow> (string \<times> json) list \<Rightarrow> string list \<Rightarrow> 'w sro \<Rightarrow> bool" where
  "states_present E there manifests [] s \<longleftrightarrow> True"
| "states_present E there manifests (n # ns) s \<longleftrightarrow> (case map_of manifests n of
       Some (JStr y) \<Rightarrow> docs_present E there (sr_Namespace (specialresource s)) (documents y) s \<and>
         states_present E there manifests ns (snd (run_state E manifests n s))
     | _ \<Rightarrow> False)"

text \<open>
  A custom resource whose reconciliation starts in the state \<open>s\<close>: its namespace, and the states of the
  recipe that is then read.
\<close>

definition with_namespace :: "'w sro \<Rightarrow> 'w sro" where
  "with_namespace s = (if sr_Namespace (specialresource s) \<noteq> [] then s
     else s\<lparr>specialresource := set_spec_namespace (sr_Name (specialresource s)) (specialresource s)\<rparr>)"

definition namespace_present :: "'w env \<Rightarrow> (object_key \<Rightarrow> bool) \<Rightarrow> 'w sro \<Rightarrow> bool" where
  "namespace_present E there s \<longleftrightarrow>
     docs_present E there [] (documents (namespace_yaml @ sr_Namespace (specialresource (with_namespace s)))) (with_namespace s)"

definition read_recipe :: "'w env \<Rightarrow> ('w sro, goerr + json) io" where
  "read_recipe E =
     bnd (createSpecialResourceNamespace E) (\<lambda>_. bnd (createImagePullerRoleBinding E) (\<lambda>_. getHardwareConfiguration E))"

definition read_facts :: "'w env \<Rightarrow> ('w sro, unit) io" where
  "read_facts E = bnd (cacheNodes E False) (\<lambda>_. getRuntimeInformation E)"

definition recipe_present :: "'w env \<Rightarrow> (object_key \<Rightarrow> bool) \<Rightarrow> 'w sro \<Rightarrow> bool" where
  "recipe_present E there s \<longleftrightarrow> namespace_present E there s \<and>
     (case read_recipe E s of
        (Val (Inr config), u) \<Rightarrow>
          (case NestedMap config [''data''] of
             NFound manifests \<Rightarrow>
               states_present E there manifests (sort (map fst manifests)) (snd (read_facts E u))
           | _ \<Rightarrow> False)
      | _ \<Rightarrow> False)"

text \<open>The listed custom resources, reconciled one after the other, each after its dependencies.\<close>

primrec all_present :: "'w env \<Rightarrow> (object_key \<Rightarrow> bool) \<Rightarrow> SpecialResource list \<Rightarrow> SpecialResource list \<Rightarrow> 'w sro \<Rightarrow> bool" where
  "all_present E there items [] s \<longleftrightarrow> True"
| "all_present E there items (sr # srs) s \<longleftrightarrow>
     recipe_present E there
       ((snd (for_range (reconcile_dependency E items) (spec_DependsOn (sr_Spec sr)) (s\<lparr>parent := sr\<rparr>)))\<lparr>specialresource := sr\<rparr>) \<and>
     all_present E there items srs (snd (reconcile_parent E items sr s))"

text \<open>Presence is monotone in what is there.\<close>

lemma docs_present_mono:
  "docs_present E there ns ds s \<Longrightarrow> (\<And>k. there k \<Longrightarrow> there' k) \<Longrightarrow> docs_present E there' ns ds s"
  by (induction ds arbitrary: s) (auto split: outcome.splits sum.splits)

lemma states_present_mono:
  "states_present E there ms ns s \<Longrightarrow> (\<And>k. there k \<Longrightarrow> there' k) \<Longrightarrow> states_present E there' ms ns s"
  by (induction ns arbitrary: s) (auto split: option.splits json.splits intro: docs_present_mono)

lemma recipe_present_mono:
  "recipe_present E there s \<Longrightarrow> (\<And>k. there k \<Longrightarrow> there' k) \<Longrightarrow> recipe_present E there' s"
  unfolding recipe_present_def namespace_present_def
  by (auto split: prod.splits outcome.splits sum.splits nested.splits intro: docs_present_mono states_present_mono)

section \<open>The hooks keep the key\<close>

lemma SetNestedField_key:
  assumes "SetNestedField obj v p = Inr obj'"
    and "\<And>q. q \<in> {[''apiVersion''], [''kind''], [''metadata'', ''name''], [''metadata'', ''namespace''],
        [''metadata'', ''labels''], [''metadata'', ''annotations'']} \<Longrightarrow> \<not> prefix p q \<and> \<not> prefix q p"
  shows "key_of obj' = key_of obj"
proof (rule same_key)
  show "same_meta obj' obj" using assms(2) by (intro SetNestedField_same_meta[OF assms(1)]) auto
  show "GetAPIVersion obj' = GetAPIVersion obj"
    using assms(2)[of "[''apiVersion'']"] by (intro GetAPIVersion_congruent SetNestedField_apart[OF assms(1)]) auto
qed

lemma beforeCRUDhooks_key:
  assumes "beforeCRUDhooks E obj s = (Val (err, obj'), t)"
  shows "key_of obj' = key_of obj"
proof -
  have "key_of o' = key_of o1" if "customGrafanaConfigMap E o1 u = (Val (e, o'), v)" for o1 o' u v e
    using that by (auto simp: customGrafanaConfigMap_def elim!: bnd_ValE SetNestedField_key split: sum.splits prod.splits)
  with assms show ?thesis
    by (auto simp: beforeCRUDhooks_def Let_def customCallback_def elim!: bnd_ValE dest!: setupProxy_result
        split: if_splits option.splits)
qed

section \<open>Documents and manifests\<close>

lemma absent_monoD:
  assumes "api_store E has" and "creates_absent E has s t" and "has (world s) k"
  shows "has (world t) k"
  using assms by (simp add: creates_absent_def)

lemma docs_present_later:
  assumes "api_store E has" and "creates_absent E has s t" and "docs_present E (has (world s)) ns ds u"
  shows "docs_present E (has (world t)) ns ds u"
  using assms(3) absent_monoD[OF assms(1,2)] by (rule docs_present_mono)

lemma rebuildDriverContainer_outcome:
  "rebuildDriverContainer obj s = (Val r, t) \<Longrightarrow> t = s \<and> (r = None \<longleftrightarrow> \<not> set_aside obj s)"
  by (auto simp: rebuildDriverContainer_def set_aside_def gets_def elim!: bnd_ValE split: if_splits option.splits)

lemma create_doc_outcome:
  assumes api: "api_store E has" and run: "create_doc E ns d s = (Val r, t)"
  shows "r = None \<Longrightarrow> \<exists>obj. fst (decode_doc E ns d s) = Val (Inr obj) \<and> has (world t) (key_of obj)"
    and "r = Some None \<Longrightarrow> \<exists>obj. fst (decode_doc E ns d s) = Val (Inr obj) \<and> set_aside obj s"
proof -
  from run obtain x s1 where dec: "decode_doc E ns d s = (Val x, s1)"
    and rest: "(case x of Inl e \<Rightarrow> ret (Some (Some e))
     | Inr obj \<Rightarrow>
         on_err (rebuildDriverContainer obj) (\<lambda>e. ret (Some None))
        (bnd (beforeCRUDhooks E obj) (\<lambda>(err, obj).
         case err of
           Some e \<Rightarrow> ret (Some (Some (WithMessage ''Before CRUD hooks failed'' e)))
         | None \<Rightarrow>
             bnd (CRUD E obj) (\<lambda>(err, obj).
             bnd (exitOnError (Wrap err ''CRUD exited non-zero'')) (\<lambda>_.
             on_err (afterCRUDhooks E obj)
               (\<lambda>e. ret (Some (Some (WithMessage ''After CRUD hooks failed'' e))))
               (ret None)))))) s1 = (Val r, t)"
    unfolding create_doc_def by (rule bnd_ValE)
  have s1: "s1 = s" using keeps_eqD[OF keeps_eq_decode_doc, of E ns d s] dec by simp
  show "\<exists>obj. fst (decode_doc E ns d s) = Val (Inr obj) \<and> set_aside obj s" if "r = Some None"
    using rest that dec s1
    by (cases x) (auto elim!: bnd_ValE on_err_ValE dest: rebuildDriverContainer_outcome split: option.splits)
  show "\<exists>obj. fst (decode_doc E ns d s) = Val (Inr obj) \<and> has (world t) (key_of obj)" if r: "r = None"
  proof (cases x)
    case (Inl e)
    with rest r show ?thesis by simp
  next
    case (Inr obj)
    from rest r s1 Inr obtain u where guard: "rebuildDriverContainer obj s = (Val None, u)"
      and rest1: "bnd (beforeCRUDhooks E obj) (\<lambda>(err, obj).
         case err of
           Some e \<Rightarrow> ret (Some (Some (WithMessage ''Before CRUD hooks failed'' e)))
         | None \<Rightarrow>
             bnd (CRUD E obj) (\<lambda>(err, obj).
             bnd (exitOnError (Wrap err ''CRUD exited non-zero'')) (\<lambda>_.
             on_err (afterCRUDhooks E obj)
               (\<lambda>e. ret (Some (Some (WithMessage ''After CRUD hooks failed'' e))))
               (ret None)))) u = (Val None, t)"
      by (auto elim: on_err_ValE)
    have u: "u = s" using rebuildDriverContainer_outcome[OF guard] by simp
    obtain obj' s2 where before: "beforeCRUDhooks E obj s = (Val (None, obj'), s2)"
      and rest2: "bnd (CRUD E obj') (\<lambda>(err, obj).
             bnd (exitOnError (Wrap err ''CRUD exited non-zero'')) (\<lambda>_.
             on_err (afterCRUDhooks E obj)
               (\<lambda>e. ret (Some (Some (WithMessage ''After CRUD hooks failed'' e))))
               (ret None))) s2 = (Val None, t)"
      using rest1[unfolded u] by (rule bnd_ValE) (auto split: prod.splits option.splits)
    obtain err obj'' s3 where crud': "CRUD E obj' s2 = (Val (err, obj''), s3)"
      and rest3: "bnd (exitOnError (Wrap err ''CRUD exited non-zero'')) (\<lambda>_.
             on_err (afterCRUDhooks E obj'')
               (\<lambda>e. ret (Some (Some (WithMessage ''After CRUD hooks failed'' e))))
               (ret None)) s3 = (Val None, t)"
      using rest2 by (rule bnd_ValE) (auto split: prod.splits)
    have "err = None" using rest3 by (cases err) auto
    with crud' rest3 have crud: "CRUD E obj' s2 = (Val (None, obj''), s3)"
      and rest4: "on_err (afterCRUDhooks E obj'')
        (\<lambda>e. ret (Some (Some (WithMessage ''After CRUD hooks failed'' e)))) (ret None) s3 = (Val None, t)"
      by simp_all
    from rest4 have "afterCRUDhooks E obj'' s3 = (Val None, t)" by (rule on_err_ValE) simp_all
    moreover have "keeps (creates_absent E has) (afterCRUDhooks E obj'')"
      by (intro absent_ops.keeps_afterCRUDhooks absent_check.keeps_checkForImagePullBackOff
          absent_ops.keeps_labelNodesAccordingToState) simp
    ultimately have "creates_absent E has s3 t" by (rule keepsD[rotated])
    moreover have "has (world s3) (key_of obj')" using CRUD_present[OF api crud] .
    ultimately show ?thesis
      using absent_monoD[OF api] beforeCRUDhooks_key[OF before] dec Inr by auto
  qed
qed

lemma docs_trace_present:
  assumes api: "api_store E has" and "for_range (create_doc E ns) ds s = (Val r, t)" and "r \<in> {None, Some None}"
  shows "docs_present E (has (world t)) ns ds s"
  using assms(2)
proof (induction ds arbitrary: s)
  case (Cons d ds)
  from Cons.prems obtain x u where x: "create_doc E ns d s = (Val x, u)"
    and rest: "(case x of Some v \<Rightarrow> ret (Some v) | None \<Rightarrow> for_range (create_doc E ns) ds) u = (Val r, t)"
    by (auto elim!: bnd_ValE)
  show ?case
  proof (cases x)
    case None
    with rest have run: "for_range (create_doc E ns) ds u = (Val r, t)" by simp
    have "creates_absent E has u t"
      by (rule keepsD[OF absent_ops.resp_for_range run]) (intro absent.keeps_create_doc TrueI)
    with create_doc_outcome(1)[OF api x None] Cons.IH[OF run] x show ?thesis
      by (auto intro: absent_monoD[OF api])
  next
    case (Some v)
    with rest assms(3) have "v = None" by auto
    with create_doc_outcome(2)[OF api x] Some show ?thesis by auto
  qed
qed simp

lemma createFromYAML_present:
  assumes "api_store E has" and "createFromYAML E y ns s = (Val None, t)"
  shows "docs_present E (has (world t)) ns (documents y) s"
proof -
  from assms(2) obtain r where "for_range (create_doc E ns) (documents y) s = (Val r, t)" "r \<in> {None, Some None}"
    by (auto simp: createFromYAML_documents elim!: bnd_ValE split: option.splits)
  then show ?thesis by (rule docs_trace_present[OF assms(1)])
qed

section \<open>Recipes\<close>

lemma states_trace_present:
  assumes api: "api_store E has" and "loop_trace (run_state E manifests) ns s t"
  shows "states_present E (has (world t)) manifests ns s"
  using assms(2)
proof (induction ns arbitrary: s)
  case (Cons n ns)
  then obtain u where u: "run_state E manifests n s = (Val None, u)" and tr: "loop_trace (run_state E manifests) ns u t"
    by auto
  then obtain y where y: "map_of manifests n = Some (JStr y)"
    by (auto simp: run_state_def split: option.splits json.splits)
  with u have "createFromYAML E y (sr_Namespace (specialresource s)) s = (Val None, u)"
    by (auto simp: run_state_def bnd_apply gets_apply elim!: on_err_ValE)
  note docs = createFromYAML_present[OF api this]
  have "for_range (run_state E manifests) ns u = (Val None, t)" using tr by (simp add: for_range_None_iff)
  then have "creates_absent E has u t"
    by (rule keepsD[rotated]) (intro absent_ops.resp_for_range absent.keeps_run_state)
  note docs_present_later[OF api this docs]
  with y u Cons.IH[OF tr] show ?case by simp
qed simp

lemma createSpecialResourceNamespace_present:
  assumes "api_store E has" and "createSpecialResourceNamespace E s = (Val (), t)"
  shows "namespace_present E (has (world t)) s"
proof -
  have "createSpecialResourceNamespace E s =
      bnd (createFromYAML E (namespace_yaml @ sr_Namespace (specialresource (with_namespace s))) []) exitOnError (with_namespace s)"
    by (simp add: createSpecialResourceNamespace_def with_namespace_def io_simps)
  with assms(2) have "createFromYAML E (namespace_yaml @ sr_Namespace (specialresource (with_namespace s))) []
      (with_namespace s) = (Val None, t)"
    by (auto simp: exitOnError_def elim!: bnd_ValE split: if_splits)
  from createFromYAML_present[OF assms(1) this] show ?thesis by (simp add: namespace_present_def)
qed

text \<open>The steps of a custom resource that has been reconciled.\<close>

lemma ReconcileHardwareConfigurations_steps:
  assumes "ReconcileHardwareConfigurations E s = (Val None, t)"
  obtains a config u v manifests where "createSpecialResourceNamespace E s = (Val (), a)"
    and "bnd (createImagePullerRoleBinding E) (\<lambda>_. getHardwareConfiguration E) a = (Val (Inr config), u)"
    and "read_facts E u = (Val (), v)" and "NestedMap config [''data''] = NFound manifests"
    and "loop_trace (run_state E manifests) (sort (map fst manifests)) v t"
proof -
  obtain a where a: "createSpecialResourceNamespace E s = (Val (), a)"
    and r1: "on_err (createImagePullerRoleBinding E)
       (\<lambda>e. ret (Some (WithMessage ''Could not create ImagePuller RoleBinding '' e)))
     (bnd (getHardwareConfiguration E) (\<lambda>r.
      case r of
        Inl e \<Rightarrow> ret (Some (WithMessage ''Error reconciling Hardware Configuration States'' e))
      | Inr config \<Rightarrow>
          bnd (bnd (cacheNodes E False) must) (\<lambda>_.
          bnd (getRuntimeInformation E) (\<lambda>_.
          on_err (ReconcileHardwareStates E config)
            (\<lambda>e. ret (Some (WithMessage ''Cannot reconcile hardware states'' e))) (ret None))))) a = (Val None, t)"
    using assms unfolding ReconcileHardwareConfigurations_def by (rule bnd_ValE) simp
  obtain b where b: "createImagePullerRoleBinding E a = (Val None, b)"
    and r2: "bnd (getHardwareConfiguration E) (\<lambda>r.
      case r of
        Inl e \<Rightarrow> ret (Some (WithMessage ''Error reconciling Hardware Configuration States'' e))
      | Inr config \<Rightarrow>
          bnd (bnd (cacheNodes E False) must) (\<lambda>_.
          bnd (getRuntimeInformation E) (\<lambda>_.
          on_err (ReconcileHardwareStates E config)
            (\<lambda>e. ret (Some (WithMessage ''Cannot reconcile hardware states'' e))) (ret None)))) b = (Val None, t)"
    using r1 by (rule on_err_ValE) simp_all
  obtain config u where c: "getHardwareConfiguration E b = (Val (Inr config), u)"
    and r3: "bnd (bnd (cacheNodes E False) must) (\<lambda>_.
          bnd (getRuntimeInformation E) (\<lambda>_.
          on_err (ReconcileHardwareStates E config)
            (\<lambda>e. ret (Some (WithMessage ''Cannot reconcile hardware states'' e))) (ret None))) u = (Val None, t)"
    using r2 by (rule bnd_ValE) (auto split: sum.splits)
  obtain items w v where "cacheNodes E False u = (Val (Inr items), w)" and "getRuntimeInformation E w = (Val (), v)"
    and r4: "on_err (ReconcileHardwareStates E config)
            (\<lambda>e. ret (Some (WithMessage ''Cannot reconcile hardware states'' e))) (ret None) v = (Val None, t)"
    using r3 by (auto simp: must_def elim!: bnd_ValE split: sum.splits)
  then have facts: "read_facts E u = (Val (), v)" by (simp add: read_facts_def bnd_apply)
  from r4 have "ReconcileHardwareStates E config v = (Val None, t)" by (rule on_err_ValE) simp_all
  then obtain manifests where "NestedMap config [''data''] = NFound manifests"
    and "loop_trace (run_state E manifests) (sort (map fst manifests)) v t"
    by (auto simp: ReconcileHardwareStates_def bnd_Val_iff exitOnErrorOrNotFound_Val_iff for_range_None_iff)
  then show ?thesis using that[OF a _ facts] b c by (simp add: bnd_apply)
qed

lemma ReconcileHardwareConfigurations_present:
  assumes api: "api_store E has" and run: "ReconcileHardwareConfigurations E s = (Val None, t)"
  shows "recipe_present E (has (world t)) s"
proof -
  from run obtain a config u v manifests where a: "createSpecialResourceNamespace E s = (Val (), a)"
    and recipe: "bnd (createImagePullerRoleBinding E) (\<lambda>_. getHardwareConfiguration E) a = (Val (Inr config), u)"
    and facts: "read_facts E u = (Val (), v)"
    and data: "NestedMap config [''data''] = NFound manifests"
    and tr: "loop_trace (run_state E manifests) (sort (map fst manifests)) v t"
    by (rule ReconcileHardwareConfigurations_steps)
  have "creates_absent E has a u"
    using recipe by (rule keepsD[rotated])
      (intro absent_ops.resp_bnd creates_absent_binding absent_ops.keeps_getHardwareConfiguration)
  moreover have "creates_absent E has u v"
    using facts unfolding read_facts_def by (rule keepsD[rotated])
      (intro absent_ops.resp_bnd absent_ops.keeps_cacheNodes absent_ops.keeps_getRuntimeInformation)
  moreover have "for_range (run_state E manifests) (sort (map fst manifests)) v = (Val None, t)"
    using tr by (simp add: for_range_None_iff)
  then have "creates_absent E has v t"
    by (rule keepsD[rotated]) (intro absent_ops.resp_for_range absent.keeps_run_state)
  ultimately have "creates_absent E has a t" by (blast intro: creates_absent_trans)
  from docs_present_later[OF api this] createSpecialResourceNamespace_present[OF api a]
  have "namespace_present E (has (world t)) s" by (simp add: namespace_present_def)
  moreover have "read_recipe E s = (Val (Inr config), u)"
    using a recipe by (simp add: read_recipe_def bnd_apply[of "createSpecialResourceNamespace E"])
  ultimately show ?thesis
    using facts data states_trace_present[OF api tr] by (simp add: recipe_present_def)
qed

section \<open>All custom resources\<close>

lemma recipe_present_later:
  assumes "api_store E has" and "creates_absent E has s t" and "recipe_present E (has (world s)) u"
  shows "recipe_present E (has (world t)) u"
  using assms(3) absent_monoD[OF assms(1,2)] by (rule recipe_present_mono)

lemma all_trace_present:
  assumes api: "api_store E has" and "loop_trace (reconcile_parent E items) srs s t"
  shows "all_present E (has (world t)) items srs s"
  using assms(2)
proof (induction srs arbitrary: s)
  case (Cons sr srs)
  then obtain u where u: "reconcile_parent E items sr s = (Val None, u)" and tr: "loop_trace (reconcile_parent E items) srs u t"
    by auto
  from reconcile_parent_result[OF u] obtain w
    where deps: "for_range (reconcile_dependency E items) (spec_DependsOn (sr_Spec sr)) (s\<lparr>parent := sr\<rparr>) = (Val None, w)"
      and own: "ReconcileHardwareConfigurations E (w\<lparr>specialresource := sr\<rparr>) = (Val None, u)"
    by (auto simp: for_range_None_iff)
  have "for_range (reconcile_parent E items) srs u = (Val None, t)" using tr by (simp add: for_range_None_iff)
  then have "creates_absent E has u t"
    by (rule keepsD[rotated]) (intro absent_ops.resp_for_range absent.keeps_reconcile_parent)
  from recipe_present_later[OF api this ReconcileHardwareConfigurations_present[OF api own]] Cons.IH[OF tr] u deps
  show ?case by simp
qed simp

section \<open>A deployed recipe\<close>

text \<open>A server whose content is known remembers.\<close>

lemma api_content_store:
  assumes "api_content E content"
  shows "api_store E (\<lambda>w k. content w k \<noteq> None)"
proof -
  note laws = api_content_laws[OF assms]
  define has where "has = (\<lambda>w k. content w k \<noteq> None)"
  have step: "has (next_world E c w) k" if "has w k" for c w k
  proof (cases c)
    case (CCreate obj)
    with that show ?thesis
      using laws(3,4)[of obj w] by (cases "fst (api_create E obj w)") (auto simp: has_def simp del: next_world.simps)
  next
    case (CUpdate obj)
    with that show ?thesis
      using laws(5,6)[of obj w] by (cases "fst (api_update E obj w)") (auto simp: has_def simp del: next_world.simps)
  qed (use that laws(7)[of c] laws(8) in \<open>auto simp: has_def simp del: next_world.simps\<close>)
  have create: "has (snd (api_create E obj w)) (key_of obj)" if "fst (api_create E obj w) = Inr m" for obj w m
    using laws(4)[OF that] by (simp add: has_def)
  have still: "has w k \<Longrightarrow> has (snd (poll_ticks E w)) k" "has w k \<Longrightarrow> has (snd (fs E p w)) k" for p w k
    by (simp_all add: has_def laws(9,10))
  have absent: "\<not> has w (Key k ns n)" if "fst (api_get E k ns n w) = Inl e" "IsNotFound (Some e)" for k ns n w e
    using laws(1)[OF that] by (simp add: has_def)
  have present: "has w (Key k ns n)" if "fst (api_get E k ns n w) = Inr m" for k ns n w m
    using laws(2)[OF that] by (simp add: has_def)
  have "api_store E has"
    unfolding api_store_def
    by (intro conjI allI impI) (rule absent present create step still; assumption)+
  then show ?thesis by (simp add: has_def)
qed

text \<open>
  A cluster in memory with a recipe of one state, whose document decodes to a service, and the facts
  that a reconcile asks for.
\<close>

definition deploy_decode :: "string \<Rightarrow> entries" where
  "deploy_decode b = (if prefix ''recipe'' b then [(''apiVersion'', JStr ''v1''), (''kind'', JStr ''Service''),
       (''metadata'', JMap [(''name'', JStr ''driver'')])]
     else [(''apiVersion'', JStr ''v1''), (''kind'', JStr ''Namespace''), (''metadata'', JMap [(''name'', JStr ''acme'')])])"

definition acme :: SpecialResource where
  "acme = zero_SpecialResource\<lparr>sr_ObjectMeta := (sr_ObjectMeta zero_SpecialResource)\<lparr>meta_Name := ''acme''\<rparr>\<rparr>"

definition deploy_env :: "memory env" where
  "deploy_env = content_env
     \<lparr>api_list := \<lambda>v k opts w. (Inr (if k = ''SecretList''
        then [[(''metadata'', JMap [(''name'', JStr ''builder-dockercfg-x'')])]] else []), w),
      api_cluster_version := \<lambda>n w. (Inr [(''Completed'', ''4.6.1'')], w),
      api_list_sr := \<lambda>w. (Inr [acme], w),
      UnmarshalJSON := \<lambda>b. Inr (deploy_decode b)\<rparr>"

definition config_key :: "string \<Rightarrow> string \<Rightarrow> object_key" where
  "config_key ns n = Key (GroupVersionKind (new_object ''v1'' ''ConfigMap'')) ns n"

definition deploy_world :: memory where
  "deploy_world =
     [(config_key ''acme'' ''acme'', JMap [(''data'', JMap [(''0001'', JStr ''recipe'')])]),
      (config_key ''openshift-machine-config-operator'' ''machine-config-osimageurl'',
       JMap [(''data'', JMap [(''osImageURL'', JStr ''quay'')])])]"

abbreviation deploy_start :: "memory sro" where
  "deploy_start \<equiv> (init_sro deploy_world)\<lparr>calls := [CListSpecialResources]\<rparr>"

lemma sample_deployed:
  "fst (Reconcile deploy_env (init_sro deploy_world)) = Val (\<lparr>Requeue = False\<rparr>, None)"
  by code_simp

lemma sample_not_deployed:
  "\<not> all_present deploy_env (\<lambda>k. map_of deploy_world k \<noteq> None) [acme] [acme] deploy_start"
  by code_simp

lemma deploy_env_api_content: "api_content deploy_env map_of"
proof -
  have "map_of (next_world deploy_env c w) = map_of w" if "is_read c" for c w
    using that by (cases c) (simp_all add: deploy_env_def content_env_def)
  then show ?thesis
    unfolding api_content_def
    by (auto simp: deploy_env_def content_env_def memory_create_def memory_update_def update_conv'
        split: option.splits json.splits)
qed

section \<open>Properties\<close>

text \<open>
  C2: A finished reconcile has deployed every recipe. On a server that remembers, when a reconcile
  returns without asking to be called again, then at its end the cluster has, for every custom
  resource listed, the resource's namespace and the object that every document of its recipe was filled in and decoded to, in
  every state of the recipe, up to the build configurations that were set aside.
\<close>

theorem Reconcile_deploys:
  assumes "api_store E has" and "Reconcile E s = (Val (\<lparr>Requeue = False\<rparr>, None), t)"
    and "fst (api_list_sr E (world s)) = Inr items"
  shows "all_present E (has (world t)) items items
    (s\<lparr>world := snd (api_list_sr E (world s)), calls := calls s @ [CListSpecialResources]\<rparr>)"
  using all_trace_present[OF assms(1) Reconcile_done_trace[OF assms(2,3)]] .

theorem Reconcile_deploys_witness:
  "all_present deploy_env (\<lambda>k. map_of (world (snd (Reconcile deploy_env (init_sro deploy_world)))) k \<noteq> None)
     [acme] [acme] deploy_start \<and>
   \<not> all_present deploy_env (\<lambda>k. map_of deploy_world k \<noteq> None) [acme] [acme] deploy_start"
proof -
  have run: "Reconcile deploy_env (init_sro deploy_world) =
      (Val (\<lparr>Requeue = False\<rparr>, None), snd (Reconcile deploy_env (init_sro deploy_world)))"
    using sample_deployed by (metis prod.collapse)
  have "(init_sro deploy_world)\<lparr>world := snd (api_list_sr deploy_env (world (init_sro deploy_world))),
      calls := calls (init_sro deploy_world) @ [CListSpecialResources]\<rparr> = deploy_start"
    and items: "fst (api_list_sr deploy_env (world (init_sro deploy_world))) = Inr [acme]"
    by (simp_all add: deploy_env_def init_sro_def)
  with Reconcile_deploys[OF api_content_store[OF deploy_env_api_content] run items] sample_not_deployed
  show ?thesis by simp
qed

end
