(* ===== verification/Rebuild.thy ===== *)
theory Rebuild
  imports Convergence
begin

text \<open>
  When a driver container is built: \<open>checkForImagePullBackOff\<close> (\<open>src/controllers/callbacks.go\<close>) names the
  vendor to rebuild, \<open>rebuildDriverContainer\<close> (\<open>src/controllers/resources.go\<close>) lets its build
  configuration pass. Over all states the operator can reach, nothing else makes it build.
\<close>

section \<open>What a check of the pods finds\<close>

text \<open>The first pod with container statuses waits because its image cannot be pulled.\<close>

fun pull_failed :: "json list \<Rightarrow> bool" where
  "pull_failed [] \<longleftrightarrow> False"
| "pull_failed (pod # pods) \<longleftrightarrow> (case NestedSlice pod [''status'', ''containerStatuses''] of
       NFound statuses \<Rightarrow> waiting_reason [] statuses \<in> {''ImagePullBackOff'', ''ErrImagePull''}
     | _ \<Rightarrow> pull_failed pods)"

lemma check_pods_vendor:
  "\<exists>v. snd (check_pods obj [] pods s) = s\<lparr>runInfo := (runInfo s)\<lparr>UpdateVendor := v\<rparr>\<rparr> \<and>
     (v = UpdateVendor (runInfo s) \<or> v = [] \<or> pull_failed pods)"
proof (induction pods)
  case Nil
  show ?case by (auto simp: ret_apply intro: exI[of _ "UpdateVendor (runInfo s)"])
next
  case (Cons pod pods)
  have rest: "\<exists>v. snd (bnd (exitOnErrorOrNotFound n) (\<lambda>_. check_pods obj [] pods) s) =
        s\<lparr>runInfo := (runInfo s)\<lparr>UpdateVendor := v\<rparr>\<rparr> \<and>
      (v = UpdateVendor (runInfo s) \<or> v = [] \<or> pull_failed pods)" for n :: "string nested"
    using Cons by (cases n) (auto simp: os_Exit_apply intro: exI[of _ "UpdateVendor (runInfo s)"])
  show ?case
  proof (cases "NestedSlice pod [''status'', ''containerStatuses'']")
    case (NFound statuses)
    then show ?thesis
      by (auto simp: Let_def set_runInfo_def io_simps split: option.split)
  qed (use rest in simp_all)
qed

section \<open>Builds follow failed pulls\<close>

text \<open>
  \<open>pull_failure_seen E cs\<close>: one of the requests in \<open>cs\<close> lists pods, and the server is one that can
  answer it with a pod whose image cannot be pulled.
\<close>

definition pull_failure_seen :: "'w env \<Rightarrow> call list \<Rightarrow> bool" where
  "pull_failure_seen E cs \<longleftrightarrow> (\<exists>opts w pods. CList ''v1'' ''PodList'' opts \<in> set cs \<and>
     fst (api_list E ''v1'' ''PodList'' opts w) = Inr pods \<and> pull_failed (map JMap pods))"

text \<open>A build configuration, other than one whose vendor is named by the empty string.\<close>

definition vendor_build :: "json \<Rightarrow> bool" where
  "vendor_build obj \<longleftrightarrow> GetKind obj = ''BuildConfig'' \<and> lookup (GetAnnotations obj) vendor_annotation \<noteq> Some []"

definition builds_on_failure :: "'w env \<Rightarrow> 'w sro \<Rightarrow> bool" where
  "builds_on_failure E s \<longleftrightarrow> (UpdateVendor (runInfo s) \<noteq> [] \<longrightarrow> pull_failure_seen E (calls s)) \<and>
     (\<forall>pre obj post. calls s = pre @ CCreate obj # post \<longrightarrow> vendor_build obj \<longrightarrow> pull_failure_seen E pre)"

definition keeps_builds :: "'w env \<Rightarrow> 'w sro \<Rightarrow> 'w sro \<Rightarrow> bool" where
  "keeps_builds E s t \<longleftrightarrow> (builds_on_failure E s \<longrightarrow> builds_on_failure E t)"

lemma pull_failure_seen_append [intro]: "pull_failure_seen E cs \<Longrightarrow> pull_failure_seen E (cs @ ds)"
  by (auto simp: pull_failure_seen_def)

lemma snoc_eq_middle:
  "xs @ [x] = pre @ y # post \<longleftrightarrow> post = [] \<and> pre = xs \<and> y = x \<or> (\<exists>post'. post = post' @ [x] \<and> xs = pre @ y # post')"
  by (cases post rule: rev_cases) auto

lemma builds_on_failure_sent:
  assumes "builds_on_failure E s" and "\<And>obj. c = CCreate obj \<Longrightarrow> vendor_build obj \<Longrightarrow> pull_failure_seen E (calls s)"
  shows "builds_on_failure E (sent E c s)"
  using assms by (auto simp: builds_on_failure_def sent_def snoc_eq_middle)

lemma keeps_builds_sent: "(\<And>obj. c \<noteq> CCreate obj) \<Longrightarrow> keeps_builds E s (sent E c s)"
  by (auto simp: keeps_builds_def intro: builds_on_failure_sent)

lemma keeps_builds_same:
  "UpdateVendor (runInfo t) = UpdateVendor (runInfo s) \<Longrightarrow> calls t = calls s \<Longrightarrow> keeps_builds E s t"
  unfolding keeps_builds_def builds_on_failure_def by metis

interpretation builds_ops: operate "keeps_builds E" E "\<lambda>obj. True" for E :: "'w env"
proof unfold_locales
  show "keeps_builds E s (sent E c s)" if "is_read c" for s c
    using that by (intro keeps_builds_sent) auto
  show "keeps_builds E s (sent E (CUpdate obj) s)" "keeps_builds E s (sent E (CStatusUpdate sr) s)" for s obj sr
    by (simp_all add: keeps_builds_sent)
  show "keeps_builds E s u" if "keeps_builds E s t" "keeps_builds E t u" for s t u
    using that by (simp add: keeps_builds_def)
qed (rule keeps_builds_same; simp)+

lemma keeps_builds_check: "keeps (keeps_builds E) (checkForImagePullBackOff E obj)"
proof -
  have pods: "keeps_builds E t (snd (check_pods obj [] (map JMap pods) t))"
    if "CList ''v1'' ''PodList'' opts \<in> set (calls t)" "fst (api_list E ''v1'' ''PodList'' opts w) = Inr pods"
    for t opts w pods
  proof -
    from that have "pull_failed (map JMap pods) \<Longrightarrow> pull_failure_seen E (calls t)"
      by (auto simp: pull_failure_seen_def)
    with check_pods_vendor[of obj "map JMap pods" t] show ?thesis
      by (auto simp: keeps_builds_def builds_on_failure_def)
  qed
  have listing: "keeps (keeps_builds E) (bnd (client_List E ''v1'' ''PodList'' opts) (\<lambda>r.
       case r of
         Inl e \<Rightarrow> ret (Some e)
       | Inr pods \<Rightarrow>
           if pods = [] then ret (Some (Fundamental ''No Pods found, reconciling''))
           else check_pods obj [] pods))" for opts
  proof (rule keepsI, rule builds_ops.step_bnd, rule builds_ops.keeps_snd, rule builds_ops.keeps_client_List)
    fix s r t
    assume "client_List E ''v1'' ''PodList'' opts s = (Val r, t)"
    then show "keeps_builds E t (snd ((case r of
         Inl e \<Rightarrow> ret (Some e)
       | Inr pods \<Rightarrow>
           if pods = [] then ret (Some (Fundamental ''No Pods found, reconciling''))
           else check_pods obj [] pods) t))"
      by (auto simp: client_List_def io_simps map_sum_def builds_ops.step_refl intro!: pods[of opts _ "world s"]
          split: sum.splits)
  qed
  show ?thesis
    unfolding checkForImagePullBackOff_def
    by (rule builds_ops.resp_bnd, rule builds_ops.keeps_waitForDaemonSet, rule resp_if, rule builds_ops.resp_ret,
      rule builds_ops.resp_bnd, rule builds_ops.resp_gets, rule listing)
qed

text \<open>What passes the guard with a vendor to rebuild has the vendor that a failed pull has named.\<close>

lemma keeps_builds_CRUD:
  assumes "cleared obj s"
  shows "keeps_builds E s (snd (CRUD E obj s))"
proof (rule builds_ops.step_CRUD)
  fix obj' err j t
  assume own: "owned_form (specialresource s) obj = Inr obj'"
    and get: "client_Get E (GetNamespace obj) (GetName obj) obj s = (Val (err, j), t)"
  from get have t: "t = sent E (CGet (GroupVersionKind obj) (GetNamespace obj) (GetName obj)) s"
    using snd_client_Get[of E "GetNamespace obj" "GetName obj" obj s] by simp
  show "keeps_builds E s (sent E (CCreate obj') t)"
    unfolding keeps_builds_def t
    using assms owned_form_same_meta[OF own]
    by (auto intro!: builds_on_failure_sent)
      (auto simp: builds_on_failure_def vendor_build_def cleared_def same_meta_def sent_def)
qed simp

lemma keeps_builds_binding: "keeps (keeps_builds E) (createImagePullerRoleBinding E)"
proof (intro keepsI builds_ops.step_createImagePullerRoleBinding)
  fix s ns p err j t rb v
  assume get: "client_Get E ns ''system:image-puller'' new_binding s = (Val (err, j), t)"
    and fill: "fill_binding ns p new_binding t = (Val rb, v)"
  have "\<not> vendor_build rb"
    using fill_binding_result[OF fill] by (simp add: vendor_build_def image_puller_binding_def)
  moreover have "t = sent E (CGet (GroupVersionKind new_binding) ns ''system:image-puller'') s"
    using get snd_client_Get[of E ns "''system:image-puller''" new_binding s] by simp
  ultimately show "keeps_builds E s (sent E (CCreate rb) t)"
    by (auto simp: keeps_builds_def intro!: builds_on_failure_sent)
qed simp

interpretation builds: govern "keeps_builds E" E "\<lambda>obj. True" "\<lambda>ns. True" for E :: "'w env"
  by unfold_locales
    (auto intro: keeps_builds_CRUD keeps_builds_binding keeps_builds_check builds_ops.keeps_labelNodesAccordingToState)

lemma reachable_builds:
  assumes "reachable E s"
  shows "builds_on_failure E s"
  using assms
proof (rule builds.reachable_keeps[where I = "builds_on_failure E"])
  show "builds_on_failure E (init_sro w)" for w
    by (simp add: builds_on_failure_def init_sro_def runInfo_init_def)
  show "builds_on_failure E (s\<lparr>world := w\<rparr>)" if "builds_on_failure E s" for s :: "'a sro" and w
    using that by (simp add: builds_on_failure_def)
qed (simp add: keeps_builds_def)

section \<open>Properties\<close>

text \<open>
  C13: The operator builds a driver container only because an image could not be pulled. In every state
  it can reach, each build configuration it has ever asked to create names its vendor by the empty
  string, or an earlier request listed pods and the server can answer that request with a pod that is
  in \<open>ImagePullBackOff\<close> or \<open>ErrImagePull\<close>.
\<close>

theorem builds_follow_failed_pulls:
  assumes "reachable E s" and "calls s = pre @ CCreate obj # post" and "GetKind obj = ''BuildConfig''"
  shows "lookup (GetAnnotations obj) vendor_annotation = Some [] \<or>
    (\<exists>opts w pods. CList ''v1'' ''PodList'' opts \<in> set pre \<and>
       fst (api_list E ''v1'' ''PodList'' opts w) = Inr pods \<and> pull_failed (map JMap pods))"
  using reachable_builds[OF assms(1)] assms(2,3)
  by (auto simp: builds_on_failure_def vendor_build_def pull_failure_seen_def)

text \<open>
  A cluster with one custom resource, whose recipe builds a driver container in its first state and
  deploys it in its second; its pods cannot pull the image. Every config map holds the same data.
\<close>

definition driver_build :: entries where
  "driver_build = [(''kind'', JStr ''BuildConfig''),
     (''metadata'', JMap [(''annotations'', JMap [(vendor_annotation, JStr ''acme'')])])]"

definition driver_daemonset :: entries where
  "driver_daemonset = [(''kind'', JStr ''DaemonSet''),
     (''metadata'', JMap [(''annotations'', JMap [(vendor_annotation, JStr ''acme''),
        (state_annotation, JStr ''driver-container'')])])]"

definition driver_docs :: "string \<Rightarrow> entries" where
  "driver_docs y = (if prefix ''build'' y then driver_build
     else if prefix ''driver'' y then driver_daemonset else [(''kind'', JStr ''BuildConfig'')])"

definition driver_data :: entries where
  "driver_data = [(''0001-build'', JStr ''build''), (''0002-driver'', JStr ''driver''), (''osImageURL'', JStr ''quay'')]"

definition failing_pod :: entries where
  "failing_pod = [(''status'', JMap [(''containerStatuses'', JSlice [JMap [(''state'',
     JMap [(''waiting'', JMap [(''reason'', JStr ''ErrImagePull'')])])]])])]"

text \<open>
  The server remembers the keys of what it has created; an object it has is a daemon set of which no pod
  is available.
\<close>

definition driver_status :: entries where
  "driver_status = [(''status'', JMap [(''desiredNumberScheduled'', JInt 1), (''numberAvailable'', JInt 0)])]"

definition driver_env :: "object_key list env" where
  "driver_env = memory_env
     \<lparr>api_list_sr := \<lambda>w. (Inr [zero_SpecialResource], w),
      UnmarshalJSON := \<lambda>b. Inr (driver_docs b),
      api_cluster_version := \<lambda>n w. (Inr [(''Completed'', ''4.6.1'')], w),
      api_list := \<lambda>v k opts w. (Inr (if k = ''SecretList''
        then [[(''metadata'', JMap [(''name'', JStr ''builder-dockercfg-x'')])]]
        else if k = ''PodList'' then [failing_pod] else []), w),
      api_create := \<lambda>obj w. (case obj of JMap m \<Rightarrow> Inr m | _ \<Rightarrow> Inr [], List.insert (key_of obj) w),
      api_get := \<lambda>k ns n w. (if Key k ns n \<in> set w then Inr driver_status
        else if gvk_Kind k = ''ConfigMap'' then Inr [(''data'', JMap driver_data)]
        else Inl (StatusError ''NotFound'' n), w)\<rparr>"

definition driver_built :: json where
  "driver_built = JMap (case own zero_SpecialResource (JMap driver_build) of Inr (JMap m) \<Rightarrow> m | _ \<Rightarrow> [])"

text \<open>
  The first reconcile finds that the image cannot be pulled and asks to be called again; the second
  creates the build configuration.
\<close>

abbreviation driver_first :: "object_key list sro" where
  "driver_first \<equiv> snd (Reconcile driver_env (init_sro []))"

lemma driver_runs:
  "fst (Reconcile driver_env (init_sro [])) = Val (\<lparr>Requeue = True\<rparr>, None)"
  "case Reconcile driver_env driver_first of
     (Val _, s) \<Rightarrow> CCreate driver_built \<in> set (calls s) | _ \<Rightarrow> False"
  by code_simp+

lemma driver_built_reachable:
  obtains s pre post where "reachable driver_env s" and "calls s = pre @ CCreate driver_built # post"
proof -
  have "Reconcile driver_env (init_sro []) = (Val (\<lparr>Requeue = True\<rparr>, None), driver_first)"
    using driver_runs(1) by (metis prod.collapse)
  then have "reachable driver_env driver_first" by (blast intro: reachable.intros op_step.reconcile)
  moreover obtain r s where "Reconcile driver_env driver_first = (Val r, s)" and built: "CCreate driver_built \<in> set (calls s)"
    using driver_runs(2) by (cases "Reconcile driver_env driver_first") (simp split: outcome.splits)
  then have "op_step driver_env driver_first s" by (simp only: op_step.reconcile)
  ultimately have "reachable driver_env s" by (rule reachable.step)
  with built show ?thesis using that by (auto simp: in_set_conv_decomp)
qed

theorem builds_follow_failed_pulls_witness:
  "\<exists>s pre post. reachable driver_env s \<and> calls s = pre @ CCreate driver_built # post \<and>
     (\<exists>opts w pods. CList ''v1'' ''PodList'' opts \<in> set pre \<and>
        fst (api_list driver_env ''v1'' ''PodList'' opts w) = Inr pods \<and> pull_failed (map JMap pods))"
proof -
  obtain s pre post where r: "reachable driver_env s" and c: "calls s = pre @ CCreate driver_built # post"
    by (rule driver_built_reachable)
  have "GetKind driver_built = ''BuildConfig''" "lookup (GetAnnotations driver_built) vendor_annotation = Some ''acme''"
    by code_simp+
  with builds_follow_failed_pulls[OF r c] have "\<exists>opts w pods. CList ''v1'' ''PodList'' opts \<in> set pre \<and>
      fst (api_list driver_env ''v1'' ''PodList'' opts w) = Inr pods \<and> pull_failed (map JMap pods)" by simp
  with r c show ?thesis by blast
qed

end
