(* ===== verification/Creations.thy ===== *)
theory Creations
  imports Convergence Rebuild
begin

text \<open>
  The order of requests around a creation: whatever the operator asks to create, in \<open>CRUD\<close> or as the
  image-puller binding (\<open>src/controllers/resources.go\<close>), it has looked up by the request before, and
  that request is one the server can answer with \<open>NotFound\<close>.
\<close>

definition looked_up :: "'w env \<Rightarrow> call list \<Rightarrow> json \<Rightarrow> bool" where
  "looked_up E pre obj \<longleftrightarrow> (\<exists>cs k ns n w e. pre = cs @ [CGet k ns n] \<and> key_of obj = Key k ns n \<and>
     fst (api_get E k ns n w) = Inl e \<and> IsNotFound (Some e))"

definition creates_missing :: "'w env \<Rightarrow> 'w sro \<Rightarrow> bool" where
  "creates_missing E s \<longleftrightarrow> (\<forall>pre obj post. calls s = pre @ CCreate obj # post \<longrightarrow> looked_up E pre obj)"

definition keeps_missing :: "'w env \<Rightarrow> 'w sro \<Rightarrow> 'w sro \<Rightarrow> bool" where
  "keeps_missing E s t \<longleftrightarrow> (creates_missing E s \<longrightarrow> creates_missing E t)"

lemma keeps_missing_sent:
  "(\<And>obj. c = CCreate obj \<Longrightarrow> looked_up E (calls s) obj) \<Longrightarrow> keeps_missing E s (sent E c s)"
  by (auto simp: keeps_missing_def creates_missing_def sent_def snoc_eq_middle)

lemma keeps_missing_same: "calls t = calls s \<Longrightarrow> keeps_missing E s t"
  by (simp add: keeps_missing_def creates_missing_def)

lemma keeps_missing_trans: "keeps_missing E s t \<Longrightarrow> keeps_missing E t u \<Longrightarrow> keeps_missing E s u"
  by (simp add: keeps_missing_def)

interpretation missing_ops: operate "keeps_missing E" E "\<lambda>obj. True" for E :: "'w env"
proof unfold_locales
  show "keeps_missing E s (sent E c s)" if "is_read c" for s c
    using that by (intro keeps_missing_sent) auto
qed (auto intro: keeps_missing_same keeps_missing_sent keeps_missing_trans)

interpretation missing_check: vet "keeps_missing E" E for E :: "'w env"
  by unfold_locales (simp add: keeps_missing_same)

lemma keeps_missing_after_Get:
  assumes "client_Get E ns n obj s = (Val (err, j), t)" and "IsNotFound err"
    and "key_of obj' = Key (GroupVersionKind obj) ns n"
  shows "keeps_missing E s (sent E (CCreate obj') t)"
proof -
  have t: "t = sent E (CGet (GroupVersionKind obj) ns n) s"
    using snd_client_Get[of E ns n obj s] assms(1) by simp
  obtain e where "fst (api_get E (GroupVersionKind obj) ns n (world s)) = Inl e" "IsNotFound (Some e)"
    using assms(1,2) by (auto simp: client_Get_def Let_def io_simps split: sum.splits)
  with assms(3) have "looked_up E (calls t) obj'" unfolding looked_up_def t sent_def by fastforce
  then have "keeps_missing E t (sent E (CCreate obj') t)" by (intro keeps_missing_sent) auto
  with keepsD[OF missing_ops.keeps_client_Get assms(1)] show ?thesis by (rule keeps_missing_trans)
qed

lemma keeps_missing_CRUD: "keeps_missing E s (snd (CRUD E obj s))"
  by (rule missing_ops.step_CRUD)
    (auto intro!: keeps_missing_after_Get simp: owned_form_key key_of_def[of obj])

lemma keeps_missing_binding: "keeps (keeps_missing E) (createImagePullerRoleBinding E)"
  by (intro keepsI missing_ops.step_createImagePullerRoleBinding)
    (auto intro: keeps_missing_after_Get fill_binding_key)

interpretation missing: govern "keeps_missing E" E "\<lambda>obj. True" "\<lambda>ns. True" for E :: "'w env"
  by unfold_locales
    (auto intro: keeps_missing_CRUD keeps_missing_binding missing_check.keeps_checkForImagePullBackOff
      missing_ops.keeps_labelNodesAccordingToState)

lemma reachable_creates_missing:
  assumes "reachable E s"
  shows "creates_missing E s"
  using assms
proof (rule missing.reachable_keeps[where I = "creates_missing E"])
  show "creates_missing E (init_sro w)" for w
    by (simp add: creates_missing_def init_sro_def)
  show "creates_missing E (s\<lparr>world := w\<rparr>)" if "creates_missing E s" for s :: "'a sro" and w
    using that by (simp add: creates_missing_def)
qed (simp add: keeps_missing_def)

section \<open>Properties\<close>

text \<open>
  C14: Nothing is created blindly. In every state the operator can reach, each creation it has ever
  asked for comes right after a \<open>Get\<close> of the same group, version, kind, namespace and name, which the
  server can answer with \<open>NotFound\<close>.
\<close>

theorem creations_follow_lookups:
  assumes "reachable E s" and "calls s = pre @ CCreate obj # post"
  shows "\<exists>cs w e. pre = cs @ [CGet (GroupVersionKind obj) (GetNamespace obj) (GetName obj)] \<and>
    fst (api_get E (GroupVersionKind obj) (GetNamespace obj) (GetName obj) w) = Inl e \<and> IsNotFound (Some e)"
  using reachable_creates_missing[OF assms(1)] assms(2)
  by (fastforce simp: creates_missing_def looked_up_def key_of_def)

theorem creations_follow_lookups_witness:
  "\<exists>s cs post. reachable driver_env s \<and>
     calls s = cs @ CGet (GroupVersionKind driver_built) [] [] # CCreate driver_built # post"
proof -
  obtain s pre post where r: "reachable driver_env s" and c: "calls s = pre @ CCreate driver_built # post"
    by (rule driver_built_reachable)
  have "GetNamespace driver_built = []" "GetName driver_built = []" by code_simp+
  with creations_follow_lookups[OF r c] obtain cs where "pre = cs @ [CGet (GroupVersionKind driver_built) [] []]" by auto
  with r c show ?thesis by auto
qed

end
