(* ===== verification/Typed_Objects.thy ===== *)
theory Typed_Objects
  imports Rebuild
begin

text \<open>
  The type invariant of the objects the operator works with: every map in them, at every depth, has
  each key once. It holds for the node cache and for everything that is ever sent, when the server and
  the decoder hand out such objects (\<open>wf_env\<close>).
\<close>

section \<open>What is written is well formed\<close>

lemma own_wf: "own sr obj = Inr obj' \<Longrightarrow> wf_obj obj \<Longrightarrow> wf_obj obj'"
  unfolding own_def by (rule wf_SetControllerReference)

lemma owned_form_wf: "owned_form sr obj = Inr obj' \<Longrightarrow> wf_obj obj \<Longrightarrow> wf_obj obj'"
  by (auto simp: owned_form_def intro: own_wf split: if_splits)

lemma updateResourceVersion_wf:
  "updateResourceVersion req found s = (Val (Inr req'), t) \<Longrightarrow> wf_obj req \<Longrightarrow> wf_obj req'"
  by (auto simp: updateResourceVersion_def Let_def elim!: bnd_ValE split: if_splits sum.splits
      dest!: wf_obj_SetString)

lemma label_update_wf:
  assumes "wf_obj node" and "GetLabels node = Some m"
  shows "wf_obj (SetLabels node (AList.update k v m))"
  using assms by (intro wf_SetLabels distinct_update GetLabels_keys[of node]) (auto intro: wf_obj_json)

lemma wf_new_object: "wf_obj (new_object v k)"
  unfolding new_object_def by (intro wf_obj_setters) simp

lemma set_or_exit_wf: "set_or_exit obj v p s = (Val obj', t) \<Longrightarrow> wf_obj obj \<Longrightarrow> wf_json v \<Longrightarrow> wf_obj obj'"
  by (auto simp: set_or_exit_def must_def split: sum.splits elim: wf_obj_SetNestedField)

lemma builder_subject_wf: "wf_json (builder_subject ns)"
  by (simp add: builder_subject_def)

lemma fill_binding_wf:
  assumes "fill_binding ns p new_binding s = (Val rb, t)"
  shows "wf_obj rb"
proof -
  have "wf_obj (SetNamespace (SetName new_binding ''system:image-puller'') ns)"
    by (intro wf_obj_setters wf_new_object)
  with assms show ?thesis
    unfolding fill_binding_def
    by (auto elim!: bnd_ValE dest!: set_or_exit_wf intro!: wf_obj_setNestedField simp: builder_subject_wf)
qed

lemma client_Get_wf:
  assumes "client_Get E ns n obj s = (Val (err, j), t)" and "wf_env E" and "wf_obj obj"
  shows "wf_obj j"
  using assms
  by (auto simp: client_Get_def Let_def io_simps wf_env_def simp del: wf_obj_JMap
      intro!: wf_obj_setters split: sum.splits) (metis+)?

section \<open>The invariant\<close>

definition well_typed :: "'w sro \<Rightarrow> bool" where
  "well_typed s \<longleftrightarrow> (\<forall>node \<in> set (node_list s). wf_obj node) \<and>
     (\<forall>obj. CCreate obj \<in> set (calls s) \<or> CUpdate obj \<in> set (calls s) \<longrightarrow> wf_obj obj)"

definition keeps_type :: "'w env \<Rightarrow> 'w sro \<Rightarrow> 'w sro \<Rightarrow> bool" where
  "keeps_type E s t \<longleftrightarrow> (wf_env E \<longrightarrow> well_typed s \<longrightarrow> well_typed t)"

lemma keeps_type_sent:
  "(\<And>obj. c = CCreate obj \<or> c = CUpdate obj \<Longrightarrow> wf_env E \<Longrightarrow> wf_obj obj) \<Longrightarrow> keeps_type E s (sent E c s)"
  by (auto simp: keeps_type_def well_typed_def sent_def)

lemma keeps_type_same: "node_list t = node_list s \<Longrightarrow> calls t = calls s \<Longrightarrow> keeps_type E s t"
  by (simp add: keeps_type_def well_typed_def)

interpretation typed_ops: operate "keeps_type E" E "\<lambda>obj. wf_env E \<longrightarrow> wf_obj obj" for E :: "'w env"
proof unfold_locales
  show "keeps_type E s (sent E c s)" if "is_read c" for s c
    using that by (intro keeps_type_sent) auto
  show "keeps_type E s u" if "keeps_type E s t" "keeps_type E t u" for s t u
    using that by (simp add: keeps_type_def)
  show "keeps_type E s (s\<lparr>node_list := map JMap items\<rparr>)"
    if "fst (api_list E v k opts w) = Inr items" for s v k opts w items
    using that by (auto simp: keeps_type_def well_typed_def wf_env_def simp del: wf_obj_JMap)
qed (auto intro: keeps_type_same keeps_type_sent)

interpretation typed_check: vet "keeps_type E" E for E :: "'w env"
  by unfold_locales (simp add: keeps_type_same)

lemma keeps_type_CRUD:
  assumes "wf_env E \<longrightarrow> wf_obj obj"
  shows "keeps (keeps_type E) (CRUD E obj)"
proof (intro keepsI typed_ops.step_CRUD)
  fix s obj' found req and v w :: "'a sro"
  assume "owned_form (specialresource s) obj = Inr obj'" and "updateResourceVersion obj' found v = (Val (Inr req), w)"
  with assms show "wf_env E \<longrightarrow> wf_obj req" by (blast intro: owned_form_wf updateResourceVersion_wf)
next
  fix s obj' err j t
  assume "owned_form (specialresource s) obj = Inr obj'"
    and get: "client_Get E (GetNamespace obj) (GetName obj) obj s = (Val (err, j), t)"
  with assms have "wf_env E \<longrightarrow> wf_obj obj'" by (blast intro: owned_form_wf)
  then have "keeps_type E t (sent E (CCreate obj') t)" by (intro keeps_type_sent) auto
  with keepsD[OF typed_ops.keeps_client_Get get] show "keeps_type E s (sent E (CCreate obj') t)"
    by (rule typed_ops.step_trans)
qed

lemma keeps_type_binding: "keeps (keeps_type E) (createImagePullerRoleBinding E)"
proof (intro keepsI typed_ops.step_createImagePullerRoleBinding)
  fix s ns p err j t rb v
  assume get: "client_Get E ns ''system:image-puller'' new_binding s = (Val (err, j), t)"
    and "fill_binding ns p new_binding t = (Val rb, v)"
  then have "keeps_type E t (sent E (CCreate rb) t)" by (intro keeps_type_sent) (auto dest: fill_binding_wf)
  with keepsD[OF typed_ops.keeps_client_Get get] show "keeps_type E s (sent E (CCreate rb) t)"
    by (rule typed_ops.step_trans)
next
  fix s ns p err rb t
  assume get: "client_Get E ns ''system:image-puller'' new_binding s = (Val (err, rb), t)"
  show "wf_env E \<longrightarrow>
    wf_obj (setNestedField rb (JSlice (nested_val [] (NestedSlice rb [''subjects'']) @ [builder_subject p])) [''subjects''])"
  proof
    assume "wf_env E"
    with get wf_new_object have "wf_obj rb" by (blast intro: client_Get_wf)
    with wf_NestedSlice[OF wf_obj_json, OF this] builder_subject_wf
    show "wf_obj (setNestedField rb (JSlice (nested_val [] (NestedSlice rb [''subjects'']) @ [builder_subject p])) [''subjects''])"
      by (intro wf_obj_setNestedField) auto
  qed
qed

text \<open>Labelling: the nodes that are labelled are those of the cache.\<close>

lemma keeps_type_labels: "keeps (keeps_type E) (labelNodesAccordingToState E obj)"
proof -
  have loop: "keeps_type E t (snd (bnd (gets node_list) (\<lambda>nodes. bnd (for_range (\<lambda>node.
        case map_of labels l of None \<Rightarrow> ret (Some None) | Some k \<Rightarrow> label_node E k node) nodes)
      (\<lambda>r. ret (case r of None \<Rightarrow> None | Some err \<Rightarrow> err))) t))" for labels l t
  proof (cases "wf_env E \<and> well_typed t")
    case True
    then have "keeps (keeps_type E) (label_node E k node)" if "node \<in> set (node_list t)" for k node
      using that by (intro typed_ops.keeps_label_node impI label_update_wf) (auto simp: well_typed_def)
    then have "keeps (keeps_type E) (bnd (for_range (\<lambda>node.
          case map_of labels l of None \<Rightarrow> ret (Some None) | Some k \<Rightarrow> label_node E k node) (node_list t))
        (\<lambda>r. ret (case r of None \<Rightarrow> None | Some err \<Rightarrow> err)))"
      by (intro typed_ops.resp_rules resp)
    then show ?thesis by (simp add: bnd_apply[of "gets node_list"] gets_apply typed_ops.keeps_snd)
  qed (simp add: keeps_type_def)
  show ?thesis
    unfolding labelNodesAccordingToState_def
    by (intro resp_if typed_ops.resp_ret, rule typed_ops.resp_bnd, rule typed_ops.keeps_cacheNodes,
      rule typed_ops.resp_bnd, rule typed_ops.resp_gets, rule keepsI, rule loop)
qed

interpretation typed: govern "keeps_type E" E "\<lambda>obj. wf_env E \<longrightarrow> wf_obj obj" "\<lambda>ns. True" for E :: "'w env"
  by unfold_locales
    (auto simp: admitted_def intro: keeps_type_CRUD keeps_type_binding keeps_type_labels
      typed_ops.keeps_snd typed_check.keeps_checkForImagePullBackOff)

lemma reachable_well_typed:
  assumes "reachable E s" and "wf_env E"
  shows "well_typed s"
  using assms(1)
proof (rule typed.reachable_keeps[where I = well_typed])
  show "well_typed (init_sro w)" for w
    by (simp add: well_typed_def init_sro_def)
  show "well_typed (s\<lparr>world := w\<rparr>)" if "well_typed s" for s :: "'a sro" and w
    using that by (simp add: well_typed_def)
qed (simp add: keeps_type_def assms(2))

section \<open>Properties\<close>


lemma driver_env_wf: "wf_env driver_env"
proof -
  have "wf_obj (JMap driver_data)" "wf_obj (JMap driver_build)" "wf_obj (JMap driver_daemonset)"
    "wf_obj (JMap failing_pod)" "wf_obj (JMap driver_status)" "wf_obj (JMap [(''metadata'', JMap [(''name'', JStr ''builder-dockercfg-x'')])])"
    "wf_obj (JMap [(''kind'', JStr ''BuildConfig'')])" "wf_obj (JMap [(''data'', JMap driver_data)])"
    by code_simp+
  then show ?thesis
    by (auto simp: wf_env_def driver_env_def memory_env_def driver_docs_def simp del: wf_obj_JMap split: if_splits)
qed


end
