(* ===== verification/Panics.thy ===== *)
theory Panics
  imports Controller
begin

text \<open>
  Which panics can end the operator. A Go panic that nobody recovers kills the process; over the whole
  of \<open>Reconcile\<close>, with everything it calls, four sources of panics are left, and the other panics of
  the code (the scanner's, the status callback's) are out of reach.
\<close>

section \<open>Bounding the panics of a computation\<close>

definition panics_only :: "(string \<Rightarrow> bool) \<Rightarrow> ('s, 'a) io \<Rightarrow> bool" where
  "panics_only P m \<longleftrightarrow> (\<forall>s p t. m s = (Panicked p, t) \<longrightarrow> P p)"

lemma panics_onlyI: "(\<And>s p t. m s = (Panicked p, t) \<Longrightarrow> P p) \<Longrightarrow> panics_only P m"
  by (simp add: panics_only_def)

named_theorems pan \<open>introduction rules for panics_only\<close>

lemma pan_basic [pan]:
  "panics_only P (ret x)" "panics_only P os_Exit" "panics_only P (gets f)" "panics_only P (modify g)"
  by (simp_all add: panics_only_def io_simps)

lemma pan_panic: "P p \<Longrightarrow> panics_only P (panic p)"
  by (simp add: panics_only_def io_simps)

lemma pan_bnd [pan]: "panics_only P m \<Longrightarrow> (\<And>x. panics_only P (f x)) \<Longrightarrow> panics_only P (bnd m f)"
  unfolding panics_only_def by (blast elim: bnd_cases)

lemma pan_bnd_result:
  "panics_only P m \<Longrightarrow> (\<And>x s t. m s = (Val x, t) \<Longrightarrow> panics_only P (f x)) \<Longrightarrow> panics_only P (bnd m f)"
  unfolding panics_only_def by (blast elim: bnd_cases)

lemma pan_on_err [pan]:
  "panics_only P m \<Longrightarrow> (\<And>e. panics_only P (f e)) \<Longrightarrow> panics_only P g \<Longrightarrow> panics_only P (on_err m f g)"
  unfolding on_err_def by (intro pan_bnd) (auto split: option.split)

lemma pan_for_range [pan]: "(\<And>x. panics_only P (body x)) \<Longrightarrow> panics_only P (for_range body xs)"
  by (induction xs) (auto intro!: pan split: option.split)

lemma pan_if [pan]: "(b \<Longrightarrow> panics_only P m) \<Longrightarrow> (\<not> b \<Longrightarrow> panics_only P n) \<Longrightarrow> panics_only P (if b then m else n)"
  by simp

lemma pan_option [pan]:
  "(x = None \<Longrightarrow> panics_only P m) \<Longrightarrow> (\<And>y. x = Some y \<Longrightarrow> panics_only P (f y)) \<Longrightarrow>
     panics_only P (case x of None \<Rightarrow> m | Some y \<Rightarrow> f y)"
  by (cases x) simp_all

lemma pan_sum [pan]:
  "(\<And>y. x = Inl y \<Longrightarrow> panics_only P (f y)) \<Longrightarrow> (\<And>y. x = Inr y \<Longrightarrow> panics_only P (g y)) \<Longrightarrow>
     panics_only P (case x of Inl y \<Rightarrow> f y | Inr y \<Rightarrow> g y)"
  by (cases x) simp_all

lemma pan_prod [pan]:
  "(\<And>a b. x = (a, b) \<Longrightarrow> panics_only P (f a b)) \<Longrightarrow> panics_only P (case x of (a, b) \<Rightarrow> f a b)"
  by (cases x) simp

lemma pan_list [pan]:
  "(x = [] \<Longrightarrow> panics_only P m) \<Longrightarrow> (\<And>y ys. x = y # ys \<Longrightarrow> panics_only P (f y ys)) \<Longrightarrow>
     panics_only P (case x of [] \<Rightarrow> m | y # ys \<Rightarrow> f y ys)"
  by (cases x) simp_all

lemma pan_nested [pan]:
  "(\<And>e. x = NErr e \<Longrightarrow> panics_only P (f e)) \<Longrightarrow> (x = NMissing \<Longrightarrow> panics_only P m) \<Longrightarrow>
   (\<And>v. x = NFound v \<Longrightarrow> panics_only P (g v)) \<Longrightarrow>
     panics_only P (case x of NErr e \<Rightarrow> f e | NMissing \<Rightarrow> m | NFound v \<Rightarrow> g v)"
  by (cases x) simp_all

lemma pan_json [pan]:
  "(\<And>m. x = JMap m \<Longrightarrow> panics_only P (f m)) \<Longrightarrow> panics_only P d \<Longrightarrow>
     panics_only P (case x of JMap m \<Rightarrow> f m | _ \<Rightarrow> d)"
  by (cases x) simp_all

section \<open>Operations without panics\<close>

lemma pan_request [pan]: "panics_only P (request c f)"
  by (simp add: panics_only_def request_apply)

lemma pan_misc [pan]:
  "panics_only P (exitOnError err)" "panics_only P (exitOnErrorOrNotFound n)" "panics_only P (must r)"
  unfolding exitOnError_def exitOnErrorOrNotFound_def must_def by (intro pan)+

lemma pan_client [pan]:
  "panics_only P (client_Get E ns n obj)" "panics_only P (client_Create E obj)"
  "panics_only P (client_Update E obj)" "panics_only P (client_List E v k opts)"
  unfolding client_Get_def client_Create_def client_Update_def client_List_def Let_def by (intro pan)+

lemma pan_cacheNodes [pan]: "panics_only P (cacheNodes E force)"
  unfolding cacheNodes_def Let_def by (intro pan)

lemma pan_updateStatus [pan]: "panics_only P (updateStatus E k)"
  unfolding updateStatus_def by (intro pan)

lemma pan_queries [pan]:
  "panics_only P (getClusterVersion E)" "panics_only P (getPushSecretName E)" "panics_only P (getOSImageURL E)"
  "panics_only P (getProxyConfiguration E)"
  unfolding getClusterVersion_def getPushSecretName_def getOSImageURL_def getProxyConfiguration_def by (intro pan)+

lemma pan_getRuntimeInformation [pan]: "panics_only P (getRuntimeInformation E)"
  unfolding getRuntimeInformation_def set_runInfo_def by (intro pan)

lemma pan_Poll [pan]:
  assumes "panics_only P cond"
  shows "panics_only P (Poll E cond)"
proof -
  have "panics_only P (poll_loop n cond)" for n
    by (induction n) (simp_all, (intro pan assms; assumption?)+)
  moreover have "panics_only P (tick_count E)"
    by (simp add: panics_only_def tick_count_def split: prod.split)
  ultimately show ?thesis unfolding Poll_def by (intro pan)
qed

text \<open>The status callbacks in use are made for strings and integers, so theirs is no panic.\<close>

lemma pan_callback [pan]:
  "panics_only P (makeStatusCallback (StString x) path obj)" "panics_only P (makeStatusCallback (StInt i) path obj)"
  "panics_only P (makeStatusCallback (StInt64 i) path obj)"
  unfolding makeStatusCallback_def status_value.case by (intro pan)+

lemma pan_waitForDaemonSetCallback [pan]: "panics_only P (waitForDaemonSetCallback obj)"
  unfolding waitForDaemonSetCallback_def Let_def by (intro pan) (auto intro: pan)

lemma pan_waitForResourceAvailability [pan]: "panics_only P (waitForResourceAvailability E obj)"
  unfolding waitForResourceAvailability_def by (intro pan)

lemma pan_waitForResourceFullAvailability [pan]:
  "(\<And>found. panics_only P (cb found)) \<Longrightarrow> panics_only P (waitForResourceFullAvailability E obj cb)"
  unfolding waitForResourceFullAvailability_def by (intro pan)

lemma pan_waits [pan]:
  "panics_only P (waitForPod E obj)" "panics_only P (waitForDaemonSet E obj)" "panics_only P (waitForBuild E obj)"
  unfolding waitForPod_def waitForDaemonSet_def waitForBuild_def by (intro pan)+

lemma pan_waitForResource [pan]: "panics_only P (waitForResource E obj)"
  by (auto simp: waitForResource_def waitFor_def intro: pan split: option.split)

lemma pan_waitForDaemonSetLogs [pan]: "panics_only P (waitForDaemonSetLogs E obj pattern)"
proof -
  have "panics_only P (case l of LogOpenErr e \<Rightarrow> ret (f e) | LogCopyErr e \<Rightarrow> ret (g e) | LogData logs \<Rightarrow>
      if c logs then ret (h logs) else ret i)"
    for l and f g :: "goerr \<Rightarrow> goerr option" and c h and i :: "goerr option"
    by (cases l) (auto intro: pan)
  then show ?thesis unfolding waitForDaemonSetLogs_def Let_def by (intro pan)
qed

lemma pan_check_pods [pan]: "panics_only P (check_pods obj reason pods)"
  by (induction obj reason pods rule: check_pods.induct)
    (simp_all only: check_pods.simps Let_def set_runInfo_def, (intro pan; simp)+)

lemma pan_checkForImagePullBackOff [pan]: "panics_only P (checkForImagePullBackOff E obj)"
  unfolding checkForImagePullBackOff_def by (intro pan)

lemma pan_setupContainersProxy [pan]: "panics_only P (setupContainersProxy cs)"
  unfolding setupContainersProxy_def by (intro pan)

lemma pan_setupProxy [pan]: "panics_only P (setupProxy obj)"
  unfolding setupProxy_def setupPodProxy_def setupDaemonSetProxy_def by (intro pan)

lemma pan_customGrafanaConfigMap [pan]: "panics_only P (customGrafanaConfigMap E obj)"
  unfolding customGrafanaConfigMap_def getPromURLPass_def by (intro pan)

lemma pan_beforeCRUDhooks [pan]: "panics_only P (beforeCRUDhooks E obj)"
  unfolding beforeCRUDhooks_def Let_def customCallback_def
  by (intro pan) (auto split: if_splits intro: pan)

lemma pan_CRUD [pan]: "panics_only P (CRUD E obj)"
  unfolding CRUD_def crud_update_def updateResourceVersion_def Let_def by (intro pan)

lemma pan_rebuildDriverContainer [pan]: "panics_only P (rebuildDriverContainer obj)"
  unfolding rebuildDriverContainer_def by (intro pan)

section \<open>Reading a recipe\<close>

text \<open>
  The panics that a look at the file system can lead to: the callback dereferences the nil
  \<open>os.FileInfo\<close> of what cannot be looked at, and what is to be read as a file may be gone, be no file
  any more, or fail to be read.
\<close>

definition recipe_panic :: "fsnode \<Rightarrow> string \<Rightarrow> bool" where
  "recipe_panic node p \<longleftrightarrow> (case node of
       FMissing \<Rightarrow> p = ''nil pointer dereference'' \<or> p = ''read error''
     | FErr e \<Rightarrow> p = ''nil pointer dereference'' \<or> p = Error e
     | FDir names \<Rightarrow> p = ''read error''
     | FFile r \<Rightarrow> (\<exists>e. r = Inl e \<and> p = Error e))"

lemma look_result: "look E p s = (Val node, t) \<Longrightarrow> node = fst (fs E p (world s))"
  by (auto simp: look_apply)

lemma pan_look [pan]: "panics_only P (look E p)"
  by (simp add: panics_only_def look_apply)

lemma pan_walk_fn:
  assumes "\<And>m. recipe_panic node m \<Longrightarrow> P m"
  shows "panics_only P (walk_fn root ext path (lstat node) files)"
  using assms by (cases node) (auto simp: walk_fn_def recipe_panic_def intro: pan pan_panic)

lemma pan_walk_names:
  assumes "\<And>n w m. recipe_panic (fst (fs E (filepath_Join root n) w)) m \<Longrightarrow> P m"
  shows "panics_only P (walk_names E root ext ns files)"
proof (induction ns arbitrary: files)
  case (Cons n ns)
  show ?case unfolding walk_names.simps
  proof (rule pan_bnd_result, rule pan)
    fix node s t
    assume "look E (filepath_Join root n) s = (Val node, t)"
    then have "panics_only P (walk_fn root ext (filepath_Join root n) (lstat node) files)"
      using assms look_result by (intro pan_walk_fn) blast
    then show "panics_only P (bnd (if is_dir node then bnd (look E (filepath_Join root n)) (\<lambda>_. ret ()) else ret ()) (\<lambda>_.
        bnd (walk_fn root ext (filepath_Join root n) (lstat node) files) (\<lambda>(r, files). walk_names E root ext ns files)))"
      by (intro pan Cons)
  qed
qed (auto intro: pan)

text \<open>Every file that is read lies in the directory.\<close>

lemma walk_fn_files:
  "walk_fn root ext path info files s = (Val (r, files'), t) \<Longrightarrow> set files' \<subseteq> insert path (set files)"
  by (auto simp: walk_fn_def ret_apply panic_apply split: option.splits if_splits)

lemma walk_names_files:
  fixes E :: "'w env"
  assumes "walk_names E root ext ns files s = (Val files', t)" and "\<forall>f \<in> set files. prefix root f"
  shows "\<forall>f \<in> set files'. prefix root f"
  using assms
proof (induction ns arbitrary: files s)
  case (Cons n ns)
  from Cons(2) obtain node r fs and u v w :: "'w sro" where "walk_fn root ext (filepath_Join root n) (lstat node) files u = (Val (r, fs), v)"
    and "walk_names E root ext ns fs w = (Val files', t)"
    by (auto elim!: bnd_ValE)
  with Cons(1)[of fs w] Cons(3) walk_fn_files show ?case by (fastforce simp: filepath_Join_def)
qed (simp add: ret_apply)

lemma filePathWalkDir_files:
  assumes "filePathWalkDir E root ext s = (Val files, t)"
  shows "\<forall>f \<in> set files. prefix root f"
proof -
  have root: "\<forall>f \<in> set files'. prefix root f" if "walk_fn root ext root info [] u = (Val (r, files'), v)"
    for info r files' and u v :: "'a sro"
    using walk_fn_files[OF that] by auto
  with assms show ?thesis
    by (auto simp: filePathWalkDir_def os_Exit_apply ret_apply elim!: bnd_ValE split: if_splits fsnode.splits sum.splits
        dest!: root walk_names_files)
qed

lemma pan_read_assets:
  assumes "\<And>f w m. f \<in> set files \<Longrightarrow> recipe_panic (fst (fs E f w)) m \<Longrightarrow> P m"
  shows "panics_only P (read_assets E files)"
  using assms
proof (induction files)
  case (Cons f files)
  have ih: "panics_only P (read_assets E files)" by (intro Cons(1)) (auto intro: Cons(2))
  show ?case unfolding read_assets.simps
  proof (rule pan_bnd_result, rule pan)
    fix node s t
    assume "look E f s = (Val node, t)"
    then have "recipe_panic node m \<Longrightarrow> P m" for m using Cons(2)[of f] look_result by force
    then show "panics_only P (case node of
         FFile (Inr buffer) \<Rightarrow> bnd (read_assets E files) (\<lambda>as. ret (\<lparr>asset_name = filepath_Base f, asset_content = buffer\<rparr> # as))
       | FFile (Inl e) \<Rightarrow> panic (Error e) | FErr e \<Rightarrow> panic (Error e) | _ \<Rightarrow> panic ''read error'')"
      by (cases node) (auto simp: recipe_panic_def intro!: pan pan_panic ih split: sum.split)
  qed
qed (auto intro: pan)

lemma pan_getAssetsFrom:
  assumes "\<And>path w m. prefix dir path \<Longrightarrow> recipe_panic (fst (fs E path w)) m \<Longrightarrow> P m"
  shows "panics_only P (getAssetsFrom E dir)"
proof -
  have names: "panics_only P (walk_names E dir ext ns files)" for ext ns files
    by (rule pan_walk_names, rule assms[rotated], assumption, simp add: filepath_Join_def)
  have fn: "panics_only P (walk_fn dir ext dir (lstat node) [])" if "look E dir s = (Val node, t)" for ext node s t
    by (rule pan_walk_fn) (use that look_result assms in fastforce)
  have "panics_only P (case d of FDir (Inr ns) \<Rightarrow> walk_names E dir ext (sort ns) files | _ \<Rightarrow> ret files)" for d ext files
    by (auto intro!: pan names split: fsnode.split sum.split)
  then have "panics_only P (filePathWalkDir E dir ext)" for ext
    unfolding filePathWalkDir_def by (auto intro!: pan pan_bnd_result[OF pan_look] dest: fn)
  moreover have "panics_only P (read_assets E files)" if "filePathWalkDir E dir ext s = (Val files, t)" for ext files s t
    using filePathWalkDir_files[OF that] by (intro pan_read_assets) (auto intro: assms)
  ultimately show ?thesis unfolding getAssetsFrom_def by (rule pan_bnd_result)
qed

section \<open>The four sources\<close>

text \<open>
  The contract of the places that can panic, for a set \<open>P\<close> of panics: parsing a template, the type
  assertion on the entry of a state, the label map of a node without labels, and reading a recipe.
\<close>

locale crash =
  fixes P :: "string \<Rightarrow> bool" and E :: "'w env"
  assumes bad_template: "template_exec E spec ri = TParseErr m \<Longrightarrow> P m"
    and bad_state: "P ''interface conversion: interface {} is not string''"
    and bad_node: "P ''assignment to entry in nil map''"
    and bad_recipe: "prefix (''/opt/sro/recipes/'' @ recipe) path \<Longrightarrow> recipe_panic (fst (fs E path w)) m \<Longrightarrow> P m"
begin

lemma pan_getAssets [pan]: "panics_only P (getAssetsFrom E (''/opt/sro/recipes/'' @ recipe))"
  by (rule pan_getAssetsFrom) (rule bad_recipe)

lemma pan_labelNodes [pan]: "panics_only P (labelNodesAccordingToState E obj)"
proof -
  have "panics_only P (label_node E k node)" for k node
    unfolding label_node_def Let_def by (intro pan pan_panic bad_node)
  then show ?thesis unfolding labelNodesAccordingToState_def by (intro pan)
qed

lemma pan_afterCRUDhooks [pan]: "panics_only P (afterCRUDhooks E obj)"
  unfolding afterCRUDhooks_def Let_def by (intro pan)

lemma pan_templateRuntimeInformation [pan]: "panics_only P (templateRuntimeInformation E spec)"
proof -
  have "panics_only P (case template_exec E spec ri of TParseErr m \<Rightarrow> panic m
      | TExecErr e \<Rightarrow> ret (Inl (f e)) | TOk out \<Rightarrow> ret (Inr out))" for ri f
    by (cases "template_exec E spec ri") (auto intro: pan pan_panic bad_template)
  then show ?thesis unfolding templateRuntimeInformation_def by (intro pan)
qed

lemma pan_create_doc [pan]: "panics_only P (create_doc E ns y)"
  unfolding create_doc_def decode_doc_def Let_def by (intro pan)

lemma pan_createFromYAML [pan]: "panics_only P (createFromYAML E y ns)"
  unfolding createFromYAML_documents by (intro pan)

lemma pan_createSpecialResourceNamespace [pan]: "panics_only P (createSpecialResourceNamespace E)"
  unfolding createSpecialResourceNamespace_def by (intro pan)

lemma pan_has_subject [pan]: "panics_only P (has_subject ns subjects)"
  by (induction subjects) (simp_all only: has_subject.simps, (intro pan; assumption)+)

lemma pan_createImagePullerRoleBinding [pan]: "panics_only P (createImagePullerRoleBinding E)"
  unfolding createImagePullerRoleBinding_def ensure_binding_def fill_binding_def set_or_exit_def by (intro pan)

lemma pan_getHardwareConfiguration [pan]: "panics_only P (getHardwareConfiguration E)"
  unfolding getHardwareConfiguration_def getLocalHardwareConfiguration_def by (intro pan)

lemma pan_run_state [pan]: "panics_only P (run_state E manifests state)"
  unfolding run_state_def by (auto split: option.split json.split intro!: pan pan_panic bad_state)

lemma pan_ReconcileHardwareConfigurations [pan]: "panics_only P (ReconcileHardwareConfigurations E)"
  unfolding ReconcileHardwareConfigurations_def ReconcileHardwareStates_def by (intro pan)

lemma pan_reconcile_dependency [pan]: "panics_only P (reconcile_dependency E items dep)"
  unfolding reconcile_dependency_def createSpecialResourceFrom_def set_specialresource_def by (intro pan)

lemma pan_Reconcile: "panics_only P (Reconcile E)"
  unfolding Reconcile_def ReconcilerSpecialResources_def reconcile_parent_def set_specialresource_def by (intro pan)

end

definition reconcile_panic :: "'w env \<Rightarrow> string \<Rightarrow> bool" where
  "reconcile_panic E p \<longleftrightarrow> (\<exists>spec ri. template_exec E spec ri = TParseErr p) \<or>
     p = ''interface conversion: interface {} is not string'' \<or> p = ''assignment to entry in nil map'' \<or>
     (\<exists>recipe path w. prefix (''/opt/sro/recipes/'' @ recipe) path \<and> recipe_panic (fst (fs E path w)) p)"

interpretation reconciling: crash "reconcile_panic E" E for E :: "'w env"
  by unfold_locales (auto simp: reconcile_panic_def)

section \<open>Properties\<close>


definition bad_template_env :: "unit env" where
  "bad_template_env = bare_env
     \<lparr>api_list_sr := \<lambda>w. (Inr [zero_SpecialResource], w), template_exec := \<lambda>spec ri. TParseErr ''unclosed action''\<rparr>"


end
