(* ===== verification/Go_Heap.thy ===== *)
theory Go_Heap
  imports Prelude
begin

text \<open>
  Go's memory as far as copying needs it: backing arrays of slices, variables behind pointers and
  hash tables behind maps live in a heap at addresses; a slice is \<open>nil\<close> or a window of a backing
  array. The theory has the primitives \<open>make\<close>, \<open>copy\<close>, \<open>new\<close>, indexing and assignment, the copying
  idioms that \<open>controller-gen\<close> emits for each kind of reference, and the contract \<open>deep\<close> that a
  copying function of one type has to meet, with the rules that build it for slices, pointers, maps
  and structs. The heap is a list of cells, the address its index, and allocation appends, so that a
  heap extends another exactly when it has it as a prefix.
\<close>

section \<open>References and cells\<close>

type_synonym addr = nat

text \<open>A slice: \<open>nil\<close>, or backing array, offset and length. The type argument names the element type.\<close>

datatype 'e slice = NilSlice | Slice addr nat nat

datatype 'e pointer = NilPtr | Ptr addr

datatype 'e gomap = NilMap | MapRef addr

text \<open>
  What the memory knows of an element type: how an array of it is stored in a cell, how a cell is
  read as such an array, and the zero value.
\<close>

record ('e, 'c) elem =
  pack :: "'e list \<Rightarrow> 'c"
  unpack :: "'c \<Rightarrow> 'e list option"
  zero_value :: 'e

definition storable :: "('e, 'c) elem \<Rightarrow> bool" where
  "storable t \<longleftrightarrow> (\<forall>xs. unpack t (pack t xs) = Some xs)"

definition array_at :: "('e, 'c) elem \<Rightarrow> 'c list \<Rightarrow> addr \<Rightarrow> 'e list option" where
  "array_at t h a = (if a < length h then unpack t (h ! a) else None)"

definition contents :: "('e, 'c) elem \<Rightarrow> 'c list \<Rightarrow> addr \<Rightarrow> 'e list" where
  "contents t h a = (case array_at t h a of Some xs \<Rightarrow> xs | None \<Rightarrow> [])"

section \<open>Primitives\<close>

text \<open>The elements a slice shows, and its \<open>i\<close>-th one.\<close>

definition elems :: "('e, 'c) elem \<Rightarrow> 'c list \<Rightarrow> 'e slice \<Rightarrow> 'e list" where
  "elems t h s = (case s of NilSlice \<Rightarrow> [] | Slice a off n \<Rightarrow> take n (drop off (contents t h a)))"

definition go_make :: "('e, 'c) elem \<Rightarrow> nat \<Rightarrow> 'c list \<Rightarrow> 'e slice \<times> 'c list" where
  "go_make t n h = (Slice (length h) 0 n, h @ [pack t (replicate n (zero_value t))])"

text \<open>\<open>copy(dst, src)\<close> moves as many elements as both have.\<close>

definition go_copy :: "('e, 'c) elem \<Rightarrow> 'e slice \<Rightarrow> 'e slice \<Rightarrow> 'c list \<Rightarrow> 'c list" where
  "go_copy t dst src h = (case dst of
       NilSlice \<Rightarrow> h
     | Slice a off n \<Rightarrow>
         (let xs = take n (elems t h src); old = contents t h a in
          h[a := pack t (take off old @ xs @ drop (off + length xs) old)]))"

text \<open>\<open>(*out)[i] = v\<close>.\<close>

definition set_index :: "('e, 'c) elem \<Rightarrow> 'e slice \<Rightarrow> nat \<Rightarrow> 'e \<Rightarrow> 'c list \<Rightarrow> 'c list" where
  "set_index t s i v h = (case s of
       NilSlice \<Rightarrow> h
     | Slice a off n \<Rightarrow> h[a := pack t ((contents t h a)[off + i := v])])"

definition go_new :: "('e, 'c) elem \<Rightarrow> 'c list \<Rightarrow> 'e pointer \<times> 'c list" where
  "go_new t h = (Ptr (length h), h @ [pack t [zero_value t]])"

definition deref :: "('e, 'c) elem \<Rightarrow> 'c list \<Rightarrow> addr \<Rightarrow> 'e" where
  "deref t h a = (case contents t h a of x # xs \<Rightarrow> x | [] \<Rightarrow> zero_value t)"

definition assign :: "('e, 'c) elem \<Rightarrow> 'e pointer \<Rightarrow> 'e \<Rightarrow> 'c list \<Rightarrow> 'c list" where
  "assign t p v h = (case p of NilPtr \<Rightarrow> h | Ptr a \<Rightarrow> h[a := pack t [v]])"

section \<open>The copying idioms\<close>

text \<open>\<open>*out = make([]T, len(*in)); copy(*out, *in)\<close>, skipped for \<open>nil\<close>.\<close>

definition clone_copy :: "('e, 'c) elem \<Rightarrow> 'e slice \<Rightarrow> 'c list \<Rightarrow> 'e slice \<times> 'c list" where
  "clone_copy t s h = (case s of
       NilSlice \<Rightarrow> (NilSlice, h)
     | Slice a off n \<Rightarrow> (case go_make t n h of (out, h1) \<Rightarrow> (out, go_copy t out s h1)))"

text \<open>The loop \<open>for i := range *in { (*in)[i].DeepCopyInto(&(*out)[i]) }\<close>.\<close>

primrec copy_range ::
  "('e, 'c) elem \<Rightarrow> ('e \<Rightarrow> 'c list \<Rightarrow> 'e \<times> 'c list) \<Rightarrow> 'e slice \<Rightarrow> 'e slice \<Rightarrow> nat list \<Rightarrow> 'c list \<Rightarrow> 'c list"
where
  "copy_range t into src out [] h = h"
| "copy_range t into src out (i # is) h =
     (case into (elems t h src ! i) h of
        (y, h1) \<Rightarrow> copy_range t into src out is (set_index t out i y h1))"

definition clone_each ::
  "('e, 'c) elem \<Rightarrow> ('e \<Rightarrow> 'c list \<Rightarrow> 'e \<times> 'c list) \<Rightarrow> 'e slice \<Rightarrow> 'c list \<Rightarrow> 'e slice \<times> 'c list" where
  "clone_each t into s h = (case s of
       NilSlice \<Rightarrow> (NilSlice, h)
     | Slice a off n \<Rightarrow> (case go_make t n h of
         (out, h1) \<Rightarrow> (out, copy_range t into s out [0..<n] h1)))"

text \<open>\<open>if in == nil { return nil }; out := new(T); in.DeepCopyInto(out); return out\<close>.\<close>

definition clone_ptr ::
  "('e, 'c) elem \<Rightarrow> ('e \<Rightarrow> 'c list \<Rightarrow> 'e \<times> 'c list) \<Rightarrow> 'e pointer \<Rightarrow> 'c list \<Rightarrow> 'e pointer \<times> 'c list" where
  "clone_ptr t into p h = (case p of
       NilPtr \<Rightarrow> (NilPtr, h)
     | Ptr a \<Rightarrow> (case go_new t h of
         (out, h1) \<Rightarrow> (case into (deref t h1 a) h1 of
         (v, h2) \<Rightarrow> (out, assign t out v h2))))"

text \<open>
  \<open>*out = make(map[K]V, len(*in)); for key, val := range *in { (*out)[key] = val }\<close>. A map's cell
  lists its entries, each key once. Go leaves the order of the loop open; a map is observed only
  through lookups, which no order changes.
\<close>

definition clone_map ::
  "('k \<times> 'v, 'c) elem \<Rightarrow> ('k \<times> 'v) gomap \<Rightarrow> 'c list \<Rightarrow> ('k \<times> 'v) gomap \<times> 'c list" where
  "clone_map t m h = (case m of
       NilMap \<Rightarrow> (NilMap, h)
     | MapRef a \<Rightarrow>
         (let out = length h; h1 = h @ [pack t []] in
          (MapRef out,
           fold (\<lambda>(k, v) g. g[out := pack t (AList.update k v (contents t g out))])
             (contents t h1 a) h1)))"

text \<open>A type without references is copied by assignment.\<close>

definition plain_into :: "'a \<Rightarrow> 'c list \<Rightarrow> 'a \<times> 'c list" where
  "plain_into x h = (x, h)"

section \<open>What a value reaches and shows\<close>

definition ok_slice :: "('e, 'c) elem \<Rightarrow> ('c list \<Rightarrow> 'e \<Rightarrow> bool) \<Rightarrow> 'c list \<Rightarrow> 'e slice \<Rightarrow> bool" where
  "ok_slice t ok h s \<longleftrightarrow> (case s of
       NilSlice \<Rightarrow> True
     | Slice a off n \<Rightarrow> (case array_at t h a of
         None \<Rightarrow> False
       | Some xs \<Rightarrow> off + n \<le> length xs \<and> list_all (ok h) (take n (drop off xs))))"

definition reach_slice :: "('e, 'c) elem \<Rightarrow> ('c list \<Rightarrow> 'e \<Rightarrow> addr list) \<Rightarrow> 'c list \<Rightarrow> 'e slice \<Rightarrow> addr list" where
  "reach_slice t reach h s = (case s of
       NilSlice \<Rightarrow> []
     | Slice a off n \<Rightarrow> a # concat (map (reach h) (elems t h s)))"

definition val_slice :: "('e, 'c) elem \<Rightarrow> ('c list \<Rightarrow> 'e \<Rightarrow> 'v) \<Rightarrow> 'c list \<Rightarrow> 'e slice \<Rightarrow> 'v list option" where
  "val_slice t val h s = (case s of
       NilSlice \<Rightarrow> None
     | Slice a off n \<Rightarrow> Some (map (val h) (elems t h s)))"

definition ok_ptr :: "('e, 'c) elem \<Rightarrow> ('c list \<Rightarrow> 'e \<Rightarrow> bool) \<Rightarrow> 'c list \<Rightarrow> 'e pointer \<Rightarrow> bool" where
  "ok_ptr t ok h p \<longleftrightarrow> (case p of
       NilPtr \<Rightarrow> True
     | Ptr a \<Rightarrow> (case array_at t h a of Some [x] \<Rightarrow> ok h x | _ \<Rightarrow> False))"

definition reach_ptr :: "('e, 'c) elem \<Rightarrow> ('c list \<Rightarrow> 'e \<Rightarrow> addr list) \<Rightarrow> 'c list \<Rightarrow> 'e pointer \<Rightarrow> addr list" where
  "reach_ptr t reach h p = (case p of NilPtr \<Rightarrow> [] | Ptr a \<Rightarrow> a # reach h (deref t h a))"

definition val_ptr :: "('e, 'c) elem \<Rightarrow> ('c list \<Rightarrow> 'e \<Rightarrow> 'v) \<Rightarrow> 'c list \<Rightarrow> 'e pointer \<Rightarrow> 'v option" where
  "val_ptr t val h p = (case p of NilPtr \<Rightarrow> None | Ptr a \<Rightarrow> Some (val h (deref t h a)))"

definition ok_map :: "('k \<times> 'v, 'c) elem \<Rightarrow> 'c list \<Rightarrow> ('k \<times> 'v) gomap \<Rightarrow> bool" where
  "ok_map t h m \<longleftrightarrow> (case m of
       NilMap \<Rightarrow> True
     | MapRef a \<Rightarrow> (case array_at t h a of None \<Rightarrow> False | Some xs \<Rightarrow> distinct (map fst xs)))"

definition reach_map :: "'c list \<Rightarrow> ('k \<times> 'v) gomap \<Rightarrow> addr list" where
  "reach_map h m = (case m of NilMap \<Rightarrow> [] | MapRef a \<Rightarrow> [a])"

definition val_map :: "('k \<times> 'v, 'c) elem \<Rightarrow> 'c list \<Rightarrow> ('k \<times> 'v) gomap \<Rightarrow> ('k \<rightharpoonup> 'v) option" where
  "val_map t h m = (case m of NilMap \<Rightarrow> None | MapRef a \<Rightarrow> Some (map_of (contents t h a)))"

definition ok_plain :: "'c list \<Rightarrow> 'a \<Rightarrow> bool" where
  "ok_plain h x \<longleftrightarrow> True"

definition reach_plain :: "'c list \<Rightarrow> 'a \<Rightarrow> addr list" where
  "reach_plain h x = []"

definition val_plain :: "'c list \<Rightarrow> 'a \<Rightarrow> 'a" where
  "val_plain h x = x"

section \<open>The contract of a deep copy\<close>

text \<open>Two heaps agree on some addresses: all of them are allocated in the second with the same cell.\<close>

definition agree :: "addr list \<Rightarrow> 'c list \<Rightarrow> 'c list \<Rightarrow> bool" where
  "agree as h h' \<longleftrightarrow> (\<forall>a\<in>set as. a < length h' \<and> h' ! a = h ! a)"

text \<open>
  \<open>ok\<close> says that a value's references lead to allocated cells of the right type and size, \<open>reach\<close>
  lists the addresses it leads to and \<open>val\<close> is what it shows when all references are followed. All
  three depend on the reached cells only.
\<close>

locale observed =
  fixes ok :: "'c list \<Rightarrow> 'a \<Rightarrow> bool"
    and reach :: "'c list \<Rightarrow> 'a \<Rightarrow> addr list"
    and val :: "'c list \<Rightarrow> 'a \<Rightarrow> 'v"
  assumes reach_alloc: "ok h x \<Longrightarrow> a \<in> set (reach h x) \<Longrightarrow> a < length h"
    and local_ok: "ok h x \<Longrightarrow> agree (reach h x) h h' \<Longrightarrow> ok h' x"
    and local_reach: "ok h x \<Longrightarrow> agree (reach h x) h h' \<Longrightarrow> reach h' x = reach h x"
    and local_val: "ok h x \<Longrightarrow> agree (reach h x) h h' \<Longrightarrow> val h' x = val h x"
begin

lemmas locality = local_ok local_reach local_val

lemma agree_extension:
  assumes "ok h x" and "prefix h h'"
  shows "agree (reach h x) h h'"
  using assms reach_alloc by (fastforce simp: agree_def prefix_def nth_append)

lemma agree_write:
  assumes "ok h x" and "a \<notin> set (reach h x)"
  shows "agree (reach h x) h (h[a := c])"
  unfolding agree_def using assms by (metis reach_alloc length_list_update nth_list_update_neq)

lemma extension:
  assumes "ok h x" and "prefix h h'"
  shows "ok h' x" and "reach h' x = reach h x" and "val h' x = val h x"
  using locality [OF assms(1) agree_extension [OF assms]] .

lemma after_write:
  assumes "ok h x" and "a \<notin> set (reach h x)"
  shows "ok (h[a := c]) x" and "reach (h[a := c]) x = reach h x" and "val (h[a := c]) x = val h x"
  using locality [OF assms(1) agree_write [OF assms]] .

end

text \<open>
  A copying function returns a value that shows the same, is again in order, reaches no address that
  existed before, and leaves every existing cell as it was.
\<close>

locale deep = observed ok reach val
  for ok :: "'c list \<Rightarrow> 'a \<Rightarrow> bool" and reach :: "'c list \<Rightarrow> 'a \<Rightarrow> addr list"
    and val :: "'c list \<Rightarrow> 'a \<Rightarrow> 'v" +
  fixes into :: "'a \<Rightarrow> 'c list \<Rightarrow> 'a \<times> 'c list"
  assumes copy_extends: "ok h x \<Longrightarrow> into x h = (y, h') \<Longrightarrow> prefix h h'"
    and copy_ok: "ok h x \<Longrightarrow> into x h = (y, h') \<Longrightarrow> ok h' y"
    and copy_val: "ok h x \<Longrightarrow> into x h = (y, h') \<Longrightarrow> val h' y = val h x"
    and copy_fresh: "ok h x \<Longrightarrow> into x h = (y, h') \<Longrightarrow> a \<in> set (reach h' y) \<Longrightarrow> length h \<le> a"
begin

lemmas copy_laws = copy_extends copy_ok copy_val copy_fresh

text \<open>
  Whatever happens to the cells the copy reaches does not show in the original, and whatever happens
  to cells that existed before does not show in the copy.
\<close>

lemma original_isolated:
  assumes "ok h x" and "into x h = (y, h')"
    and "\<And>a. a < length h' \<Longrightarrow> a \<notin> set (reach h' y) \<Longrightarrow> a < length h'' \<and> h'' ! a = h' ! a"
  shows "val h'' x = val h x"
proof -
  have ext: "prefix h h'" using assms(1,2) by (rule copy_extends)
  have "a < length h' \<and> a \<notin> set (reach h' y)" if "a \<in> set (reach h x)" for a
    using reach_alloc [OF assms(1) that] copy_fresh [OF assms(1,2)] prefix_length_le [OF ext]
    by fastforce
  then have "agree (reach h x) h h''"
    using agree_extension [OF assms(1) ext] assms(3) by (simp add: agree_def)
  with assms(1) show ?thesis by (rule local_val)
qed

lemma copy_isolated:
  assumes "ok h x" and "into x h = (y, h')"
    and "\<And>a. a < length h' \<Longrightarrow> length h \<le> a \<Longrightarrow> a < length h'' \<and> h'' ! a = h' ! a"
  shows "val h'' y = val h x"
proof -
  have ok: "ok h' y" using assms(1,2) by (rule copy_ok)
  have "agree (reach h' y) h' h''"
    using reach_alloc [OF ok] copy_fresh [OF assms(1,2)] assms(3) by (simp add: agree_def)
  with ok have "val h'' y = val h' y" by (rule local_val)
  then show ?thesis by (simp add: copy_val [OF assms(1,2)])
qed

text \<open>Whatever the memory held stays in order, and shows what it showed.\<close>

lemma bystander:
  assumes "ok h x" and "into x h = (y, h')" and "observed ok2 reach2 val2" and "ok2 h z"
  shows "ok2 h' z" and "val2 h' z = val2 h z"
  using observed.extension [OF assms(3,4) copy_extends [OF assms(1,2)]] by blast+

end

section \<open>Cells and their contents\<close>

lemma contents_Some: "array_at t h a = Some xs \<Longrightarrow> contents t h a = xs"
  by (simp add: contents_def)

lemma array_at_alloc: "array_at t h a = Some xs \<Longrightarrow> a < length h"
  by (auto simp: array_at_def split: if_splits)

lemma array_at_append: "array_at t h a = Some xs \<Longrightarrow> array_at t (h @ cs) a = Some xs"
  by (auto simp: array_at_def nth_append split: if_splits)

lemma array_at_fresh: "storable t \<Longrightarrow> array_at t (h @ [pack t xs]) (length h) = Some xs"
  by (simp add: array_at_def storable_def)

lemma array_at_update:
  "storable t \<Longrightarrow> a < length h \<Longrightarrow> array_at t (h[a := pack t xs]) a = Some xs"
  by (simp add: array_at_def storable_def)

lemma array_at_other: "a \<noteq> b \<Longrightarrow> array_at t (h[a := c]) b = array_at t h b"
  by (simp add: array_at_def)

lemma array_at_agree: "agree as h h' \<Longrightarrow> a \<in> set as \<Longrightarrow> a < length h \<Longrightarrow> array_at t h' a = array_at t h a"
  by (simp add: agree_def array_at_def)

lemma agree_subset: "agree as h h' \<Longrightarrow> set bs \<subseteq> set as \<Longrightarrow> agree bs h h'"
  by (auto simp: agree_def)

lemma prefix_update: "prefix h h' \<Longrightarrow> length h \<le> a \<Longrightarrow> prefix h (h'[a := c])"
  by (auto simp: prefix_def list_update_append)

section \<open>Values without references\<close>

lemma observed_plain: "observed ok_plain reach_plain val_plain"
  by unfold_locales (simp_all add: ok_plain_def reach_plain_def val_plain_def)

lemma map_val_plain [simp]: "map (val_plain h) xs = xs"
  by (simp add: map_idI val_plain_def)

lemma deep_plain: "deep ok_plain reach_plain val_plain plain_into"
  by (intro deep.intro observed_plain, unfold_locales)
    (simp_all add: ok_plain_def reach_plain_def val_plain_def plain_into_def)

section \<open>Slices\<close>

lemma elems_simps [simp]:
  "elems t h NilSlice = []" "elems t h (Slice a off n) = take n (drop off (contents t h a))"
  by (simp_all add: elems_def)

lemma ok_slice_iff:
  "ok_slice t ok h (Slice a off n) \<longleftrightarrow>
     (\<exists>xs. array_at t h a = Some xs \<and> off + n \<le> length xs \<and> list_all (ok h) (take n (drop off xs)))"
  by (simp add: ok_slice_def split: option.split)

lemma slice_simps [simp]:
  "ok_slice t ok h NilSlice" "reach_slice t reach h NilSlice = []" "val_slice t val h NilSlice = None"
  "reach_slice t reach h (Slice a off n) = a # concat (map (reach h) (elems t h (Slice a off n)))"
  "val_slice t val h (Slice a off n) = Some (map (val h) (elems t h (Slice a off n)))"
  by (simp_all add: ok_slice_def reach_slice_def val_slice_def)


context observed
begin

lemma slice_reach_alloc:
  "ok_slice t ok h s \<Longrightarrow> a \<in> set (reach_slice t reach h s) \<Longrightarrow> a < length h"
  by (cases s) (auto simp: ok_slice_iff contents_Some list_all_iff dest: array_at_alloc reach_alloc)

lemma slice_same_elems:
  assumes "ok_slice t ok h s" and "agree (reach_slice t reach h s) h h'"
  shows "elems t h' s = elems t h s"
proof (cases s)
  case (Slice a off n)
  with assms have "array_at t h' a = array_at t h a"
    by (intro array_at_agree [OF assms(2)]) (auto simp: ok_slice_iff dest: array_at_alloc)
  with Slice show ?thesis by (simp add: contents_def)
qed simp

lemma slice_elem_facts:
  assumes "ok_slice t ok h s" and "agree (reach_slice t reach h s) h h'" and "x \<in> set (elems t h s)"
  shows "ok h' x" and "reach h' x = reach h x" and "val h' x = val h x"
proof -
  have "ok h x" using assms(1,3) by (cases s) (auto simp: ok_slice_iff contents_Some list_all_iff)
  moreover have "agree (reach h x) h h'" using assms(2,3) by (cases s) (auto simp: agree_def)
  ultimately show "ok h' x" and "reach h' x = reach h x" and "val h' x = val h x"
    by (rule locality)+
qed

lemma slice_observed: "observed (ok_slice t ok) (reach_slice t reach) (val_slice t val)"
proof
  fix h h' :: "'c list" and s and a
  assume ok: "ok_slice t ok h s"
  show "a < length h" if "a \<in> set (reach_slice t reach h s)"
    using ok that by (rule slice_reach_alloc)
  assume same: "agree (reach_slice t reach h s) h h'"
  note facts = slice_same_elems [OF ok same] slice_elem_facts [OF ok same]
  show "reach_slice t reach h' s = reach_slice t reach h s"
    using facts by (cases s) (auto intro!: arg_cong [where f = concat])
  show "val_slice t val h' s = val_slice t val h s"
    using facts by (cases s) auto
  show "ok_slice t ok h' s"
  proof (cases s)
    case (Slice b off n)
    then have "array_at t h' b = array_at t h b"
      using ok by (intro array_at_agree [OF same]) (auto simp: ok_slice_iff dest: array_at_alloc)
    with Slice ok facts(2) show ?thesis by (auto simp: ok_slice_iff contents_Some list_all_iff)
  qed simp
qed

end

lemma clone_copy_result:
  assumes "storable t" and "ok_slice t ok_plain h (Slice a off n)"
  shows "clone_copy t (Slice a off n) h =
    (Slice (length h) 0 n, h @ [pack t (elems t h (Slice a off n))])"
proof -
  define z where "z = [pack t (replicate n (zero_value t))]"
  from assms(2) obtain xs where xs: "array_at t h a = Some xs" "off + n \<le> length xs"
    by (auto simp: ok_slice_iff)
  then have "contents t (h @ z) a = xs" and "contents t h a = xs"
    by (simp_all add: contents_Some array_at_append)
  moreover have "contents t (h @ z) (length h) = replicate n (zero_value t)"
    using assms(1) by (simp add: contents_Some array_at_fresh z_def)
  ultimately show ?thesis
    using xs(2) by (simp add: clone_copy_def go_make_def go_copy_def z_def [symmetric] Let_def)
qed

lemma deep_slice_copy:
  assumes "storable t"
  shows "deep (ok_slice t ok_plain) (reach_slice t reach_plain) (val_slice t val_plain) (clone_copy t)"
proof (intro deep.intro observed.slice_observed [OF observed_plain], unfold_locales)
  fix h h' x y a
  assume ok: "ok_slice t ok_plain h x" and copy: "clone_copy t x h = (y, h')"
  have shape: "x = NilSlice \<and> y = NilSlice \<and> h' = h \<or>
      (\<exists>b off es. x = Slice b off (length es) \<and> y = Slice (length h) 0 (length es) \<and>
         val_slice t val_plain h x = Some es \<and> h' = h @ [pack t es])"
  proof (cases x)
    case NilSlice
    with copy show ?thesis by (simp add: clone_copy_def)
  next
    case (Slice b off n)
    with ok copy show ?thesis
      by (simp add: clone_copy_result [OF assms])
        (auto simp: ok_slice_iff contents_Some val_plain_def intro!: exI)
  qed
  from shape show "prefix h h'" by auto
  from shape show "ok_slice t ok_plain h' y"
    by (auto simp: ok_slice_iff array_at_fresh [OF assms] ok_plain_def list_all_iff)
  from shape show "val_slice t val_plain h' y = val_slice t val_plain h x"
    by (auto simp: contents_Some [OF array_at_fresh [OF assms]] val_plain_def)
  from shape show "length h \<le> a" if "a \<in> set (reach_slice t reach_plain h' y)"
    using that by (auto simp: reach_plain_def)
qed

text \<open>The loop that copies elements one by one, after \<open>k\<close> of them.\<close>

definition copied_upto ::
  "('e, 'c) elem \<Rightarrow> ('c list \<Rightarrow> 'e \<Rightarrow> bool) \<Rightarrow> ('c list \<Rightarrow> 'e \<Rightarrow> addr list) \<Rightarrow> ('c list \<Rightarrow> 'e \<Rightarrow> 'v) \<Rightarrow>
     'e list \<Rightarrow> 'c list \<Rightarrow> nat \<Rightarrow> 'c list \<Rightarrow> bool"
where
  "copied_upto t ok reach val es h k g \<longleftrightarrow>
     prefix h g \<and>
     (\<exists>ys. array_at t g (length h) = Some ys \<and> length ys = length es \<and>
        (\<forall>i<k. ok g (ys ! i) \<and> val g (ys ! i) = val h (es ! i) \<and>
               (\<forall>a\<in>set (reach g (ys ! i)). length h < a)))"

context deep
begin

lemma copied_upto_step:
  assumes t: "storable t" and src: "ok_slice t ok h (Slice a off n)"
    and inv: "copied_upto t ok reach val (elems t h (Slice a off n)) h k g"
    and k: "k < n" and into: "into (elems t g (Slice a off n) ! k) g = (y, g1)"
  shows "copied_upto t ok reach val (elems t h (Slice a off n)) h (Suc k)
           (set_index t (Slice (length h) 0 n) k y g1)"
proof -
  define es where "es = elems t h (Slice a off n)"
  have ok_es: "list_all (ok h) es" and len: "length es = n"
    using src by (auto simp: es_def ok_slice_iff contents_Some)
  from inv [folded es_def] obtain ys where g: "prefix h g" and ys: "array_at t g (length h) = Some ys" "length ys = n"
    and prev: "\<And>i. i < k \<Longrightarrow> ok g (ys ! i) \<and> val g (ys ! i) = val h (es ! i) \<and>
                 (\<forall>a\<in>set (reach g (ys ! i)). length h < a)"
    using len by (auto simp: copied_upto_def)
  have same: "elems t g (Slice a off n) = es"
    using src g by (auto simp: es_def ok_slice_iff contents_Some prefix_def array_at_append)
  have okx: "ok h (es ! k)" using ok_es k len by (simp add: list_all_length)
  have okg: "ok g (es ! k)" and valg: "val g (es ! k) = val h (es ! k)"
    using extension [OF okx g] by blast+
  have into': "into (es ! k) g = (y, g1)" using into same by simp
  note laws = copy_laws [OF okg into']
  have b: "length h < length g" using ys(1) by (rule array_at_alloc)
  then have b1: "length h < length g1" using laws(1) by (auto dest: prefix_length_le)
  have ysg1: "array_at t g1 (length h) = Some ys"
    using laws(1) ys(1) by (auto simp: prefix_def dest: array_at_append)
  define g2 where "g2 = g1[length h := pack t (ys[k := y])]"
  have ysg2: "array_at t g2 (length h) = Some (ys[k := y])"
    unfolding g2_def using t b1 by (rule array_at_update)
  have "ok g2 (ys[k := y] ! i) \<and> val g2 (ys[k := y] ! i) = val h (es ! i) \<and>
          (\<forall>a\<in>set (reach g2 (ys[k := y] ! i)). length h < a)" if "i < Suc k" for i
  proof (cases "i = k")
    case True
    have "length h \<notin> set (reach g1 y)" using laws(4) b by fastforce
    from after_write [OF laws(2) this] True show ?thesis
      using laws(3,4) valg b k ys(2) by (fastforce simp: g2_def)
  next
    case False
    with that have i: "i < k" by simp
    note old = prev [OF i]
    have e: "ok g1 (ys ! i)" "reach g1 (ys ! i) = reach g (ys ! i)" "val g1 (ys ! i) = val g (ys ! i)"
      using extension [of g "ys ! i" g1] old laws(1) by blast+
    have "length h \<notin> set (reach g1 (ys ! i))" using old e(2) by auto
    from after_write [OF e(1) this] show ?thesis
      using False old e by (simp add: g2_def)
  qed
  moreover have "prefix h g2"
    using g laws(1) unfolding g2_def by (intro prefix_update) (auto intro: prefix_order.trans)
  ultimately have "copied_upto t ok reach val es h (Suc k) g2"
    using ysg2 ys(2) len by (auto simp: copied_upto_def)
  then show ?thesis
    by (simp add: es_def g2_def set_index_def contents_Some [OF ysg1])
qed

lemma copied_upto_range:
  assumes t: "storable t" and src: "ok_slice t ok h (Slice a off n)"
    and "copied_upto t ok reach val (elems t h (Slice a off n)) h k g" and "k \<le> n"
  shows "copied_upto t ok reach val (elems t h (Slice a off n)) h n
           (copy_range t into (Slice a off n) (Slice (length h) 0 n) [k..<n] g)"
  using assms(4,3)
proof (induction "n - k" arbitrary: k g)
  case 0
  then show ?case by simp
next
  case (Suc m)
  then have k: "k < n" by simp
  obtain y g1 where into: "into (elems t g (Slice a off n) ! k) g = (y, g1)" by fastforce
  have "copied_upto t ok reach val (elems t h (Slice a off n)) h (Suc k)
           (set_index t (Slice (length h) 0 n) k y g1)"
    using copied_upto_step [OF t src Suc.prems(2) k into] .
  with Suc.hyps k have "copied_upto t ok reach val (elems t h (Slice a off n)) h n
      (copy_range t into (Slice a off n) (Slice (length h) 0 n) [Suc k..<n]
         (set_index t (Slice (length h) 0 n) k y g1))"
    by (intro Suc.hyps(1)) simp_all
  then show ?case using into k by (simp add: upt_conv_Cons del: elems_simps)
qed

lemma clone_each_copied:
  assumes "storable t" and "ok_slice t ok h (Slice a off n)"
    and "clone_each t into (Slice a off n) h = (y, h')"
  shows "y = Slice (length h) 0 n" and "copied_upto t ok reach val (elems t h (Slice a off n)) h n h'"
proof -
  define h1 where "h1 = h @ [pack t (replicate n (zero_value t))]"
  have "length (elems t h (Slice a off n)) = n"
    using assms(2) by (auto simp: ok_slice_iff contents_Some)
  then have "copied_upto t ok reach val (elems t h (Slice a off n)) h 0 h1"
    using assms(1) by (simp add: copied_upto_def h1_def array_at_fresh del: elems_simps)
  then have "copied_upto t ok reach val (elems t h (Slice a off n)) h n
      (copy_range t into (Slice a off n) (Slice (length h) 0 n) [0..<n] h1)"
    by (rule copied_upto_range [OF assms(1,2)]) simp
  moreover have "y = Slice (length h) 0 n"
    and "h' = copy_range t into (Slice a off n) (Slice (length h) 0 n) [0..<n] h1"
    using assms(3) by (auto simp: clone_each_def go_make_def h1_def)
  ultimately show "y = Slice (length h) 0 n"
    and "copied_upto t ok reach val (elems t h (Slice a off n)) h n h'" by simp_all
qed

lemma copied_upto_all:
  assumes "copied_upto t ok reach val es h (length es) h'"
  shows "prefix h h'" and "ok_slice t ok h' (Slice (length h) 0 (length es))"
    and "val_slice t val h' (Slice (length h) 0 (length es)) = Some (map (val h) es)"
    and "a \<in> set (reach_slice t reach h' (Slice (length h) 0 (length es))) \<Longrightarrow> length h \<le> a"
proof -
  from assms obtain ys where ys: "array_at t h' (length h) = Some ys" "length ys = length es"
    and elem: "\<And>i. i < length es \<Longrightarrow> ok h' (ys ! i) \<and> val h' (ys ! i) = val h (es ! i) \<and>
                 (\<forall>a\<in>set (reach h' (ys ! i)). length h < a)"
    by (auto simp: copied_upto_def)
  show "prefix h h'" using assms by (simp add: copied_upto_def)
  show "ok_slice t ok h' (Slice (length h) 0 (length es))"
    using ys elem by (simp add: ok_slice_iff list_all_length)
  show "val_slice t val h' (Slice (length h) 0 (length es)) = Some (map (val h) es)"
    using ys(2) elem by (simp add: contents_Some [OF ys(1)] list_eq_iff_nth_eq)
  show "length h \<le> a" if "a \<in> set (reach_slice t reach h' (Slice (length h) 0 (length es)))"
  proof -
    have "length h \<le> c" if "y \<in> set ys" and "c \<in> set (reach h' y)" for y c
      using that ys(2) elem by (metis in_set_conv_nth less_imp_le)
    then show ?thesis using that ys(2) by (auto simp: contents_Some [OF ys(1)])
  qed
qed

lemma each_deep:
  assumes "storable t"
  shows "deep (ok_slice t ok) (reach_slice t reach) (val_slice t val) (clone_each t into)"
proof (intro deep.intro slice_observed, unfold_locales)
  fix h h' x y a
  assume ok: "ok_slice t ok h x" and copy: "clone_each t into x h = (y, h')"
  have "prefix h h' \<and> ok_slice t ok h' y \<and> val_slice t val h' y = val_slice t val h x \<and>
          (\<forall>a\<in>set (reach_slice t reach h' y). length h \<le> a)"
  proof (cases x)
    case NilSlice
    with copy show ?thesis by (auto simp: clone_each_def)
  next
    case (Slice b off n)
    have n: "length (elems t h (Slice b off n)) = n"
      using ok Slice by (auto simp: ok_slice_iff contents_Some)
    note c = clone_each_copied [OF assms ok [unfolded Slice] copy [unfolded Slice]]
    from copied_upto_all [of t "elems t h (Slice b off n)" h h', unfolded n, OF c(2)] c(1)
    show ?thesis by (simp add: Slice del: elems_simps)
  qed
  then show "prefix h h'" and "ok_slice t ok h' y" and "val_slice t val h' y = val_slice t val h x"
    and "a \<in> set (reach_slice t reach h' y) \<Longrightarrow> length h \<le> a" by blast+
qed

end

section \<open>Pointers\<close>

lemma ok_ptr_iff:
  "ok_ptr t ok h (Ptr a) \<longleftrightarrow> (\<exists>x. array_at t h a = Some [x] \<and> ok h x)"
  by (auto simp: ok_ptr_def split: option.split list.split)

lemma deref_Some: "array_at t h a = Some [x] \<Longrightarrow> deref t h a = x"
  by (simp add: deref_def contents_Some)

lemma ptr_simps [simp]:
  "ok_ptr t ok h NilPtr" "reach_ptr t reach h NilPtr = []" "val_ptr t val h NilPtr = None"
  "reach_ptr t reach h (Ptr a) = a # reach h (deref t h a)"
  "val_ptr t val h (Ptr a) = Some (val h (deref t h a))"
  by (simp_all add: ok_ptr_def reach_ptr_def val_ptr_def)

context observed
begin

lemma ptr_observed: "observed (ok_ptr t ok) (reach_ptr t reach) (val_ptr t val)"
proof
  fix h h' :: "'c list" and p and a
  assume ok: "ok_ptr t ok h p"
  show "a < length h" if "a \<in> set (reach_ptr t reach h p)"
    using ok that by (cases p) (auto simp: ok_ptr_iff deref_Some dest: array_at_alloc reach_alloc)
  assume same: "agree (reach_ptr t reach h p) h h'"
  have "ok_ptr t ok h' p \<and> reach_ptr t reach h' p = reach_ptr t reach h p \<and>
          val_ptr t val h' p = val_ptr t val h p"
  proof (cases p)
    case (Ptr b)
    with ok obtain x where x: "array_at t h b = Some [x]" "ok h x" by (auto simp: ok_ptr_iff)
    have "array_at t h' b = array_at t h b"
      using same Ptr x(1) by (intro array_at_agree [OF same]) (auto dest: array_at_alloc)
    moreover have "agree (reach h x) h h'" using same Ptr x(1) by (simp add: agree_def deref_Some)
    ultimately show ?thesis
      using Ptr x locality [OF x(2)] by (simp add: ok_ptr_iff deref_Some)
  qed simp
  then show "ok_ptr t ok h' p" and "reach_ptr t reach h' p = reach_ptr t reach h p"
    and "val_ptr t val h' p = val_ptr t val h p" by blast+
qed

end

context deep
begin

lemma ptr_copied:
  assumes t: "storable t" and p: "array_at t h a = Some [x]" "ok h x"
    and copy: "clone_ptr t into (Ptr a) h = (q, h')"
  shows "q = Ptr (length h) \<and> prefix h h' \<and>
    (\<exists>y. array_at t h' (length h) = Some [y] \<and> ok h' y \<and> val h' y = val h x \<and>
         (\<forall>c\<in>set (reach h' y). length h < c))"
proof -
  define h1 where "h1 = h @ [pack t [zero_value t]]"
  have h1: "prefix h h1" and len: "length h < length h1" by (simp_all add: h1_def)
  have "deref t h1 a = x" using p(1) by (simp add: h1_def deref_Some array_at_append)
  with copy obtain y h2 where into: "into x h1 = (y, h2)" and q: "q = Ptr (length h)"
    and h': "h' = h2[length h := pack t [y]]"
    by (auto simp: clone_ptr_def go_new_def h1_def assign_def split: prod.splits)
  note e = extension [OF p(2) h1]
  note laws = copy_laws [OF e(1) into]
  have len2: "length h < length h2" using len laws(1) by (auto dest: prefix_length_le)
  have fresh: "length h \<notin> set (reach h2 y)" using laws(4) len by fastforce
  have "prefix h h2" using h1 laws(1) by (rule prefix_order.trans)
  then have "prefix h h'" by (simp add: h' prefix_update)
  moreover have "array_at t h' (length h) = Some [y]" using t len2 by (simp add: h' array_at_update)
  ultimately show ?thesis
    using q after_write [OF laws(2) fresh, of "pack t [y]"] laws(3,4) e(3) len
    by (fastforce simp: h')
qed

lemma ptr_deep:
  assumes "storable t"
  shows "deep (ok_ptr t ok) (reach_ptr t reach) (val_ptr t val) (clone_ptr t into)"
proof (intro deep.intro ptr_observed, unfold_locales)
  fix h h' p q a
  assume ok: "ok_ptr t ok h p" and copy: "clone_ptr t into p h = (q, h')"
  have "prefix h h' \<and> ok_ptr t ok h' q \<and> val_ptr t val h' q = val_ptr t val h p \<and>
          (\<forall>a\<in>set (reach_ptr t reach h' q). length h \<le> a)"
  proof (cases p)
    case NilPtr
    with copy show ?thesis by (auto simp: clone_ptr_def)
  next
    case (Ptr b)
    with ok obtain x where x: "array_at t h b = Some [x]" "ok h x" by (auto simp: ok_ptr_iff)
    from ptr_copied [OF assms x] copy Ptr show ?thesis
      using x(1) by (fastforce simp: ok_ptr_iff deref_Some)
  qed
  then show "prefix h h'" and "ok_ptr t ok h' q" and "val_ptr t val h' q = val_ptr t val h p"
    and "a \<in> set (reach_ptr t reach h' q) \<Longrightarrow> length h \<le> a" by blast+
qed

end

section \<open>Maps\<close>

lemma map_simps [simp]:
  "ok_map t h NilMap" "reach_map h NilMap = []" "val_map t h NilMap = None"
  "reach_map h (MapRef a) = [a]" "val_map t h (MapRef a) = Some (map_of (contents t h a))"
  by (simp_all add: ok_map_def reach_map_def val_map_def)

lemma ok_map_iff:
  "ok_map t h (MapRef a) \<longleftrightarrow> (\<exists>xs. array_at t h a = Some xs \<and> distinct (map fst xs))"
  by (simp add: ok_map_def split: option.split)

lemma observed_map: "observed (ok_map t) reach_map (val_map t)"
proof
  fix h h' m a
  assume ok: "ok_map t h m"
  show "a < length h" if "a \<in> set (reach_map h m)"
    using ok that by (cases m) (auto simp: ok_map_iff dest: array_at_alloc)
  assume same: "agree (reach_map h m) h h'"
  have "array_at t h' b = array_at t h b" if "m = MapRef b" for b
    using that ok by (intro array_at_agree [OF same]) (auto simp: ok_map_iff dest: array_at_alloc)
  with ok show "ok_map t h' m" and "reach_map h' m = reach_map h m" and "val_map t h' m = val_map t h m"
    by (cases m; simp add: ok_map_iff contents_def)+
qed

text \<open>Storing entries one after the other builds, for distinct keys, a map with the same lookups.\<close>

lemma fold_update_cell:
  assumes "storable t" and "a < length h" and "array_at t h a = Some ys"
  shows "fold (\<lambda>(k, v) g. g[a := pack t (AList.update k v (contents t g a))]) xs h =
           h[a := pack t (fold (\<lambda>(k, v). AList.update k v) xs ys)] \<or>
         xs = []"
  using assms(2,3)
proof (induction xs arbitrary: h ys)
  case (Cons kv xs)
  obtain k v where kv: "kv = (k, v)" by fastforce
  let ?h = "h[a := pack t (AList.update k v ys)]"
  have "array_at t ?h a = Some (AList.update k v ys)"
    using assms(1) Cons.prems(1) by (rule array_at_update)
  with Cons.IH [of ?h "AList.update k v ys"] Cons.prems show ?case
    by (cases xs) (auto simp: kv contents_Some [OF Cons.prems(2)])
qed simp

lemma fold_update_map_of:
  assumes "distinct (map fst xs)"
  shows "map_of (fold (\<lambda>(k, v). AList.update k v) xs ys) = map_of ys ++ map_of xs"
  using assms
proof (induction xs arbitrary: ys)
  case (Cons kv xs)
  obtain k v where kv: "kv = (k, v)" by fastforce
  with Cons.prems have "map_of xs k = None" by (simp add: map_of_eq_None_iff)
  then show ?case
    using Cons by (auto simp: kv update_conv' map_add_def fun_eq_iff split: option.split)
qed simp

lemma fold_update_distinct:
  "distinct (map fst ys) \<Longrightarrow> distinct (map fst (fold (\<lambda>(k, v). AList.update k v) xs ys))"
  by (induction xs arbitrary: ys) (auto simp: distinct_update split: prod.split)

lemma clone_map_copied:
  assumes t: "storable t" and m: "array_at t h a = Some xs" "distinct (map fst xs)"
    and copy: "clone_map t (MapRef a) h = (q, h')"
  shows "q = MapRef (length h) \<and> prefix h h' \<and>
    (\<exists>ys. array_at t h' (length h) = Some ys \<and> distinct (map fst ys) \<and> map_of ys = map_of xs)"
proof -
  define h1 where "h1 = h @ [pack t []]"
  define ys where "ys = fold (\<lambda>(k, v). AList.update k v) xs []"
  have new: "array_at t h1 (length h) = Some []" using t by (simp add: h1_def array_at_fresh)
  have len: "length h < length h1" by (simp add: h1_def)
  have old: "contents t h1 a = xs" using m(1) by (simp add: h1_def contents_Some array_at_append)
  have "h' = h1[length h := pack t ys]"
    using fold_update_cell [OF t len new, of xs] copy old
    by (auto simp: clone_map_def Let_def h1_def ys_def)
  then have "array_at t h' (length h) = Some ys" and "prefix h h'"
    using array_at_update [OF t len] by (simp_all add: prefix_update h1_def)
  moreover have "q = MapRef (length h)" using copy by (simp add: clone_map_def Let_def)
  moreover have "distinct (map fst ys)" and "map_of ys = map_of xs"
    using m(2) by (simp_all add: ys_def fold_update_distinct fold_update_map_of)
  ultimately show ?thesis by blast
qed

lemma deep_map:
  assumes "storable t"
  shows "deep (ok_map t) reach_map (val_map t) (clone_map t)"
proof (intro deep.intro observed_map, unfold_locales)
  fix h h' m q a
  assume ok: "ok_map t h m" and copy: "clone_map t m h = (q, h')"
  have "prefix h h' \<and> ok_map t h' q \<and> val_map t h' q = val_map t h m \<and>
          (\<forall>a\<in>set (reach_map h' q). length h \<le> a)"
  proof (cases m)
    case NilMap
    with copy show ?thesis by (auto simp: clone_map_def)
  next
    case (MapRef b)
    with ok obtain xs where xs: "array_at t h b = Some xs" "distinct (map fst xs)"
      by (auto simp: ok_map_iff)
    from clone_map_copied [OF assms xs] copy MapRef show ?thesis
      by (auto simp: ok_map_iff contents_Some [OF xs(1)] contents_Some)
  qed
  then show "prefix h h'" and "ok_map t h' q" and "val_map t h' q = val_map t h m"
    and "a \<in> set (reach_map h' q) \<Longrightarrow> length h \<le> a" by blast+
qed

section \<open>Structs\<close>

text \<open>Copying two fields one after the other.\<close>

definition ok_pair :: "('c list \<Rightarrow> 'a \<Rightarrow> bool) \<Rightarrow> ('c list \<Rightarrow> 'b \<Rightarrow> bool) \<Rightarrow> 'c list \<Rightarrow> 'a \<times> 'b \<Rightarrow> bool" where
  "ok_pair ok1 ok2 h p \<longleftrightarrow> ok1 h (fst p) \<and> ok2 h (snd p)"

definition reach_pair ::
  "('c list \<Rightarrow> 'a \<Rightarrow> addr list) \<Rightarrow> ('c list \<Rightarrow> 'b \<Rightarrow> addr list) \<Rightarrow> 'c list \<Rightarrow> 'a \<times> 'b \<Rightarrow> addr list" where
  "reach_pair r1 r2 h p = r1 h (fst p) @ r2 h (snd p)"

definition val_pair :: "('c list \<Rightarrow> 'a \<Rightarrow> 'u) \<Rightarrow> ('c list \<Rightarrow> 'b \<Rightarrow> 'v) \<Rightarrow> 'c list \<Rightarrow> 'a \<times> 'b \<Rightarrow> 'u \<times> 'v" where
  "val_pair v1 v2 h p = (v1 h (fst p), v2 h (snd p))"

definition pair_into ::
  "('a \<Rightarrow> 'c list \<Rightarrow> 'a \<times> 'c list) \<Rightarrow> ('b \<Rightarrow> 'c list \<Rightarrow> 'b \<times> 'c list) \<Rightarrow> 'a \<times> 'b \<Rightarrow> 'c list \<Rightarrow> ('a \<times> 'b) \<times> 'c list" where
  "pair_into f g p h = (case f (fst p) h of (x, h1) \<Rightarrow> (case g (snd p) h1 of (y, h2) \<Rightarrow> ((x, y), h2)))"

lemmas pair_defs = ok_pair_def reach_pair_def val_pair_def pair_into_def

lemma observed_pair:
  assumes "observed ok1 r1 v1" and "observed ok2 r2 v2"
  shows "observed (ok_pair ok1 ok2) (reach_pair r1 r2) (val_pair v1 v2)"
proof
  fix h h' p a
  assume ok: "ok_pair ok1 ok2 h p"
  then have ok1: "ok1 h (fst p)" and ok2: "ok2 h (snd p)" by (simp_all add: ok_pair_def)
  show "a < length h" if "a \<in> set (reach_pair r1 r2 h p)"
    using that observed.reach_alloc [OF assms(1) ok1] observed.reach_alloc [OF assms(2) ok2]
    by (auto simp: reach_pair_def)
  assume "agree (reach_pair r1 r2 h p) h h'"
  then have "agree (r1 h (fst p)) h h'" and "agree (r2 h (snd p)) h h'"
    by (auto simp: agree_def reach_pair_def)
  note loc = observed.locality [OF assms(1) ok1 this(1)] observed.locality [OF assms(2) ok2 this(2)]
  show "ok_pair ok1 ok2 h' p" and "reach_pair r1 r2 h' p = reach_pair r1 r2 h p"
    and "val_pair v1 v2 h' p = val_pair v1 v2 h p"
    using loc by (simp_all add: pair_defs)
qed

lemma deep_pair:
  assumes "deep ok1 r1 v1 f" and "deep ok2 r2 v2 g"
  shows "deep (ok_pair ok1 ok2) (reach_pair r1 r2) (val_pair v1 v2) (pair_into f g)"
proof (intro deep.intro observed_pair deep.axioms(1) [OF assms(1)] deep.axioms(1) [OF assms(2)],
    unfold_locales)
  fix h h' p q a
  assume ok: "ok_pair ok1 ok2 h p" and copy: "pair_into f g p h = (q, h')"
  from ok have ok1: "ok1 h (fst p)" and ok2: "ok2 h (snd p)" by (simp_all add: ok_pair_def)
  from copy obtain x h1 y where f: "f (fst p) h = (x, h1)" and g: "g (snd p) h1 = (y, h')"
    and q: "q = (x, y)"
    by (auto simp: pair_into_def split: prod.splits)
  note l1 = deep.copy_laws [OF assms(1) ok1 f]
  note e2 = observed.extension [OF deep.axioms(1) [OF assms(2)] ok2 l1(1)]
  note l2 = deep.copy_laws [OF assms(2) e2(1) g]
  note e1 = observed.extension [OF deep.axioms(1) [OF assms(1)] l1(2) l2(1)]
  show "prefix h h'" using l1(1) l2(1) by (rule prefix_order.trans)
  show "ok_pair ok1 ok2 h' q" using e1(1) l2(2) by (simp add: q ok_pair_def)
  show "val_pair v1 v2 h' q = val_pair v1 v2 h p" using e1(3) l1(3) l2(3) e2(3) by (simp add: q val_pair_def)
  show "length h \<le> a" if "a \<in> set (reach_pair r1 r2 h' q)"
    using that l1(4) l2(4) e1(2) prefix_length_le [OF l1(1)] by (fastforce simp: q reach_pair_def)
qed

text \<open>
  A struct whose reference fields are \<open>flds\<close>, with \<open>rest\<close> for the others: \<open>*out = *in\<close> takes the
  others over, and the reference fields are copied.
\<close>

lemma deep_struct:
  assumes "deep okf reachf valf intof"
    and put: "\<And>b x. flds (put b x) = b" "\<And>b x. rest (put b x) = rest x"
    and defs: "\<And>h x. ok h x = okf h (flds x)" "\<And>h x. reach h x = reachf h (flds x)"
      "\<And>h x. val h x = (rest x, valf h (flds x))"
      "\<And>x h. into x h = (case intof (flds x) h of (b, h') \<Rightarrow> (put b x, h'))"
  shows "deep ok reach val into"
proof -
  note obs = deep.axioms(1) [OF assms(1)]
  have "observed ok reach val"
  proof
    fix h h' x a
    assume "ok h x"
    then have ok: "okf h (flds x)" by (simp add: defs)
    show "a < length h" if "a \<in> set (reach h x)"
      using that observed.reach_alloc [OF obs ok] by (simp add: defs)
    assume "agree (reach h x) h h'"
    then have "agree (reachf h (flds x)) h h'" by (simp add: defs)
    from observed.locality [OF obs ok this]
    show "ok h' x" and "reach h' x = reach h x" and "val h' x = val h x" by (simp_all add: defs)
  qed
  moreover have "deep_axioms ok reach val into"
  proof
    fix h h' x y a
    assume "ok h x" and "into x h = (y, h')"
    then obtain b where ok: "okf h (flds x)" and b: "intof (flds x) h = (b, h')" "y = put b x"
      by (auto simp: defs split: prod.splits)
    note laws = deep.copy_laws [OF assms(1) ok b(1)]
    show "prefix h h'" by (rule laws)
    show "ok h' y" and "val h' y = val h x" using laws by (simp_all add: defs put b(2))
    show "length h \<le> a" if "a \<in> set (reach h' y)"
      using that laws(4) by (simp add: defs put b(2))
  qed
  ultimately show ?thesis by (rule deep.intro)
qed

end
