(* ===== verification/Deep_Copy.thy ===== *)
theory Deep_Copy
  imports Go_Heap Api_Types
begin

text \<open>
  The generated copying functions of \<open>src/api/v1beta1/zz_generated.deepcopy.go\<close>, with those of
  \<open>metav1.ObjectMeta\<close> and \<open>metav1.ListMeta\<close> they call, over the memory of \<open>Go_Heap\<close>. The records
  ending in \<open>_m\<close> are the Go structs as they lie in memory, slices, maps and pointers being
  references; structs without references are those of \<open>Api_Types\<close>. \<open>DeepCopyInto\<close> maps the struct
  behind \<open>in\<close> to the struct it leaves behind \<open>out\<close>; \<open>DeepCopy\<close> works on pointers. Each function is
  shown to meet the contract \<open>deep\<close>.
\<close>

section \<open>Structs in memory\<close>

subsection \<open>metav1\<close>

text \<open>A \<open>metav1.Time\<close> is copied by assignment; its value is left opaque.\<close>

datatype Time = Time int

record TypeMeta =
  tm_Kind :: string
  tm_APIVersion :: string

record FieldsV1_m =
  f_Raw :: "8 word slice"

record ManagedFieldsEntry_m =
  mf_Manager :: string
  mf_Operation :: string
  mf_APIVersion :: string
  mf_Time :: "Time pointer"
  mf_FieldsType :: string
  mf_FieldsV1 :: "FieldsV1_m pointer"

record OwnerReference_m =
  mor_APIVersion :: string
  mor_Kind :: string
  mor_Name :: string
  mor_UID :: string
  mor_Controller :: "bool pointer"
  mor_BlockOwnerDeletion :: "bool pointer"

record ObjectMeta_m =
  om_Name :: string
  om_GenerateName :: string
  om_Namespace :: string
  om_SelfLink :: string
  om_UID :: string
  om_ResourceVersion :: string
  om_Generation :: int64
  om_CreationTimestamp :: Time
  om_DeletionTimestamp :: "Time pointer"
  om_DeletionGracePeriodSeconds :: "int64 pointer"
  om_Labels :: "(string \<times> string) gomap"
  om_Annotations :: "(string \<times> string) gomap"
  om_OwnerReferences :: "OwnerReference_m slice"
  om_Finalizers :: "string slice"
  om_ClusterName :: string
  om_ManagedFields :: "ManagedFieldsEntry_m slice"

record ListMeta_m =
  lm_SelfLink :: string
  lm_ResourceVersion :: string
  lm_Continue :: string
  lm_RemainingItemCount :: "int64 pointer"

subsection \<open>v1beta1\<close>

record SpecialResourceImages_m =
  mimg_Name :: string
  mimg_Kind :: string
  mimg_Namespace :: string
  mimg_PullSecret :: string
  mimg_Paths :: "SpecialResourcePaths slice"

record SpecialResourceArtifacts_m =
  mart_HostPaths :: "SpecialResourcePaths slice"
  mart_Images :: "SpecialResourceImages_m slice"
  mart_Claims :: "SpecialResourceClaims slice"

record SpecialResourceConfiguration_m =
  mcfg_Name :: string
  mcfg_Value :: "string slice"

record SpecialResourceDriverContainer_m =
  mdc_Source :: SpecialResourceSource
  mdc_BuildArgs :: "SpecialResourceBuildArgs slice"
  mdc_RunArgs :: "SpecialResourceRunArgs slice"
  mdc_Artifacts :: SpecialResourceArtifacts_m

record SpecialResourceSpec_m =
  mspec_Namespace :: string
  mspec_Configuration :: "SpecialResourceConfiguration_m slice"
  mspec_DriverContainer :: SpecialResourceDriverContainer_m
  mspec_Node :: SpecialResourceNode
  mspec_DependsOn :: "SpecialResourceDependency slice"

record SpecialResource_m =
  msr_TypeMeta :: TypeMeta
  msr_ObjectMeta :: ObjectMeta_m
  msr_Spec :: SpecialResourceSpec_m
  msr_Status :: SpecialResourceStatus

record SpecialResourceList_m =
  ml_TypeMeta :: TypeMeta
  ml_ListMeta :: ListMeta_m
  ml_Items :: "SpecialResource_m slice"

section \<open>Cells\<close>

text \<open>A cell is an array of one element type, or the table behind a map.\<close>

datatype cell =
    A_bool "bool list"
  | A_int64 "int64 list"
  | A_byte "8 word list"
  | A_string "string list"
  | A_entry "(string \<times> string) list"
  | A_Time "Time list"
  | A_FieldsV1 "FieldsV1_m list"
  | A_ManagedFieldsEntry "ManagedFieldsEntry_m list"
  | A_OwnerReference "OwnerReference_m list"
  | A_Paths "SpecialResourcePaths list"
  | A_Images "SpecialResourceImages_m list"
  | A_Claims "SpecialResourceClaims list"
  | A_Artifacts "SpecialResourceArtifacts_m list"
  | A_Node "SpecialResourceNode list"
  | A_RunArgs "SpecialResourceRunArgs list"
  | A_BuildArgs "SpecialResourceBuildArgs list"
  | A_Configuration "SpecialResourceConfiguration_m list"
  | A_Git "SpecialResourceGit list"
  | A_Source "SpecialResourceSource list"
  | A_DriverContainer "SpecialResourceDriverContainer_m list"
  | A_Dependency "SpecialResourceDependency list"
  | A_Spec "SpecialResourceSpec_m list"
  | A_Status "SpecialResourceStatus list"
  | A_SpecialResource "SpecialResource_m list"
  | A_SpecialResourceList "SpecialResourceList_m list"

type_synonym heap = "cell list"

text \<open>Zero values of the structs with references.\<close>

definition zero_FieldsV1 :: FieldsV1_m where
  "zero_FieldsV1 = \<lparr>f_Raw = NilSlice\<rparr>"

definition zero_ManagedFieldsEntry :: ManagedFieldsEntry_m where
  "zero_ManagedFieldsEntry =
     \<lparr>mf_Manager = [], mf_Operation = [], mf_APIVersion = [], mf_Time = NilPtr,
      mf_FieldsType = [], mf_FieldsV1 = NilPtr\<rparr>"

definition zero_OwnerReference :: OwnerReference_m where
  "zero_OwnerReference =
     \<lparr>mor_APIVersion = [], mor_Kind = [], mor_Name = [], mor_UID = [], mor_Controller = NilPtr,
      mor_BlockOwnerDeletion = NilPtr\<rparr>"

definition zero_ObjectMeta :: ObjectMeta_m where
  "zero_ObjectMeta =
     \<lparr>om_Name = [], om_GenerateName = [], om_Namespace = [], om_SelfLink = [], om_UID = [],
      om_ResourceVersion = [], om_Generation = 0, om_CreationTimestamp = Time 0,
      om_DeletionTimestamp = NilPtr, om_DeletionGracePeriodSeconds = NilPtr,
      om_Labels = NilMap, om_Annotations = NilMap, om_OwnerReferences = NilSlice,
      om_Finalizers = NilSlice, om_ClusterName = [], om_ManagedFields = NilSlice\<rparr>"

definition zero_Images :: SpecialResourceImages_m where
  "zero_Images =
     \<lparr>mimg_Name = [], mimg_Kind = [], mimg_Namespace = [], mimg_PullSecret = [],
      mimg_Paths = NilSlice\<rparr>"

definition zero_Artifacts :: SpecialResourceArtifacts_m where
  "zero_Artifacts = \<lparr>mart_HostPaths = NilSlice, mart_Images = NilSlice, mart_Claims = NilSlice\<rparr>"

definition zero_DriverContainer_m :: SpecialResourceDriverContainer_m where
  "zero_DriverContainer_m =
     \<lparr>mdc_Source = \<lparr>src_Git = \<lparr>git_Ref = [], git_Uri = []\<rparr>\<rparr>, mdc_BuildArgs = NilSlice,
      mdc_RunArgs = NilSlice, mdc_Artifacts = zero_Artifacts\<rparr>"

definition zero_Spec_m :: SpecialResourceSpec_m where
  "zero_Spec_m =
     \<lparr>mspec_Namespace = [], mspec_Configuration = NilSlice,
      mspec_DriverContainer = zero_DriverContainer_m, mspec_Node = \<lparr>node_Selector = []\<rparr>,
      mspec_DependsOn = NilSlice\<rparr>"

definition zero_SpecialResource_m :: SpecialResource_m where
  "zero_SpecialResource_m =
     \<lparr>msr_TypeMeta = \<lparr>tm_Kind = [], tm_APIVersion = []\<rparr>, msr_ObjectMeta = zero_ObjectMeta,
      msr_Spec = zero_Spec_m, msr_Status = \<lparr>status_State = []\<rparr>\<rparr>"

text \<open>The element types.\<close>

definition bool_elem :: "(bool, cell) elem" where
  "bool_elem =
     \<lparr>pack = A_bool, unpack = \<lambda>c. case c of A_bool xs \<Rightarrow> Some xs | _ \<Rightarrow> None,
      zero_value = False\<rparr>"

definition int64_elem :: "(int64, cell) elem" where
  "int64_elem =
     \<lparr>pack = A_int64, unpack = \<lambda>c. case c of A_int64 xs \<Rightarrow> Some xs | _ \<Rightarrow> None,
      zero_value = 0\<rparr>"

definition byte_elem :: "(8 word, cell) elem" where
  "byte_elem =
     \<lparr>pack = A_byte, unpack = \<lambda>c. case c of A_byte xs \<Rightarrow> Some xs | _ \<Rightarrow> None,
      zero_value = 0\<rparr>"

definition string_elem :: "(string, cell) elem" where
  "string_elem =
     \<lparr>pack = A_string, unpack = \<lambda>c. case c of A_string xs \<Rightarrow> Some xs | _ \<Rightarrow> None,
      zero_value = []\<rparr>"

definition entry_elem :: "((string \<times> string), cell) elem" where
  "entry_elem =
     \<lparr>pack = A_entry, unpack = \<lambda>c. case c of A_entry xs \<Rightarrow> Some xs | _ \<Rightarrow> None,
      zero_value = ([], [])\<rparr>"

definition Time_elem :: "(Time, cell) elem" where
  "Time_elem =
     \<lparr>pack = A_Time, unpack = \<lambda>c. case c of A_Time xs \<Rightarrow> Some xs | _ \<Rightarrow> None,
      zero_value = Time 0\<rparr>"

definition FieldsV1_elem :: "(FieldsV1_m, cell) elem" where
  "FieldsV1_elem =
     \<lparr>pack = A_FieldsV1, unpack = \<lambda>c. case c of A_FieldsV1 xs \<Rightarrow> Some xs | _ \<Rightarrow> None,
      zero_value = zero_FieldsV1\<rparr>"

definition ManagedFieldsEntry_elem :: "(ManagedFieldsEntry_m, cell) elem" where
  "ManagedFieldsEntry_elem =
     \<lparr>pack = A_ManagedFieldsEntry, unpack = \<lambda>c. case c of A_ManagedFieldsEntry xs \<Rightarrow> Some xs | _ \<Rightarrow> None,
      zero_value = zero_ManagedFieldsEntry\<rparr>"

definition OwnerReference_elem :: "(OwnerReference_m, cell) elem" where
  "OwnerReference_elem =
     \<lparr>pack = A_OwnerReference, unpack = \<lambda>c. case c of A_OwnerReference xs \<Rightarrow> Some xs | _ \<Rightarrow> None,
      zero_value = zero_OwnerReference\<rparr>"

definition Paths_elem :: "(SpecialResourcePaths, cell) elem" where
  "Paths_elem =
     \<lparr>pack = A_Paths, unpack = \<lambda>c. case c of A_Paths xs \<Rightarrow> Some xs | _ \<Rightarrow> None,
      zero_value = \<lparr>path_SourcePath = [], path_DestinationDir = []\<rparr>\<rparr>"

definition Images_elem :: "(SpecialResourceImages_m, cell) elem" where
  "Images_elem =
     \<lparr>pack = A_Images, unpack = \<lambda>c. case c of A_Images xs \<Rightarrow> Some xs | _ \<Rightarrow> None,
      zero_value = zero_Images\<rparr>"

definition Claims_elem :: "(SpecialResourceClaims, cell) elem" where
  "Claims_elem =
     \<lparr>pack = A_Claims, unpack = \<lambda>c. case c of A_Claims xs \<Rightarrow> Some xs | _ \<Rightarrow> None,
      zero_value = \<lparr>claim_Name = [], claim_MountPath = []\<rparr>\<rparr>"

definition Artifacts_elem :: "(SpecialResourceArtifacts_m, cell) elem" where
  "Artifacts_elem =
     \<lparr>pack = A_Artifacts, unpack = \<lambda>c. case c of A_Artifacts xs \<Rightarrow> Some xs | _ \<Rightarrow> None,
      zero_value = zero_Artifacts\<rparr>"

definition Node_elem :: "(SpecialResourceNode, cell) elem" where
  "Node_elem =
     \<lparr>pack = A_Node, unpack = \<lambda>c. case c of A_Node xs \<Rightarrow> Some xs | _ \<Rightarrow> None,
      zero_value = \<lparr>node_Selector = []\<rparr>\<rparr>"

definition RunArgs_elem :: "(SpecialResourceRunArgs, cell) elem" where
  "RunArgs_elem =
     \<lparr>pack = A_RunArgs, unpack = \<lambda>c. case c of A_RunArgs xs \<Rightarrow> Some xs | _ \<Rightarrow> None,
      zero_value = \<lparr>run_Name = [], run_Value = []\<rparr>\<rparr>"

definition BuildArgs_elem :: "(SpecialResourceBuildArgs, cell) elem" where
  "BuildArgs_elem =
     \<lparr>pack = A_BuildArgs, unpack = \<lambda>c. case c of A_BuildArgs xs \<Rightarrow> Some xs | _ \<Rightarrow> None,
      zero_value = \<lparr>build_Name = [], build_Value = []\<rparr>\<rparr>"

definition Configuration_elem :: "(SpecialResourceConfiguration_m, cell) elem" where
  "Configuration_elem =
     \<lparr>pack = A_Configuration, unpack = \<lambda>c. case c of A_Configuration xs \<Rightarrow> Some xs | _ \<Rightarrow> None,
      zero_value = \<lparr>mcfg_Name = [], mcfg_Value = NilSlice\<rparr>\<rparr>"

definition Git_elem :: "(SpecialResourceGit, cell) elem" where
  "Git_elem =
     \<lparr>pack = A_Git, unpack = \<lambda>c. case c of A_Git xs \<Rightarrow> Some xs | _ \<Rightarrow> None,
      zero_value = \<lparr>git_Ref = [], git_Uri = []\<rparr>\<rparr>"

definition Source_elem :: "(SpecialResourceSource, cell) elem" where
  "Source_elem =
     \<lparr>pack = A_Source, unpack = \<lambda>c. case c of A_Source xs \<Rightarrow> Some xs | _ \<Rightarrow> None,
      zero_value = \<lparr>src_Git = \<lparr>git_Ref = [], git_Uri = []\<rparr>\<rparr>\<rparr>"

definition DriverContainer_elem :: "(SpecialResourceDriverContainer_m, cell) elem" where
  "DriverContainer_elem =
     \<lparr>pack = A_DriverContainer, unpack = \<lambda>c. case c of A_DriverContainer xs \<Rightarrow> Some xs | _ \<Rightarrow> None,
      zero_value = zero_DriverContainer_m\<rparr>"

definition Dependency_elem :: "(SpecialResourceDependency, cell) elem" where
  "Dependency_elem =
     \<lparr>pack = A_Dependency, unpack = \<lambda>c. case c of A_Dependency xs \<Rightarrow> Some xs | _ \<Rightarrow> None,
      zero_value = zero_Dependency\<rparr>"

definition Spec_elem :: "(SpecialResourceSpec_m, cell) elem" where
  "Spec_elem =
     \<lparr>pack = A_Spec, unpack = \<lambda>c. case c of A_Spec xs \<Rightarrow> Some xs | _ \<Rightarrow> None,
      zero_value = zero_Spec_m\<rparr>"

definition Status_elem :: "(SpecialResourceStatus, cell) elem" where
  "Status_elem =
     \<lparr>pack = A_Status, unpack = \<lambda>c. case c of A_Status xs \<Rightarrow> Some xs | _ \<Rightarrow> None,
      zero_value = \<lparr>status_State = []\<rparr>\<rparr>"

definition SpecialResource_elem :: "(SpecialResource_m, cell) elem" where
  "SpecialResource_elem =
     \<lparr>pack = A_SpecialResource, unpack = \<lambda>c. case c of A_SpecialResource xs \<Rightarrow> Some xs | _ \<Rightarrow> None,
      zero_value = zero_SpecialResource_m\<rparr>"

definition SpecialResourceList_elem :: "(SpecialResourceList_m, cell) elem" where
  "SpecialResourceList_elem =
     \<lparr>pack = A_SpecialResourceList, unpack = \<lambda>c. case c of A_SpecialResourceList xs \<Rightarrow> Some xs | _ \<Rightarrow> None,
      zero_value = \<lparr>ml_TypeMeta = \<lparr>tm_Kind = [], tm_APIVersion = []\<rparr>,
       ml_ListMeta = \<lparr>lm_SelfLink = [], lm_ResourceVersion = [], lm_Continue = [],
         lm_RemainingItemCount = NilPtr\<rparr>,
       ml_Items = NilSlice\<rparr>\<rparr>"

lemmas elem_defs =
  bool_elem_def int64_elem_def byte_elem_def string_elem_def entry_elem_def Time_elem_def
  FieldsV1_elem_def ManagedFieldsEntry_elem_def OwnerReference_elem_def Paths_elem_def
  Images_elem_def Claims_elem_def Artifacts_elem_def Node_elem_def RunArgs_elem_def
  BuildArgs_elem_def Configuration_elem_def Git_elem_def Source_elem_def
  DriverContainer_elem_def Dependency_elem_def Spec_elem_def Status_elem_def
  SpecialResource_elem_def SpecialResourceList_elem_def

lemma storable_elems [simp]:
  "storable bool_elem" "storable int64_elem" "storable byte_elem"
  "storable string_elem" "storable entry_elem" "storable Time_elem"
  "storable FieldsV1_elem" "storable ManagedFieldsEntry_elem" "storable OwnerReference_elem"
  "storable Paths_elem" "storable Images_elem" "storable Claims_elem"
  "storable Artifacts_elem" "storable Node_elem" "storable RunArgs_elem"
  "storable BuildArgs_elem" "storable Configuration_elem" "storable Git_elem"
  "storable Source_elem" "storable DriverContainer_elem" "storable Dependency_elem"
  "storable Spec_elem" "storable Status_elem" "storable SpecialResource_elem"
  "storable SpecialResourceList_elem"
  by (simp_all add: storable_def elem_defs)

section \<open>metav1: zz_generated.deepcopy.go\<close>

definition FieldsV1_DeepCopyInto :: "FieldsV1_m \<Rightarrow> heap \<Rightarrow> FieldsV1_m \<times> heap" where
  "FieldsV1_DeepCopyInto x h =
     (case clone_copy byte_elem (f_Raw x) h of (raw, h1) \<Rightarrow> (x\<lparr>f_Raw := raw\<rparr>, h1))"

definition ManagedFieldsEntry_DeepCopyInto ::
  "ManagedFieldsEntry_m \<Rightarrow> heap \<Rightarrow> ManagedFieldsEntry_m \<times> heap" where
  "ManagedFieldsEntry_DeepCopyInto x h =
     (case clone_ptr Time_elem plain_into (mf_Time x) h of (tm, h1) \<Rightarrow>
      (case clone_ptr FieldsV1_elem FieldsV1_DeepCopyInto (mf_FieldsV1 x) h1 of (fs, h2) \<Rightarrow>
      (x\<lparr>mf_Time := tm, mf_FieldsV1 := fs\<rparr>, h2)))"

definition OwnerReference_DeepCopyInto :: "OwnerReference_m \<Rightarrow> heap \<Rightarrow> OwnerReference_m \<times> heap" where
  "OwnerReference_DeepCopyInto x h =
     (case clone_ptr bool_elem plain_into (mor_Controller x) h of (c, h1) \<Rightarrow>
      (case clone_ptr bool_elem plain_into (mor_BlockOwnerDeletion x) h1 of (b, h2) \<Rightarrow>
      (x\<lparr>mor_Controller := c, mor_BlockOwnerDeletion := b\<rparr>, h2)))"

definition ObjectMeta_DeepCopyInto :: "ObjectMeta_m \<Rightarrow> heap \<Rightarrow> ObjectMeta_m \<times> heap" where
  "ObjectMeta_DeepCopyInto x h =
     (case clone_ptr Time_elem plain_into (om_DeletionTimestamp x) h of (dt, h1) \<Rightarrow>
      (case clone_ptr int64_elem plain_into (om_DeletionGracePeriodSeconds x) h1 of (gp, h2) \<Rightarrow>
      (case clone_map entry_elem (om_Labels x) h2 of (ls, h3) \<Rightarrow>
      (case clone_map entry_elem (om_Annotations x) h3 of (as, h4) \<Rightarrow>
      (case clone_each OwnerReference_elem OwnerReference_DeepCopyInto (om_OwnerReferences x) h4 of
         (os, h5) \<Rightarrow>
      (case clone_copy string_elem (om_Finalizers x) h5 of (fs, h6) \<Rightarrow>
      (case clone_each ManagedFieldsEntry_elem ManagedFieldsEntry_DeepCopyInto
              (om_ManagedFields x) h6 of
         (ms, h7) \<Rightarrow>
      (x\<lparr>om_DeletionTimestamp := dt, om_DeletionGracePeriodSeconds := gp, om_Labels := ls,
         om_Annotations := as, om_OwnerReferences := os, om_Finalizers := fs,
         om_ManagedFields := ms\<rparr>, h7))))))))"

definition ListMeta_DeepCopyInto :: "ListMeta_m \<Rightarrow> heap \<Rightarrow> ListMeta_m \<times> heap" where
  "ListMeta_DeepCopyInto x h =
     (case clone_ptr int64_elem plain_into (lm_RemainingItemCount x) h of (n, h1) \<Rightarrow>
      (x\<lparr>lm_RemainingItemCount := n\<rparr>, h1))"

section \<open>v1beta1: zz_generated.deepcopy.go\<close>

subsection \<open>DeepCopyInto\<close>

definition SpecialResourcePaths_DeepCopyInto ::
  "SpecialResourcePaths \<Rightarrow> heap \<Rightarrow> SpecialResourcePaths \<times> heap" where
  "SpecialResourcePaths_DeepCopyInto x h = (x, h)"

definition SpecialResourceClaims_DeepCopyInto ::
  "SpecialResourceClaims \<Rightarrow> heap \<Rightarrow> SpecialResourceClaims \<times> heap" where
  "SpecialResourceClaims_DeepCopyInto x h = (x, h)"

definition SpecialResourceNode_DeepCopyInto ::
  "SpecialResourceNode \<Rightarrow> heap \<Rightarrow> SpecialResourceNode \<times> heap" where
  "SpecialResourceNode_DeepCopyInto x h = (x, h)"

definition SpecialResourceRunArgs_DeepCopyInto ::
  "SpecialResourceRunArgs \<Rightarrow> heap \<Rightarrow> SpecialResourceRunArgs \<times> heap" where
  "SpecialResourceRunArgs_DeepCopyInto x h = (x, h)"

definition SpecialResourceBuildArgs_DeepCopyInto ::
  "SpecialResourceBuildArgs \<Rightarrow> heap \<Rightarrow> SpecialResourceBuildArgs \<times> heap" where
  "SpecialResourceBuildArgs_DeepCopyInto x h = (x, h)"

definition SpecialResourceGit_DeepCopyInto ::
  "SpecialResourceGit \<Rightarrow> heap \<Rightarrow> SpecialResourceGit \<times> heap" where
  "SpecialResourceGit_DeepCopyInto x h = (x, h)"

text \<open>\<open>*out = *in; out.Git = in.Git\<close>.\<close>

definition SpecialResourceSource_DeepCopyInto ::
  "SpecialResourceSource \<Rightarrow> heap \<Rightarrow> SpecialResourceSource \<times> heap" where
  "SpecialResourceSource_DeepCopyInto x h = (x\<lparr>src_Git := src_Git x\<rparr>, h)"

definition SpecialResourceDependency_DeepCopyInto ::
  "SpecialResourceDependency \<Rightarrow> heap \<Rightarrow> SpecialResourceDependency \<times> heap" where
  "SpecialResourceDependency_DeepCopyInto x h = (x, h)"

definition SpecialResourceStatus_DeepCopyInto ::
  "SpecialResourceStatus \<Rightarrow> heap \<Rightarrow> SpecialResourceStatus \<times> heap" where
  "SpecialResourceStatus_DeepCopyInto x h = (x, h)"

definition SpecialResourceImages_DeepCopyInto ::
  "SpecialResourceImages_m \<Rightarrow> heap \<Rightarrow> SpecialResourceImages_m \<times> heap" where
  "SpecialResourceImages_DeepCopyInto x h =
     (case clone_copy Paths_elem (mimg_Paths x) h of (ps, h1) \<Rightarrow> (x\<lparr>mimg_Paths := ps\<rparr>, h1))"

definition SpecialResourceArtifacts_DeepCopyInto ::
  "SpecialResourceArtifacts_m \<Rightarrow> heap \<Rightarrow> SpecialResourceArtifacts_m \<times> heap" where
  "SpecialResourceArtifacts_DeepCopyInto x h =
     (case clone_copy Paths_elem (mart_HostPaths x) h of (hp, h1) \<Rightarrow>
      (case clone_each Images_elem SpecialResourceImages_DeepCopyInto (mart_Images x) h1 of (im, h2) \<Rightarrow>
      (case clone_copy Claims_elem (mart_Claims x) h2 of (cl, h3) \<Rightarrow>
      (x\<lparr>mart_HostPaths := hp, mart_Images := im, mart_Claims := cl\<rparr>, h3))))"

definition SpecialResourceConfiguration_DeepCopyInto ::
  "SpecialResourceConfiguration_m \<Rightarrow> heap \<Rightarrow> SpecialResourceConfiguration_m \<times> heap" where
  "SpecialResourceConfiguration_DeepCopyInto x h =
     (case clone_copy string_elem (mcfg_Value x) h of (v, h1) \<Rightarrow> (x\<lparr>mcfg_Value := v\<rparr>, h1))"

definition SpecialResourceDriverContainer_DeepCopyInto ::
  "SpecialResourceDriverContainer_m \<Rightarrow> heap \<Rightarrow> SpecialResourceDriverContainer_m \<times> heap" where
  "SpecialResourceDriverContainer_DeepCopyInto x h =
     (case clone_copy BuildArgs_elem (mdc_BuildArgs x) h of (bs, h1) \<Rightarrow>
      (case clone_copy RunArgs_elem (mdc_RunArgs x) h1 of (rs, h2) \<Rightarrow>
      (case SpecialResourceArtifacts_DeepCopyInto (mdc_Artifacts x) h2 of (ar, h3) \<Rightarrow>
      (x\<lparr>mdc_Source := mdc_Source x, mdc_BuildArgs := bs, mdc_RunArgs := rs,
         mdc_Artifacts := ar\<rparr>, h3))))"

definition SpecialResourceSpec_DeepCopyInto ::
  "SpecialResourceSpec_m \<Rightarrow> heap \<Rightarrow> SpecialResourceSpec_m \<times> heap" where
  "SpecialResourceSpec_DeepCopyInto x h =
     (case clone_each Configuration_elem SpecialResourceConfiguration_DeepCopyInto
             (mspec_Configuration x) h of
        (cf, h1) \<Rightarrow>
      (case SpecialResourceDriverContainer_DeepCopyInto (mspec_DriverContainer x) h1 of (dc, h2) \<Rightarrow>
      (case clone_copy Dependency_elem (mspec_DependsOn x) h2 of (ds, h3) \<Rightarrow>
      (x\<lparr>mspec_Configuration := cf, mspec_DriverContainer := dc, mspec_Node := mspec_Node x,
         mspec_DependsOn := ds\<rparr>, h3))))"

definition SpecialResource_DeepCopyInto ::
  "SpecialResource_m \<Rightarrow> heap \<Rightarrow> SpecialResource_m \<times> heap" where
  "SpecialResource_DeepCopyInto x h =
     (case ObjectMeta_DeepCopyInto (msr_ObjectMeta x) h of (om, h1) \<Rightarrow>
      (case SpecialResourceSpec_DeepCopyInto (msr_Spec x) h1 of (sp, h2) \<Rightarrow>
      (x\<lparr>msr_TypeMeta := msr_TypeMeta x, msr_ObjectMeta := om, msr_Spec := sp,
         msr_Status := msr_Status x\<rparr>, h2)))"

definition SpecialResourceList_DeepCopyInto ::
  "SpecialResourceList_m \<Rightarrow> heap \<Rightarrow> SpecialResourceList_m \<times> heap" where
  "SpecialResourceList_DeepCopyInto x h =
     (case ListMeta_DeepCopyInto (ml_ListMeta x) h of (lm, h1) \<Rightarrow>
      (case clone_each SpecialResource_elem SpecialResource_DeepCopyInto (ml_Items x) h1 of (is, h2) \<Rightarrow>
      (x\<lparr>ml_TypeMeta := ml_TypeMeta x, ml_ListMeta := lm, ml_Items := is\<rparr>, h2)))"

subsection \<open>DeepCopy and DeepCopyObject\<close>

definition SpecialResourcePaths_DeepCopy ::
  "SpecialResourcePaths pointer \<Rightarrow> heap \<Rightarrow> SpecialResourcePaths pointer \<times> heap" where
  "SpecialResourcePaths_DeepCopy = clone_ptr Paths_elem SpecialResourcePaths_DeepCopyInto"

definition SpecialResourceClaims_DeepCopy ::
  "SpecialResourceClaims pointer \<Rightarrow> heap \<Rightarrow> SpecialResourceClaims pointer \<times> heap" where
  "SpecialResourceClaims_DeepCopy = clone_ptr Claims_elem SpecialResourceClaims_DeepCopyInto"

definition SpecialResourceNode_DeepCopy ::
  "SpecialResourceNode pointer \<Rightarrow> heap \<Rightarrow> SpecialResourceNode pointer \<times> heap" where
  "SpecialResourceNode_DeepCopy = clone_ptr Node_elem SpecialResourceNode_DeepCopyInto"

definition SpecialResourceRunArgs_DeepCopy ::
  "SpecialResourceRunArgs pointer \<Rightarrow> heap \<Rightarrow> SpecialResourceRunArgs pointer \<times> heap" where
  "SpecialResourceRunArgs_DeepCopy = clone_ptr RunArgs_elem SpecialResourceRunArgs_DeepCopyInto"

definition SpecialResourceBuildArgs_DeepCopy ::
  "SpecialResourceBuildArgs pointer \<Rightarrow> heap \<Rightarrow> SpecialResourceBuildArgs pointer \<times> heap" where
  "SpecialResourceBuildArgs_DeepCopy = clone_ptr BuildArgs_elem SpecialResourceBuildArgs_DeepCopyInto"

definition SpecialResourceGit_DeepCopy ::
  "SpecialResourceGit pointer \<Rightarrow> heap \<Rightarrow> SpecialResourceGit pointer \<times> heap" where
  "SpecialResourceGit_DeepCopy = clone_ptr Git_elem SpecialResourceGit_DeepCopyInto"

definition SpecialResourceSource_DeepCopy ::
  "SpecialResourceSource pointer \<Rightarrow> heap \<Rightarrow> SpecialResourceSource pointer \<times> heap" where
  "SpecialResourceSource_DeepCopy = clone_ptr Source_elem SpecialResourceSource_DeepCopyInto"

definition SpecialResourceDependency_DeepCopy ::
  "SpecialResourceDependency pointer \<Rightarrow> heap \<Rightarrow> SpecialResourceDependency pointer \<times> heap" where
  "SpecialResourceDependency_DeepCopy = clone_ptr Dependency_elem SpecialResourceDependency_DeepCopyInto"

definition SpecialResourceStatus_DeepCopy ::
  "SpecialResourceStatus pointer \<Rightarrow> heap \<Rightarrow> SpecialResourceStatus pointer \<times> heap" where
  "SpecialResourceStatus_DeepCopy = clone_ptr Status_elem SpecialResourceStatus_DeepCopyInto"

definition SpecialResourceImages_DeepCopy ::
  "SpecialResourceImages_m pointer \<Rightarrow> heap \<Rightarrow> SpecialResourceImages_m pointer \<times> heap" where
  "SpecialResourceImages_DeepCopy = clone_ptr Images_elem SpecialResourceImages_DeepCopyInto"

definition SpecialResourceArtifacts_DeepCopy ::
  "SpecialResourceArtifacts_m pointer \<Rightarrow> heap \<Rightarrow> SpecialResourceArtifacts_m pointer \<times> heap" where
  "SpecialResourceArtifacts_DeepCopy = clone_ptr Artifacts_elem SpecialResourceArtifacts_DeepCopyInto"

definition SpecialResourceConfiguration_DeepCopy ::
  "SpecialResourceConfiguration_m pointer \<Rightarrow> heap \<Rightarrow> SpecialResourceConfiguration_m pointer \<times> heap" where
  "SpecialResourceConfiguration_DeepCopy = clone_ptr Configuration_elem SpecialResourceConfiguration_DeepCopyInto"

definition SpecialResourceDriverContainer_DeepCopy ::
  "SpecialResourceDriverContainer_m pointer \<Rightarrow> heap \<Rightarrow> SpecialResourceDriverContainer_m pointer \<times> heap" where
  "SpecialResourceDriverContainer_DeepCopy = clone_ptr DriverContainer_elem SpecialResourceDriverContainer_DeepCopyInto"

definition SpecialResourceSpec_DeepCopy ::
  "SpecialResourceSpec_m pointer \<Rightarrow> heap \<Rightarrow> SpecialResourceSpec_m pointer \<times> heap" where
  "SpecialResourceSpec_DeepCopy = clone_ptr Spec_elem SpecialResourceSpec_DeepCopyInto"

definition SpecialResource_DeepCopy ::
  "SpecialResource_m pointer \<Rightarrow> heap \<Rightarrow> SpecialResource_m pointer \<times> heap" where
  "SpecialResource_DeepCopy = clone_ptr SpecialResource_elem SpecialResource_DeepCopyInto"

definition SpecialResourceList_DeepCopy ::
  "SpecialResourceList_m pointer \<Rightarrow> heap \<Rightarrow> SpecialResourceList_m pointer \<times> heap" where
  "SpecialResourceList_DeepCopy = clone_ptr SpecialResourceList_elem SpecialResourceList_DeepCopyInto"

text \<open>A value of the interface type \<open>runtime.Object\<close>: \<open>nil\<close>, or a type together with a pointer.\<close>

datatype runtime_Object =
    NilObject
  | SpecialResource_Object "SpecialResource_m pointer"
  | SpecialResourceList_Object "SpecialResourceList_m pointer"

definition SpecialResource_DeepCopyObject ::
  "SpecialResource_m pointer \<Rightarrow> heap \<Rightarrow> runtime_Object \<times> heap" where
  "SpecialResource_DeepCopyObject p h =
     (case SpecialResource_DeepCopy p h of (c, h1) \<Rightarrow>
      (if c \<noteq> NilPtr then (SpecialResource_Object c, h1) else (NilObject, h1)))"

definition SpecialResourceList_DeepCopyObject ::
  "SpecialResourceList_m pointer \<Rightarrow> heap \<Rightarrow> runtime_Object \<times> heap" where
  "SpecialResourceList_DeepCopyObject p h =
     (case SpecialResourceList_DeepCopy p h of (c, h1) \<Rightarrow>
      (if c \<noteq> NilPtr then (SpecialResourceList_Object c, h1) else (NilObject, h1)))"


section \<open>What the structs reach and show\<close>

definition ok_FieldsV1 :: "heap \<Rightarrow> FieldsV1_m \<Rightarrow> bool" where
  "ok_FieldsV1 h x \<longleftrightarrow>
     ok_slice byte_elem ok_plain h (f_Raw x)"

definition reach_FieldsV1 :: "heap \<Rightarrow> FieldsV1_m \<Rightarrow> addr list" where
  "reach_FieldsV1 h x =
     reach_slice byte_elem reach_plain h (f_Raw x)"

definition val_FieldsV1 where
  "val_FieldsV1 (h :: heap) (x :: FieldsV1_m) =
     ((),
      val_slice byte_elem val_plain h (f_Raw x))"

definition ok_ManagedFieldsEntry :: "heap \<Rightarrow> ManagedFieldsEntry_m \<Rightarrow> bool" where
  "ok_ManagedFieldsEntry h x \<longleftrightarrow>
     ok_ptr Time_elem ok_plain h (mf_Time x) \<and>
     ok_ptr FieldsV1_elem ok_FieldsV1 h (mf_FieldsV1 x)"

definition reach_ManagedFieldsEntry :: "heap \<Rightarrow> ManagedFieldsEntry_m \<Rightarrow> addr list" where
  "reach_ManagedFieldsEntry h x =
     reach_ptr Time_elem reach_plain h (mf_Time x) @
     reach_ptr FieldsV1_elem reach_FieldsV1 h (mf_FieldsV1 x)"

definition val_ManagedFieldsEntry where
  "val_ManagedFieldsEntry (h :: heap) (x :: ManagedFieldsEntry_m) =
     ((mf_Manager x, mf_Operation x, mf_APIVersion x, mf_FieldsType x),
      val_ptr Time_elem val_plain h (mf_Time x),
      val_ptr FieldsV1_elem val_FieldsV1 h (mf_FieldsV1 x))"

definition ok_OwnerReference :: "heap \<Rightarrow> OwnerReference_m \<Rightarrow> bool" where
  "ok_OwnerReference h x \<longleftrightarrow>
     ok_ptr bool_elem ok_plain h (mor_Controller x) \<and>
     ok_ptr bool_elem ok_plain h (mor_BlockOwnerDeletion x)"

definition reach_OwnerReference :: "heap \<Rightarrow> OwnerReference_m \<Rightarrow> addr list" where
  "reach_OwnerReference h x =
     reach_ptr bool_elem reach_plain h (mor_Controller x) @
     reach_ptr bool_elem reach_plain h (mor_BlockOwnerDeletion x)"

definition val_OwnerReference where
  "val_OwnerReference (h :: heap) (x :: OwnerReference_m) =
     ((mor_APIVersion x, mor_Kind x, mor_Name x, mor_UID x),
      val_ptr bool_elem val_plain h (mor_Controller x),
      val_ptr bool_elem val_plain h (mor_BlockOwnerDeletion x))"

definition ok_ObjectMeta :: "heap \<Rightarrow> ObjectMeta_m \<Rightarrow> bool" where
  "ok_ObjectMeta h x \<longleftrightarrow>
     ok_ptr Time_elem ok_plain h (om_DeletionTimestamp x) \<and>
     ok_ptr int64_elem ok_plain h (om_DeletionGracePeriodSeconds x) \<and>
     ok_map entry_elem h (om_Labels x) \<and>
     ok_map entry_elem h (om_Annotations x) \<and>
     ok_slice OwnerReference_elem ok_OwnerReference h (om_OwnerReferences x) \<and>
     ok_slice string_elem ok_plain h (om_Finalizers x) \<and>
     ok_slice ManagedFieldsEntry_elem ok_ManagedFieldsEntry h (om_ManagedFields x)"

definition reach_ObjectMeta :: "heap \<Rightarrow> ObjectMeta_m \<Rightarrow> addr list" where
  "reach_ObjectMeta h x =
     reach_ptr Time_elem reach_plain h (om_DeletionTimestamp x) @
     reach_ptr int64_elem reach_plain h (om_DeletionGracePeriodSeconds x) @
     reach_map h (om_Labels x) @
     reach_map h (om_Annotations x) @
     reach_slice OwnerReference_elem reach_OwnerReference h (om_OwnerReferences x) @
     reach_slice string_elem reach_plain h (om_Finalizers x) @
     reach_slice ManagedFieldsEntry_elem reach_ManagedFieldsEntry h (om_ManagedFields x)"

definition val_ObjectMeta where
  "val_ObjectMeta (h :: heap) (x :: ObjectMeta_m) =
     ((om_Name x, om_GenerateName x, om_Namespace x, om_SelfLink x, om_UID x,
        om_ResourceVersion x, om_Generation x, om_CreationTimestamp x, om_ClusterName x),
      val_ptr Time_elem val_plain h (om_DeletionTimestamp x),
      val_ptr int64_elem val_plain h (om_DeletionGracePeriodSeconds x),
      val_map entry_elem h (om_Labels x),
      val_map entry_elem h (om_Annotations x),
      val_slice OwnerReference_elem val_OwnerReference h (om_OwnerReferences x),
      val_slice string_elem val_plain h (om_Finalizers x),
      val_slice ManagedFieldsEntry_elem val_ManagedFieldsEntry h (om_ManagedFields x))"

definition ok_ListMeta :: "heap \<Rightarrow> ListMeta_m \<Rightarrow> bool" where
  "ok_ListMeta h x \<longleftrightarrow>
     ok_ptr int64_elem ok_plain h (lm_RemainingItemCount x)"

definition reach_ListMeta :: "heap \<Rightarrow> ListMeta_m \<Rightarrow> addr list" where
  "reach_ListMeta h x =
     reach_ptr int64_elem reach_plain h (lm_RemainingItemCount x)"

definition val_ListMeta where
  "val_ListMeta (h :: heap) (x :: ListMeta_m) =
     ((lm_SelfLink x, lm_ResourceVersion x, lm_Continue x),
      val_ptr int64_elem val_plain h (lm_RemainingItemCount x))"

definition ok_Images :: "heap \<Rightarrow> SpecialResourceImages_m \<Rightarrow> bool" where
  "ok_Images h x \<longleftrightarrow>
     ok_slice Paths_elem ok_plain h (mimg_Paths x)"

definition reach_Images :: "heap \<Rightarrow> SpecialResourceImages_m \<Rightarrow> addr list" where
  "reach_Images h x =
     reach_slice Paths_elem reach_plain h (mimg_Paths x)"

definition val_Images where
  "val_Images (h :: heap) (x :: SpecialResourceImages_m) =
     ((mimg_Name x, mimg_Kind x, mimg_Namespace x, mimg_PullSecret x),
      val_slice Paths_elem val_plain h (mimg_Paths x))"

definition ok_Artifacts :: "heap \<Rightarrow> SpecialResourceArtifacts_m \<Rightarrow> bool" where
  "ok_Artifacts h x \<longleftrightarrow>
     ok_slice Paths_elem ok_plain h (mart_HostPaths x) \<and>
     ok_slice Images_elem ok_Images h (mart_Images x) \<and>
     ok_slice Claims_elem ok_plain h (mart_Claims x)"

definition reach_Artifacts :: "heap \<Rightarrow> SpecialResourceArtifacts_m \<Rightarrow> addr list" where
  "reach_Artifacts h x =
     reach_slice Paths_elem reach_plain h (mart_HostPaths x) @
     reach_slice Images_elem reach_Images h (mart_Images x) @
     reach_slice Claims_elem reach_plain h (mart_Claims x)"

definition val_Artifacts where
  "val_Artifacts (h :: heap) (x :: SpecialResourceArtifacts_m) =
     ((),
      val_slice Paths_elem val_plain h (mart_HostPaths x),
      val_slice Images_elem val_Images h (mart_Images x),
      val_slice Claims_elem val_plain h (mart_Claims x))"

definition ok_Configuration :: "heap \<Rightarrow> SpecialResourceConfiguration_m \<Rightarrow> bool" where
  "ok_Configuration h x \<longleftrightarrow>
     ok_slice string_elem ok_plain h (mcfg_Value x)"

definition reach_Configuration :: "heap \<Rightarrow> SpecialResourceConfiguration_m \<Rightarrow> addr list" where
  "reach_Configuration h x =
     reach_slice string_elem reach_plain h (mcfg_Value x)"

definition val_Configuration where
  "val_Configuration (h :: heap) (x :: SpecialResourceConfiguration_m) =
     (mcfg_Name x,
      val_slice string_elem val_plain h (mcfg_Value x))"

definition ok_DriverContainer :: "heap \<Rightarrow> SpecialResourceDriverContainer_m \<Rightarrow> bool" where
  "ok_DriverContainer h x \<longleftrightarrow>
     ok_slice BuildArgs_elem ok_plain h (mdc_BuildArgs x) \<and>
     ok_slice RunArgs_elem ok_plain h (mdc_RunArgs x) \<and>
     ok_Artifacts h (mdc_Artifacts x)"

definition reach_DriverContainer :: "heap \<Rightarrow> SpecialResourceDriverContainer_m \<Rightarrow> addr list" where
  "reach_DriverContainer h x =
     reach_slice BuildArgs_elem reach_plain h (mdc_BuildArgs x) @
     reach_slice RunArgs_elem reach_plain h (mdc_RunArgs x) @
     reach_Artifacts h (mdc_Artifacts x)"

definition val_DriverContainer where
  "val_DriverContainer (h :: heap) (x :: SpecialResourceDriverContainer_m) =
     (mdc_Source x,
      val_slice BuildArgs_elem val_plain h (mdc_BuildArgs x),
      val_slice RunArgs_elem val_plain h (mdc_RunArgs x),
      val_Artifacts h (mdc_Artifacts x))"

definition ok_Spec :: "heap \<Rightarrow> SpecialResourceSpec_m \<Rightarrow> bool" where
  "ok_Spec h x \<longleftrightarrow>
     ok_slice Configuration_elem ok_Configuration h (mspec_Configuration x) \<and>
     ok_DriverContainer h (mspec_DriverContainer x) \<and>
     ok_slice Dependency_elem ok_plain h (mspec_DependsOn x)"

definition reach_Spec :: "heap \<Rightarrow> SpecialResourceSpec_m \<Rightarrow> addr list" where
  "reach_Spec h x =
     reach_slice Configuration_elem reach_Configuration h (mspec_Configuration x) @
     reach_DriverContainer h (mspec_DriverContainer x) @
     reach_slice Dependency_elem reach_plain h (mspec_DependsOn x)"

definition val_Spec where
  "val_Spec (h :: heap) (x :: SpecialResourceSpec_m) =
     ((mspec_Namespace x, mspec_Node x),
      val_slice Configuration_elem val_Configuration h (mspec_Configuration x),
      val_DriverContainer h (mspec_DriverContainer x),
      val_slice Dependency_elem val_plain h (mspec_DependsOn x))"

definition ok_SpecialResource :: "heap \<Rightarrow> SpecialResource_m \<Rightarrow> bool" where
  "ok_SpecialResource h x \<longleftrightarrow>
     ok_ObjectMeta h (msr_ObjectMeta x) \<and>
     ok_Spec h (msr_Spec x)"

definition reach_SpecialResource :: "heap \<Rightarrow> SpecialResource_m \<Rightarrow> addr list" where
  "reach_SpecialResource h x =
     reach_ObjectMeta h (msr_ObjectMeta x) @
     reach_Spec h (msr_Spec x)"

definition val_SpecialResource where
  "val_SpecialResource (h :: heap) (x :: SpecialResource_m) =
     ((msr_TypeMeta x, msr_Status x),
      val_ObjectMeta h (msr_ObjectMeta x),
      val_Spec h (msr_Spec x))"

definition ok_SpecialResourceList :: "heap \<Rightarrow> SpecialResourceList_m \<Rightarrow> bool" where
  "ok_SpecialResourceList h x \<longleftrightarrow>
     ok_ListMeta h (ml_ListMeta x) \<and>
     ok_slice SpecialResource_elem ok_SpecialResource h (ml_Items x)"

definition reach_SpecialResourceList :: "heap \<Rightarrow> SpecialResourceList_m \<Rightarrow> addr list" where
  "reach_SpecialResourceList h x =
     reach_ListMeta h (ml_ListMeta x) @
     reach_slice SpecialResource_elem reach_SpecialResource h (ml_Items x)"

definition val_SpecialResourceList where
  "val_SpecialResourceList (h :: heap) (x :: SpecialResourceList_m) =
     (ml_TypeMeta x,
      val_ListMeta h (ml_ListMeta x),
      val_slice SpecialResource_elem val_SpecialResource h (ml_Items x))"

section \<open>Every DeepCopyInto meets the contract\<close>

lemmas deep_ptr_plain = deep.ptr_deep [OF deep_plain]

interpretation fieldsV1: deep ok_FieldsV1 reach_FieldsV1 val_FieldsV1
  FieldsV1_DeepCopyInto
  by (rule deep_struct [where flds = "\<lambda>x. f_Raw x"
        and put = "\<lambda>a x. x\<lparr>f_Raw := a\<rparr>"
        and rest = "\<lambda>x. ()",
        OF deep_slice_copy])
    (auto simp: ok_FieldsV1_def reach_FieldsV1_def val_FieldsV1_def
      FieldsV1_DeepCopyInto_def pair_defs split: prod.split)

interpretation managedFieldsEntry: deep ok_ManagedFieldsEntry reach_ManagedFieldsEntry val_ManagedFieldsEntry
  ManagedFieldsEntry_DeepCopyInto
  by (rule deep_struct [where flds = "\<lambda>x. (mf_Time x, mf_FieldsV1 x)"
        and put = "\<lambda>(a, b) x. x\<lparr>mf_Time := a, mf_FieldsV1 := b\<rparr>"
        and rest = "\<lambda>x. (mf_Manager x, mf_Operation x, mf_APIVersion x, mf_FieldsType x)",
        OF deep_pair [OF deep_ptr_plain fieldsV1.ptr_deep]])
    (auto simp: ok_ManagedFieldsEntry_def reach_ManagedFieldsEntry_def
      val_ManagedFieldsEntry_def ManagedFieldsEntry_DeepCopyInto_def pair_defs split:
      prod.split)

interpretation ownerReference: deep ok_OwnerReference reach_OwnerReference val_OwnerReference
  OwnerReference_DeepCopyInto
  by (rule deep_struct [where flds = "\<lambda>x. (mor_Controller x, mor_BlockOwnerDeletion x)"
        and put = "\<lambda>(a, b) x. x\<lparr>mor_Controller := a, mor_BlockOwnerDeletion :=
          b\<rparr>"
        and rest = "\<lambda>x. (mor_APIVersion x, mor_Kind x, mor_Name x, mor_UID x)",
        OF deep_pair [OF deep_ptr_plain deep_ptr_plain]])
    (auto simp: ok_OwnerReference_def reach_OwnerReference_def val_OwnerReference_def
      OwnerReference_DeepCopyInto_def pair_defs split: prod.split)

interpretation objectMeta: deep ok_ObjectMeta reach_ObjectMeta val_ObjectMeta
  ObjectMeta_DeepCopyInto
  by (rule deep_struct [where flds = "\<lambda>x. (om_DeletionTimestamp x, om_DeletionGracePeriodSeconds x, om_Labels x,
          om_Annotations x, om_OwnerReferences x, om_Finalizers x, om_ManagedFields x)"
        and put = "\<lambda>(a, b, c, d, e, f, g) x. x\<lparr>om_DeletionTimestamp := a,
          om_DeletionGracePeriodSeconds := b, om_Labels := c, om_Annotations := d,
          om_OwnerReferences := e, om_Finalizers := f, om_ManagedFields := g\<rparr>"
        and rest = "\<lambda>x. (om_Name x, om_GenerateName x, om_Namespace x, om_SelfLink x, om_UID x,
          om_ResourceVersion x, om_Generation x, om_CreationTimestamp x, om_ClusterName x)",
        OF deep_pair [OF deep_ptr_plain deep_pair [OF deep_ptr_plain deep_pair [OF deep_map
        deep_pair [OF deep_map deep_pair [OF ownerReference.each_deep deep_pair [OF
        deep_slice_copy managedFieldsEntry.each_deep]]]]]]])
    (auto simp: ok_ObjectMeta_def reach_ObjectMeta_def val_ObjectMeta_def
      ObjectMeta_DeepCopyInto_def pair_defs split: prod.split)

interpretation listMeta: deep ok_ListMeta reach_ListMeta val_ListMeta
  ListMeta_DeepCopyInto
  by (rule deep_struct [where flds = "\<lambda>x. lm_RemainingItemCount x"
        and put = "\<lambda>a x. x\<lparr>lm_RemainingItemCount := a\<rparr>"
        and rest = "\<lambda>x. (lm_SelfLink x, lm_ResourceVersion x, lm_Continue x)",
        OF deep_ptr_plain])
    (auto simp: ok_ListMeta_def reach_ListMeta_def val_ListMeta_def
      ListMeta_DeepCopyInto_def pair_defs split: prod.split)

interpretation images: deep ok_Images reach_Images val_Images
  SpecialResourceImages_DeepCopyInto
  by (rule deep_struct [where flds = "\<lambda>x. mimg_Paths x"
        and put = "\<lambda>a x. x\<lparr>mimg_Paths := a\<rparr>"
        and rest = "\<lambda>x. (mimg_Name x, mimg_Kind x, mimg_Namespace x, mimg_PullSecret x)",
        OF deep_slice_copy])
    (auto simp: ok_Images_def reach_Images_def val_Images_def
      SpecialResourceImages_DeepCopyInto_def pair_defs split: prod.split)

interpretation artifacts: deep ok_Artifacts reach_Artifacts val_Artifacts
  SpecialResourceArtifacts_DeepCopyInto
  by (rule deep_struct [where flds = "\<lambda>x. (mart_HostPaths x, mart_Images x, mart_Claims x)"
        and put = "\<lambda>(a, b, c) x. x\<lparr>mart_HostPaths := a, mart_Images := b,
          mart_Claims := c\<rparr>"
        and rest = "\<lambda>x. ()",
        OF deep_pair [OF deep_slice_copy deep_pair [OF images.each_deep deep_slice_copy]]])
    (auto simp: ok_Artifacts_def reach_Artifacts_def val_Artifacts_def
      SpecialResourceArtifacts_DeepCopyInto_def pair_defs split: prod.split)

interpretation configuration: deep ok_Configuration reach_Configuration val_Configuration
  SpecialResourceConfiguration_DeepCopyInto
  by (rule deep_struct [where flds = "\<lambda>x. mcfg_Value x"
        and put = "\<lambda>a x. x\<lparr>mcfg_Value := a\<rparr>"
        and rest = "\<lambda>x. mcfg_Name x",
        OF deep_slice_copy])
    (auto simp: ok_Configuration_def reach_Configuration_def val_Configuration_def
      SpecialResourceConfiguration_DeepCopyInto_def pair_defs split: prod.split)

interpretation driverContainer: deep ok_DriverContainer reach_DriverContainer val_DriverContainer
  SpecialResourceDriverContainer_DeepCopyInto
  by (rule deep_struct [where flds = "\<lambda>x. (mdc_BuildArgs x, mdc_RunArgs x, mdc_Artifacts x)"
        and put = "\<lambda>(a, b, c) x. x\<lparr>mdc_BuildArgs := a, mdc_RunArgs := b,
          mdc_Artifacts := c\<rparr>"
        and rest = "\<lambda>x. mdc_Source x",
        OF deep_pair [OF deep_slice_copy deep_pair [OF deep_slice_copy
        artifacts.deep_axioms]]])
    (auto simp: ok_DriverContainer_def reach_DriverContainer_def val_DriverContainer_def
      SpecialResourceDriverContainer_DeepCopyInto_def pair_defs split: prod.split)

interpretation spec: deep ok_Spec reach_Spec val_Spec
  SpecialResourceSpec_DeepCopyInto
  by (rule deep_struct [where flds = "\<lambda>x. (mspec_Configuration x, mspec_DriverContainer x, mspec_DependsOn x)"
        and put = "\<lambda>(a, b, c) x. x\<lparr>mspec_Configuration := a, mspec_DriverContainer
          := b, mspec_DependsOn := c\<rparr>"
        and rest = "\<lambda>x. (mspec_Namespace x, mspec_Node x)",
        OF deep_pair [OF configuration.each_deep deep_pair [OF driverContainer.deep_axioms
        deep_slice_copy]]])
    (auto simp: ok_Spec_def reach_Spec_def val_Spec_def
      SpecialResourceSpec_DeepCopyInto_def pair_defs split: prod.split)

interpretation specialResource: deep ok_SpecialResource reach_SpecialResource val_SpecialResource
  SpecialResource_DeepCopyInto
  by (rule deep_struct [where flds = "\<lambda>x. (msr_ObjectMeta x, msr_Spec x)"
        and put = "\<lambda>(a, b) x. x\<lparr>msr_ObjectMeta := a, msr_Spec := b\<rparr>"
        and rest = "\<lambda>x. (msr_TypeMeta x, msr_Status x)",
        OF deep_pair [OF objectMeta.deep_axioms spec.deep_axioms]])
    (auto simp: ok_SpecialResource_def reach_SpecialResource_def val_SpecialResource_def
      SpecialResource_DeepCopyInto_def pair_defs split: prod.split)

interpretation specialResourceList: deep ok_SpecialResourceList reach_SpecialResourceList val_SpecialResourceList
  SpecialResourceList_DeepCopyInto
  by (rule deep_struct [where flds = "\<lambda>x. (ml_ListMeta x, ml_Items x)"
        and put = "\<lambda>(a, b) x. x\<lparr>ml_ListMeta := a, ml_Items := b\<rparr>"
        and rest = "\<lambda>x. ml_TypeMeta x",
        OF deep_pair [OF listMeta.deep_axioms specialResource.each_deep]])
    (auto simp: ok_SpecialResourceList_def reach_SpecialResourceList_def
      val_SpecialResourceList_def SpecialResourceList_DeepCopyInto_def pair_defs split:
      prod.split)

section \<open>The values of the API types\<close>

text \<open>
  The values that the other theories compute with, as they are read from memory: a \<open>nil\<close> slice is
  the empty list.
\<close>

definition read_Images :: "heap \<Rightarrow> SpecialResourceImages_m \<Rightarrow> SpecialResourceImages" where
  "read_Images h x =
     \<lparr>img_Name = mimg_Name x, img_Kind = mimg_Kind x, img_Namespace = mimg_Namespace x,
      img_PullSecret = mimg_PullSecret x, img_Paths = elems Paths_elem h (mimg_Paths x)\<rparr>"

definition read_Artifacts :: "heap \<Rightarrow> SpecialResourceArtifacts_m \<Rightarrow> SpecialResourceArtifacts" where
  "read_Artifacts h x =
     \<lparr>art_HostPaths = elems Paths_elem h (mart_HostPaths x),
      art_Images = map (read_Images h) (elems Images_elem h (mart_Images x)),
      art_Claims = elems Claims_elem h (mart_Claims x)\<rparr>"

definition read_Configuration :: "heap \<Rightarrow> SpecialResourceConfiguration_m \<Rightarrow> SpecialResourceConfiguration" where
  "read_Configuration h x =
     \<lparr>cfg_Name = mcfg_Name x, cfg_Value = elems string_elem h (mcfg_Value x)\<rparr>"

definition read_DriverContainer :: "heap \<Rightarrow> SpecialResourceDriverContainer_m \<Rightarrow> SpecialResourceDriverContainer" where
  "read_DriverContainer h x =
     \<lparr>dc_Source = mdc_Source x, dc_BuildArgs = elems BuildArgs_elem h (mdc_BuildArgs x),
      dc_RunArgs = elems RunArgs_elem h (mdc_RunArgs x),
      dc_Artifacts = read_Artifacts h (mdc_Artifacts x)\<rparr>"

definition read_Spec :: "heap \<Rightarrow> SpecialResourceSpec_m \<Rightarrow> SpecialResourceSpec" where
  "read_Spec h x =
     \<lparr>spec_Namespace = mspec_Namespace x,
      spec_Configuration = map (read_Configuration h) (elems Configuration_elem h (mspec_Configuration x)),
      spec_DriverContainer = read_DriverContainer h (mspec_DriverContainer x),
      spec_Node = mspec_Node x, spec_DependsOn = elems Dependency_elem h (mspec_DependsOn x)\<rparr>"

definition read_SpecialResource :: "heap \<Rightarrow> SpecialResource_m \<Rightarrow> SpecialResource" where
  "read_SpecialResource h x =
     \<lparr>sr_ObjectMeta = \<lparr>meta_Name = om_Name (msr_ObjectMeta x),
        meta_Namespace = om_Namespace (msr_ObjectMeta x), meta_UID = om_UID (msr_ObjectMeta x)\<rparr>,
      sr_Spec = read_Spec h (msr_Spec x), sr_Status = msr_Status x\<rparr>"

text \<open>Two values that show the same are read the same.\<close>

lemma val_slice_elems:
  "val_slice t val h s = val_slice t val h' s' \<Longrightarrow>
     map (val h) (elems t h s) = map (val h') (elems t h' s')"
  by (cases s; cases s') (auto simp: val_slice_def)

lemma val_slice_plain_elems:
  "val_slice t val_plain h s = val_slice t val_plain h' s' \<Longrightarrow> elems t h s = elems t h' s'"
  by (drule val_slice_elems) simp

lemma map_eq_factor:
  "map f xs = map g ys \<Longrightarrow> (\<And>x y. f x = g y \<Longrightarrow> f' x = g' y) \<Longrightarrow> map f' xs = map g' ys"
  by (induction xs arbitrary: ys) (auto simp: Cons_eq_map_conv)

lemma read_Images_cong: "val_Images h x = val_Images h' y \<Longrightarrow> read_Images h x = read_Images h' y"
  by (auto simp: val_Images_def read_Images_def dest: val_slice_plain_elems)

lemma read_Artifacts_cong:
  assumes "val_Artifacts h x = val_Artifacts h' y"
  shows "read_Artifacts h x = read_Artifacts h' y"
proof -
  have "map (val_Images h) (elems Images_elem h (mart_Images x)) =
        map (val_Images h') (elems Images_elem h' (mart_Images y))"
    using assms by (intro val_slice_elems) (simp add: val_Artifacts_def)
  then have "map (read_Images h) (elems Images_elem h (mart_Images x)) =
      map (read_Images h') (elems Images_elem h' (mart_Images y))"
    by (rule map_eq_factor) (rule read_Images_cong)
  then show ?thesis
    using assms by (auto simp: val_Artifacts_def read_Artifacts_def dest: val_slice_plain_elems)
qed

lemma read_Configuration_cong:
  "val_Configuration h x = val_Configuration h' y \<Longrightarrow> read_Configuration h x = read_Configuration h' y"
  by (auto simp: val_Configuration_def read_Configuration_def dest: val_slice_plain_elems)

lemma read_DriverContainer_cong:
  "val_DriverContainer h x = val_DriverContainer h' y \<Longrightarrow>
     read_DriverContainer h x = read_DriverContainer h' y"
  by (auto simp: val_DriverContainer_def read_DriverContainer_def
      dest: val_slice_plain_elems read_Artifacts_cong)

lemma read_Spec_cong:
  assumes "val_Spec h x = val_Spec h' y"
  shows "read_Spec h x = read_Spec h' y"
proof -
  have "map (val_Configuration h) (elems Configuration_elem h (mspec_Configuration x)) =
        map (val_Configuration h') (elems Configuration_elem h' (mspec_Configuration y))"
    using assms by (intro val_slice_elems) (simp add: val_Spec_def)
  then have "map (read_Configuration h) (elems Configuration_elem h (mspec_Configuration x)) =
      map (read_Configuration h') (elems Configuration_elem h' (mspec_Configuration y))"
    by (rule map_eq_factor) (rule read_Configuration_cong)
  then show ?thesis
    using assms by (auto simp: val_Spec_def read_Spec_def
        dest: val_slice_plain_elems read_DriverContainer_cong)
qed

lemma read_SpecialResource_cong:
  "val_SpecialResource h x = val_SpecialResource h' y \<Longrightarrow>
     read_SpecialResource h x = read_SpecialResource h' y"
  by (auto simp: val_SpecialResource_def read_SpecialResource_def val_ObjectMeta_def
      dest: read_Spec_cong)

section \<open>DeepCopy on pointers\<close>

text \<open>Structs without references are copied by assignment.\<close>

lemma plain_DeepCopyInto:
  "SpecialResourcePaths_DeepCopyInto = plain_into" "SpecialResourceClaims_DeepCopyInto = plain_into"
  "SpecialResourceNode_DeepCopyInto = plain_into" "SpecialResourceRunArgs_DeepCopyInto = plain_into"
  "SpecialResourceBuildArgs_DeepCopyInto = plain_into" "SpecialResourceGit_DeepCopyInto = plain_into"
  "SpecialResourceSource_DeepCopyInto = plain_into"
  "SpecialResourceDependency_DeepCopyInto = plain_into"
  "SpecialResourceStatus_DeepCopyInto = plain_into"
  by (simp_all add: fun_eq_iff plain_into_def SpecialResourcePaths_DeepCopyInto_def
      SpecialResourceClaims_DeepCopyInto_def SpecialResourceNode_DeepCopyInto_def
      SpecialResourceRunArgs_DeepCopyInto_def SpecialResourceBuildArgs_DeepCopyInto_def
      SpecialResourceGit_DeepCopyInto_def SpecialResourceSource_DeepCopyInto_def
      SpecialResourceDependency_DeepCopyInto_def SpecialResourceStatus_DeepCopyInto_def)

abbreviation "ok_plain_ptr t \<equiv> ok_ptr t ok_plain"
abbreviation "reach_plain_ptr t \<equiv> reach_ptr t reach_plain"
abbreviation "val_plain_ptr t \<equiv> val_ptr t val_plain"

interpretation paths_ptr: deep "ok_plain_ptr Paths_elem" "reach_plain_ptr Paths_elem"
  "val_plain_ptr Paths_elem" SpecialResourcePaths_DeepCopy
  unfolding SpecialResourcePaths_DeepCopy_def plain_DeepCopyInto by (rule deep_ptr_plain) simp

interpretation claims_ptr: deep "ok_plain_ptr Claims_elem" "reach_plain_ptr Claims_elem"
  "val_plain_ptr Claims_elem" SpecialResourceClaims_DeepCopy
  unfolding SpecialResourceClaims_DeepCopy_def plain_DeepCopyInto by (rule deep_ptr_plain) simp

interpretation node_ptr: deep "ok_plain_ptr Node_elem" "reach_plain_ptr Node_elem"
  "val_plain_ptr Node_elem" SpecialResourceNode_DeepCopy
  unfolding SpecialResourceNode_DeepCopy_def plain_DeepCopyInto by (rule deep_ptr_plain) simp

interpretation runArgs_ptr: deep "ok_plain_ptr RunArgs_elem" "reach_plain_ptr RunArgs_elem"
  "val_plain_ptr RunArgs_elem" SpecialResourceRunArgs_DeepCopy
  unfolding SpecialResourceRunArgs_DeepCopy_def plain_DeepCopyInto by (rule deep_ptr_plain) simp

interpretation buildArgs_ptr: deep "ok_plain_ptr BuildArgs_elem" "reach_plain_ptr BuildArgs_elem"
  "val_plain_ptr BuildArgs_elem" SpecialResourceBuildArgs_DeepCopy
  unfolding SpecialResourceBuildArgs_DeepCopy_def plain_DeepCopyInto by (rule deep_ptr_plain) simp

interpretation git_ptr: deep "ok_plain_ptr Git_elem" "reach_plain_ptr Git_elem"
  "val_plain_ptr Git_elem" SpecialResourceGit_DeepCopy
  unfolding SpecialResourceGit_DeepCopy_def plain_DeepCopyInto by (rule deep_ptr_plain) simp

interpretation source_ptr: deep "ok_plain_ptr Source_elem" "reach_plain_ptr Source_elem"
  "val_plain_ptr Source_elem" SpecialResourceSource_DeepCopy
  unfolding SpecialResourceSource_DeepCopy_def plain_DeepCopyInto by (rule deep_ptr_plain) simp

interpretation dependency_ptr: deep "ok_plain_ptr Dependency_elem" "reach_plain_ptr Dependency_elem"
  "val_plain_ptr Dependency_elem" SpecialResourceDependency_DeepCopy
  unfolding SpecialResourceDependency_DeepCopy_def plain_DeepCopyInto by (rule deep_ptr_plain) simp

interpretation status_ptr: deep "ok_plain_ptr Status_elem" "reach_plain_ptr Status_elem"
  "val_plain_ptr Status_elem" SpecialResourceStatus_DeepCopy
  unfolding SpecialResourceStatus_DeepCopy_def plain_DeepCopyInto by (rule deep_ptr_plain) simp

interpretation images_ptr: deep "ok_ptr Images_elem ok_Images" "reach_ptr Images_elem reach_Images"
  "val_ptr Images_elem val_Images" SpecialResourceImages_DeepCopy
  unfolding SpecialResourceImages_DeepCopy_def by (rule images.ptr_deep) simp

interpretation artifacts_ptr: deep "ok_ptr Artifacts_elem ok_Artifacts" "reach_ptr Artifacts_elem reach_Artifacts"
  "val_ptr Artifacts_elem val_Artifacts" SpecialResourceArtifacts_DeepCopy
  unfolding SpecialResourceArtifacts_DeepCopy_def by (rule artifacts.ptr_deep) simp

interpretation configuration_ptr: deep "ok_ptr Configuration_elem ok_Configuration" "reach_ptr Configuration_elem reach_Configuration"
  "val_ptr Configuration_elem val_Configuration" SpecialResourceConfiguration_DeepCopy
  unfolding SpecialResourceConfiguration_DeepCopy_def by (rule configuration.ptr_deep) simp

interpretation driverContainer_ptr: deep "ok_ptr DriverContainer_elem ok_DriverContainer" "reach_ptr DriverContainer_elem reach_DriverContainer"
  "val_ptr DriverContainer_elem val_DriverContainer" SpecialResourceDriverContainer_DeepCopy
  unfolding SpecialResourceDriverContainer_DeepCopy_def by (rule driverContainer.ptr_deep) simp

interpretation spec_ptr: deep "ok_ptr Spec_elem ok_Spec" "reach_ptr Spec_elem reach_Spec"
  "val_ptr Spec_elem val_Spec" SpecialResourceSpec_DeepCopy
  unfolding SpecialResourceSpec_DeepCopy_def by (rule spec.ptr_deep) simp

interpretation specialResource_ptr: deep "ok_ptr SpecialResource_elem ok_SpecialResource" "reach_ptr SpecialResource_elem reach_SpecialResource"
  "val_ptr SpecialResource_elem val_SpecialResource" SpecialResource_DeepCopy
  unfolding SpecialResource_DeepCopy_def by (rule specialResource.ptr_deep) simp

interpretation specialResourceList_ptr: deep "ok_ptr SpecialResourceList_elem ok_SpecialResourceList" "reach_ptr SpecialResourceList_elem reach_SpecialResourceList"
  "val_ptr SpecialResourceList_elem val_SpecialResourceList" SpecialResourceList_DeepCopy
  unfolding SpecialResourceList_DeepCopy_def by (rule specialResourceList.ptr_deep) simp

lemma clone_ptr_nil:
  "clone_ptr t into p h = (q, h') \<Longrightarrow> q = NilPtr \<longleftrightarrow> p = NilPtr"
  "clone_ptr t into p h = (q, h') \<Longrightarrow> p \<noteq> NilPtr \<Longrightarrow> q = Ptr (length h)"
  by (auto simp: clone_ptr_def go_new_def split: pointer.splits prod.splits)

section \<open>Properties\<close>

text \<open>A memory with a list of one custom resource, its label, and its configuration of two values.\<close>

definition sample_heap :: heap where
  "sample_heap =
     [A_string [''a'', ''b''],
      A_Configuration [\<lparr>mcfg_Name = ''args'', mcfg_Value = Slice 0 0 2\<rparr>],
      A_entry [(''app'', ''x'')],
      A_SpecialResource
        [zero_SpecialResource_m\<lparr>
           msr_ObjectMeta := zero_ObjectMeta\<lparr>om_Name := ''gpu'', om_Labels := MapRef 2\<rparr>,
           msr_Spec := zero_Spec_m\<lparr>mspec_Configuration := Slice 1 0 1\<rparr>\<rparr>],
      A_SpecialResourceList
        [\<lparr>ml_TypeMeta = \<lparr>tm_Kind = [], tm_APIVersion = []\<rparr>,
          ml_ListMeta = \<lparr>lm_SelfLink = [], lm_ResourceVersion = [], lm_Continue = [],
            lm_RemainingItemCount = NilPtr\<rparr>,
          ml_Items = Slice 3 0 1\<rparr>]]"

lemma sample_heap_ok:
  "ok_ptr SpecialResource_elem ok_SpecialResource sample_heap (Ptr 3)"
  "ok_ptr SpecialResourceList_elem ok_SpecialResourceList sample_heap (Ptr 4)"
  by (simp_all add: sample_heap_def ok_ptr_iff ok_slice_iff ok_map_iff array_at_def elem_defs
      ok_SpecialResourceList_def ok_ListMeta_def ok_SpecialResource_def ok_ObjectMeta_def ok_Spec_def
      ok_Configuration_def ok_DriverContainer_def ok_Artifacts_def ok_plain_def
      zero_SpecialResource_m_def zero_ObjectMeta_def zero_Spec_m_def zero_DriverContainer_m_def
      zero_Artifacts_def)

text \<open>
  C19: A deep copy of a list of custom resources is isolated from the original. Let \<open>DeepCopy\<close> leave
  the memory \<open>h'\<close>, and let any code then change it to \<open>h''\<close>. If only cells that the copy reaches were
  changed (labels, owner references, configuration values, arguments, artifacts, \<open>...\<close>, at any depth),
  the original still shows exactly what it showed before the copy. If only cells that existed before
  the copy were changed, the copy still shows it.
\<close>

theorem SpecialResourceList_DeepCopy_isolated:
  assumes "ok_ptr SpecialResourceList_elem ok_SpecialResourceList h p"
    and "SpecialResourceList_DeepCopy p h = (q, h')"
  shows "(\<forall>h''. (\<forall>a<length h'.
              a \<notin> set (reach_ptr SpecialResourceList_elem reach_SpecialResourceList h' q) \<longrightarrow>
              a < length h'' \<and> h'' ! a = h' ! a) \<longrightarrow>
            val_ptr SpecialResourceList_elem val_SpecialResourceList h'' p =
            val_ptr SpecialResourceList_elem val_SpecialResourceList h p) \<and>
         (\<forall>h''. (\<forall>a<length h'. length h \<le> a \<longrightarrow> a < length h'' \<and> h'' ! a = h' ! a) \<longrightarrow>
            val_ptr SpecialResourceList_elem val_SpecialResourceList h'' q =
            val_ptr SpecialResourceList_elem val_SpecialResourceList h p)"
  using specialResourceList_ptr.original_isolated [OF assms]
    specialResourceList_ptr.copy_isolated [OF assms] by simp

theorem SpecialResourceList_DeepCopy_isolated_witness:
  "\<exists>q h'. SpecialResourceList_DeepCopy (Ptr 4) sample_heap = (q, h') \<and>
     val_ptr SpecialResourceList_elem val_SpecialResourceList (sample_heap[0 := A_string []] @ drop 5 h') q =
     val_ptr SpecialResourceList_elem val_SpecialResourceList sample_heap (Ptr 4)"
proof -
  obtain q h' where copy: "SpecialResourceList_DeepCopy (Ptr 4) sample_heap = (q, h')" by fastforce
  have len: "length sample_heap = 5" by (simp add: sample_heap_def)
  let ?g = "sample_heap[0 := A_string []] @ drop 5 h'"
  have "\<forall>a<length h'. length sample_heap \<le> a \<longrightarrow> a < length ?g \<and> ?g ! a = h' ! a"
    by (simp add: len nth_append)
  with SpecialResourceList_DeepCopy_isolated [OF sample_heap_ok(2) copy] copy
  show ?thesis by blast
qed

text \<open>
  C20: On values a deep copy is the identity. The copy of a custom resource shows everything the
  original shows, metadata included and with \<open>nil\<close> and empty slices kept apart, and the value the
  operator computes with is the same. Only the \<open>nil\<close> pointer is copied to \<open>nil\<close>, and for it
  \<open>DeepCopyObject\<close> returns the \<open>nil\<close> interface, never an interface that holds a \<open>nil\<close> pointer.
\<close>

theorem SpecialResource_DeepCopy_identity:
  assumes "ok_ptr SpecialResource_elem ok_SpecialResource h p"
    and "SpecialResource_DeepCopy p h = (q, h')"
  shows "val_ptr SpecialResource_elem val_SpecialResource h' q =
         val_ptr SpecialResource_elem val_SpecialResource h p \<and>
         val_ptr SpecialResource_elem read_SpecialResource h' q =
         val_ptr SpecialResource_elem read_SpecialResource h p \<and>
         q = (if p = NilPtr then NilPtr else Ptr (length h)) \<and>
         SpecialResource_DeepCopyObject p h =
           (if p = NilPtr then NilObject else SpecialResource_Object q, h')"
proof -
  have eq: "val_ptr SpecialResource_elem val_SpecialResource h' q =
      val_ptr SpecialResource_elem val_SpecialResource h p"
    using assms by (rule specialResource_ptr.copy_val)
  then have "val_ptr SpecialResource_elem read_SpecialResource h' q =
      val_ptr SpecialResource_elem read_SpecialResource h p"
    by (cases p; cases q) (auto intro: read_SpecialResource_cong)
  with eq clone_ptr_nil [OF assms(2) [unfolded SpecialResource_DeepCopy_def]] assms(2)
  show ?thesis by (simp add: SpecialResource_DeepCopyObject_def)
qed

theorem SpecialResource_DeepCopy_identity_witness:
  "\<exists>q h'. SpecialResource_DeepCopy (Ptr 3) sample_heap = (q, h') \<and> q \<noteq> NilPtr \<and>
     val_ptr SpecialResource_elem read_SpecialResource h' q =
     val_ptr SpecialResource_elem read_SpecialResource sample_heap (Ptr 3)"
proof -
  obtain q h' where copy: "SpecialResource_DeepCopy (Ptr 3) sample_heap = (q, h')" by fastforce
  from SpecialResource_DeepCopy_identity [OF sample_heap_ok(1) this] copy show ?thesis by auto
qed

text \<open>
  C21: Deep copies keep the memory well typed. The copy of a list of custom resources reaches only
  allocated cells of the right element type and within their bounds, all of them new, and every custom
  resource that was in order before stays so and shows what it showed.
\<close>

theorem SpecialResourceList_DeepCopy_typed:
  assumes "ok_ptr SpecialResourceList_elem ok_SpecialResourceList h p"
    and "SpecialResourceList_DeepCopy p h = (q, h')"
  shows "ok_ptr SpecialResourceList_elem ok_SpecialResourceList h' q \<and>
         list_all (\<lambda>a. length h \<le> a \<and> a < length h')
           (reach_ptr SpecialResourceList_elem reach_SpecialResourceList h' q) \<and>
         prefix h h' \<and>
         (\<forall>r. ok_ptr SpecialResource_elem ok_SpecialResource h r \<longrightarrow>
            ok_ptr SpecialResource_elem ok_SpecialResource h' r \<and>
            val_ptr SpecialResource_elem val_SpecialResource h' r =
            val_ptr SpecialResource_elem val_SpecialResource h r)"
  using specialResourceList_ptr.copy_laws [OF assms]
    specialResourceList_ptr.reach_alloc [OF specialResourceList_ptr.copy_ok [OF assms]]
    specialResourceList_ptr.bystander [OF assms specialResource_ptr.observed_axioms]
  by (simp add: list_all_iff)

theorem SpecialResourceList_DeepCopy_typed_witness:
  "\<exists>q h'. SpecialResourceList_DeepCopy (Ptr 4) sample_heap = (q, h') \<and>
     ok_ptr SpecialResourceList_elem ok_SpecialResourceList h' q \<and>
     ok_ptr SpecialResource_elem ok_SpecialResource h' (Ptr 3)"
proof -
  obtain q h' where copy: "SpecialResourceList_DeepCopy (Ptr 4) sample_heap = (q, h')" by fastforce
  from SpecialResourceList_DeepCopy_typed [OF sample_heap_ok(2) this] copy sample_heap_ok(1)
  show ?thesis by blast
qed

end
