(* ===== verification/Logging.thy ===== *)
theory Logging
  imports Api_Types
begin

text \<open>
  What the operator writes to its log: the colours of \<open>src/controllers/color.go\<close>, the warning of
  \<open>src/controllers/misc.go\<close> and the runtime information of \<open>src/controllers/runtime.go\<close>. Nothing is
  read back from the log; the operations of the other theories leave these calls out.
\<close>

section \<open>color.go\<close>

text \<open>\<open>fmt.Sprintf\<close> for the verb \<open>%s\<close>, the only one in the formats below, and string arguments.\<close>

fun Sprintf :: "string \<Rightarrow> string list \<Rightarrow> string" where
  "Sprintf (c # d # f) (a # as) =
     (if c = CHR ''%'' \<and> d = CHR ''s'' then a @ Sprintf f as else c # Sprintf (d # f) (a # as))"
| "Sprintf f as = f"

text \<open>\<open>fmt.Sprint\<close> of strings concatenates them.\<close>

definition Sprint :: "string list \<Rightarrow> string" where
  "Sprint args = concat args"

type_synonym ShellColor = "string list \<Rightarrow> string"

definition Color :: "string \<Rightarrow> ShellColor" where
  "Color colorString = (\<lambda>args. Sprintf colorString [Sprint args])"

definition ansi :: "string \<Rightarrow> string" where
  "ansi code = CHR 0x1B # ''['' @ code @ ''m''"

definition Black :: ShellColor where "Black = Color (ansi ''1;30'' @ ''%s'' @ ansi ''0'')"

definition Red :: ShellColor where "Red = Color (ansi ''1;31'' @ ''%s'' @ ansi ''0'')"

definition Green :: ShellColor where "Green = Color (ansi ''1;32'' @ ''%s'' @ ansi ''0'')"

definition Brown :: ShellColor where "Brown = Color (ansi ''1;33'' @ ''%s'' @ ansi ''0'')"

definition Blue :: ShellColor where "Blue = Color (ansi ''1;34'' @ ''%s'' @ ansi ''0'')"

definition Purple :: ShellColor where "Purple = Color (ansi ''1;35'' @ ''%s'' @ ansi ''0'')"

definition Cyan :: ShellColor where "Cyan = Color (ansi ''1;36'' @ ''%s'' @ ansi ''0'')"

definition LightGray :: ShellColor where "LightGray = Color (ansi ''1;37'' @ ''%s'' @ ansi ''0'')"

definition color :: "ShellColor list" where
  "color = [Green, Blue, Brown, Purple, Cyan]"

definition prettyPrint :: "string \<Rightarrow> ShellColor \<Rightarrow> string" where
  "prettyPrint msg c = c [Sprintf ''%s  '' [msg]]"

section \<open>Entries\<close>

datatype log_entry =
    LogError "goerr option" string
  | LogInfo string string string
  | LogProxyInfo string string proxyConfiguration

definition warnOnErrorOrNotFound :: "bool \<Rightarrow> goerr option \<Rightarrow> log_entry list" where
  "warnOnErrorOrNotFound found err =
     (if \<not> found \<or> err \<noteq> None then [LogError err ''Not found''] else [])"

definition logRuntimeInformation :: "runtimeInformation \<Rightarrow> log_entry list" where
  "logRuntimeInformation ri =
     [LogInfo ''Runtime Information'' ''OperatingSystemMajor'' (OperatingSystemMajor ri),
      LogInfo ''Runtime Information'' ''OperatingSystemMajorMinor'' (OperatingSystemMajorMinor ri),
      LogInfo ''Runtime Information'' ''OperatingSystemDecimal'' (OperatingSystemDecimal ri),
      LogInfo ''Runtime Information'' ''KernelVersion'' (KernelVersion ri),
      LogInfo ''Runtime Information'' ''ClusterVersion'' (ClusterVersion ri),
      LogInfo ''Runtime Information'' ''ClusterVersionMajorMinor'' (ClusterVersionMajorMinor ri),
      LogInfo ''Runtime Information'' ''UpdateVendor'' (UpdateVendor ri),
      LogInfo ''Runtime Information'' ''PushSecretName'' (PushSecretName ri),
      LogInfo ''Runtime Information'' ''OSImageURL'' (OSImageURL ri),
      LogProxyInfo ''Runtime Information'' ''Proxy'' (Proxy ri)]"

section \<open>Lemmas\<close>

lemma Sprintf_literal: "CHR ''%'' \<notin> set p \<Longrightarrow> f \<noteq> [] \<Longrightarrow> Sprintf (p @ f) (a # as) = p @ Sprintf f (a # as)"
proof (induction p)
  case (Cons c p)
  then obtain d g where "p @ f = d # g" by (cases p; cases f) auto
  with Cons show ?case by auto
qed simp

text \<open>A message is printed as it is, percent signs included, between the colour and the reset code.\<close>

lemma Color_prettyPrint:
  assumes "CHR ''%'' \<notin> set p"
  shows "prettyPrint msg (Color (p @ ''%s'' @ q)) = p @ msg @ ''  '' @ q"
  using assms by (cases q) (simp_all add: prettyPrint_def Color_def Sprint_def Sprintf_literal)

lemma Green_prettyPrint: "prettyPrint msg Green = ansi ''1;32'' @ msg @ ''  '' @ ansi ''0''"
  unfolding Green_def by (rule Color_prettyPrint) (simp add: ansi_def)

lemma Purple_prettyPrint: "prettyPrint msg Purple = ansi ''1;35'' @ msg @ ''  '' @ ansi ''0''"
  unfolding Purple_def by (rule Color_prettyPrint) (simp add: ansi_def)

text \<open>The log names of different resources differ, and a parent's differs from a dependency's.\<close>

lemma prettyPrint_names:
  "prettyPrint m Green = prettyPrint n Green \<longleftrightarrow> m = n"
  "prettyPrint m Green \<noteq> prettyPrint n Purple"
  by (simp_all add: Green_prettyPrint Purple_prettyPrint) (simp add: ansi_def)

text \<open>The logged runtime information determines every field but the fixed names and the resource.\<close>

lemma logRuntimeInformation_faithful:
  assumes "logRuntimeInformation ri = logRuntimeInformation ri'"
    and "GroupName ri = GroupName ri'" and "StateName ri = StateName ri'"
    and "ri_SpecialResource ri = ri_SpecialResource ri'"
  shows "ri = ri'"
  using assms by (simp add: logRuntimeInformation_def)

end
