(* ===== verification/Startup.thy ===== *)
theory Startup
  imports Operator_State
begin

text \<open>
  The start of the process: \<open>src/main.go\<close>, the scheme registration of
  \<open>src/api/v1beta1/groupversion_info.go\<close> and \<open>specialresource_types.go\<close>,
  \<open>Add3dpartyResourcesToScheme\<close> of \<open>src/controllers/resources.go\<close>, \<open>AddKubeClient\<close> and
  \<open>AddConfigClient\<close> of \<open>src/controllers/misc.go\<close>, and \<open>SetupWithManager\<close> of
  \<open>src/controllers/specialresource_controller.go\<close>, with what they use of Go's \<open>flag\<close> package, of the
  scheme (\<open>k8s.io/apimachinery/pkg/runtime\<close>) and of the controller builder
  (\<open>sigs.k8s.io/controller-runtime/pkg/builder\<close>). The other libraries are the parameter \<open>platform\<close>.
\<close>

section \<open>Flags\<close>

text \<open>
  Go's \<open>flag.Parse\<close>. The flags of the command line are those of \<open>main\<close> and the two that
  \<open>controller-runtime/pkg/client/config\<close> registers.
\<close>

record flags =
  metricsAddr :: string
  enableLeaderElection :: bool
  kubeconfig :: string
  apiServerURL :: string

definition default_flags :: flags where
  "default_flags =
     \<lparr>metricsAddr = '':8080'', enableLeaderElection = False, kubeconfig = [], apiServerURL = []\<rparr>"

definition ParseBool :: "string \<Rightarrow> bool option" where
  "ParseBool s =
     (if s \<in> {''1'', ''t'', ''T'', ''TRUE'', ''true'', ''True''} then Some True
      else if s \<in> {''0'', ''f'', ''F'', ''FALSE'', ''false'', ''False''} then Some False
      else None)"

definition set_string_flag :: "string \<Rightarrow> string \<Rightarrow> flags \<Rightarrow> flags option" where
  "set_string_flag name v fl =
     (if name = ''metrics-addr'' then Some (fl\<lparr>metricsAddr := v\<rparr>)
      else if name = ''kubeconfig'' then Some (fl\<lparr>kubeconfig := v\<rparr>)
      else if name = ''master'' then Some (fl\<lparr>apiServerURL := v\<rparr>)
      else None)"

text \<open>A name and, after the first equals sign but not at the very beginning, a value.\<close>

definition cut_flag :: "string \<Rightarrow> string \<times> string option" where
  "cut_flag name = (case name of
       [] \<Rightarrow> ([], None)
     | c # cs \<Rightarrow>
         (let n = takeWhile (\<lambda>d. d \<noteq> CHR ''='') cs in
          (c # n, case drop (length n) cs of [] \<Rightarrow> None | _ # v \<Rightarrow> Some v)))"

text \<open>
  \<open>(*FlagSet).parseOne\<close>, repeated: \<open>Inl\<close> is a parse error (or a request for help), on which the
  process exits.
\<close>

fun parse_flags :: "string list \<Rightarrow> flags \<Rightarrow> goerr + flags" where
  "parse_flags [] fl = Inr fl"
| "parse_flags (s # args) fl =
     (if length s < 2 \<or> hd s \<noteq> CHR ''-'' then Inr fl
      else if s = ''--'' then Inr fl
      else
        let raw = (if s ! 1 = CHR ''-'' then drop 2 s else drop 1 s) in
        if raw = [] \<or> hd raw = CHR ''-'' \<or> hd raw = CHR ''='' then Inl (Fundamental ''bad flag syntax'')
        else
          (case cut_flag raw of (name, v) \<Rightarrow>
           if name = ''enable-leader-election'' then
             (case v of
                None \<Rightarrow> parse_flags args (fl\<lparr>enableLeaderElection := True\<rparr>)
              | Some b \<Rightarrow> (case ParseBool b of
                    None \<Rightarrow> Inl (Fundamental ''invalid boolean value'')
                  | Some x \<Rightarrow> parse_flags args (fl\<lparr>enableLeaderElection := x\<rparr>)))
           else if set_string_flag name [] fl = None then
             Inl (Fundamental ''flag provided but not defined'')
           else
             (case v of
                Some x \<Rightarrow> (case set_string_flag name x fl of Some fl' \<Rightarrow> parse_flags args fl' | None \<Rightarrow> Inr fl)
              | None \<Rightarrow> (case args of
                    [] \<Rightarrow> Inl (Fundamental ''flag needs an argument'')
                  | x # rest \<Rightarrow> (case set_string_flag name x fl of
                        Some fl' \<Rightarrow> parse_flags rest fl' | None \<Rightarrow> Inr fl)))))"

section \<open>The scheme\<close>

text \<open>
  A Go type is its package and name. The scheme maps a group, version and kind to a type; a type's
  kinds are the entries for it in the order of registration. The conversion and defaulting functions
  that registration also adds are left out.
\<close>

type_synonym gotype = "string \<times> string"

record scheme =
  gvkToType :: "(gvk \<times> gotype) list"
  unversionedTypes :: "gotype list"

definition NewScheme :: scheme where
  "NewScheme = \<lparr>gvkToType = [], unversionedTypes = []\<rparr>"

record group_version =
  gv_Group :: string
  gv_Version :: string

definition WithKind :: "group_version \<Rightarrow> string \<Rightarrow> gvk" where
  "WithKind gv k = \<lparr>gvk_Group = gv_Group gv, gvk_Version = gv_Version gv, gvk_Kind = k\<rparr>"

definition AddKnownTypeWithName :: "gvk \<Rightarrow> gotype \<Rightarrow> (scheme, unit) io" where
  "AddKnownTypeWithName k t =
     (if gvk_Version k = [] then panic ''version is required on all types''
      else bnd (gets (\<lambda>s. map_of (gvkToType s) k)) (\<lambda>old.
        if old \<noteq> None \<and> old \<noteq> Some t then panic ''Double registration of different types''
        else modify (\<lambda>s. s\<lparr>gvkToType := AList.update k t (gvkToType s)\<rparr>)))"

primrec AddKnownTypes :: "group_version \<Rightarrow> gotype list \<Rightarrow> (scheme, unit) io" where
  "AddKnownTypes gv [] = ret ()"
| "AddKnownTypes gv (t # ts) =
     bnd (AddKnownTypeWithName (WithKind gv (snd t)) t) (\<lambda>_. AddKnownTypes gv ts)"

abbreviation metav1 :: "string \<Rightarrow> gotype" where
  "metav1 n \<equiv> (''k8s.io/apimachinery/pkg/apis/meta/v1'', n)"

definition optionsTypes :: "gotype list" where
  "optionsTypes = map metav1
     [''ListOptions'', ''ExportOptions'', ''GetOptions'', ''DeleteOptions'', ''CreateOptions'',
      ''UpdateOptions'', ''PatchOptions'']"

definition unversioned_types :: "gotype list" where
  "unversioned_types =
     map metav1 [''Status'', ''APIVersions'', ''APIGroupList'', ''APIGroup'', ''APIResourceList'']"

primrec mark_unversioned :: "gotype list \<Rightarrow> (scheme, unit) io" where
  "mark_unversioned [] = ret ()"
| "mark_unversioned (t # ts) =
     bnd (gets unversionedTypes) (\<lambda>old.
     if \<exists>t'\<in>set old. snd t' = snd t \<and> t' \<noteq> t then panic ''kind name must be unique in scheme''
     else bnd (modify (\<lambda>s. s\<lparr>unversionedTypes := List.insert t old\<rparr>)) (\<lambda>_. mark_unversioned ts))"

definition AddUnversionedTypes :: "group_version \<Rightarrow> gotype list \<Rightarrow> (scheme, unit) io" where
  "AddUnversionedTypes gv ts = bnd (AddKnownTypes gv ts) (\<lambda>_. mark_unversioned ts)"

definition AddToGroupVersion :: "group_version \<Rightarrow> (scheme, unit) io" where
  "AddToGroupVersion gv =
     bnd (AddKnownTypeWithName (WithKind gv ''WatchEvent'') (metav1 ''WatchEvent'')) (\<lambda>_.
     bnd (AddKnownTypeWithName (WithKind (gv\<lparr>gv_Version := ''__internal''\<rparr>) ''WatchEvent'')
            (metav1 ''InternalEvent'')) (\<lambda>_.
     bnd (AddKnownTypes gv optionsTypes) (\<lambda>_.
     AddUnversionedTypes \<lparr>gv_Group = [], gv_Version = ''v1''\<rparr> unversioned_types)))"

text \<open>A scheme builder is the list of functions registered with it.\<close>

definition Builder_Register ::
  "group_version \<Rightarrow> gotype list \<Rightarrow> (scheme, goerr option) io list \<Rightarrow> (scheme, goerr option) io list" where
  "Builder_Register gv objects bld =
     bld @ [bnd (AddKnownTypes gv objects) (\<lambda>_. bnd (AddToGroupVersion gv) (\<lambda>_. ret None))]"

definition Builder_AddToScheme :: "(scheme, goerr option) io list \<Rightarrow> (scheme, goerr option) io" where
  "Builder_AddToScheme bld = for_range id bld"

section \<open>groupversion_info.go and specialresource_types.go\<close>

definition GroupVersion :: group_version where
  "GroupVersion = \<lparr>gv_Group = ''sro.openshift.io'', gv_Version = ''v1beta1''\<rparr>"

abbreviation v1beta1 :: "string \<Rightarrow> gotype" where
  "v1beta1 n \<equiv> (''github.com/openshift-psap/special-resource-operator/api/v1beta1'', n)"

definition SchemeBuilder :: "(scheme, goerr option) io list" where
  "SchemeBuilder =
     Builder_Register GroupVersion [v1beta1 ''SpecialResource'', v1beta1 ''SpecialResourceList''] []"

definition AddToScheme :: "(scheme, goerr option) io" where
  "AddToScheme = Builder_AddToScheme SchemeBuilder"

section \<open>The platform and the process\<close>

record manager_options =
  MetricsBindAddress :: string
  Port :: nat
  LeaderElection :: bool
  LeaderElectionID :: string

datatype event_handler = EnqueueRequestForObject | EnqueueRequestForOwner gotype bool

text \<open>
  The libraries: reading the cluster configuration (given the \<open>kubeconfig\<close> and \<open>master\<close> flags as they
  are at the call), the client sets, the scheme functions of third-party packages by their import
  path, the manager, its controllers and watches. Configurations, client sets, managers and
  controllers are handles of type \<open>'h\<close> that the operator only passes on.
\<close>

record ('h, 'w) platform =
  GetConfig :: "string \<Rightarrow> string \<Rightarrow> 'w \<Rightarrow> (goerr + 'h) \<times> 'w"
  kubernetes_NewForConfig :: "'h \<Rightarrow> goerr + 'h"
  configv1_NewForConfig :: "'h \<Rightarrow> goerr + 'h"
  package_AddToScheme :: "string \<Rightarrow> (scheme, goerr option) io"
  NewManager :: "'h \<Rightarrow> manager_options \<Rightarrow> 'w \<Rightarrow> (goerr + 'h) \<times> 'w"
  newController :: "string \<Rightarrow> 'h \<Rightarrow> nat \<Rightarrow> 'w \<Rightarrow> (goerr + 'h) \<times> 'w"
  Watch :: "'h \<Rightarrow> gotype \<Rightarrow> event_handler \<Rightarrow> 'w \<Rightarrow> goerr option \<times> 'w"
  mgr_Start :: "'h \<Rightarrow> 'w \<Rightarrow> goerr option \<times> 'w"

text \<open>The calls to the manager library, in order.\<close>

datatype 'h event =
    ENewManager 'h manager_options
  | ENewController string 'h nat
  | EWatch 'h gotype event_handler
  | EStart 'h

record ('h, 'w) proc =
  proc_scheme :: scheme
  kubeclient :: "'h option"
  configclient :: "'h option"
  proc_flags :: flags
  proc_world :: 'w
  events :: "'h event list"

definition init_proc :: "'w \<Rightarrow> ('h, 'w) proc" where
  "init_proc w =
     \<lparr>proc_scheme = NewScheme, kubeclient = None, configclient = None, proc_flags = default_flags,
      proc_world = w, events = []\<rparr>"

definition ask :: "('w \<Rightarrow> 'a \<times> 'w) \<Rightarrow> (('h, 'w) proc, 'a) io" where
  "ask f = (\<lambda>s. (Val (fst (f (proc_world s))), s\<lparr>proc_world := snd (f (proc_world s))\<rparr>))"

definition emit :: "'h event \<Rightarrow> (('h, 'w) proc, unit) io" where
  "emit e = modify (\<lambda>s. s\<lparr>events := events s @ [e]\<rparr>)"

text \<open>Running a function on the scheme.\<close>

definition on_scheme :: "(scheme, 'a) io \<Rightarrow> (('h, 'w) proc, 'a) io" where
  "on_scheme m = (\<lambda>s. case m (proc_scheme s) of (r, sch) \<Rightarrow> (r, s\<lparr>proc_scheme := sch\<rparr>))"

text \<open>\<open>utilruntime.Must\<close> panics on an error.\<close>

definition Must :: "('s, goerr option) io \<Rightarrow> ('s, unit) io" where
  "Must m = bnd m (\<lambda>err. case err of Some e \<Rightarrow> panic (Error e) | None \<Rightarrow> ret ())"

definition GetConfigOrDie :: "('h, 'w) platform \<Rightarrow> (('h, 'w) proc, 'h) io" where
  "GetConfigOrDie P =
     bnd (gets proc_flags) (\<lambda>fl.
     bnd (ask (GetConfig P (kubeconfig fl) (apiServerURL fl))) (\<lambda>r.
     case r of Inl e \<Rightarrow> os_Exit | Inr cfg \<Rightarrow> ret cfg))"

section \<open>resources.go and misc.go\<close>

definition third_party :: "string list" where
  "third_party =
     [''github.com/openshift/api/route/v1'', ''github.com/openshift/api/security/v1'',
      ''github.com/openshift/api/build/v1'', ''github.com/openshift/api/image/v1'',
      ''github.com/prometheus-operator/prometheus-operator/pkg/apis/monitoring/v1'']"

primrec must_all :: "('h, 'w) platform \<Rightarrow> string list \<Rightarrow> (('h, 'w) proc, unit) io" where
  "must_all P [] = ret ()"
| "must_all P (p # ps) = bnd (Must (on_scheme (package_AddToScheme P p))) (\<lambda>_. must_all P ps)"

definition Add3dpartyResourcesToScheme :: "('h, 'w) platform \<Rightarrow> (('h, 'w) proc, unit) io" where
  "Add3dpartyResourcesToScheme P = must_all P third_party"

definition AddKubeClient :: "('h, 'w) platform \<Rightarrow> 'h \<Rightarrow> (('h, 'w) proc, goerr option) io" where
  "AddKubeClient P cfg = (case kubernetes_NewForConfig P cfg of
       Inl e \<Rightarrow> ret (Some e)
     | Inr c \<Rightarrow> bnd (modify (\<lambda>s. s\<lparr>kubeclient := Some c\<rparr>)) (\<lambda>_. ret None))"

definition AddConfigClient :: "('h, 'w) platform \<Rightarrow> 'h \<Rightarrow> (('h, 'w) proc, goerr option) io" where
  "AddConfigClient P cfg = (case configv1_NewForConfig P cfg of
       Inl e \<Rightarrow> ret (Some e)
     | Inr c \<Rightarrow> bnd (modify (\<lambda>s. s\<lparr>configclient := Some c\<rparr>)) (\<lambda>_. ret None))"

section \<open>specialresource_controller.go\<close>

text \<open>The part of the controller builder that \<open>SetupWithManager\<close> uses.\<close>

record builder =
  forInput :: gotype
  ownsInput :: "gotype list"
  MaxConcurrentReconciles :: nat

definition builder_For :: "gotype \<Rightarrow> builder \<Rightarrow> builder" where
  "builder_For t b = b\<lparr>forInput := t\<rparr>"

definition builder_Owns :: "gotype \<Rightarrow> builder \<Rightarrow> builder" where
  "builder_Owns t b = b\<lparr>ownsInput := ownsInput b @ [t]\<rparr>"

definition builder_WithOptions :: "nat \<Rightarrow> builder \<Rightarrow> builder" where
  "builder_WithOptions n b = b\<lparr>MaxConcurrentReconciles := n\<rparr>"

text \<open>\<open>apiutil.GVKForObject\<close>: the type has to be registered for exactly one kind.\<close>

definition GVKForObject :: "scheme \<Rightarrow> gotype \<Rightarrow> goerr + gvk" where
  "GVKForObject sch t = (case map fst (filter (\<lambda>(k, t'). t' = t) (gvkToType sch)) of
       [] \<Rightarrow> Inl (Fundamental ''no kind is registered for the type'')
     | k # ks \<Rightarrow>
         if t \<in> set (unversionedTypes sch) then
           Inl (Fundamental ''cannot create group-version-kind for unversioned type'')
         else if ks \<noteq> [] then Inl (Fundamental ''multiple group-version-kinds associated with type'')
         else Inr k)"

definition ToLower :: "string \<Rightarrow> string" where
  "ToLower = map (\<lambda>c. if CHR ''A'' \<le> c \<and> c \<le> CHR ''Z'' then char_of (of_char c + 32 :: nat) else c)"

definition doController :: "('h, 'w) platform \<Rightarrow> 'h \<Rightarrow> builder \<Rightarrow> (('h, 'w) proc, goerr + 'h) io" where
  "doController P mgr b =
     bnd (gets proc_scheme) (\<lambda>sch.
     case GVKForObject sch (forInput b) of
       Inl e \<Rightarrow> ret (Inl e)
     | Inr k \<Rightarrow>
         bnd (emit (ENewController (ToLower (gvk_Kind k)) mgr (MaxConcurrentReconciles b))) (\<lambda>_.
         ask (newController P (ToLower (gvk_Kind k)) mgr (MaxConcurrentReconciles b))))"

definition watch_type ::
  "('h, 'w) platform \<Rightarrow> 'h \<Rightarrow> gotype \<times> event_handler \<Rightarrow> (('h, 'w) proc, goerr option) io" where
  "watch_type P ctrl = (\<lambda>(t, hd). bnd (emit (EWatch ctrl t hd)) (\<lambda>_. ask (Watch P ctrl t hd)))"

definition doWatch :: "('h, 'w) platform \<Rightarrow> 'h \<Rightarrow> builder \<Rightarrow> (('h, 'w) proc, goerr option) io" where
  "doWatch P ctrl b =
     for_range (watch_type P ctrl)
       ((forInput b, EnqueueRequestForObject) #
        map (\<lambda>t. (t, EnqueueRequestForOwner (forInput b) True)) (ownsInput b))"

definition Complete :: "('h, 'w) platform \<Rightarrow> 'h \<Rightarrow> builder \<Rightarrow> (('h, 'w) proc, goerr option) io" where
  "Complete P mgr b =
     bnd (doController P mgr b) (\<lambda>r.
     case r of Inl e \<Rightarrow> ret (Some e) | Inr ctrl \<Rightarrow> doWatch P ctrl b)"

definition SetupWithManager :: "('h, 'w) platform \<Rightarrow> 'h \<Rightarrow> (('h, 'w) proc, goerr option) io" where
  "SetupWithManager P mgr =
     Complete P mgr
       (builder_WithOptions 1
         (builder_Owns (''k8s.io/api/apps/v1'', ''DaemonSet'')
           (builder_Owns (''k8s.io/api/core/v1'', ''Pod'')
             (builder_For (v1beta1 ''SpecialResource'')
               \<lparr>forInput = ([], []), ownsInput = [], MaxConcurrentReconciles = 0\<rparr>))))"

section \<open>main.go\<close>

definition main_init :: "('h, 'w) platform \<Rightarrow> (('h, 'w) proc, unit) io" where
  "main_init P =
     bnd (Add3dpartyResourcesToScheme P) (\<lambda>_.
     bnd (GetConfigOrDie P) (\<lambda>cfg.
     bnd (AddConfigClient P cfg) (\<lambda>_.
     bnd (GetConfigOrDie P) (\<lambda>cfg.
     bnd (AddKubeClient P cfg) (\<lambda>_.
     bnd (Must (on_scheme (package_AddToScheme P ''k8s.io/client-go/kubernetes/scheme''))) (\<lambda>_.
     Must (on_scheme AddToScheme)))))))"

definition manager_options_of :: "flags \<Rightarrow> manager_options" where
  "manager_options_of fl =
     \<lparr>MetricsBindAddress = metricsAddr fl, Port = 9443, LeaderElection = enableLeaderElection fl,
      LeaderElectionID = ''b6ae617b.openshift.io''\<rparr>"

definition main :: "('h, 'w) platform \<Rightarrow> string list \<Rightarrow> (('h, 'w) proc, unit) io" where
  "main P args =
     bnd (gets (\<lambda>s. parse_flags args (proc_flags s))) (\<lambda>r.
     case r of
       Inl e \<Rightarrow> os_Exit
     | Inr fl \<Rightarrow>
         bnd (modify (\<lambda>s. s\<lparr>proc_flags := fl\<rparr>)) (\<lambda>_.
         bnd (GetConfigOrDie P) (\<lambda>cfg.
         bnd (emit (ENewManager cfg (manager_options_of fl))) (\<lambda>_.
         bnd (ask (NewManager P cfg (manager_options_of fl))) (\<lambda>r.
         case r of
           Inl e \<Rightarrow> os_Exit
         | Inr mgr \<Rightarrow>
             on_err (SetupWithManager P mgr) (\<lambda>e. os_Exit)
               (bnd (emit (EStart mgr)) (\<lambda>_.
                on_err (ask (mgr_Start P mgr)) (\<lambda>e. os_Exit) (ret ()))))))))"

text \<open>The process runs the package's \<open>init\<close> before \<open>main\<close>.\<close>

definition process :: "('h, 'w) platform \<Rightarrow> string list \<Rightarrow> (('h, 'w) proc, unit) io" where
  "process P args = bnd (main_init P) (\<lambda>_. main P args)"

section \<open>One-step evaluation\<close>

lemma emit_apply [io_simps]: "emit e s = (Val (), s\<lparr>events := events s @ [e]\<rparr>)"
  by (simp add: emit_def modify_apply)

lemma ask_apply [io_simps]:
  "ask f s = (Val (fst (f (proc_world s))), s\<lparr>proc_world := snd (f (proc_world s))\<rparr>)"
  by (simp add: ask_def)

section \<open>What registration keeps\<close>

lemma for_range_single: "for_range f [x] = f x"
  by (rule ext) (auto simp: bnd_def split: prod.split outcome.split option.split)

definition scheme_le :: "scheme \<Rightarrow> scheme \<Rightarrow> bool" where
  "scheme_le s t \<longleftrightarrow> map_of (gvkToType s) \<subseteq>\<^sub>m map_of (gvkToType t)"

text \<open>The operator's own registrations never take an entry back or change it.\<close>

interpretation grows: step_rel scheme_le
  by unfold_locales (auto simp: scheme_le_def intro: map_le_trans)

lemma AddKnownTypeWithName_Val:
  assumes "AddKnownTypeWithName k t s = (Val u, s')"
  shows "map_of (gvkToType s') k = Some t"
  using assms
  by (auto simp: AddKnownTypeWithName_def io_simps update_conv' split: if_splits)

lemma AddKnownTypeWithName_grows: "keeps scheme_le (AddKnownTypeWithName k t)"
  by (auto simp: keeps_def AddKnownTypeWithName_def io_simps scheme_le_def map_le_def update_conv'
      split: option.splits)

lemma AddKnownTypes_grows: "keeps scheme_le (AddKnownTypes gv ts)"
  by (induction ts) (auto intro!: grows.resp_rules AddKnownTypeWithName_grows)

lemma AddKnownTypes_Val:
  "AddKnownTypes gv ts s = (Val u, s') \<Longrightarrow> t \<in> set ts \<Longrightarrow>
     map_of (gvkToType s') (WithKind gv (snd t)) = Some t"
proof (induction ts arbitrary: s)
  case (Cons x xs)
  then obtain s1 where first: "AddKnownTypeWithName (WithKind gv (snd x)) x s = (Val (), s1)"
    and rest: "AddKnownTypes gv xs s1 = (Val u, s')"
    by (auto elim: bnd_ValE)
  have "scheme_le s1 s'" using AddKnownTypes_grows rest by (rule keepsD)
  with AddKnownTypeWithName_Val [OF first] have "map_of (gvkToType s') (WithKind gv (snd x)) = Some x"
    by (auto simp: scheme_le_def map_le_def dom_def)
  with Cons.IH [OF rest] Cons.prems(2) show ?case by auto
qed simp

lemma scheme_le_unversioned: "scheme_le s (s\<lparr>unversionedTypes := ts\<rparr>)"
  by (simp add: scheme_le_def)

lemma mark_unversioned_grows: "keeps scheme_le (mark_unversioned ts)"
  by (induction ts)
    (auto intro!: grows.resp_rules grows.resp_modify resp_if scheme_le_unversioned)

lemma AddToGroupVersion_grows: "keeps scheme_le (AddToGroupVersion gv)"
  unfolding AddToGroupVersion_def AddUnversionedTypes_def
  by (intro grows.resp_rules AddKnownTypeWithName_grows AddKnownTypes_grows mark_unversioned_grows)

text \<open>After the package's \<open>AddToScheme\<close> both of its types are known under their kinds.\<close>

lemma AddToScheme_Val:
  assumes "AddToScheme s = (Val None, s')"
  shows "map_of (gvkToType s') (WithKind GroupVersion ''SpecialResource'') = Some (v1beta1 ''SpecialResource'')"
    and "map_of (gvkToType s') (WithKind GroupVersion ''SpecialResourceList'') =
           Some (v1beta1 ''SpecialResourceList'')"
proof -
  define ts where "ts = [v1beta1 ''SpecialResource'', v1beta1 ''SpecialResourceList'']"
  have "bnd (AddKnownTypes GroupVersion ts)
      (\<lambda>_. bnd (AddToGroupVersion GroupVersion) (\<lambda>_. ret (None :: goerr option))) s = (Val None, s')"
    using assms
    by (simp only: AddToScheme_def Builder_AddToScheme_def SchemeBuilder_def Builder_Register_def
        ts_def append_Nil for_range_single id_apply)
  then obtain s1 where known: "AddKnownTypes GroupVersion ts s = (Val (), s1)"
    and meta: "AddToGroupVersion GroupVersion s1 = (Val (), s')"
    by (elim bnd_ValE) (simp only: ret_Val_iff, simp)
  have "scheme_le s1 s'" using AddToGroupVersion_grows meta by (rule keepsD)
  then show "map_of (gvkToType s') (WithKind GroupVersion ''SpecialResource'') =
        Some (v1beta1 ''SpecialResource'')"
    and "map_of (gvkToType s') (WithKind GroupVersion ''SpecialResourceList'') =
        Some (v1beta1 ''SpecialResourceList'')"
    using AddKnownTypes_Val [OF known, of "v1beta1 ''SpecialResource''"]
      AddKnownTypes_Val [OF known, of "v1beta1 ''SpecialResourceList''"]
    unfolding scheme_le_def map_le_def ts_def by (metis domI list.set_intros snd_conv)+
qed

section \<open>Initialisation\<close>

text \<open>\<open>init\<close> touches neither the flags nor the manager library.\<close>

definition quiet :: "('h, 'w) proc \<Rightarrow> ('h, 'w) proc \<Rightarrow> bool" where
  "quiet s t \<longleftrightarrow> events t = events s \<and> proc_flags t = proc_flags s"

interpretation quiet: step_rel quiet
  by unfold_locales (auto simp: quiet_def)

lemma quiet_on_scheme: "keeps quiet (on_scheme m)"
  by (auto simp: keeps_def on_scheme_def quiet_def split: prod.split)

lemma quiet_ask: "keeps quiet (ask f)"
  by (simp add: keeps_def ask_def quiet_def)

lemma quiet_Must: "keeps quiet m \<Longrightarrow> keeps quiet (Must m)"
  unfolding Must_def by (intro quiet.resp_rules resp_case_option)

lemma quiet_must_all: "keeps quiet (must_all P ps)"
  by (induction ps) (auto intro!: quiet.resp_rules quiet_Must quiet_on_scheme)

lemma quiet_GetConfigOrDie: "keeps quiet (GetConfigOrDie P)"
  unfolding GetConfigOrDie_def by (intro quiet.resp_rules quiet_ask resp_case_sum)

lemma quiet_clients: "keeps quiet (AddKubeClient P cfg)" "keeps quiet (AddConfigClient P cfg)"
  unfolding AddKubeClient_def AddConfigClient_def
  by (auto intro!: quiet.resp_rules quiet.resp_modify resp_case_sum simp: quiet_def)

lemma quiet_main_init: "keeps quiet (main_init P)"
  unfolding main_init_def Add3dpartyResourcesToScheme_def
  by (intro quiet.resp_rules quiet_must_all quiet_GetConfigOrDie quiet_clients quiet_Must quiet_on_scheme)

text \<open>
  What \<open>init\<close> leaves behind: both clients are made from configurations read with the flags as they
  were before parsing, a client that could not be made is missing, and the own types are registered.
\<close>

definition fetched :: "('h, 'w) platform \<Rightarrow> flags \<Rightarrow> 'h \<Rightarrow> bool" where
  "fetched P fl cfg \<longleftrightarrow> (\<exists>w. fst (GetConfig P (kubeconfig fl) (apiServerURL fl) w) = Inr cfg)"

lemma GetConfigOrDie_Val:
  assumes "GetConfigOrDie P s = (Val cfg, t)"
  shows "fetched P (proc_flags s) cfg" and "proc_flags t = proc_flags s" and "events t = events s"
    and "kubeclient t = kubeclient s" and "configclient t = configclient s"
    and "proc_scheme t = proc_scheme s"
  using assms
  by (auto simp: GetConfigOrDie_def fetched_def io_simps split: sum.splits)

definition keep_clients :: "('h, 'w) proc \<Rightarrow> ('h, 'w) proc \<Rightarrow> bool" where
  "keep_clients s t \<longleftrightarrow> kubeclient t = kubeclient s \<and> configclient t = configclient s \<and>
     proc_flags t = proc_flags s"

interpretation clients: step_rel keep_clients
  by unfold_locales (auto simp: keep_clients_def)

lemma clients_on_scheme: "keeps keep_clients (Must (on_scheme m))"
  unfolding Must_def
  by (intro clients.resp_rules resp_case_option keepsI)
    (simp add: on_scheme_def keep_clients_def split: prod.split)

lemma clients_must_all: "keeps keep_clients (must_all P ps)"
  by (induction ps) (auto intro!: clients.resp_rules clients_on_scheme)

lemma AddConfigClient_Val:
  "AddConfigClient P cfg s = (Val e, t) \<Longrightarrow>
     t = (case configv1_NewForConfig P cfg of Inl _ \<Rightarrow> s | Inr c \<Rightarrow> s\<lparr>configclient := Some c\<rparr>)"
  by (auto simp: AddConfigClient_def io_simps split: sum.splits)

lemma AddKubeClient_Val:
  "AddKubeClient P cfg s = (Val e, t) \<Longrightarrow>
     t = (case kubernetes_NewForConfig P cfg of Inl _ \<Rightarrow> s | Inr c \<Rightarrow> s\<lparr>kubeclient := Some c\<rparr>)"
  by (auto simp: AddKubeClient_def io_simps split: sum.splits)

lemma Must_on_scheme_Val:
  assumes "Must (on_scheme m) s = (Val u, t)"
  shows "m (proc_scheme s) = (Val None, proc_scheme t)"
  using assms by (auto simp: Must_def on_scheme_def elim!: bnd_ValE split: prod.splits option.splits)

lemma main_init_Val:
  assumes "main_init P s = (Val u, t)"
  shows "quiet s t"
    and "\<exists>cfg cfg'. fetched P (proc_flags s) cfg \<and> fetched P (proc_flags s) cfg' \<and>
      configclient t = (case configv1_NewForConfig P cfg of Inl _ \<Rightarrow> configclient s | Inr c \<Rightarrow> Some c) \<and>
      kubeclient t = (case kubernetes_NewForConfig P cfg' of Inl _ \<Rightarrow> kubeclient s | Inr c \<Rightarrow> Some c)"
    and "map_of (gvkToType (proc_scheme t)) (WithKind GroupVersion ''SpecialResource'') =
           Some (v1beta1 ''SpecialResource'')"
    and "map_of (gvkToType (proc_scheme t)) (WithKind GroupVersion ''SpecialResourceList'') =
           Some (v1beta1 ''SpecialResourceList'')"
proof -
  show "quiet s t" using quiet_main_init assms by (rule keepsD)
  from assms obtain s1 cfg s2 e s3 cfg' s4 e' s5 s6 where
    s1: "must_all P third_party s = (Val (), s1)" and s2: "GetConfigOrDie P s1 = (Val cfg, s2)"
    and s3: "AddConfigClient P cfg s2 = (Val e, s3)" and s4: "GetConfigOrDie P s3 = (Val cfg', s4)"
    and s5: "AddKubeClient P cfg' s4 = (Val e', s5)"
    and s6: "Must (on_scheme (package_AddToScheme P ''k8s.io/client-go/kubernetes/scheme'')) s5 = (Val (), s6)"
    and t: "Must (on_scheme AddToScheme) s6 = (Val u, t)"
    unfolding main_init_def Add3dpartyResourcesToScheme_def by (auto elim!: bnd_ValE)
  have k: "keep_clients s s1" "keep_clients s5 s6" "keep_clients s6 t"
    using keepsD [OF clients_must_all s1] keepsD [OF clients_on_scheme s6]
      keepsD [OF clients_on_scheme t] by blast+
  note g = GetConfigOrDie_Val [OF s2] GetConfigOrDie_Val [OF s4]
  note c = AddConfigClient_Val [OF s3] AddKubeClient_Val [OF s5]
  show "\<exists>cfg cfg'. fetched P (proc_flags s) cfg \<and> fetched P (proc_flags s) cfg' \<and>
      configclient t = (case configv1_NewForConfig P cfg of Inl _ \<Rightarrow> configclient s | Inr c \<Rightarrow> Some c) \<and>
      kubeclient t = (case kubernetes_NewForConfig P cfg' of Inl _ \<Rightarrow> kubeclient s | Inr c \<Rightarrow> Some c)"
    using k g c by (intro exI [of _ cfg] exI [of _ cfg']) (auto simp: keep_clients_def split: sum.splits)
  from AddToScheme_Val [OF Must_on_scheme_Val [OF t]]
  show "map_of (gvkToType (proc_scheme t)) (WithKind GroupVersion ''SpecialResource'') =
           Some (v1beta1 ''SpecialResource'')"
    and "map_of (gvkToType (proc_scheme t)) (WithKind GroupVersion ''SpecialResourceList'') =
           Some (v1beta1 ''SpecialResourceList'')" .
qed

section \<open>The manager\<close>

definition is_start :: "'h event \<Rightarrow> bool" where
  "is_start e = (case e of EStart mgr \<Rightarrow> True | _ \<Rightarrow> False)"

text \<open>The watches of the controller, in order.\<close>

definition sr_watches :: "(gotype \<times> event_handler) list" where
  "sr_watches =
     [(v1beta1 ''SpecialResource'', EnqueueRequestForObject),
      ((''k8s.io/api/core/v1'', ''Pod''), EnqueueRequestForOwner (v1beta1 ''SpecialResource'') True),
      ((''k8s.io/api/apps/v1'', ''DaemonSet''), EnqueueRequestForOwner (v1beta1 ''SpecialResource'') True)]"

lemma GVKForObject_registered:
  assumes "GVKForObject sch t = Inr k" and "map_of (gvkToType sch) k' = Some t"
  shows "k = k'"
proof -
  let ?ks = "map fst (filter (\<lambda>(k, t'). t' = t) (gvkToType sch))"
  have "?ks = [k]"
    using assms(1) by (auto simp: GVKForObject_def split: list.splits if_splits)
  moreover have "k' \<in> set ?ks" using map_of_SomeD [OF assms(2)] by force
  ultimately show ?thesis by simp
qed

lemma watch_type_apply [io_simps]:
  "watch_type P ctrl (ty, hnd) s =
     (Val (fst (Watch P ctrl ty hnd (proc_world s))),
      s\<lparr>events := events s @ [EWatch ctrl ty hnd], proc_world := snd (Watch P ctrl ty hnd (proc_world s))\<rparr>)"
  by (simp add: watch_type_def io_simps)

text \<open>Watches are set up one after the other; nothing else is done, and all of them on success.\<close>

lemma doWatch_events:
  assumes "for_range (watch_type P ctrl) ws s = (r, t)"
  shows "\<exists>ds e. r = Val e \<and> prefix ds ws \<and>
    events t = events s @ map (\<lambda>(ty, hnd). EWatch ctrl ty hnd) ds \<and>
    (e = None \<longrightarrow> ds = ws) \<and> proc_scheme t = proc_scheme s \<and> keep_clients s t"
  using assms
proof (induction ws arbitrary: s)
  case Nil
  then show ?case by (auto simp: keep_clients_def)
next
  case (Cons x ws)
  obtain ty hnd where x: "x = (ty, hnd)" by fastforce
  define s1 where "s1 = s\<lparr>events := events s @ [EWatch ctrl ty hnd],
      proc_world := snd (Watch P ctrl ty hnd (proc_world s))\<rparr>"
  show ?case
  proof (cases "fst (Watch P ctrl ty hnd (proc_world s))")
    case None
    with Cons.prems have "for_range (watch_type P ctrl) ws s1 = (r, t)"
      by (simp add: x s1_def bnd_apply watch_type_apply)
    from Cons.IH [OF this] obtain ds e where "r = Val e \<and> prefix ds ws \<and>
        events t = events s1 @ map (\<lambda>(ty, hnd). EWatch ctrl ty hnd) ds \<and>
        (e = None \<longrightarrow> ds = ws) \<and> proc_scheme t = proc_scheme s1 \<and> keep_clients s1 t" by blast
    then show ?thesis
      by (intro exI [of _ "x # ds"] exI [of _ e]) (simp add: x s1_def keep_clients_def)
  next
    case (Some v)
    with Cons.prems have "r = Val (Some v) \<and> t = s1"
      by (auto simp add: x s1_def bnd_apply watch_type_apply)
    then show ?thesis
      by (intro exI [of _ "[x]"] exI [of _ "Some v"]) (simp add: x s1_def keep_clients_def)
  qed
qed

lemma ToLower_kind: "ToLower ''SpecialResource'' = ''specialresource''"
  by code_simp

lemma SetupWithManager_events:
  assumes "SetupWithManager P mgr s = (r, t)"
    and "map_of (gvkToType (proc_scheme s)) (WithKind GroupVersion ''SpecialResource'') =
           Some (v1beta1 ''SpecialResource'')"
  shows "\<exists>e es. r = Val e \<and> keep_clients s t \<and> proc_scheme t = proc_scheme s \<and>
    events t = events s @ es \<and> list_all (\<lambda>e. \<not> is_start e) es \<and>
    (e = None \<longrightarrow> (\<exists>ctrl. es = ENewController ''specialresource'' mgr 1 #
         map (\<lambda>(ty, hnd). EWatch ctrl ty hnd) sr_watches))"
proof -
  define b where "b = builder_WithOptions 1
         (builder_Owns (''k8s.io/api/apps/v1'', ''DaemonSet'')
           (builder_Owns (''k8s.io/api/core/v1'', ''Pod'')
             (builder_For (v1beta1 ''SpecialResource'')
               \<lparr>forInput = ([], []), ownsInput = [], MaxConcurrentReconciles = 0\<rparr>)))"
  have b: "forInput b = v1beta1 ''SpecialResource''" "MaxConcurrentReconciles b = 1"
    "(forInput b, EnqueueRequestForObject) #
       map (\<lambda>t. (t, EnqueueRequestForOwner (forInput b) True)) (ownsInput b) = sr_watches"
    by (simp_all add: b_def builder_WithOptions_def builder_Owns_def builder_For_def sr_watches_def)
  have run: "Complete P mgr b s = (r, t)" using assms(1) by (simp add: SetupWithManager_def b_def)
  show ?thesis
  proof (cases "GVKForObject (proc_scheme s) (v1beta1 ''SpecialResource'')")
    case (Inl err)
    with run b(1) show ?thesis
      by (auto simp: Complete_def doController_def io_simps keep_clients_def)
  next
    case (Inr k)
    then have "k = WithKind GroupVersion ''SpecialResource''"
      using assms(2) by (rule GVKForObject_registered)
    then have name: "ToLower (gvk_Kind k) = ''specialresource''"
      by (simp add: WithKind_def ToLower_kind)
    define s1 where "s1 = s\<lparr>events := events s @ [ENewController ''specialresource'' mgr 1],
        proc_world := snd (newController P ''specialresource'' mgr 1 (proc_world s))\<rparr>"
    have dc: "doController P mgr b s =
        (Val (fst (newController P ''specialresource'' mgr 1 (proc_world s))), s1)"
      using Inr name b(1,2) by (simp add: doController_def io_simps s1_def)
    show ?thesis
    proof (cases "fst (newController P ''specialresource'' mgr 1 (proc_world s))")
      case (Inl err)
      with run dc have "r = Val (Some err) \<and> t = s1" by (auto simp: Complete_def bnd_apply)
      then show ?thesis by (auto simp: s1_def keep_clients_def is_start_def)
    next
      case (Inr ctrl)
      with run dc have "for_range (watch_type P ctrl) sr_watches s1 = (r, t)"
        by (simp add: Complete_def bnd_apply doWatch_def b(3))
      from doWatch_events [OF this] show ?thesis
        by (auto simp: s1_def keep_clients_def is_start_def list_all_iff split: prod.splits)
    qed
  qed
qed

text \<open>
  The calls to the manager library of a process that started its manager.
\<close>

definition start_events :: "flags \<Rightarrow> 'h \<Rightarrow> 'h \<Rightarrow> 'h \<Rightarrow> 'h event list" where
  "start_events fl cfg mgr ctrl =
     [ENewManager cfg (manager_options_of fl), ENewController ''specialresource'' mgr 1] @
     map (\<lambda>(ty, hnd). EWatch ctrl ty hnd) sr_watches @ [EStart mgr]"

definition own_types_known :: "scheme \<Rightarrow> bool" where
  "own_types_known sch \<longleftrightarrow>
     map_of (gvkToType sch) (WithKind GroupVersion ''SpecialResource'') = Some (v1beta1 ''SpecialResource'') \<and>
     map_of (gvkToType sch) (WithKind GroupVersion ''SpecialResourceList'') =
       Some (v1beta1 ''SpecialResourceList'')"

lemma run_manager:
  assumes "on_err (SetupWithManager P mgr) (\<lambda>e. os_Exit)
       (bnd (emit (EStart mgr)) (\<lambda>_. on_err (ask (mgr_Start P mgr)) (\<lambda>e. os_Exit) (ret ()))) s = (r, t)"
    and "own_types_known (proc_scheme s)"
  shows "keep_clients s t \<and> proc_scheme t = proc_scheme s \<and>
    (\<exists>es. events t = events s @ es \<and>
       (list_all (\<lambda>e. \<not> is_start e) es \<and> r = Exited \<or>
        (\<exists>ctrl. es = ENewController ''specialresource'' mgr 1 #
           map (\<lambda>(ty, hnd). EWatch ctrl ty hnd) sr_watches @ [EStart mgr])))"
proof -
  obtain r1 s1 where set_up: "SetupWithManager P mgr s = (r1, s1)" by fastforce
  from SetupWithManager_events [OF this] assms(2) obtain e es where e: "r1 = Val e"
    and s1: "keep_clients s s1" "proc_scheme s1 = proc_scheme s" "events s1 = events s @ es"
      "list_all (\<lambda>e. \<not> is_start e) es"
    and all: "e = None \<longrightarrow> (\<exists>ctrl. es = ENewController ''specialresource'' mgr 1 #
         map (\<lambda>(ty, hnd). EWatch ctrl ty hnd) sr_watches)"
    by (auto simp: own_types_known_def)
  show ?thesis
  proof (cases e)
    case None
    with assms(1) set_up e have "events t = events s1 @ [EStart mgr] \<and> proc_scheme t = proc_scheme s1 \<and>
        keep_clients s1 t"
      by (auto simp: bnd_apply emit_apply ask_apply on_err_apply os_Exit_apply keep_clients_def
          split: option.splits)
    with s1 all None show ?thesis by (auto simp: keep_clients_def)
  next
    case (Some x)
    with assms(1) set_up e have "r = Exited \<and> t = s1"
      by (auto simp: on_err_apply bnd_apply os_Exit_apply)
    with s1 show ?thesis by auto
  qed
qed

lemma main_events:
  assumes "main P args s = (r, t)" and "own_types_known (proc_scheme s)"
  shows "kubeclient t = kubeclient s \<and> configclient t = configclient s \<and>
    proc_scheme t = proc_scheme s \<and>
    (\<exists>es. events t = events s @ es \<and>
       (list_all (\<lambda>e. \<not> is_start e) es \<and> r \<noteq> Val () \<or>
        (\<exists>fl cfg mgr ctrl. parse_flags args (proc_flags s) = Inr fl \<and> fetched P fl cfg \<and>
           es = start_events fl cfg mgr ctrl)))"
proof (cases "parse_flags args (proc_flags s)")
  case (Inl e)
  with assms show ?thesis by (auto simp: main_def io_simps)
next
  case (Inr fl)
  define s1 where "s1 = s\<lparr>proc_flags := fl\<rparr>"
  define next_step where "next_step = (\<lambda>cfg.
         bnd (emit (ENewManager cfg (manager_options_of fl))) (\<lambda>_.
         bnd (ask (NewManager P cfg (manager_options_of fl))) (\<lambda>r.
         case r of
           Inl e \<Rightarrow> os_Exit
         | Inr mgr \<Rightarrow>
             on_err (SetupWithManager P mgr) (\<lambda>e. os_Exit)
               (bnd (emit (EStart mgr)) (\<lambda>_.
                on_err (ask (mgr_Start P mgr)) (\<lambda>e. os_Exit) (ret ()))))))"
  have run: "bnd (GetConfigOrDie P) next_step s1 = (r, t)"
    using assms(1) Inr
    by (simp add: main_def bnd_apply [of "gets _"] bnd_apply [of "modify _"] gets_apply modify_apply
        s1_def next_step_def)
  obtain c s2 where cfg: "GetConfigOrDie P s1 = (c, s2)" by fastforce
  have "c = Exited \<or> (\<exists>x. c = Val x)" and s2: "keep_clients s1 s2" "events s2 = events s"
      "proc_scheme s2 = proc_scheme s"
    using cfg by (auto simp: GetConfigOrDie_def io_simps keep_clients_def s1_def split: sum.splits)
  then consider "c = Exited" | x where "c = Val x" by blast
  then show ?thesis
  proof cases
    case 1
    with run cfg s2 show ?thesis by (auto simp: bnd_apply keep_clients_def s1_def)
  next
    case (2 x)
    have f: "fetched P fl x" using GetConfigOrDie_Val(1) [OF cfg [unfolded 2]] by (simp add: s1_def)
    define s3 where "s3 = s2\<lparr>events := events s2 @ [ENewManager x (manager_options_of fl)],
        proc_world := snd (NewManager P x (manager_options_of fl) (proc_world s2))\<rparr>"
    show ?thesis
    proof (cases "fst (NewManager P x (manager_options_of fl) (proc_world s2))")
      case (Inl e)
      with run cfg 2 have "r = Exited \<and> t = s3"
        by (auto simp: bnd_apply next_step_def emit_apply ask_apply os_Exit_apply s3_def)
      with s2 show ?thesis by (auto simp: s3_def s1_def keep_clients_def is_start_def)
    next
      case mgr: (Inr mgr)
      with run cfg 2 have "on_err (SetupWithManager P mgr) (\<lambda>e. os_Exit)
          (bnd (emit (EStart mgr)) (\<lambda>_. on_err (ask (mgr_Start P mgr)) (\<lambda>e. os_Exit) (ret ()))) s3 = (r, t)"
        by (simp add: bnd_apply [of "GetConfigOrDie P"] bnd_apply [of "emit _"] bnd_apply [of "ask _"]
            next_step_def emit_apply ask_apply s3_def)
      from run_manager [OF this] assms(2) s2 obtain es where es: "events t = events s3 @ es"
        and k: "keep_clients s3 t" "proc_scheme t = proc_scheme s3"
        and sh: "list_all (\<lambda>e. \<not> is_start e) es \<and> r = Exited \<or>
        (\<exists>ctrl. es = ENewController ''specialresource'' mgr 1 #
           map (\<lambda>(ty, hnd). EWatch ctrl ty hnd) sr_watches @ [EStart mgr])"
        by (auto simp: s3_def)
      from sh have "list_all (\<lambda>e. \<not> is_start e) (ENewManager x (manager_options_of fl) # es) \<and> r \<noteq> Val () \<or>
        (\<exists>ctrl. ENewManager x (manager_options_of fl) # es = start_events fl x mgr ctrl)"
        by (auto simp: start_events_def is_start_def)
      then show ?thesis
        using es k s2 f Inr by (auto simp: s3_def s1_def keep_clients_def)
    qed
  qed
qed

text \<open>
  A process either ends without starting its manager, and then not normally, or has made exactly the
  calls of \<open>start_events\<close>.
\<close>

lemma init_proc_simps [simp]:
  "kubeclient (init_proc w) = None" "configclient (init_proc w) = None"
  "proc_flags (init_proc w) = default_flags" "events (init_proc w) = []"
  by (simp_all add: init_proc_def)

lemma process_events:
  assumes "process P args (init_proc w) = (r, t)"
  shows "list_all (\<lambda>e. \<not> is_start e) (events t) \<and> r \<noteq> Val () \<or>
    (\<exists>fl cfg mgr ctrl. parse_flags args default_flags = Inr fl \<and> fetched P fl cfg \<and>
       events t = start_events fl cfg mgr ctrl \<and> own_types_known (proc_scheme t) \<and>
       (\<exists>c c'. fetched P default_flags c \<and> fetched P default_flags c' \<and>
          configclient t = (case configv1_NewForConfig P c of Inl _ \<Rightarrow> None | Inr x \<Rightarrow> Some x) \<and>
          kubeclient t = (case kubernetes_NewForConfig P c' of Inl _ \<Rightarrow> None | Inr x \<Rightarrow> Some x)))"
  using assms unfolding process_def
proof (cases rule: bnd_cases)
  case (val u s1)
  note i = main_init_Val [OF val(1)]
  have known: "own_types_known (proc_scheme s1)" using i(3,4) by (simp add: own_types_known_def)
  have q: "events s1 = []" "proc_flags s1 = default_flags"
    using i(1) by (simp_all add: quiet_def init_proc_def)
  obtain c c' where c: "fetched P default_flags c" "fetched P default_flags c'"
    "configclient s1 = (case configv1_NewForConfig P c of Inl _ \<Rightarrow> None | Inr x \<Rightarrow> Some x)"
    "kubeclient s1 = (case kubernetes_NewForConfig P c' of Inl _ \<Rightarrow> None | Inr x \<Rightarrow> Some x)"
    using i(2) by (auto simp: init_proc_simps cong: sum.case_cong)
  from main_events [OF val(2) known] q known c show ?thesis by auto
qed (use keepsD [OF quiet_main_init] in \<open>force simp: quiet_def init_proc_def\<close>)+

section \<open>Properties\<close>

text \<open>A platform on which everything works but the client sets, for examples.\<close>

definition sample_platform :: "(string, unit) platform" where
  "sample_platform =
     \<lparr>GetConfig = \<lambda>k m w. (Inr (''config '' @ k), w),
      kubernetes_NewForConfig = \<lambda>cfg. Inl (Fundamental ''no client''),
      configv1_NewForConfig = \<lambda>cfg. Inl (Fundamental ''no client''),
      package_AddToScheme = \<lambda>p. ret None,
      NewManager = \<lambda>cfg opts w. (Inr ''manager'', w),
      newController = \<lambda>n mgr k w. (Inr ''controller'', w),
      Watch = \<lambda>c t h w. (None, w),
      mgr_Start = \<lambda>mgr w. (None, w)\<rparr>"

lemma own_scheme:
  "\<exists>sch. AddToScheme NewScheme = (Val None, sch) \<and>
     GVKForObject sch (v1beta1 ''SpecialResource'') = Inr (WithKind GroupVersion ''SpecialResource'')"
  by (simp add: AddToScheme_def Builder_AddToScheme_def SchemeBuilder_def Builder_Register_def
      AddToGroupVersion_def AddUnversionedTypes_def AddKnownTypeWithName_def io_simps
      GroupVersion_def optionsTypes_def unversioned_types_def WithKind_def NewScheme_def
      GVKForObject_def)

lemma sample_must_all: "must_all sample_platform ps s = (Val (), s)"
  by (induction ps) (simp_all add: Must_def on_scheme_def io_simps sample_platform_def)

lemma sample_process:
  "EStart ''manager'' \<in> set (events (snd (process sample_platform [''--kubeconfig=file''] (init_proc ()))))"
proof -
  obtain sch where sch: "AddToScheme NewScheme = (Val None, sch)"
    "GVKForObject sch (v1beta1 ''SpecialResource'') = Inr (WithKind GroupVersion ''SpecialResource'')"
    using own_scheme by blast
  have init: "main_init sample_platform (init_proc ()) = (Val (), (init_proc ())\<lparr>proc_scheme := sch\<rparr>)"
    using sch(1) by (simp add: main_init_def Add3dpartyResourcesToScheme_def sample_must_all
        GetConfigOrDie_def AddConfigClient_def AddKubeClient_def Must_def on_scheme_def io_simps)
      (simp add: sample_platform_def init_proc_def io_simps)
  have flags: "parse_flags [''--kubeconfig=file''] default_flags = Inr (default_flags\<lparr>kubeconfig := ''file''\<rparr>)"
    by (simp add: cut_flag_def set_string_flag_def)
  show ?thesis
    using sch(2) by (simp add: process_def init main_def flags io_simps GetConfigOrDie_def
        SetupWithManager_def Complete_def doController_def builder_WithOptions_def
        builder_Owns_def builder_For_def doWatch_def del: parse_flags.simps)
      (simp add: sample_platform_def init_proc_def io_simps)
qed

text \<open>
  C18: The process starts its manager only when everything is in place. If it started a manager, the
  flags were parsed, the configuration was read with them, and the calls to the manager library were
  exactly these, in this order: the manager was made with the metrics address and leader election of
  the flags; one controller was made that runs at most one reconcile at a time; it watches the custom
  resources themselves, and pods and daemon sets on behalf of the custom resource that controls them;
  then the manager was started. The scheme knows both types of the API group.
\<close>

theorem process_starts_ready:
  assumes "process P args (init_proc w) = (r, t)" and "EStart mgr \<in> set (events t)"
  shows "\<exists>fl cfg ctrl. parse_flags args default_flags = Inr fl \<and>
    (\<exists>w'. fst (GetConfig P (kubeconfig fl) (apiServerURL fl) w') = Inr cfg) \<and>
    events t =
      [ENewManager cfg \<lparr>MetricsBindAddress = metricsAddr fl, Port = 9443,
         LeaderElection = enableLeaderElection fl, LeaderElectionID = ''b6ae617b.openshift.io''\<rparr>,
       ENewController ''specialresource'' mgr 1,
       EWatch ctrl (v1beta1 ''SpecialResource'') EnqueueRequestForObject,
       EWatch ctrl (''k8s.io/api/core/v1'', ''Pod'')
         (EnqueueRequestForOwner (v1beta1 ''SpecialResource'') True),
       EWatch ctrl (''k8s.io/api/apps/v1'', ''DaemonSet'')
         (EnqueueRequestForOwner (v1beta1 ''SpecialResource'') True),
       EStart mgr] \<and>
    map_of (gvkToType (proc_scheme t)) (WithKind GroupVersion ''SpecialResource'') =
      Some (v1beta1 ''SpecialResource'') \<and>
    map_of (gvkToType (proc_scheme t)) (WithKind GroupVersion ''SpecialResourceList'') =
      Some (v1beta1 ''SpecialResourceList'')"
proof -
  have "\<not> list_all (\<lambda>e. \<not> is_start e) (events t)"
    using assms(2) by (force simp: list_all_iff is_start_def)
  with process_events [OF assms(1)] obtain fl cfg mgr' ctrl where
    fl: "parse_flags args default_flags = Inr fl" "fetched P fl cfg" and
    es: "events t = start_events fl cfg mgr' ctrl" and known: "own_types_known (proc_scheme t)"
    by blast
  moreover have "mgr' = mgr" using assms(2) es by (auto simp: start_events_def)
  ultimately show ?thesis
    by (auto simp: start_events_def sr_watches_def manager_options_of_def own_types_known_def fetched_def)
qed

theorem process_starts_ready_witness:
  "length (events (snd (process sample_platform [''--kubeconfig=file''] (init_proc ())))) = 6"
proof -
  obtain r t where run: "process sample_platform [''--kubeconfig=file''] (init_proc ()) = (r, t)"
    by fastforce
  from process_starts_ready [OF run, of "''manager''"] sample_process run show ?thesis by auto
qed

text \<open>
  C37: What the start-up does with the two direct clients. Both are made from a configuration that is
  read before the flags are parsed, so that \<open>--kubeconfig\<close> and \<open>--master\<close> do not apply to them, and an
  error in making one of them is dropped: a process that has started its manager runs without the
  client whose creation failed.
\<close>

theorem process_clients:
  assumes "process P args (init_proc w) = (r, t)" and "EStart mgr \<in> set (events t)"
  shows "\<exists>c c' w1 w2. fst (GetConfig P [] [] w1) = Inr c \<and> fst (GetConfig P [] [] w2) = Inr c' \<and>
    configclient t = (case configv1_NewForConfig P c of Inl _ \<Rightarrow> None | Inr x \<Rightarrow> Some x) \<and>
    kubeclient t = (case kubernetes_NewForConfig P c' of Inl _ \<Rightarrow> None | Inr x \<Rightarrow> Some x)"
proof -
  have "\<not> list_all (\<lambda>e. \<not> is_start e) (events t)"
    using assms(2) by (force simp: list_all_iff is_start_def)
  with process_events [OF assms(1)] show ?thesis
    by (auto simp: fetched_def default_flags_def)
qed

theorem process_clients_witness:
  "\<exists>r t. process sample_platform [''--kubeconfig=file''] (init_proc ()) = (r, t) \<and>
     EStart ''manager'' \<in> set (events t) \<and> kubeclient t = None \<and> configclient t = None"
proof -
  obtain r t where run: "process sample_platform [''--kubeconfig=file''] (init_proc ()) = (r, t)"
    by fastforce
  have started: "EStart ''manager'' \<in> set (events t)" using sample_process run by simp
  from process_clients [OF run started] have "kubeclient t = None \<and> configclient t = None"
    by (auto simp: sample_platform_def)
  with run started show ?thesis by blast
qed

text \<open>
  The arguments of the shipped deployments. Those of the default overlay
  (\<open>config/default/manager_auth_proxy_patch.yaml\<close>, for any metrics address) set the metrics address and
  leader election. Those of the base deployment (\<open>config/manager/manager.yaml\<close>) name two flags that are
  not defined: with them the process ends, on any platform, before it touches the manager library.
\<close>

lemma deployment_arguments:
  "parse_flags [''--metrics-addr='' @ addr, ''--enable-leader-election''] default_flags =
     Inr (default_flags\<lparr>metricsAddr := addr, enableLeaderElection := True\<rparr>) \<and>
   fst (process P [''--enable-leader-election'', ''--zap-encoder=console'', ''--zap-log-level=debug'']
     (init_proc w)) \<noteq> Val () \<and>
   list_all (\<lambda>e. \<not> is_start e) (events (snd (process P
     [''--enable-leader-election'', ''--zap-encoder=console'', ''--zap-log-level=debug''] (init_proc w))))"
proof -
  let ?args = "[''--enable-leader-election'', ''--zap-encoder=console'', ''--zap-log-level=debug'']"
  have "\<exists>e. parse_flags ?args default_flags = Inl e"
    by (simp add: cut_flag_def set_string_flag_def)
  moreover obtain r t where "process P ?args (init_proc w) = (r, t)" by fastforce
  ultimately show ?thesis
    using process_events [of P ?args w r t] by (auto simp: cut_flag_def set_string_flag_def)
qed

end
