(* ===== verification/Test_Client.thy ===== *)
theory Test_Client
  imports Prelude Go_Std
begin

text \<open>
  The client set of the end-to-end tests: \<open>src/test/framework/clientset.go\<close>. The process environment
  and the client libraries are the parameter \<open>test_env\<close>; clients and configurations are handles.
\<close>

section \<open>clientset.go\<close>

record 'h test_env =
  Getenv :: "string \<Rightarrow> string"
  os_Stat :: "string \<Rightarrow> goerr option"
  BuildConfigFromFlags :: "string \<Rightarrow> string \<Rightarrow> goerr + 'h"
  InClusterConfig :: "goerr + 'h"
  user_HomeDir :: "goerr + string"
  NewForConfig :: "string \<Rightarrow> 'h \<Rightarrow> goerr + 'h"

record 'h ClientSet =
  CoreV1Interface :: "'h option"
  AppsV1Interface :: "'h option"
  ConfigV1Interface :: "'h option"

definition configFromFlags :: "'h test_env \<Rightarrow> string \<Rightarrow> goerr + 'h" where
  "configFromFlags T kubeConfig = (case os_Stat T kubeConfig of
       Some e \<Rightarrow> Inl (Fundamental (''cannot stat kubeconfig '' @ [CHR 0x27] @ kubeConfig @ [CHR 0x27]))
     | None \<Rightarrow> BuildConfigFromFlags T [] kubeConfig)"

definition getConfig :: "'h test_env \<Rightarrow> goerr + 'h" where
  "getConfig T =
     (let kubeConfig = Getenv T ''KUBECONFIG'' in
      if kubeConfig \<noteq> [] then configFromFlags T kubeConfig
      else case InClusterConfig T of
             Inr c \<Rightarrow> Inr c
           | Inl e \<Rightarrow>
               (case user_HomeDir T of
                  Inr home \<Rightarrow> configFromFlags T (filepath_Join_all [home, ''.kube'', ''config''])
                | Inl e \<Rightarrow> Inl (Fundamental ''could not locate a kubeconfig'')))"

text \<open>The \<open>NewForConfigOrDie\<close> functions of the client packages panic when no client can be made.\<close>

definition NewForConfigOrDie :: "'h test_env \<Rightarrow> string \<Rightarrow> 'h \<Rightarrow> ('s, 'h) io" where
  "NewForConfigOrDie T pkg cfg = (case NewForConfig T pkg cfg of Inl e \<Rightarrow> panic (Error e) | Inr c \<Rightarrow> ret c)"

definition NewClientSet :: "'h test_env \<Rightarrow> ('s, 'h ClientSet) io" where
  "NewClientSet T = (case getConfig T of
       Inl e \<Rightarrow> panic (Error e)
     | Inr kubeconfig \<Rightarrow>
         (let clientSet = \<lparr>CoreV1Interface = None, AppsV1Interface = None, ConfigV1Interface = None\<rparr> in
          bnd (NewForConfigOrDie T ''corev1'' kubeconfig) (\<lambda>c.
          let clientSet = clientSet\<lparr>CoreV1Interface := Some c\<rparr> in
          bnd (NewForConfigOrDie T ''configv1'' kubeconfig) (\<lambda>c.
          let clientSet = clientSet\<lparr>ConfigV1Interface := Some c\<rparr> in
          bnd (NewForConfigOrDie T ''appsv1'' kubeconfig) (\<lambda>c.
          ret (clientSet\<lparr>AppsV1Interface := Some c\<rparr>))))))"

section \<open>Where the configuration comes from\<close>

text \<open>
  A configuration is that of the file \<open>KUBECONFIG\<close> names, when it is set; otherwise that of the cluster
  around the process; and only without one that of the home directory.
\<close>

lemma getConfig_source:
  assumes "getConfig T = Inr c"
  obtains
    (variable) "Getenv T ''KUBECONFIG'' \<noteq> []" "os_Stat T (Getenv T ''KUBECONFIG'') = None"
      "BuildConfigFromFlags T [] (Getenv T ''KUBECONFIG'') = Inr c"
  | (cluster) "Getenv T ''KUBECONFIG'' = []" "InClusterConfig T = Inr c"
  | (home) e home f where "Getenv T ''KUBECONFIG'' = []" "InClusterConfig T = Inl e" "user_HomeDir T = Inr home"
      "f = filepath_Join_all [home, ''.kube'', ''config'']" "os_Stat T f = None" "BuildConfigFromFlags T [] f = Inr c"
  using assms
  by (auto simp: getConfig_def configFromFlags_def Let_def split: if_splits sum.splits option.splits)

text \<open>A variable that is set decides, also when its file cannot be used and the process runs in a cluster.\<close>

lemma getConfig_variable_decides:
  assumes "Getenv T ''KUBECONFIG'' \<noteq> []"
  shows "getConfig T = configFromFlags T (Getenv T ''KUBECONFIG'')"
  using assms by (simp add: getConfig_def)

text \<open>A client set is never partial: all its clients are there, or the process panics.\<close>

lemma NewClientSet_complete:
  "(\<exists>cfg core conf apps. getConfig T = Inr cfg \<and> NewForConfig T ''corev1'' cfg = Inr core \<and>
      NewForConfig T ''configv1'' cfg = Inr conf \<and> NewForConfig T ''appsv1'' cfg = Inr apps \<and>
      NewClientSet T s =
        (Val \<lparr>CoreV1Interface = Some core, AppsV1Interface = Some apps, ConfigV1Interface = Some conf\<rparr>, s)) \<or>
   (\<exists>e. NewClientSet T s = (Panicked (Error e), s))"
  by (cases "getConfig T")
    (auto simp: NewClientSet_def NewForConfigOrDie_def Let_def io_simps split: sum.split)

end
