(* ===== verification/Spec2Isabelle.thy ===== *)
theory Spec2Isabelle
  imports Convergence Cluster_Spec Deployed Creations Rebuild Typed_Objects Panics Deep_Copy Logging Startup Test_Client
begin

text \<open>
  A verification library for the Special Resource Operator, a Kubernetes operator written in Go. The
  operator watches custom resources of kind \<open>SpecialResource\<close>. For each of them, after the ones it
  depends on, it makes sure of a namespace, reads a recipe (a config map in the cluster, or the
  manifests shipped in its image), collects facts about the cluster, and works off the recipe's
  manifests in ascending order: every YAML document is filled in as a template, decoded, and created
  or updated, with hooks before and after that change the object, wait for it, check for image pull
  failures, and label the nodes.

  \<^bold>\<open>How the program is modelled.\<close> A Go function that acts is a function from the operator's state to
  an outcome and a new state (\<^verbatim>\<open>Prelude\<close>: \<open>io\<close>, \<open>bnd\<close>, \<open>ret\<close>). The outcome is a value, \<open>Exited\<close> for
  \<open>os.Exit\<close> (what \<open>exitOnError\<close> does), or \<open>Panicked\<close>. Go errors are the values of \<open>goerr\<close>; a
  function that returns a value or an error returns a sum, one that returns only an error an option.
  Range loops with early returns are \<open>for_range\<close>. The state \<open>sro\<close> holds the reconciler's fields
  \<open>specialresource\<close>, \<open>parent\<close>, \<open>dependency\<close>, the package variables \<open>node\<close> and \<open>runInfo\<close>, and a
  history \<open>calls\<close> of all requests sent, which no operation reads. What is outside of the program is the
  record \<open>env\<close>, a parameter of the operations: the API server, pod logs, the file system, the template
  engine, the YAML and JSON decoders, regular expressions and the number of timer ticks in a poll. The
  answers depend on a hidden world that each request may change, so nothing is assumed about them
  beyond their types (objects handed out by the server or a decoder are maps).

  \<^bold>\<open>The theories.\<close>
  \<^item> \<^verbatim>\<open>Prelude\<close>: effects, errors, loops; the locale \<open>step_rel\<close>, whose rules \<open>resp\<close> show that a
    computation keeps a reflexive, transitive relation on states.
  \<^item> \<^verbatim>\<open>Go_Std\<close>: what is used of \<open>strings\<close>, \<open>strconv\<close> and \<open>path/filepath\<close>, with decimal numbers read
    back by \<open>strconv_Atoi\<close> and joined paths cleaned.
  \<^item> \<^verbatim>\<open>Unstructured\<close>: unstructured objects, nested fields, metadata accessors, owner references
    (vendored apimachinery and controller-runtime). The locale \<open>field_store\<close> states the laws of reading
    after writing.
  \<^item> \<^verbatim>\<open>Well_Formed\<close>: objects in which every map has each key once; all setters keep them such.
  \<^item> \<^verbatim>\<open>Api_Types\<close>: \<open>src/api/v1beta1/specialresource_types.go\<close> and the data of \<open>runtime.go\<close>.
  \<^item> \<^verbatim>\<open>Operator_State\<close>: state, environment, client calls, \<open>misc.go\<close>; the locales \<open>watch\<close> (what
    operations that only read rely on), \<open>operate\<close> (with updates) and \<open>create\<close> (with creations too).
  \<^item> \<^verbatim>\<open>Yaml_Scan\<close>: \<open>src/yamlutil/scan.go\<close> over the locale \<open>doc_reader\<close>, and the YAML reader that
    interprets it. Scanning ends, does not panic, visits the documents, and reads back what is printed.
  \<^item> \<^verbatim>\<open>Manifests\<close>: \<open>src/controllers/manifests.go\<close>, one step for every look at the file system; which
    files are read and in which order.
  \<^item> \<^verbatim>\<open>Runtime_Info\<close>: \<open>src/controllers/runtime.go\<close>; how versions and operating systems are rendered,
    which queries are sent, and that \<open>setupProxy\<close> has no effect on the object.
  \<^item> \<^verbatim>\<open>Wait_For\<close>: \<open>src/controllers/waitfor.go\<close> over \<open>wait.Poll\<close>; when a wait succeeds, that it only
    reads, and how many requests it sends at most.
  \<^item> \<^verbatim>\<open>Node_Labels\<close>: \<open>cacheNodes\<close>, \<open>src/controllers/status.go\<close>, \<open>src/controllers/scale_up_down.go\<close>;
    that success means all nodes are labelled and that labelling is idempotent.
  \<^item> \<^verbatim>\<open>Callbacks\<close>: \<open>src/controllers/callbacks.go\<close>, \<open>src/controllers/custom.go\<close>; what the hooks keep,
    the decision to rebuild a driver container, and that a failed wait labels nothing. The locale
    \<open>vet\<close> is \<open>watch\<close> with the choice of a vendor to rebuild.
  \<^item> \<^verbatim>\<open>Resources\<close>: \<open>src/controllers/resources.go\<close>; \<open>CRUD\<close> branch by branch, confinement to the
    namespace, ownership, the build guard, the order of the states, the image-puller binding. The
    locale \<open>supervise\<close> rests a whole manifest on laws about \<open>CRUD\<close>, the check of the pods and the
    labelling, \<open>govern\<close> adds one about the binding and gives a whole reconcile; \<open>supervise_forms\<close> and \<open>govern_forms\<close> are their sublocales
    for relations that speak of the form of the requests alone.
  \<^item> \<^verbatim>\<open>Controller\<close>: \<open>src/controllers/specialresource.go\<close> and the handler; the operator as a state
    machine (\<open>op_step\<close>, \<open>reachable\<close>) and its invariants (\<open>reachable_keeps\<close>). \<open>govern_forms\<close> is interpreted for the
    permitted requests and for the constant names.
  \<^item> \<^verbatim>\<open>Convergence\<close>: the operator on a server that remembers what it is given (\<open>api_store\<close>, laws of the
    API server with the model \<open>memory_env\<close>): \<open>govern\<close> is interpreted for the relation that only what is
    absent is created, over any number of reconciles with changes of the cluster in between.
  \<^item> \<^verbatim>\<open>Cluster_Spec\<close>: the abstract cluster, a partial function from keys to objects, on a server whose
    content only accepted requests change (\<open>api_content\<close>, with the model \<open>content_env\<close>): \<open>CRUD\<close> implements
    \<open>upsert\<close>, and a whole reconcile is a sequence of steps of \<open>ensure_step\<close>, by an interpretation of
    \<open>govern_forms\<close>.
  \<^item> \<^verbatim>\<open>Deployed\<close>: what a finished reconcile has brought about. \<open>all_present\<close> follows the run through its
    custom resources, states and documents, and asks for the object of each; \<open>deploy_env\<close> is a cluster
    in memory on which a whole reconcile is evaluated.
  \<^item> \<^verbatim>\<open>Rebuild\<close>: the rebuild of driver containers: only after a failed image pull is a build
    configuration with a vendor created, with two reconciles, evaluated on a small cluster (\<open>driver_env\<close>),
    in which this happens.
  \<^item> \<^verbatim>\<open>Creations\<close>: every creation comes right after the lookup of the same object.
  \<^item> \<^verbatim>\<open>Typed_Objects\<close>: the cached nodes and all objects ever sent are well formed, when those the server
    and the decoder hand out are. \<^verbatim>\<open>Rebuild\<close>, \<^verbatim>\<open>Creations\<close> and \<^verbatim>\<open>Typed_Objects\<close> interpret \<open>govern\<close>.
  \<^item> \<^verbatim>\<open>Panics\<close>: the panics that can end a reconcile. The locale \<open>crash\<close> bounds them for everything
    that is called, from the few places that panic.
  \<^item> \<^verbatim>\<open>Go_Heap\<close>, \<^verbatim>\<open>Deep_Copy\<close>: \<open>src/api/v1beta1/zz_generated.deepcopy.go\<close> over a heap of slices,
    pointers and maps. The locale \<open>deep\<close> is the contract of a copying function (same value, new cells
    only, well typed); every copying function of the package interprets it.
  \<^item> \<^verbatim>\<open>Startup\<close>: \<open>src/main.go\<close>, the scheme (\<open>src/api/v1beta1/groupversion_info.go\<close>,
    \<open>Add3dpartyResourcesToScheme\<close>), the two direct clients and \<open>SetupWithManager\<close>, as a history of the
    calls made to the manager library, which is a parameter (\<open>platform\<close>).
  \<^item> \<^verbatim>\<open>Test_Client\<close>: \<open>src/test/framework/clientset.go\<close>, the clients of the end-to-end tests.
  \<^item> \<^verbatim>\<open>Logging\<close>: \<open>src/controllers/color.go\<close>, \<open>warnOnErrorOrNotFound\<close>, \<open>logRuntimeInformation\<close>.
  \<^item> This theory: the properties of a whole reconcile that need no law of the server.

  \<^bold>\<open>Bounds.\<close> All recursions are structural or have a termination proof (the scanner by its count of
    empty tokens, the reader by the bytes left, the document loop by the reader); there is no fuel. A poll
    makes as many rounds as the environment delivers ticks, and one more.

  \<^bold>\<open>Not modelled.\<close> The log calls inside the operations (nothing is read back from the log), the
  end-to-end test, which only starts a test framework, and the conversion and defaulting functions that
  a scheme also registers. The libraries behind \<open>env\<close>, \<open>platform\<close> and \<open>test_env\<close> (html/template, YAML,
  JSON, regular expressions, the clients and the manager) are parameters. In the operations, an object
  is a value: deep copies are the identity there, which \<^verbatim>\<open>Deep_Copy\<close> justifies; where the code changes
  a copy and drops it, or sends a copy and keeps the original, the definitions say which of the two is
  used. A Go map is an association list, whose order the operations do not depend on and whose keys
  \<^verbatim>\<open>Typed_Objects\<close> shows to stay unique.

  \<^bold>\<open>Extensions.\<close> Every file of the operator is modelled. What could be added are contracts of the
  manager library itself: what its watches and its work queue promise about when \<open>Reconcile\<close> is called.
\<close>

section \<open>Properties\<close>

text \<open>
  C1: one call of \<open>Reconcile\<close>, however it ends, sends permitted requests only: it creates nothing but
  custom resources, objects that a custom resource controls (when their metadata is a map, which can
  hold the reference) and the image-puller binding, a build configuration only with a vendor, and updates no pod, service account or build configuration
  other than by a node label.
\<close>

theorem Reconcile_permitted:
  "\<exists>cs. calls (snd (Reconcile E s)) = calls s @ cs \<and> list_all permitted cs"
  using permit.keeps_Reconcile[of E] by (simp add: keeps_def sends_def)



text \<open>
  C6: when \<open>Reconcile\<close> returns without asking to be called again, and the list of custom resources
  was read, then every dependency named by a custom resource exists, and for every custom resource,
  and for each of its dependencies before it, \<open>ReconcileHardwareConfigurations\<close> has succeeded.
\<close>

theorem Reconcile_done:
  assumes "Reconcile E s = (Val (\<lparr>Requeue = False\<rparr>, None), t)"
    and "fst (api_list_sr E (world s)) = Inr items"
  shows "\<forall>sr \<in> set items.
    (\<forall>dep \<in> set (spec_DependsOn (sr_Spec sr)). \<exists>d u v. d \<in> set items \<and> sr_Name d = dep_Name dep \<and>
       specialresource u = d \<and> ReconcileHardwareConfigurations E u = (Val None, v)) \<and>
    (\<exists>u v. specialresource u = sr \<and> ReconcileHardwareConfigurations E u = (Val None, v))"
proof -
  note tr = Reconcile_done_trace[OF assms]
  show ?thesis
  proof
    fix sr assume "sr \<in> set items"
    with tr obtain a b where "reconcile_parent E items sr a = (Val None, b)" by (rule loop_trace_each)
    then obtain u where deps: "loop_trace (reconcile_dependency E items) (spec_DependsOn (sr_Spec sr)) (a\<lparr>parent := sr\<rparr>) u"
      and own: "ReconcileHardwareConfigurations E (u\<lparr>specialresource := sr\<rparr>) = (Val None, b)"
      using reconcile_parent_result[of E items sr a None b] by auto
    have "\<exists>d u v. d \<in> set items \<and> sr_Name d = dep_Name dep \<and> specialresource u = d \<and>
        ReconcileHardwareConfigurations E u = (Val None, v)" if "dep \<in> set (spec_DependsOn (sr_Spec sr))" for dep
    proof -
      from deps that obtain c d where "reconcile_dependency E items dep c = (Val None, d)" by (rule loop_trace_each)
      then show ?thesis using reconcile_dependency_result[of E items dep c None d] getDependencyFrom_found
        by (metis option.distinct(1) sro.select_convs(1) sro.surjective sro.update_convs(1))
    qed
    moreover have "specialresource (u\<lparr>specialresource := sr\<rparr>) = sr" by simp
    ultimately show "(\<forall>dep \<in> set (spec_DependsOn (sr_Spec sr)). \<exists>d u v. d \<in> set items \<and> sr_Name d = dep_Name dep \<and>
         specialresource u = d \<and> ReconcileHardwareConfigurations E u = (Val None, v)) \<and>
      (\<exists>u v. specialresource u = sr \<and> ReconcileHardwareConfigurations E u = (Val None, v))"
      using own by blast
  qed
qed

theorem Reconcile_done_witness:
  "\<exists>u v. specialresource u = acme \<and> ReconcileHardwareConfigurations deploy_env u = (Val None, v)"
proof -
  have "Reconcile deploy_env (init_sro deploy_world) =
      (Val (\<lparr>Requeue = False\<rparr>, None), snd (Reconcile deploy_env (init_sro deploy_world)))"
    using sample_deployed by (metis prod.collapse)
  moreover have "fst (api_list_sr deploy_env (world (init_sro deploy_world))) = Inr [acme]"
    by (simp add: deploy_env_def)
  ultimately show ?thesis using Reconcile_done[of deploy_env "init_sro deploy_world" _ "[acme]"] by auto
qed

text \<open>
  C31: \<open>Reconcile\<close> returns an error exactly when the custom resources cannot be listed for another
  reason than not being found; it is that error, and no other request has been sent.
\<close>

theorem Reconcile_error_iff:
  "(\<exists>res t. Reconcile E s = (Val (res, Some e), t)) \<longleftrightarrow>
     fst (api_list_sr E (world s)) = Inl e \<and> \<not> IsNotFound (Some e) \<and>
     calls (snd (Reconcile E s)) = calls s @ [CListSpecialResources]"
proof (cases "fst (api_list_sr E (world s))")
  case (Inl e')
  then show ?thesis by (auto simp: Reconcile_def ReconcilerSpecialResources_def io_simps)
next
  case (Inr items)
  have "snd res = None" if "for_range (reconcile_parent E items) items u = (Val (Some res), t)" for res u t
    using that reconcile_parent_result by (fastforce simp: for_range_Some_iff)
  then have "Reconcile E s \<noteq> (Val (res, Some e), t)" for res t
    using Inr by (fastforce simp: Reconcile_listed elim!: bnd_ValE split: option.splits)
  with Inr show ?thesis by auto
qed

text \<open>
  C30: a dependency that is not among the listed custom resources is never taken as reconciled: when
  its turn comes, the reconcile stops there and asks to be called again, or the process ends.
\<close>

theorem missing_dependency_requeues:
  assumes "\<forall>sr \<in> set items. sr_Name sr \<noteq> dep_Name dep"
  shows "fst (reconcile_dependency E items dep s) \<in>
    {Val (Some (\<lparr>Requeue = True\<rparr>, None)), Exited} \<union> range Panicked"
proof -
  obtain r t where r: "reconcile_dependency E items dep s = (r, t)" by (cases "reconcile_dependency E items dep s")
  show ?thesis
  proof (cases r)
    case (Val x)
    with r reconcile_dependency_result[of E items dep s x t] getDependencyFrom_missing[OF assms] show ?thesis by simp
  qed (use r in auto)
qed

theorem missing_dependency_requeues_witness:
  "fst (reconcile_dependency bare_env [] \<lparr>dep_Name = ''driver-container-base'', dep_ImageReference = ''true''\<rparr> (init_sro ())) = Exited"
proof -
  have "getAssetsFrom bare_env (''/opt/sro/recipes/driver-container-base'') u = (Exited, u)" for u :: "unit sro"
    by (simp add: getAssetsFrom_def filePathWalkDir_def bare_env_def io_simps)
  then have "fst (reconcile_dependency bare_env [] \<lparr>dep_Name = ''driver-container-base'', dep_ImageReference = ''true''\<rparr> (init_sro ())) = Exited"
    by (simp add: reconcile_dependency_def getDependencyFrom_def createSpecialResourceFrom_def set_specialresource_def io_simps)
  then show ?thesis
    using missing_dependency_requeues[of "[]" "\<lparr>dep_Name = ''driver-container-base'', dep_ImageReference = ''true''\<rparr>" bare_env "init_sro ()"]
    by simp
qed

text \<open>
  A custom resource without dependencies is reconciled with the dependency that was looked at
  last, for whatever resource that was: the field is not reset, and with it the decision to write
  the image-puller binding carries over.
\<close>

lemma dependency_carries_over:
  assumes "spec_DependsOn (sr_Spec sr) = []"
  shows "\<exists>u. dependency u = dependency s \<and> specialresource u = sr \<and> parent u = sr \<and> calls u = calls s \<and>
    reconcile_parent E items sr s =
      on_err (ReconcileHardwareConfigurations E) (\<lambda>e. ret (Some (\<lparr>Requeue = True\<rparr>, None))) (ret None) u"
  using assms
  by (intro exI[of _ "s\<lparr>parent := sr, specialresource := sr\<rparr>"])
    (simp add: reconcile_parent_def set_specialresource_def bnd_def modify_def ret_def)

end
